(* ===== verification/Prelude.thy ===== *)
theory Prelude
  imports Main "HOL-Library.Char_ord" "HOL-Library.List_Lexorder"
begin

text \<open>
  What the components share: the Go values the program computes with (times, durations,
  byte strings, errors), the functions of the Go standard library it calls on them, and
  generic lemmas on rows of a table. Strings are lists of bytes; a Go string that only
  holds ASCII characters is exactly such a list. An instant (\<^verbatim>\<open>time.Time\<close>) is the number of
  nanoseconds since the zero time of Go (1 January of year 1, UTC), so that
  \<^verbatim>\<open>IsZero\<close> is equality with 0 and \<^verbatim>\<open>UTC()\<close>, which changes the location and not the
  instant, is the identity.
\<close>

named_theorems guards \<open>what a successful check implies\<close>
named_theorems keeps \<open>which actions keep an invariant\<close>
named_theorems runs \<open>how actions decompose when they return\<close>

type_synonym gotime = int
type_synonym duration = int
type_synonym bytes = string

abbreviation (input) IsZero :: "gotime \<Rightarrow> bool" where
  "IsZero t \<equiv> t = 0"

abbreviation (input) Before :: "gotime \<Rightarrow> gotime \<Rightarrow> bool" where
  "Before t u \<equiv> t < u"

abbreviation (input) After :: "gotime \<Rightarrow> gotime \<Rightarrow> bool" where
  "After t u \<equiv> u < t"

section \<open>Strings\<close>

definition is_space :: "char \<Rightarrow> bool" where
  "is_space c \<longleftrightarrow> c = CHR 0x20 \<or> c = CHR 0x09 \<or> c = CHR 0x0A \<or> c = CHR 0x0B \<or> c = CHR 0x0C \<or> c = CHR 0x0D"

definition TrimSpace :: "string \<Rightarrow> string" where
  "TrimSpace s = rev (dropWhile is_space (rev (dropWhile is_space s)))"

definition HasPrefix :: "string \<Rightarrow> string \<Rightarrow> bool" where
  "HasPrefix s p \<longleftrightarrow> take (length p) s = p"

definition TrimPrefix :: "string \<Rightarrow> string \<Rightarrow> string" where
  "TrimPrefix s p = (if HasPrefix s p then drop (length p) s else s)"

definition TrimRight :: "string \<Rightarrow> char \<Rightarrow> string" where
  "TrimRight s c = rev (dropWhile (\<lambda>x. x = c) (rev s))"

abbreviation blank :: "string \<Rightarrow> bool" where
  "blank s \<equiv> TrimSpace s = []"

text \<open>The separator \<^verbatim>\<open>"\x00"\<close> of the hash inputs.\<close>

abbreviation NUL :: string where
  "NUL \<equiv> [CHR 0x00]"

function nat_digits :: "int \<Rightarrow> string" where
  "nat_digits n =
     (if n < 10 then [char_of (48 + n)] else nat_digits (n div 10) @ [char_of (48 + n mod 10)])"
  by pat_completeness auto
termination
  by (relation "measure nat") auto

declare nat_digits.simps [simp del]

definition int_digits :: "int \<Rightarrow> string" where
  "int_digits i = (if i < 0 then CHR ''-'' # nat_digits (- i) else nat_digits i)"

definition hex_digit :: "nat \<Rightarrow> char" where
  "hex_digit n = (if n < 10 then char_of (48 + n) else char_of (87 + n))"

text \<open>\<^verbatim>\<open>strconv.Quote\<close>, the \<^verbatim>\<open>%q\<close> verb, on ASCII.\<close>

definition quote_char :: "char \<Rightarrow> string" where
  "quote_char c =
     (let n = of_char c :: nat in
      if c = CHR 0x22 then [CHR 0x5C, CHR 0x22]
      else if c = CHR 0x5C then [CHR 0x5C, CHR 0x5C]
      else if n = 7 then [CHR 0x5C, CHR ''a'']
      else if n = 8 then [CHR 0x5C, CHR ''b'']
      else if n = 9 then [CHR 0x5C, CHR ''t'']
      else if n = 10 then [CHR 0x5C, CHR ''n'']
      else if n = 11 then [CHR 0x5C, CHR ''v'']
      else if n = 12 then [CHR 0x5C, CHR ''f'']
      else if n = 13 then [CHR 0x5C, CHR ''r'']
      else if n < 32 \<or> n = 127 then [CHR 0x5C, CHR ''x'', hex_digit (n div 16), hex_digit (n mod 16)]
      else [c])"

definition quoted :: "string \<Rightarrow> string" where
  "quoted s = [CHR 0x22] @ concat (map quote_char s) @ [CHR 0x22]"

text \<open>
  \<^verbatim>\<open>fmt.Sprintf\<close> for the verbs the program uses: \<^verbatim>\<open>%q\<close> quotes its argument, \<^verbatim>\<open>%s\<close>
  and \<^verbatim>\<open>%d\<close> insert it (numbers are given as their digits), \<^verbatim>\<open>%w\<close> inserts the text of
  the wrapped error.
\<close>

fun sprintf :: "string \<Rightarrow> string list \<Rightarrow> string \<Rightarrow> string" where
  "sprintf [] args wrapped = []"
| "sprintf [c] args wrapped = [c]"
| "sprintf (c # v # cs) args wrapped =
     (if c \<noteq> CHR ''%'' then c # sprintf (v # cs) args wrapped
      else if v = CHR ''w'' then wrapped @ sprintf cs args wrapped
      else (case args of
              [] \<Rightarrow> c # v # sprintf cs [] wrapped
            | a # as \<Rightarrow> (if v = CHR ''q'' then quoted a else a) @ sprintf cs as wrapped))"

section \<open>Errors as values\<close>

text \<open>
  A sentinel (\<^verbatim>\<open>errors.New\<close> at package level), an error made by \<^verbatim>\<open>fmt.Errorf\<close> (its format
  and its arguments), and one that wraps another with \<^verbatim>\<open>%w\<close>.
\<close>

datatype error =
    Sentinel string
  | Errorf string "string list"
  | Wrapf string "string list" error

type_synonym 'a result = "error + 'a"

fun Error :: "error \<Rightarrow> string" where
  "Error (Sentinel s) = s"
| "Error (Errorf f args) = sprintf f args []"
| "Error (Wrapf f args e) = sprintf f args (Error e)"

fun errors_Is :: "error \<Rightarrow> error \<Rightarrow> bool" where
  "errors_Is (Wrapf f args e) target = (Wrapf f args e = target \<or> errors_Is e target)"
| "errors_Is e target = (e = target)"

fun is_ok :: "'a result \<Rightarrow> bool" where
  "is_ok (Inr _) = True"
| "is_ok (Inl _) = False"

text \<open>A guard of the code: \<^verbatim>\<open>if bad { return err }\<close>, then the rest.\<close>

definition fail_if :: "bool \<Rightarrow> error \<Rightarrow> 'a result \<Rightarrow> 'a result" where
  "fail_if bad e rest = (if bad then Inl e else rest)"

definition check_then :: "'b result \<Rightarrow> ('b \<Rightarrow> 'a result) \<Rightarrow> 'a result" where
  "check_then r k = (case r of Inl e \<Rightarrow> Inl e | Inr x \<Rightarrow> k x)"

fun for_each :: "('a \<Rightarrow> unit result) \<Rightarrow> 'a list \<Rightarrow> unit result" where
  "for_each f [] = Inr ()"
| "for_each f (x # xs) = (case f x of Inl e \<Rightarrow> Inl e | Inr _ \<Rightarrow> for_each f xs)"

lemma fail_if_Inr [simp, guards]: "fail_if b e r = Inr x \<longleftrightarrow> \<not> b \<and> r = Inr x"
  by (simp add: fail_if_def)

lemma check_then_Inr [simp, guards]: "check_then r k = Inr x \<longleftrightarrow> (\<exists>y. r = Inr y \<and> k y = Inr x)"
  by (cases r) (auto simp: check_then_def)

lemma check_then_simps [simp]:
  "check_then (Inl e) k = Inl e" "check_then (Inr y) k = k y"
  by (simp_all add: check_then_def)

lemma for_each_Inr [simp, guards]: "for_each f xs = Inr u \<longleftrightarrow> (\<forall>x \<in> set xs. f x = Inr ())"
  by (induction xs) (auto split: sum.splits)

text \<open>The loops over a map of required fields: every value has to be there.\<close>

definition require_fields :: "string \<Rightarrow> (string \<times> string) list \<Rightarrow> unit result" where
  "require_fields prefix fields =
     for_each (\<lambda>(field, value). fail_if (value = []) (Errorf (prefix @ field) []) (Inr ())) fields"

lemma require_fields_iff [simp, guards]:
  "require_fields prefix fields = Inr u \<longleftrightarrow> (\<forall>v \<in> set (map snd fields). v \<noteq> [])"
  by (force simp: require_fields_def)

lemma is_ok_Inr: "is_ok r \<longleftrightarrow> (\<exists>x. r = Inr x)"
  by (cases r) auto

section \<open>Lemmas on strings\<close>

lemma dropWhile_idem: "dropWhile P (dropWhile P xs) = dropWhile P xs"
  by (induction xs) auto

lemma dropWhile_rev_dropWhile:
  "dropWhile P (rev (dropWhile P (rev (dropWhile P xs)))) = rev (dropWhile P (rev (dropWhile P xs)))"
proof (cases "rev (dropWhile P (rev (dropWhile P xs)))")
  case (Cons y ys)
  have "\<exists>zs. dropWhile P xs = rev (dropWhile P (rev (dropWhile P xs))) @ zs"
    by (metis rev_append rev_rev_ident takeWhile_dropWhile_id)
  with Cons obtain zs where zs: "dropWhile P xs = y # ys @ zs"
    by auto
  then have "\<not> P y"
    by (metis dropWhile_eq_Cons_conv)
  with Cons show ?thesis by simp
next
  case Nil
  then show ?thesis by (simp only: dropWhile.simps)
qed

lemma TrimSpace_idem [simp]: "TrimSpace (TrimSpace s) = TrimSpace s"
  unfolding TrimSpace_def by (simp only: dropWhile_rev_dropWhile rev_rev_ident dropWhile_idem)

lemma TrimSpace_Nil [simp]: "TrimSpace [] = []"
  by (simp add: TrimSpace_def)

lemma TrimSpace_nonempty: "TrimSpace s \<noteq> [] \<Longrightarrow> s \<noteq> []"
  by auto

lemma blank_iff: "blank s \<longleftrightarrow> (\<forall>c \<in> set s. is_space c)"
proof -
  have "blank s \<longleftrightarrow> (\<forall>c \<in> set (dropWhile is_space s). is_space c)"
    by (simp add: TrimSpace_def dropWhile_eq_Nil_conv)
  also have "\<dots> \<longleftrightarrow> dropWhile is_space s = []"
    by (metis dropWhile_eq_Nil_conv list.set_intros(1) hd_dropWhile list.collapse empty_iff list.set(1))
  finally show ?thesis by (simp add: dropWhile_eq_Nil_conv)
qed

section \<open>Rows of a table\<close>

text \<open>
  A table is the list of its rows in the order of insertion. An update touches the rows
  a condition selects, and keeps the others and the order.
\<close>

definition update_rows :: "('r \<Rightarrow> bool) \<Rightarrow> ('r \<Rightarrow> 'r) \<Rightarrow> 'r list \<Rightarrow> 'r list" where
  "update_rows p f rows = map (\<lambda>r. if p r then f r else r) rows"

lemma set_update_rows: "set (update_rows p f rows) = f ` {r \<in> set rows. p r} \<union> {r \<in> set rows. \<not> p r}"
  by (auto simp: update_rows_def)

lemma length_update_rows [simp]: "length (update_rows p f rows) = length rows"
  by (simp add: update_rows_def)

lemma update_rows_Nil [simp]: "update_rows p f [] = []"
  by (simp add: update_rows_def)

lemma map_update_rows:
  assumes "\<And>r. p r \<Longrightarrow> k (f r) = k r"
  shows "map k (update_rows p f rows) = map k rows"
  using assms by (simp add: update_rows_def)

text \<open>\<^verbatim>\<open>INSERT ... ON CONFLICT (key) DO UPDATE\<close> of every column: the row with the key is replaced in place.\<close>

definition upsert_row :: "('r \<Rightarrow> 'k) \<Rightarrow> 'r \<Rightarrow> 'r list \<Rightarrow> 'r list" where
  "upsert_row k r rows =
     (if \<exists>s \<in> set rows. k s = k r then update_rows (\<lambda>s. k s = k r) (\<lambda>_. r) rows else rows @ [r])"

lemma distinct_upsert_row: "distinct (map k rows) \<Longrightarrow> distinct (map k (upsert_row k r rows))"
  using map_update_rows [of "\<lambda>s. k s = k r" k "\<lambda>_. r" rows] by (auto simp: upsert_row_def)

lemma set_upsert_row: "set (upsert_row k r rows) = insert r {s \<in> set rows. k s \<noteq> k r}"
  by (auto simp: upsert_row_def set_update_rows)

lemma find_upsert_row:
  "find (\<lambda>s. k s = key) (upsert_row k r rows) = (if key = k r then Some r else find (\<lambda>s. k s = key) rows)"
proof -
  have upd: "find (\<lambda>s. k s = key) (update_rows (\<lambda>s. k s = k r) (\<lambda>_. r) rows) =
      (if key = k r then if \<exists>s \<in> set rows. k s = k r then Some r else None else find (\<lambda>s. k s = key) rows)"
    by (induction rows) (auto simp: update_rows_def)
  have app: "\<forall>s \<in> set rows. k s \<noteq> k r \<Longrightarrow>
      find (\<lambda>s. k s = key) (rows @ [r]) = (if key = k r then Some r else find (\<lambda>s. k s = key) rows)"
    by (induction rows) auto
  show ?thesis
  proof (cases "\<exists>s \<in> set rows. k s = k r")
    case True
    then show ?thesis by (simp add: upsert_row_def upd)
  next
    case False
    then show ?thesis using app by (simp add: upsert_row_def)
  qed
qed

lemma find_None_iff_all: "find p rows = None \<longleftrightarrow> (\<forall>r \<in> set rows. \<not> p r)"
  by (auto simp: find_None_iff)

lemma find_SomeD: "find p rows = Some r \<Longrightarrow> r \<in> set rows \<and> p r"
  by (auto simp: find_Some_iff)

lemma find_Some_unique:
  assumes "r \<in> set rows" "p r" "\<And>s. s \<in> set rows \<Longrightarrow> p s \<Longrightarrow> s = r"
  shows "find p rows = Some r"
proof (cases "find p rows")
  case None
  with assms(1,2) show ?thesis by (auto simp: find_None_iff_all)
next
  case (Some s)
  with assms(3) show ?thesis by (auto dest: find_SomeD)
qed

lemma distinct_map_inj: "distinct (map k rows) \<Longrightarrow> r \<in> set rows \<Longrightarrow> s \<in> set rows \<Longrightarrow> k r = k s \<Longrightarrow> r = s"
  by (auto simp: distinct_map dest: inj_onD)

lemma find_update_rows:
  assumes "\<And>r. k (f r) = k r"
  shows "find (\<lambda>r. k r = key) (update_rows p f rows) = map_option (\<lambda>r. if p r then f r else r) (find (\<lambda>r. k r = key) rows)"
  using assms by (induction rows) (auto simp: update_rows_def)

lemma find_append_row: "find p (rows @ [r]) = (case find p rows of Some x \<Rightarrow> Some x | None \<Rightarrow> if p r then Some r else None)"
  by (induction rows) auto

lemma filter_update_rows:
  assumes "\<And>r. k (f r) = k r"
  shows "filter (\<lambda>r. k r = x) (update_rows p f rows) = update_rows p f (filter (\<lambda>r. k r = x) rows)"
  by (induction rows) (auto simp: update_rows_def assms)

end
