(* ===== verification/Core_Domain.thy ===== *)
theory Core_Domain
  imports Prelude
begin

text \<open>
  The shared domain objects (\<^verbatim>\<open>internal/core/domain\<close>): assignments and what they carry, trust
  bundles, the profiles, the statuses of a runtime action, and the rule that decides
  whether a KLIQ may activate an assignment. The digest \<^verbatim>\<open>sha256\<close> is a parameter (the
  hexadecimal text of the hash of some bytes); nothing here depends on which function it is.
\<close>

section \<open>Statuses of a runtime action (types.go)\<close>

type_synonym RuntimeActionStatus = string

definition RuntimeActionPlanned :: RuntimeActionStatus where "RuntimeActionPlanned = ''planned''"
definition RuntimeActionAuthorized :: RuntimeActionStatus where "RuntimeActionAuthorized = ''authorized''"
definition RuntimeActionExecuting :: RuntimeActionStatus where "RuntimeActionExecuting = ''executing''"
definition RuntimeActionActive :: RuntimeActionStatus where "RuntimeActionActive = ''active''"
definition RuntimeActionExpiring :: RuntimeActionStatus where "RuntimeActionExpiring = ''expiring''"
definition RuntimeActionExpired :: RuntimeActionStatus where "RuntimeActionExpired = ''expired''"
definition RuntimeActionNotFound :: RuntimeActionStatus where "RuntimeActionNotFound = ''not_found''"
definition RuntimeActionFailed :: RuntimeActionStatus where "RuntimeActionFailed = ''failed''"
definition RuntimeActionUnknown :: RuntimeActionStatus where "RuntimeActionUnknown = ''unknown''"
definition RuntimeActionCompensating :: RuntimeActionStatus where "RuntimeActionCompensating = ''compensating''"

lemmas status_defs =
  RuntimeActionPlanned_def RuntimeActionAuthorized_def RuntimeActionExecuting_def
  RuntimeActionActive_def RuntimeActionExpiring_def RuntimeActionExpired_def
  RuntimeActionNotFound_def RuntimeActionFailed_def RuntimeActionUnknown_def
  RuntimeActionCompensating_def

section \<open>Assignments (assignment.go)\<close>

record AssignmentProvenance =
  ap_ApprovedBuildID :: string
  ap_ApprovedBuildDigest :: string
  ap_BindingDigests :: "(string \<times> string) list"
  ap_RuntimeActionDigests :: "(string \<times> string) list"
  ap_AdapterManifestDigests :: "(string \<times> string) list"

record KLIQAssignedArtifact =
  aa_ArtifactType :: string
  aa_ArtifactID :: string
  aa_ArtifactRef :: string
  aa_SHA256 :: string
  aa_Envelope :: bytes

record KLIQAssignment =
  as_AssignmentID :: string
  as_AssignmentVersion :: int
  as_KLIQID :: string
  as_Environment :: string
  as_Stage :: string
  as_Scope :: string
  as_SourceCommit :: string
  as_TrustKeyID :: string
  as_TrustBundleRef :: string
  as_CreatedAt :: gotime
  as_ExpiresAt :: gotime
  as_ApprovedRollback :: bool
  as_Artifacts :: "KLIQAssignedArtifact list"
  as_Status :: string
  as_RevokedAt :: gotime
  as_RevokedReason :: string
  as_SignatureValid :: bool
  as_ManifestSigned :: bool
  as_ManifestDigest :: string
  as_ManifestSignatureValid :: bool
  as_Provenance :: "AssignmentProvenance option"

record ArtifactDigest =
  ad_ArtifactType :: string
  ad_ArtifactID :: string
  ad_ArtifactRef :: string
  ad_SHA256 :: string

record AssignmentManifest =
  am_Kind :: string
  am_AssignmentID :: string
  am_AssignmentVersion :: int
  am_KLIQID :: string
  am_Environment :: string
  am_Stage :: string
  am_Scope :: string
  am_SourceCommit :: string
  am_Artifacts :: "ArtifactDigest list"
  am_TrustBundleRef :: string
  am_CreatedAt :: gotime
  am_ExpiresAt :: gotime
  am_ApprovedRollback :: bool
  am_Provenance :: "AssignmentProvenance option"

record TrustBundle =
  tb_KeyID :: string
  tb_PublicKey :: string
  tb_Purpose :: string
  tb_Status :: string
  tb_ExpiresAt :: gotime
  tb_Issuer :: string

record KLIQManagementProfile =
  mp_Kind :: string
  mp_ProfileID :: string
  mp_Mode :: string
  mp_PollInterval :: string
  mp_HeartbeatInterval :: string
  mp_StatusInterval :: string
  mp_DecisionInterval :: string
  mp_ReconcileInterval :: string
  mp_AuditFlushInterval :: string
  mp_StatusEndpoint :: string
  mp_AssignmentSource :: string

record KLIQFallbackProfile =
  fp_Kind :: string
  fp_ProfileID :: string
  fp_Mode :: string
  fp_AllowCachedAssignmentFallback :: bool
  fp_DenyNewActionsWhenDegraded :: bool
  fp_AuditRequired :: bool

record AdapterAssignment =
  adp_Kind :: string
  adp_AdapterID :: string
  adp_Endpoint :: string
  adp_TLSServerName :: string
  adp_ServerCertificateSHA256 :: string
  adp_AllowedCapabilities :: "string list"
  adp_GrantRefs :: "string list"
  adp_Scope :: string
  adp_CreatedAt :: gotime

record KLIQAssignmentActivationContext =
  ac_KLIQID :: string
  ac_Environment :: string
  ac_Stage :: string
  ac_Scope :: string
  ac_TrustKeyID :: string
  ac_AssignmentDigest :: string
  ac_Now :: gotime
  ac_ActiveAssignmentVersion :: int
  ac_ActiveAssignmentDigest :: string

text \<open>
  The activation rule. \<open>wall\<close> is what \<^verbatim>\<open>time.Now()\<close> returns when the context carries no
  time of its own.
\<close>

definition ValidateKLIQAssignmentActivation ::
  "KLIQAssignment \<Rightarrow> KLIQAssignmentActivationContext \<Rightarrow> gotime \<Rightarrow> unit result" where
  "ValidateKLIQAssignmentActivation a ctx wall =
     (let id = as_AssignmentID a in
      fail_if (id = []) (Errorf ''kliq assignment id is required'' [])
     (fail_if (as_AssignmentVersion a \<le> 0) (Errorf ''kliq assignment %q requires positive assignment_version'' [id])
     (fail_if (as_SourceCommit a = []) (Errorf ''kliq assignment %q requires source_commit'' [id])
     (fail_if (as_TrustKeyID a = []) (Errorf ''kliq assignment %q requires trust key'' [id])
     (fail_if (as_TrustBundleRef a = []) (Errorf ''kliq assignment %q requires trust_bundle_ref'' [id])
     (fail_if (IsZero (as_ExpiresAt a)) (Errorf ''kliq assignment %q requires expires_at'' [id])
     (fail_if (as_Status a = ''revoked'' \<or> \<not> IsZero (as_RevokedAt a)) (Errorf ''kliq assignment %q is revoked'' [id])
     (fail_if (\<not> as_SignatureValid a \<and> \<not> (as_ManifestSigned a \<and> as_ManifestSignatureValid a))
        (Errorf ''kliq assignment %q requires valid assignment or manifest signature'' [id])
     (fail_if (as_KLIQID a \<noteq> ac_KLIQID ctx)
        (Errorf ''kliq assignment %q targets kliq_id %q, local is %q'' [id, as_KLIQID a, ac_KLIQID ctx])
     (fail_if (as_Environment a \<noteq> ac_Environment ctx)
        (Errorf ''kliq assignment %q targets environment %q, local is %q'' [id, as_Environment a, ac_Environment ctx])
     (fail_if (as_Stage a \<noteq> ac_Stage ctx)
        (Errorf ''kliq assignment %q targets stage %q, local is %q'' [id, as_Stage a, ac_Stage ctx])
     (fail_if (as_Scope a \<noteq> ac_Scope ctx)
        (Errorf ''kliq assignment %q targets scope %q, local is %q'' [id, as_Scope a, ac_Scope ctx])
     (fail_if (as_TrustKeyID a \<noteq> ac_TrustKeyID ctx)
        (Errorf ''kliq assignment %q trust key %q does not match local trust key %q'' [id, as_TrustKeyID a, ac_TrustKeyID ctx])
     (let now = (if IsZero (ac_Now ctx) then wall else ac_Now ctx) in
      fail_if (\<not> After (as_ExpiresAt a) now) (Errorf ''kliq assignment %q is expired'' [id])
     (if as_AssignmentVersion a > ac_ActiveAssignmentVersion ctx then Inr ()
      else if as_AssignmentVersion a = ac_ActiveAssignmentVersion ctx \<and> ac_ActiveAssignmentVersion ctx > 0 \<and>
              ac_AssignmentDigest ctx \<noteq> [] \<and> ac_AssignmentDigest ctx = ac_ActiveAssignmentDigest ctx then Inr ()
      else if as_AssignmentVersion a < ac_ActiveAssignmentVersion ctx \<and> as_ApprovedRollback a \<and> as_SignatureValid a then Inr ()
      else Inl (Errorf ''kliq assignment %q is not newer than active assignment and is not an approved signed rollback'' [id]))))))))))))))))"

definition RuntimeBundleArtifact :: "KLIQAssignment \<Rightarrow> KLIQAssignedArtifact option" where
  "RuntimeBundleArtifact a = find (\<lambda>art. aa_ArtifactType art = ''runtime_bundle'') (as_Artifacts a)"

definition SupportedAssignmentArtifactType :: "string \<Rightarrow> bool" where
  "SupportedAssignmentArtifactType t \<longleftrightarrow>
     t = ''runtime_bundle'' \<or> t = ''adapter_manifest'' \<or> t = ''context_route_pack'' \<or>
     t = ''conformance_expectation'' \<or> t = ''adapter_assignment'' \<or> t = ''trust_bundle'' \<or>
     t = ''management_profile'' \<or> t = ''fallback_profile''"

definition SHA256JSON :: "(bytes \<Rightarrow> string) \<Rightarrow> bytes \<Rightarrow> string" where
  "SHA256JSON sha256 data = ''sha256:'' @ sha256 data"

definition ValidateAssignedArtifactDigests :: "(bytes \<Rightarrow> string) \<Rightarrow> KLIQAssignment \<Rightarrow> unit result" where
  "ValidateAssignedArtifactDigests sha256 a =
     for_each (\<lambda>art.
       fail_if (aa_ArtifactType art = [])
         (Errorf ''kliq assignment %q contains artifact without artifact_type'' [as_AssignmentID a])
      (fail_if (aa_Envelope art = [])
         (Errorf ''kliq assignment %q artifact %q has no envelope'' [as_AssignmentID a, aa_ArtifactID art])
      (fail_if (aa_SHA256 art = [])
         (Errorf ''kliq assignment %q artifact %q has no sha256 digest'' [as_AssignmentID a, aa_ArtifactID art])
      (fail_if (aa_SHA256 art \<noteq> SHA256JSON sha256 (aa_Envelope art))
         (Errorf ''kliq assignment %q artifact %q digest mismatch'' [as_AssignmentID a, aa_ArtifactID art])
       (Inr ()))))) (as_Artifacts a)"

definition AssignmentManifestFor :: "KLIQAssignment \<Rightarrow> AssignmentManifest" where
  "AssignmentManifestFor a =
     \<lparr>am_Kind = ''AssignmentManifest'', am_AssignmentID = as_AssignmentID a,
      am_AssignmentVersion = as_AssignmentVersion a, am_KLIQID = as_KLIQID a,
      am_Environment = as_Environment a, am_Stage = as_Stage a, am_Scope = as_Scope a,
      am_SourceCommit = as_SourceCommit a,
      am_Artifacts = map (\<lambda>art. \<lparr>ad_ArtifactType = aa_ArtifactType art, ad_ArtifactID = aa_ArtifactID art,
                                 ad_ArtifactRef = aa_ArtifactRef art, ad_SHA256 = aa_SHA256 art\<rparr>) (as_Artifacts a),
      am_TrustBundleRef = as_TrustBundleRef a, am_CreatedAt = as_CreatedAt a,
      am_ExpiresAt = as_ExpiresAt a, am_ApprovedRollback = as_ApprovedRollback a,
      am_Provenance = as_Provenance a\<rparr>"

section \<open>What activation requires\<close>

text \<open>The fields an assignment needs, whatever the local KLIQ is.\<close>

definition complete_assignment :: "KLIQAssignment \<Rightarrow> bool" where
  "complete_assignment a \<longleftrightarrow>
     as_AssignmentID a \<noteq> [] \<and> 0 < as_AssignmentVersion a \<and> as_SourceCommit a \<noteq> [] \<and>
     as_TrustKeyID a \<noteq> [] \<and> as_TrustBundleRef a \<noteq> [] \<and> \<not> IsZero (as_ExpiresAt a)"

text \<open>The assignment is meant for this KLIQ.\<close>

definition targets :: "KLIQAssignment \<Rightarrow> KLIQAssignmentActivationContext \<Rightarrow> bool" where
  "targets a ctx \<longleftrightarrow>
     as_KLIQID a = ac_KLIQID ctx \<and> as_Environment a = ac_Environment ctx \<and> as_Stage a = ac_Stage ctx \<and>
     as_Scope a = ac_Scope ctx \<and> as_TrustKeyID a = ac_TrustKeyID ctx"

text \<open>
  The order of versions: newer, or the very same assignment again, or an older one that is
  an approved and signed rollback.
\<close>

definition version_admissible :: "KLIQAssignment \<Rightarrow> KLIQAssignmentActivationContext \<Rightarrow> bool" where
  "version_admissible a ctx \<longleftrightarrow>
     ac_ActiveAssignmentVersion ctx < as_AssignmentVersion a \<or>
     as_AssignmentVersion a = ac_ActiveAssignmentVersion ctx \<and> ac_AssignmentDigest ctx \<noteq> [] \<and>
       ac_AssignmentDigest ctx = ac_ActiveAssignmentDigest ctx \<or>
     as_AssignmentVersion a < ac_ActiveAssignmentVersion ctx \<and> as_ApprovedRollback a \<and> as_SignatureValid a"

lemma activation_iff:
  "ValidateKLIQAssignmentActivation a ctx wall = Inr () \<longleftrightarrow>
     complete_assignment a \<and>
     as_Status a \<noteq> ''revoked'' \<and> IsZero (as_RevokedAt a) \<and>
     (as_SignatureValid a \<or> as_ManifestSigned a \<and> as_ManifestSignatureValid a) \<and>
     targets a ctx \<and>
     Before (if IsZero (ac_Now ctx) then wall else ac_Now ctx) (as_ExpiresAt a) \<and>
     version_admissible a ctx"
  unfolding ValidateKLIQAssignmentActivation_def complete_assignment_def targets_def version_admissible_def Let_def
  by (simp only: fail_if_Inr) (auto split: if_splits)

lemma validate_digests_iff [guards]:
  "ValidateAssignedArtifactDigests sha256 a = Inr u \<longleftrightarrow>
     (\<forall>art \<in> set (as_Artifacts a). aa_ArtifactType art \<noteq> [] \<and> aa_Envelope art \<noteq> [] \<and>
        aa_SHA256 art \<noteq> [] \<and> aa_SHA256 art = SHA256JSON sha256 (aa_Envelope art))"
  by (simp add: ValidateAssignedArtifactDigests_def conj_assoc)

lemma RuntimeBundleArtifact_Some:
  "RuntimeBundleArtifact a = Some art \<Longrightarrow> art \<in> set (as_Artifacts a) \<and> aa_ArtifactType art = ''runtime_bundle''"
  by (auto simp: RuntimeBundleArtifact_def dest: find_SomeD)

end
