(* ===== verification/Core_Risk.thy ===== *)
theory Core_Risk
  imports Complex_Main Prelude
begin

text \<open>
  Risk tiers, contexts and behaviours (\<^verbatim>\<open>internal/core/risk/risk.go\<close>). Scores and confidences
  are rational numbers; Go's \<^verbatim>\<open>float64\<close> is not modelled below that (no rounding, no NaN).
  \<open>wall\<close> is what \<^verbatim>\<open>time.Now()\<close> returns where the code falls back to it.
\<close>

definition TierLow :: string where "TierLow = ''low''"
definition TierMedium :: string where "TierMedium = ''medium''"
definition TierHigh :: string where "TierHigh = ''high''"
definition TierCritical :: string where "TierCritical = ''critical''"
definition TierUnknown :: string where "TierUnknown = ''unknown''"
definition ScopeLocal :: string where "ScopeLocal = ''local''"
definition ScopeGlobal :: string where "ScopeGlobal = ''global''"

lemmas tier_defs = TierLow_def TierMedium_def TierHigh_def TierCritical_def TierUnknown_def

record RiskSignal =
  rs_Type :: string
  rs_Tier :: string
  rs_Score :: "rat option"
  rs_Reasons :: "string list"
  rs_Confidence :: rat
  rs_ObservedAt :: gotime
  rs_EvaluatedAt :: gotime
  rs_ValidUntil :: gotime
  rs_Source :: string
  rs_Scope :: string

record RiskContext =
  rc_RiskType :: string
  rc_Tier :: string
  rc_Score :: "rat option"
  rc_Confidence :: rat
  rc_Reasons :: "string list"
  rc_Signals :: "RiskSignal list"
  rc_Source :: string
  rc_Scope :: string
  rc_EvaluatedAt :: gotime
  rc_ValidUntil :: gotime

record PolicyRiskBehavior =
  pb_RiskType :: string
  pb_Tier :: string
  pb_Effect :: string
  pb_RuntimeHint :: string

definition NormalizeTier :: "string \<Rightarrow> string" where
  "NormalizeTier tier =
     (let t = TrimPrefix (TrimSpace tier) ''risk_tier.'' in
      if t = TierLow \<or> t = TierMedium \<or> t = TierHigh \<or> t = TierCritical then t else TierUnknown)"

definition NormalizeType :: "string \<Rightarrow> string" where
  "NormalizeType riskType = TrimPrefix (TrimSpace riskType) ''risk_type.''"

definition NormalizeEffect :: "string \<Rightarrow> string" where
  "NormalizeEffect effect = TrimPrefix (TrimSpace effect) ''effect.''"

definition RuntimeActionForEffect :: "string \<Rightarrow> string \<times> bool" where
  "RuntimeActionForEffect effect =
     (if NormalizeEffect effect = ''rate_limit'' then (''runtime_action.rate_limit_source'', True)
      else if NormalizeEffect effect = ''deny_temporarily'' then (''runtime_action.deny_temporarily_source'', True)
      else ([], False))"

definition MatchBehavior :: "PolicyRiskBehavior list \<Rightarrow> RiskContext \<Rightarrow> PolicyRiskBehavior option" where
  "MatchBehavior behaviors ctx =
     find (\<lambda>b. NormalizeType (pb_RiskType b) = NormalizeType (rc_RiskType ctx) \<and>
               NormalizeTier (pb_Tier b) = NormalizeTier (rc_Tier ctx)) behaviors"

definition UnknownContext ::
  "string \<Rightarrow> string \<Rightarrow> string \<Rightarrow> gotime \<Rightarrow> string list \<Rightarrow> gotime \<Rightarrow> RiskContext" where
  "UnknownContext riskType scope source now reasons wall =
     (let now = (if IsZero now then wall else now) in
      \<lparr>rc_RiskType = NormalizeType riskType, rc_Tier = TierUnknown, rc_Score = None, rc_Confidence = 0,
       rc_Reasons = reasons, rc_Signals = [], rc_Source = TrimSpace source, rc_Scope = TrimSpace scope,
       rc_EvaluatedAt = now, rc_ValidUntil = now\<rparr>)"

definition ValidateContext :: "RiskContext \<Rightarrow> gotime \<Rightarrow> gotime \<Rightarrow> unit result" where
  "ValidateContext ctx now wall =
     fail_if (blank (rc_RiskType ctx)) (Errorf ''risk context requires risk_type'' [])
    (fail_if (blank (rc_Scope ctx)) (Errorf ''risk context requires scope'' [])
    (fail_if (NormalizeTier (rc_Tier ctx) \<noteq> rc_Tier ctx) (Errorf ''risk context tier %q is not canonical'' [rc_Tier ctx])
    (fail_if (IsZero (rc_EvaluatedAt ctx)) (Errorf ''risk context requires evaluated_at'' [])
    (fail_if (IsZero (rc_ValidUntil ctx)) (Errorf ''risk context requires valid_until'' [])
    (let now = (if IsZero now then wall else now) in
     fail_if (\<not> After (rc_ValidUntil ctx) now \<and> rc_Tier ctx \<noteq> TierUnknown) (Errorf ''risk context is stale'' [])
       (Inr ()))))))"

section \<open>Canonical tiers\<close>

lemma NormalizeTier_range:
  "NormalizeTier t \<in> {TierLow, TierMedium, TierHigh, TierCritical, TierUnknown}"
  by (simp add: NormalizeTier_def Let_def)

lemma NormalizeTier_tiers:
  "NormalizeTier TierLow = TierLow" "NormalizeTier TierMedium = TierMedium"
  "NormalizeTier TierHigh = TierHigh" "NormalizeTier TierCritical = TierCritical"
  "NormalizeTier TierUnknown = TierUnknown"
  by code_simp+

lemma NormalizeTier_canonical:
  "t \<in> {TierLow, TierMedium, TierHigh, TierCritical, TierUnknown} \<Longrightarrow> NormalizeTier t = t"
  using NormalizeTier_tiers by blast

lemma NormalizeTier_idem [simp]: "NormalizeTier (NormalizeTier t) = NormalizeTier t"
  using NormalizeTier_canonical NormalizeTier_range by blast

lemma NormalizeTier_Unknown [simp]: "NormalizeTier TierUnknown = TierUnknown"
  by (simp add: NormalizeTier_canonical)

lemma ValidateContext_iff [guards]:
  "ValidateContext ctx now wall = Inr u \<longleftrightarrow>
     \<not> blank (rc_RiskType ctx) \<and> \<not> blank (rc_Scope ctx) \<and> NormalizeTier (rc_Tier ctx) = rc_Tier ctx \<and>
     \<not> IsZero (rc_EvaluatedAt ctx) \<and> \<not> IsZero (rc_ValidUntil ctx) \<and>
     (Before (if IsZero now then wall else now) (rc_ValidUntil ctx) \<or> rc_Tier ctx = TierUnknown)"
  unfolding ValidateContext_def Let_def by (simp only: fail_if_Inr) auto

lemma MatchBehavior_Some:
  "MatchBehavior bs ctx = Some b \<Longrightarrow>
     b \<in> set bs \<and> NormalizeType (pb_RiskType b) = NormalizeType (rc_RiskType ctx) \<and>
     NormalizeTier (pb_Tier b) = NormalizeTier (rc_Tier ctx)"
  by (auto simp: MatchBehavior_def dest: find_SomeD)

lemma RuntimeActionForEffect_actionable:
  "RuntimeActionForEffect e = (a, True) \<Longrightarrow>
     a \<in> {''runtime_action.rate_limit_source'', ''runtime_action.deny_temporarily_source''}"
  by (auto simp: RuntimeActionForEffect_def split: if_splits)

end
