(* ===== verification/Signing.thy ===== *)
theory Signing
  imports Prelude
begin

text \<open>
  Signed envelopes (\<^verbatim>\<open>internal/core/signing/signing.go\<close>): what is signed, how an envelope is made and
  what its verification checks. The primitives are parameters, collected in the record
  \<open>crypto\<close>: the hexadecimal SHA-256 digest of some bytes, Ed25519 signing and verification,
  and the JSON text of the protected header. The theorems hold for every choice of them;
  the round trip alone assumes what Ed25519 promises, that a signature made with a private
  key verifies under its public key.
\<close>

record SigningMetadata =
  sm_KeyID :: string
  sm_SourceCommit :: string
  sm_PolicyID :: string
  sm_ExpiresAt :: "gotime option"

record SignedEnvelope =
  env_Kind :: string
  env_KeyID :: string
  env_Algorithm :: string
  env_PayloadType :: string
  env_Payload :: bytes
  env_PayloadSHA256 :: string
  env_Signature :: bytes
  env_SignedAt :: gotime
  env_ExpiresAt :: "gotime option"
  env_SourceCommit :: string
  env_PolicyID :: string

record ProtectedHeader =
  ph_Kind :: string
  ph_KeyID :: string
  ph_Algorithm :: string
  ph_PayloadType :: string
  ph_PayloadSHA256 :: string
  ph_SignedAt :: gotime
  ph_ExpiresAt :: "gotime option"
  ph_SourceCommit :: string
  ph_PolicyID :: string

record VerificationResult =
  vr_Valid :: bool
  vr_KeyID :: string
  vr_PayloadSHA256 :: string
  vr_VerifiedAt :: gotime
  vr_Error :: string

record crypto =
  sha256_hex :: "bytes \<Rightarrow> string"
  ed25519_sign :: "bytes \<Rightarrow> bytes \<Rightarrow> bytes"
  ed25519_verify :: "bytes \<Rightarrow> bytes \<Rightarrow> bytes \<Rightarrow> bool"
  marshal_header :: "ProtectedHeader \<Rightarrow> bytes result"

record DevLocalSigner =
  ds_KeyID :: string
  ds_PrivateKey :: bytes
  ds_PublicKey :: bytes

definition NewEd25519Verifier :: "string \<Rightarrow> bytes \<Rightarrow> DevLocalSigner result" where
  "NewEd25519Verifier keyID publicKey =
     fail_if (keyID = []) (Errorf ''Ed25519 verifier requires key id'' [])
    (fail_if (length publicKey \<noteq> 32) (Errorf ''invalid Ed25519 public key'' [])
       (Inr \<lparr>ds_KeyID = keyID, ds_PrivateKey = [], ds_PublicKey = publicKey\<rparr>))"

text \<open>The input of the signature: every field of the envelope but the payload, which the digest stands for.\<close>

definition protected_header :: "SignedEnvelope \<Rightarrow> ProtectedHeader" where
  "protected_header e =
     \<lparr>ph_Kind = env_Kind e, ph_KeyID = env_KeyID e, ph_Algorithm = env_Algorithm e,
      ph_PayloadType = env_PayloadType e, ph_PayloadSHA256 = env_PayloadSHA256 e,
      ph_SignedAt = env_SignedAt e, ph_ExpiresAt = env_ExpiresAt e,
      ph_SourceCommit = env_SourceCommit e, ph_PolicyID = env_PolicyID e\<rparr>"

definition signingInput :: "crypto \<Rightarrow> SignedEnvelope \<Rightarrow> bytes result" where
  "signingInput cr e = marshal_header cr (protected_header e)"

text \<open>\<open>now\<close> is the reading of the signer's clock.\<close>

definition Sign :: "crypto \<Rightarrow> DevLocalSigner \<Rightarrow> bytes \<Rightarrow> SigningMetadata \<Rightarrow> gotime \<Rightarrow> SignedEnvelope result" where
  "Sign cr s payload meta now =
     fail_if (length (ds_PrivateKey s) \<noteq> 64) (Errorf ''dev-local signer requires an Ed25519 private key'' [])
    (fail_if (ds_KeyID s = []) (Errorf ''dev-local signer requires key id'' [])
    (let keyID = (if sm_KeyID meta = [] then ds_KeyID s else sm_KeyID meta) in
     fail_if (keyID \<noteq> ds_KeyID s)
       (Errorf ''metadata key_id %q does not match signer key_id %q'' [keyID, ds_KeyID s])
    (let e = \<lparr>env_Kind = ''SignedEnvelope'', env_KeyID = keyID, env_Algorithm = ''Ed25519'',
              env_PayloadType = ''application/vnd.kernloom.artifact+json'', env_Payload = payload,
              env_PayloadSHA256 = ''sha256:'' @ sha256_hex cr payload, env_Signature = [],
              env_SignedAt = now, env_ExpiresAt = sm_ExpiresAt meta,
              env_SourceCommit = sm_SourceCommit meta, env_PolicyID = sm_PolicyID meta\<rparr> in
     check_then (signingInput cr e)
       (\<lambda>input. Inr (e\<lparr>env_Signature := ed25519_sign cr (ds_PrivateKey s) input\<rparr>)))))"

text \<open>
  Verification reads its clock twice, for the time it reports and for the expiry check. It
  always returns a result; an invalid envelope is one with \<open>vr_Valid\<close> unset and a reason.
\<close>

definition expired_at :: "SignedEnvelope \<Rightarrow> gotime \<Rightarrow> bool" where
  "expired_at e now \<longleftrightarrow> (case env_ExpiresAt e of None \<Rightarrow> False | Some t \<Rightarrow> \<not> Before now t)"

definition Verify :: "crypto \<Rightarrow> DevLocalSigner \<Rightarrow> SignedEnvelope \<Rightarrow> gotime \<Rightarrow> gotime \<Rightarrow> VerificationResult" where
  "Verify cr s e now1 now2 =
     (let result = \<lparr>vr_Valid = False, vr_KeyID = env_KeyID e,
                    vr_PayloadSHA256 = ''sha256:'' @ sha256_hex cr (env_Payload e),
                    vr_VerifiedAt = now1, vr_Error = []\<rparr> in
      if env_Kind e \<noteq> ''SignedEnvelope'' then result\<lparr>vr_Error := ''payload is not a signed envelope''\<rparr>
      else if env_Algorithm e \<noteq> ''Ed25519''
        then result\<lparr>vr_Error := sprintf ''unsupported signing algorithm %q'' [env_Algorithm e] []\<rparr>
      else if env_KeyID e = [] then result\<lparr>vr_Error := ''signed envelope is missing key_id''\<rparr>
      else if ds_KeyID s = [] then result\<lparr>vr_Error := ''verifier requires key id''\<rparr>
      else if env_KeyID e \<noteq> ds_KeyID s
        then result\<lparr>vr_Error := sprintf ''signed envelope key_id %q does not match verifier key_id %q''
                                 [env_KeyID e, ds_KeyID s] []\<rparr>
      else if length (ds_PublicKey s) \<noteq> 32 then result\<lparr>vr_Error := ''verifier requires an Ed25519 public key''\<rparr>
      else if expired_at e now2 then result\<lparr>vr_Error := ''signed envelope expired''\<rparr>
      else if env_PayloadSHA256 e \<noteq> vr_PayloadSHA256 result then result\<lparr>vr_Error := ''payload hash mismatch''\<rparr>
      else case signingInput cr e of
        Inl err \<Rightarrow> result\<lparr>vr_Error := Error err\<rparr>
      | Inr input \<Rightarrow>
          if \<not> ed25519_verify cr (ds_PublicKey s) input (env_Signature e)
          then result\<lparr>vr_Error := ''signature verification failed''\<rparr>
          else result\<lparr>vr_Valid := True\<rparr>)"

section \<open>What a valid envelope is\<close>

lemma Verify_valid_iff:
  "vr_Valid (Verify cr s e now1 now2) \<longleftrightarrow>
     env_Kind e = ''SignedEnvelope'' \<and> env_Algorithm e = ''Ed25519'' \<and>
     env_KeyID e \<noteq> [] \<and> env_KeyID e = ds_KeyID s \<and> length (ds_PublicKey s) = 32 \<and>
     \<not> expired_at e now2 \<and> env_PayloadSHA256 e = ''sha256:'' @ sha256_hex cr (env_Payload e) \<and>
     (\<exists>input. signingInput cr e = Inr input \<and> ed25519_verify cr (ds_PublicKey s) input (env_Signature e))"
  unfolding Verify_def Let_def by (simp split: sum.split)

lemma Verify_reports [simp]:
  "vr_KeyID (Verify cr s e now1 now2) = env_KeyID e"
  "vr_PayloadSHA256 (Verify cr s e now1 now2) = ''sha256:'' @ sha256_hex cr (env_Payload e)"
  "vr_VerifiedAt (Verify cr s e now1 now2) = now1"
  by (simp_all add: Verify_def Let_def split: sum.split)

lemma protected_header_signature [simp]:
  "protected_header (e\<lparr>env_Signature := sig\<rparr>) = protected_header e"
  "signingInput cr (e\<lparr>env_Signature := sig\<rparr>) = signingInput cr e"
  by (simp_all add: protected_header_def signingInput_def)

lemma Sign_fields:
  assumes "Sign cr s payload meta now = Inr e"
  shows "env_Kind e = ''SignedEnvelope'' \<and> env_Algorithm e = ''Ed25519'' \<and> env_KeyID e = ds_KeyID s \<and>
    ds_KeyID s \<noteq> [] \<and> env_Payload e = payload \<and> env_PayloadSHA256 e = ''sha256:'' @ sha256_hex cr payload \<and>
    env_SignedAt e = now \<and> env_ExpiresAt e = sm_ExpiresAt meta \<and> env_SourceCommit e = sm_SourceCommit meta \<and>
    env_PolicyID e = sm_PolicyID meta \<and>
    (\<exists>input. signingInput cr e = Inr input \<and> env_Signature e = ed25519_sign cr (ds_PrivateKey s) input)"
  using assms
  by (auto simp: Sign_def Let_def signingInput_def protected_header_def split: if_splits)

end
