(* ===== verification/Wire.thy ===== *)
theory Wire
  imports Core_Domain Core_Risk Signing
begin

text \<open>
  The artifacts that travel in signed envelopes, as the code declares them
  (\<^verbatim>\<open>internal/core/bundle\<close>, \<^verbatim>\<open>internal/core/context\<close>, \<^verbatim>\<open>internal/core/conformance\<close>, \<^verbatim>\<open>internal/core/artifact\<close>,
  and the anonymous structs the KLIQ decodes headers and adapter manifests into), and the
  record \<open>wire\<close> of the functions that turn bytes into them: the decoders of
  \<^verbatim>\<open>encoding/json\<close> and of the key formats, the encoders whose output is hashed, the parser
  of RFC 3339 times, and the cryptographic primitives. They are parameters of the model:
  a theorem holds whatever bytes decode to.
\<close>

record ArtifactMetadata =
  md_ID :: string
  md_PolicyID :: string
  md_ArtifactType :: string
  md_KNI :: string
  md_SourcePath :: string
  md_SourceCommit :: string
  md_CorrelationID :: string
  md_CreatedAt :: gotime
  md_Digests :: "(string \<times> string) list"

record ArtifactStatus =
  st_Status :: string
  st_Phase :: string
  st_Message :: string

record RateLimitParameters =
  rl_RatePPS :: nat
  rl_Burst :: nat

record CapabilityGrant =
  cg_ID :: string
  cg_BindingID :: string
  cg_BindingDigest :: string
  cg_AdapterID :: string
  cg_AdapterManifestDigest :: string
  cg_CapabilityID :: string
  cg_ActionType :: string
  cg_ActionDigest :: string
  cg_AllowedTargetScopes :: "string list"
  cg_MaxTTL :: string
  cg_Stage :: string
  cg_Environment :: string
  cg_Owner :: string
  cg_ApprovalRef :: string
  cg_ExpiresAt :: string
  cg_RateLimit :: "RateLimitParameters option"

record RuntimeAction =
  ra_Label :: string
  ra_CanonicalID :: string

record RuntimeBundleSpec =
  bs_PolicyID :: string
  bs_RuntimeAllowed :: bool
  bs_RuntimeActions :: "RuntimeAction list"
  bs_CapabilityGrants :: "CapabilityGrant list"
  bs_RiskRecipe :: string
  bs_RiskBehavior :: "PolicyRiskBehavior list"
  bs_MaxTTL :: string
  bs_MaxTTLSource :: string
  bs_MaxScope :: string
  bs_MaxScopeSource :: string

record RuntimeBundle =
  rb_Kind :: string
  rb_Metadata :: ArtifactMetadata
  rb_Spec :: RuntimeBundleSpec
  rb_Status :: ArtifactStatus

record ContextRoute =
  cr_Name :: string
  cr_Consumers :: "string list"
  cr_Facts :: "string list"
  cr_Sensitivity :: string

record ContextRoutePackSpec =
  cps_PolicyID :: string
  cps_Target :: string
  cps_Stage :: string
  cps_Routes :: "ContextRoute list"

record ContextRoutePack =
  cp_Kind :: string
  cp_Metadata :: ArtifactMetadata
  cp_Spec :: ContextRoutePackSpec
  cp_Status :: ArtifactStatus

record Expectation =
  ex_Name :: string
  ex_Description :: string

record ProhibitedOutcome =
  po_Label :: string
  po_CanonicalID :: string

record ConformanceExpectationSpec =
  ces_PolicyID :: string
  ces_Target :: string
  ces_Stage :: string
  ces_Expectations :: "Expectation list"
  ces_Prohibit :: "ProhibitedOutcome list"

record ConformanceExpectation =
  ce_Kind :: string
  ce_Metadata :: ArtifactMetadata
  ce_Spec :: ConformanceExpectationSpec
  ce_Status :: ArtifactStatus

record ManifestCapability =
  mc_CapabilityID :: string
  mc_ImplementationStatus :: string

record AdapterManifestSpec =
  ams_AdapterID :: string
  ams_AdapterVersion :: string
  ams_ProtocolVersion :: string
  ams_Status :: string
  ams_Digest :: string
  ams_Capabilities :: "ManifestCapability list"

record AdapterManifestDoc =
  amd_Kind :: string
  amd_MetadataID :: string
  amd_MetadataArtifactType :: string
  amd_Spec :: AdapterManifestSpec

record PayloadHeader =
  hd_Kind :: string
  hd_ArtifactType :: string

record wire =
  w_crypto :: crypto
  dec_Envelope :: "bytes \<Rightarrow> SignedEnvelope result"
  dec_EnvelopePayload :: "bytes \<Rightarrow> bytes result"
  dec_Assignment :: "bytes \<Rightarrow> KLIQAssignment result"
  dec_RuntimeBundle :: "bytes \<Rightarrow> RuntimeBundle result"
  dec_AdapterManifest :: "bytes \<Rightarrow> AdapterManifestDoc result"
  dec_AdapterAssignment :: "bytes \<Rightarrow> AdapterAssignment result"
  dec_ContextRoutePack :: "bytes \<Rightarrow> ContextRoutePack result"
  dec_ConformanceExpectation :: "bytes \<Rightarrow> ConformanceExpectation result"
  dec_TrustBundle :: "bytes \<Rightarrow> TrustBundle result"
  dec_ManagementProfile :: "bytes \<Rightarrow> KLIQManagementProfile result"
  dec_FallbackProfile :: "bytes \<Rightarrow> KLIQFallbackProfile result"
  dec_Header :: "bytes \<Rightarrow> PayloadHeader result"
  dec_EnvelopeStream :: "bytes \<Rightarrow> SignedEnvelope result"
  pem_Decode :: "string \<Rightarrow> bytes option"
  parse_PKIX :: "bytes \<Rightarrow> bytes option result"
  base64_Std :: "string \<Rightarrow> bytes result"
  base64_RawStd :: "string \<Rightarrow> bytes result"
  enc_Object :: "(string \<times> string) list \<Rightarrow> bytes"
  parse_RFC3339 :: "string \<Rightarrow> gotime result"

abbreviation sha :: "wire \<Rightarrow> bytes \<Rightarrow> string" where
  "sha cx \<equiv> sha256_hex (w_crypto cx)"

text \<open>
  A verifier (\<^verbatim>\<open>signing.Verifier\<close>): its answer may depend on when it is asked, so it is a
  function of the counter of the world.
\<close>

type_synonym verifier = "nat \<Rightarrow> SignedEnvelope \<Rightarrow> VerificationResult result"

text \<open>The verifier a \<^verbatim>\<open>DevLocalSigner\<close> is; \<open>clk1\<close> and \<open>clk2\<close> are the two clock readings of \<^verbatim>\<open>Verify\<close>.\<close>

definition signer_verifier :: "crypto \<Rightarrow> DevLocalSigner \<Rightarrow> (nat \<Rightarrow> gotime) \<Rightarrow> (nat \<Rightarrow> gotime) \<Rightarrow> verifier" where
  "signer_verifier cr s clk1 clk2 n e = Inr (Verify cr s e (clk1 n) (clk2 n))"

end
