(* ===== verification/Action_State.thy ===== *)
theory Action_State
  imports Wire
begin

text \<open>
  The records the KLIQ keeps between restarts (\<^verbatim>\<open>internal/kliq/actionstate/types.go\<close>): the cached
  bundle, leases on runtime actions, their journal, the audit spool, decisions, the active
  assignment with its artifacts, and the credential. The checks of \<^verbatim>\<open>Validate\<close> range over a Go
  map, whose order is not specified; the model reports the first missing field in the order
  of the source, which matters for the message only.
\<close>

definition ErrNotFound :: error where
  "ErrNotFound = Sentinel ''kliq state record not found''"

record BundleRecord =
  br_BundleID :: string
  br_PolicyID :: string
  br_SourceCommit :: string
  br_CorrelationID :: string
  br_KeyID :: string
  br_PayloadSHA256 :: string
  br_BundleSource :: string
  br_EnvelopeJSON :: bytes
  br_ExpiresAt :: gotime
  br_VerifiedAt :: gotime

record AssignmentArtifactRecord =
  ar_KLIQID :: string
  ar_AssignmentID :: string
  ar_AssignmentVersion :: int
  ar_ArtifactType :: string
  ar_ArtifactID :: string
  ar_ArtifactRef :: string
  ar_SHA256 :: string
  ar_EnvelopeJSON :: bytes
  ar_ActivationStatus :: string
  ar_ActivationMessage :: string
  ar_ActivatedAt :: gotime

record ActiveArtifactRecord =
  act_KLIQID :: string
  act_ArtifactType :: string
  act_ArtifactID :: string
  act_SHA256 :: string
  act_PayloadJSON :: bytes
  act_ActivatedAt :: gotime

record KLIQManagementState =
  ms_KLIQID :: string
  ms_ActiveAssignmentID :: string
  ms_ActiveAssignmentVersion :: int
  ms_ActiveAssignmentSourceCommit :: string
  ms_ActiveAssignmentDigest :: string
  ms_ActiveAssignmentExpiresAt :: gotime
  ms_ActiveAssignmentActivatedAt :: gotime

record KLIQCredential =
  kc_KLIQID :: string
  kc_NodeID :: string
  kc_Environment :: string
  kc_Stage :: string
  kc_Scope :: string
  kc_TrustKeyID :: string
  kc_AssignmentURL :: string
  kc_PublicKeyPEM :: string
  kc_PrivateKeyPEM :: string
  kc_ServiceIdentityProvider :: string
  kc_SPIFFEID :: string
  kc_CredentialStatus :: string
  kc_ServiceToken :: string
  kc_ServiceTokenExpiresAt :: gotime
  kc_CreatedAt :: gotime
  kc_UpdatedAt :: gotime

record LocalTrustBundleRecord =
  lt_KeyID :: string
  lt_Bundle :: TrustBundle
  lt_PersistedAt :: gotime

record RuntimeActionLease =
  ls_RuntimeActionID :: string
  ls_PlanID :: string
  ls_DecisionID :: string
  ls_PolicyID :: string
  ls_BundleID :: string
  ls_SourceCommit :: string
  ls_CorrelationID :: string
  ls_ActionType :: string
  ls_TargetScope :: string
  ls_TargetKey :: string
  ls_TTL :: string
  ls_ExpiresAt :: gotime
  ls_Reason :: string
  ls_AuditID :: string
  ls_CapabilityGrantID :: string
  ls_BindingID :: string
  ls_BindingDigest :: string
  ls_AdapterManifestDigest :: string
  ls_ActionDigest :: string
  ls_AdapterID :: string
  ls_CapabilityID :: string
  ls_Mode :: string
  ls_Required :: bool
  ls_IdempotencyKey :: string
  ls_CreatedAt :: gotime
  ls_LastReconciledAt :: gotime
  ls_Status :: RuntimeActionStatus

record RuntimeActionSelector =
  sel_RuntimeActionID :: string
  sel_IdempotencyKey :: string
  sel_AdapterID :: string
  sel_CapabilityID :: string
  sel_ActionType :: string
  sel_TargetScope :: string
  sel_TargetKey :: string

definition Selector :: "RuntimeActionLease \<Rightarrow> RuntimeActionSelector" where
  "Selector l =
     \<lparr>sel_RuntimeActionID = ls_RuntimeActionID l, sel_IdempotencyKey = ls_IdempotencyKey l,
      sel_AdapterID = ls_AdapterID l, sel_CapabilityID = ls_CapabilityID l,
      sel_ActionType = ls_ActionType l, sel_TargetScope = ls_TargetScope l, sel_TargetKey = ls_TargetKey l\<rparr>"

definition selector_Valid :: "RuntimeActionSelector \<Rightarrow> bool" where
  "selector_Valid s \<longleftrightarrow>
     sel_RuntimeActionID s \<noteq> [] \<and> sel_IdempotencyKey s \<noteq> [] \<and> sel_AdapterID s \<noteq> [] \<and>
     sel_CapabilityID s \<noteq> [] \<and> sel_ActionType s \<noteq> [] \<and> sel_TargetScope s \<noteq> [] \<and> sel_TargetKey s \<noteq> []"

definition lease_required :: "RuntimeActionLease \<Rightarrow> (string \<times> string) list" where
  "lease_required l =
     [(''runtime_action_id'', ls_RuntimeActionID l), (''plan_id'', ls_PlanID l),
      (''decision_id'', ls_DecisionID l), (''policy_id'', ls_PolicyID l), (''bundle_id'', ls_BundleID l),
      (''source_commit'', ls_SourceCommit l), (''adapter_id'', ls_AdapterID l),
      (''capability_id'', ls_CapabilityID l), (''mode'', ls_Mode l), (''action_type'', ls_ActionType l),
      (''target_scope'', ls_TargetScope l), (''target_key'', ls_TargetKey l), (''ttl'', ls_TTL l),
      (''reason'', ls_Reason l), (''audit_id'', ls_AuditID l),
      (''capability_grant_id'', ls_CapabilityGrantID l), (''idempotency_key'', ls_IdempotencyKey l),
      (''status'', ls_Status l)]"

definition lease_Validate :: "RuntimeActionLease \<Rightarrow> unit result" where
  "lease_Validate l =
     check_then
       (require_fields ''runtime action lease missing required field '' (lease_required l))
       (\<lambda>_. fail_if (IsZero (ls_ExpiresAt l)) (Errorf ''runtime action lease missing required field expires_at'' [])
           (fail_if (IsZero (ls_CreatedAt l)) (Errorf ''runtime action lease missing required field created_at'' [])
           (fail_if (IsZero (ls_LastReconciledAt l))
              (Errorf ''runtime action lease missing required field last_reconciled_at'' [])
              (Inr ()))))"

record JournalEntry =
  je_ID :: string
  je_RuntimeActionID :: string
  je_Event :: string
  je_Status :: RuntimeActionStatus
  je_Message :: string
  je_CreatedAt :: gotime

record AuditRecord =
  au_ID :: string
  au_RuntimeActionID :: string
  au_BindingID :: string
  au_BindingDigest :: string
  au_AdapterManifestDigest :: string
  au_ActionDigest :: string
  au_Status :: string
  au_Payload :: bytes
  au_PayloadSHA256 :: string
  au_PreviousHash :: string
  au_RecordHash :: string
  au_CreatedAt :: gotime
  au_RetryCount :: int
  au_LastAttemptAt :: gotime
  au_UploadedAt :: gotime
  au_LastError :: string

record RuntimeDecisionRecord =
  rd_DecisionID :: string
  rd_PlanID :: string
  rd_PolicyID :: string
  rd_BundleID :: string
  rd_SourceCommit :: string
  rd_CorrelationID :: string
  rd_EventType :: string
  rd_EventID :: string
  rd_Status :: string
  rd_PayloadSHA256 :: string
  rd_CreatedAt :: gotime
  rd_ActivatedAction :: string

record RiskCacheKey =
  rk_RiskType :: string
  rk_Scope :: string

section \<open>Complete leases\<close>

lemma Selector_Valid_iff:
  "selector_Valid (Selector l) \<longleftrightarrow>
     ls_RuntimeActionID l \<noteq> [] \<and> ls_IdempotencyKey l \<noteq> [] \<and> ls_AdapterID l \<noteq> [] \<and>
     ls_CapabilityID l \<noteq> [] \<and> ls_ActionType l \<noteq> [] \<and> ls_TargetScope l \<noteq> [] \<and> ls_TargetKey l \<noteq> []"
  by (simp add: selector_Valid_def Selector_def)

lemma lease_Validate_iff [guards]:
  "lease_Validate l = Inr u \<longleftrightarrow>
     (\<forall>v \<in> set (map snd (lease_required l)). v \<noteq> []) \<and>
     \<not> IsZero (ls_ExpiresAt l) \<and> \<not> IsZero (ls_CreatedAt l) \<and> \<not> IsZero (ls_LastReconciledAt l)"
  by (simp add: lease_Validate_def)

lemma validated_selector: "lease_Validate l = Inr u \<Longrightarrow> selector_Valid (Selector l)"
  by (simp add: Selector_Valid_iff lease_Validate_iff lease_required_def)

end
