(* ===== verification/Effects.thy ===== *)
theory Effects
  imports Prelude
begin

text \<open>
  The effects of the program, as explicit state passing. An action takes the world and
  returns a result (\<open>Inl\<close> an error) and the world after it. The world holds the database
  \<open>db\<close>, the log \<open>calls\<close> of the requests sent to other processes, and a counter \<open>tick\<close>
  that every interaction with the environment advances.

  The environment is arbitrary: \<open>clock n\<close> is what reading the clock returns when the
  counter is \<open>n\<close>, and \<open>fault n\<close> says whether the database statement issued then fails
  (a lost connection, a full disk, a cancelled context) and with which message; the error
  the driver returns then is opaque to the program, never one of its own sentinels. A theorem
  about every environment therefore covers every interleaving of failures and every
  behaviour of the clock. A failed statement changes nothing, and a transaction that fails
  anywhere leaves the database as it was when it began.
\<close>

definition driver_error :: "string \<Rightarrow> error" where
  "driver_error msg = Errorf ''%s'' [msg]"

record sysenv =
  clock :: "nat \<Rightarrow> gotime"
  fault :: "nat \<Rightarrow> string option"

record ('d, 'c) world =
  db :: 'd
  calls :: "'c list"
  tick :: nat

type_synonym ('d, 'c, 'a) action = "('d, 'c) world \<Rightarrow> 'a result \<times> ('d, 'c) world"

section \<open>Sequencing\<close>

definition ret :: "'a \<Rightarrow> ('d, 'c, 'a) action" where
  "ret x w = (Inr x, w)"

definition raise :: "error \<Rightarrow> ('d, 'c, 'a) action" where
  "raise e w = (Inl e, w)"

definition lift :: "'a result \<Rightarrow> ('d, 'c, 'a) action" where
  "lift r w = (r, w)"

text \<open>\<^verbatim>\<open>x, err := m; if err != nil { return err }\<close>, then the rest.\<close>

definition bindE :: "('d, 'c, 'b) action \<Rightarrow> ('b \<Rightarrow> ('d, 'c, 'a) action) \<Rightarrow> ('d, 'c, 'a) action" where
  "bindE m k w = (case m w of (Inl e, v) \<Rightarrow> (Inl e, v) | (Inr x, v) \<Rightarrow> k x v)"

text \<open>\<^verbatim>\<open>x, err := m\<close>, then a case distinction on \<^verbatim>\<open>err\<close>.\<close>

definition tryE :: "('d, 'c, 'b) action \<Rightarrow> ('b result \<Rightarrow> ('d, 'c, 'a) action) \<Rightarrow> ('d, 'c, 'a) action" where
  "tryE m k w = (case m w of (r, v) \<Rightarrow> k r v)"

text \<open>\<^verbatim>\<open>_ = m\<close>: the effect of \<open>m\<close>, its error dropped.\<close>

definition ignoreE :: "('d, 'c, 'b) action \<Rightarrow> ('d, 'c, unit) action" where
  "ignoreE m w = (Inr (), snd (m w))"

text \<open>\<^verbatim>\<open>if bad { return err }\<close>, then the rest.\<close>

definition guardE :: "bool \<Rightarrow> error \<Rightarrow> ('d, 'c, 'a) action \<Rightarrow> ('d, 'c, 'a) action" where
  "guardE bad e m = (if bad then raise e else m)"

fun for_eachE :: "('b \<Rightarrow> ('d, 'c, unit) action) \<Rightarrow> 'b list \<Rightarrow> ('d, 'c, unit) action" where
  "for_eachE f [] = ret ()"
| "for_eachE f (x # xs) = bindE (f x) (\<lambda>_. for_eachE f xs)"

text \<open>A loop that carries a value.\<close>

fun foldE :: "('b \<Rightarrow> 's \<Rightarrow> ('d, 'c, 's) action) \<Rightarrow> 'b list \<Rightarrow> 's \<Rightarrow> ('d, 'c, 's) action" where
  "foldE f [] s = ret s"
| "foldE f (x # xs) s = bindE (f x s) (foldE f xs)"

text \<open>An action whose value is dropped, its error kept.\<close>

definition finish :: "('d, 'c, 'a) action \<Rightarrow> ('d, 'c, unit) action" where
  "finish m = bindE m (\<lambda>_. ret ())"

text \<open>The world after a sequence of operations, whatever each of them returned.\<close>

fun after :: "('op \<Rightarrow> ('d, 'c, unit) action) \<Rightarrow> 'op list \<Rightarrow> ('d, 'c) world \<Rightarrow> ('d, 'c) world" where
  "after run [] w = w"
| "after run (op # ops) w = after run ops (snd (run op w))"

section \<open>The clock and the database\<close>

definition read_clock :: "'e sysenv_scheme \<Rightarrow> ('d, 'c, gotime) action" where
  "read_clock env w = (Inr (clock env (tick w)), w\<lparr>tick := Suc (tick w)\<rparr>)"

text \<open>
  One statement sent to the database: it may fail because of the environment, or because
  the database refuses it (a constraint), and otherwise returns a value and the new tables.
\<close>

definition statement :: "'e sysenv_scheme \<Rightarrow> ('d \<Rightarrow> ('a \<times> 'd) result) \<Rightarrow> ('d, 'c, 'a) action" where
  "statement env f w =
     (case fault env (tick w) of
        Some msg \<Rightarrow> (Inl (driver_error msg), w\<lparr>tick := Suc (tick w)\<rparr>)
      | None \<Rightarrow> (case f (db w) of
                  Inl e \<Rightarrow> (Inl e, w\<lparr>tick := Suc (tick w)\<rparr>)
                | Inr (x, d) \<Rightarrow> (Inr x, w\<lparr>db := d, tick := Suc (tick w)\<rparr>)))"

definition query :: "'e sysenv_scheme \<Rightarrow> ('d \<Rightarrow> 'a result) \<Rightarrow> ('d, 'c, 'a) action" where
  "query env f = statement env (\<lambda>d. map_sum id (\<lambda>x. (x, d)) (f d))"

definition execute :: "'e sysenv_scheme \<Rightarrow> ('d \<Rightarrow> 'd result) \<Rightarrow> ('d, 'c, unit) action" where
  "execute env f = statement env (\<lambda>d. map_sum id (\<lambda>d'. ((), d')) (f d))"

text \<open>
  \<^verbatim>\<open>BeginTx\<close>, the statements, \<^verbatim>\<open>Commit\<close>, with \<^verbatim>\<open>defer tx.Rollback()\<close>: an error on the way
  (of the commit too) leaves the tables as they were.
\<close>

definition transaction :: "'e sysenv_scheme \<Rightarrow> ('d, 'c, 'a) action \<Rightarrow> ('d, 'c, 'a) action" where
  "transaction env body w =
     (case bindE (execute env Inr) (\<lambda>_. bindE body (\<lambda>x. bindE (execute env Inr) (\<lambda>_. ret x))) w of
        (Inl e, v) \<Rightarrow> (Inl e, v\<lparr>db := db w\<rparr>)
      | (Inr x, v) \<Rightarrow> (Inr x, v))"

text \<open>A question to another process, and a request to one, which the log records.\<close>

definition ask :: "(nat \<Rightarrow> 'a result) \<Rightarrow> ('d, 'c, 'a) action" where
  "ask f w = (f (tick w), w\<lparr>tick := Suc (tick w)\<rparr>)"

definition request :: "'c \<Rightarrow> (nat \<Rightarrow> 'a result) \<Rightarrow> ('d, 'c, 'a) action" where
  "request c f w = (f (tick w), w\<lparr>calls := calls w @ [c], tick := Suc (tick w)\<rparr>)"

section \<open>How actions run\<close>

lemma db_same [simp]: "(w :: ('d, 'c) world)\<lparr>db := db w\<rparr> = w"
  by (cases w) simp

lemma ret_eq [simp]: "ret x w = (r, w') \<longleftrightarrow> r = Inr x \<and> w' = w"
  by (auto simp: ret_def)

lemma raise_eq [simp]: "raise e w = (r, w') \<longleftrightarrow> r = Inl e \<and> w' = w"
  by (auto simp: raise_def)

lemma lift_eq [simp]: "lift r w = (r', w') \<longleftrightarrow> r = r' \<and> w' = w"
  by (auto simp: lift_def)

lemma bindE_Inr [runs]:
  "bindE m k w = (Inr y, w') \<longleftrightarrow> (\<exists>x v. m w = (Inr x, v) \<and> k x v = (Inr y, w'))"
  by (auto simp: bindE_def split: prod.splits sum.splits)

lemma bindE_Inl:
  "bindE m k w = (Inl e, w') \<longleftrightarrow> m w = (Inl e, w') \<or> (\<exists>x v. m w = (Inr x, v) \<and> k x v = (Inl e, w'))"
  by (auto simp: bindE_def split: prod.splits sum.splits)

lemma tryE_eq [runs]:
  "tryE m k w = (r, w') \<longleftrightarrow> (\<exists>s v. m w = (s, v) \<and> k s v = (r, w'))"
  by (auto simp: tryE_def split: prod.splits)

lemma bindE_InrE:
  assumes "bindE m k w = (Inr y, w')"
  obtains x v where "m w = (Inr x, v)" "k x v = (Inr y, w')"
  using assms by (auto simp: bindE_Inr)

lemma tryE_E:
  assumes "tryE m k w = (r, w')"
  obtains s v where "m w = (s, v)" "k s v = (r, w')"
  using assms by (auto simp: tryE_eq)

lemma ignoreE_eq [runs]:
  "ignoreE m w = (r, w') \<longleftrightarrow> r = Inr () \<and> (\<exists>s. m w = (s, w'))"
  by (cases "m w") (auto simp: ignoreE_def)

lemma guardE_Inr [runs]: "guardE b e m w = (Inr x, w') \<longleftrightarrow> \<not> b \<and> m w = (Inr x, w')"
  by (simp add: guardE_def)

lemma guardE_simps [simp]: "guardE True e m = raise e" "guardE False e m = m"
  by (simp_all add: guardE_def)

lemma read_clock_Inr [runs]:
  "read_clock env w = (Inr t, w') \<longleftrightarrow> t = clock env (tick w) \<and> w' = w\<lparr>tick := Suc (tick w)\<rparr>"
  by (auto simp: read_clock_def)

lemma read_clock_not_Inl [simp]: "read_clock env w \<noteq> (Inl e, w')"
  by (simp add: read_clock_def)

lemma ask_eq [runs]: "ask f w = (r, w') \<longleftrightarrow> f (tick w) = r \<and> w' = w\<lparr>tick := Suc (tick w)\<rparr>"
  by (auto simp: ask_def)

lemma request_eq [runs]:
  "request c f w = (r, w') \<longleftrightarrow> f (tick w) = r \<and> w' = w\<lparr>calls := calls w @ [c], tick := Suc (tick w)\<rparr>"
  by (auto simp: request_def)

lemma statement_Inr [runs]:
  "statement env f w = (Inr x, w') \<longleftrightarrow>
     fault env (tick w) = None \<and> (\<exists>d. f (db w) = Inr (x, d) \<and> w' = w\<lparr>db := d, tick := Suc (tick w)\<rparr>)"
  by (auto simp: statement_def split: option.splits sum.splits)

lemma statement_Inl:
  "statement env f w = (Inl e, w') \<longleftrightarrow>
     ((\<exists>msg. fault env (tick w) = Some msg \<and> e = driver_error msg) \<or> fault env (tick w) = None \<and> f (db w) = Inl e) \<and>
     w' = w\<lparr>tick := Suc (tick w)\<rparr>"
  by (auto simp: statement_def split: option.splits sum.splits)

lemma query_Inr [runs]:
  "query env f w = (Inr x, w') \<longleftrightarrow>
     fault env (tick w) = None \<and> f (db w) = Inr x \<and> w' = w\<lparr>tick := Suc (tick w)\<rparr>"
  by (cases "f (db w)") (auto simp: query_def statement_Inr)

lemma query_Inl:
  "query env f w = (Inl e, w') \<longleftrightarrow>
     ((\<exists>msg. fault env (tick w) = Some msg \<and> e = driver_error msg) \<or> fault env (tick w) = None \<and> f (db w) = Inl e) \<and>
     w' = w\<lparr>tick := Suc (tick w)\<rparr>"
  by (cases "f (db w)") (auto simp: query_def statement_Inl)

lemma execute_Inr [runs]:
  "execute env f w = (Inr u, w') \<longleftrightarrow>
     fault env (tick w) = None \<and> (\<exists>d. f (db w) = Inr d \<and> w' = w\<lparr>db := d, tick := Suc (tick w)\<rparr>)"
  by (cases "f (db w)") (auto simp: execute_def statement_Inr)

lemma execute_Inl:
  "execute env f w = (Inl e, w') \<longleftrightarrow>
     ((\<exists>msg. fault env (tick w) = Some msg \<and> e = driver_error msg) \<or> fault env (tick w) = None \<and> f (db w) = Inl e) \<and>
     w' = w\<lparr>tick := Suc (tick w)\<rparr>"
  by (cases "f (db w)") (auto simp: execute_def statement_Inl)

text \<open>
  Two ways to take a run apart: \<open>runs\<close> rewrites it to a formula, \<open>steps\<close> with the elimination
  rules \<open>step_elims\<close> leaves the intermediate results as variables, which suits case distinctions
  in the continuation.
\<close>

lemmas steps = guardE_Inr ignoreE_eq read_clock_Inr ask_eq request_eq query_Inr execute_Inr
lemmas step_elims = bindE_InrE tryE_E

lemma transaction_Inl: "transaction env m w = (Inl e, w') \<Longrightarrow> db w' = db w"
  by (auto simp: transaction_def split: prod.splits sum.splits)

lemma transaction_Inr:
  "transaction env m w = (Inr x, w') \<Longrightarrow>
     \<exists>v. m (w\<lparr>tick := Suc (tick w)\<rparr>) = (Inr x, v) \<and> w' = v\<lparr>tick := Suc (tick v)\<rparr>"
  by (auto simp: transaction_def runs split: prod.splits sum.splits)

lemma for_eachE_cong_Inr:
  "for_eachE f xs w = (Inr u, w') \<Longrightarrow> x \<in> set xs \<Longrightarrow> \<exists>v v'. f x v = (Inr (), v')"
  by (induction xs arbitrary: w) (auto simp: runs)

lemma bindE_E:
  assumes "bindE m k w = (r, w')"
  obtains e where "m w = (Inl e, w')" "r = Inl e" | x v where "m w = (Inr x, v)" "k x v = (r, w')"
  using assms by (auto simp: bindE_def split: prod.splits sum.splits)

lemma guardE_E:
  assumes "guardE c e m w = (r, w')"
  obtains "c" "r = Inl e" "w' = w" | "\<not> c" "m w = (r, w')"
  using assms by (auto simp: guardE_def raise_def split: if_splits)

lemma lift_E:
  assumes "bindE (lift x) k w = (r, w')"
  obtains e where "x = Inl e" "r = Inl e" "w' = w" | y where "x = Inr y" "k y w = (r, w')"
  using assms by (cases x) (auto simp: bindE_def lift_def)

section \<open>What an action keeps\<close>

text \<open>\<open>keeps_inv I m\<close>: whatever the action returns, an error too, it keeps \<open>I\<close>.\<close>

definition keeps_inv :: "(('d, 'c) world \<Rightarrow> bool) \<Rightarrow> ('d, 'c, 'a) action \<Rightarrow> bool" where
  "keeps_inv I m \<longleftrightarrow> (\<forall>w. I w \<longrightarrow> I (snd (m w)))"

lemma keeps_invI: "(\<And>w r w'. I w \<Longrightarrow> m w = (r, w') \<Longrightarrow> I w') \<Longrightarrow> keeps_inv I m"
  by (simp add: keeps_inv_def) (metis prod.collapse)

lemma keeps_invD: "keeps_inv I m \<Longrightarrow> I w \<Longrightarrow> m w = (r, w') \<Longrightarrow> I w'"
  by (metis keeps_inv_def snd_conv)

lemma keeps_ret [keeps]: "keeps_inv I (ret x)"
  by (simp add: keeps_inv_def ret_def)

lemma keeps_raise [keeps]: "keeps_inv I (raise e)"
  by (simp add: keeps_inv_def raise_def)

lemma keeps_lift [keeps]: "keeps_inv I (lift r)"
  by (simp add: keeps_inv_def lift_def)

lemma keeps_bindE [keeps]: "keeps_inv I m \<Longrightarrow> (\<And>x. keeps_inv I (k x)) \<Longrightarrow> keeps_inv I (bindE m k)"
  by (fastforce simp: keeps_inv_def bindE_def split: prod.splits sum.splits)

lemma keeps_bindE_read:
  assumes "keeps_inv I m" and "\<And>w x w'. I w \<Longrightarrow> m w = (Inr x, w') \<Longrightarrow> P x" and "\<And>x. P x \<Longrightarrow> keeps_inv I (k x)"
  shows "keeps_inv I (bindE m k)"
proof (rule keeps_invI)
  fix w r w'
  assume w: "I w" and run: "bindE m k w = (r, w')"
  from run show "I w'"
  proof (cases rule: bindE_E)
    case 1
    with keeps_invD [OF assms(1) w] show ?thesis by blast
  next
    case (2 x v)
    from keeps_invD [OF assms(3) _ 2(2)] keeps_invD [OF assms(1) w 2(1)] assms(2) [OF w 2(1)] show ?thesis by blast
  qed
qed

lemma keeps_finish: "keeps_inv I m \<Longrightarrow> keeps_inv I (finish m)"
  unfolding finish_def by (intro keeps)

lemma keeps_tryE [keeps]: "keeps_inv I m \<Longrightarrow> (\<And>r. keeps_inv I (k r)) \<Longrightarrow> keeps_inv I (tryE m k)"
  by (fastforce simp: keeps_inv_def tryE_def split: prod.splits)

lemma keeps_ignoreE [keeps]: "keeps_inv I m \<Longrightarrow> keeps_inv I (ignoreE m)"
  by (simp add: keeps_inv_def ignoreE_def)

lemma keeps_guardE [keeps]: "keeps_inv I m \<Longrightarrow> keeps_inv I (guardE b e m)"
  by (simp add: guardE_def keeps_raise)

lemma keeps_if [keeps]: "keeps_inv I m \<Longrightarrow> keeps_inv I n \<Longrightarrow> keeps_inv I (if b then m else n)"
  by simp

lemma keeps_case_option [keeps]:
  "keeps_inv I m \<Longrightarrow> (\<And>x. keeps_inv I (k x)) \<Longrightarrow> keeps_inv I (case v of None \<Rightarrow> m | Some x \<Rightarrow> k x)"
  by (simp split: option.split)

lemma keeps_case_sum [keeps]:
  "(\<And>e. keeps_inv I (h e)) \<Longrightarrow> (\<And>x. keeps_inv I (k x)) \<Longrightarrow> keeps_inv I (case r of Inl e \<Rightarrow> h e | Inr x \<Rightarrow> k x)"
  by (simp split: sum.split)

lemma keeps_case_prod [keeps]:
  "(\<And>x y. keeps_inv I (k x y)) \<Longrightarrow> keeps_inv I (case p of (x, y) \<Rightarrow> k x y)"
  by (simp split: prod.split)

lemma keeps_Let [keeps]: "(\<And>x. keeps_inv I (k x)) \<Longrightarrow> keeps_inv I (let x = v in k x)"
  by simp

lemma keeps_for_eachE [keeps]: "(\<And>x. keeps_inv I (f x)) \<Longrightarrow> keeps_inv I (for_eachE f xs)"
  by (induction xs) (auto intro: keeps)

lemma keeps_foldE [keeps]: "(\<And>x s. keeps_inv I (f x s)) \<Longrightarrow> keeps_inv I (foldE f xs s)"
  by (induction xs arbitrary: s) (auto intro: keeps)

text \<open>
  An invariant of the database and the call log, blind to the counter: reading the clock
  and querying keep it, a statement keeps it when its effect on the tables does, and a
  transaction keeps it when its body does.
\<close>

locale world_invariant =
  fixes I :: "('d, 'c) world \<Rightarrow> bool"
  assumes blind: "I w \<Longrightarrow> I (w\<lparr>tick := n\<rparr>)"
begin

lemma keeps_read_clock: "keeps_inv I (read_clock env)"
  by (simp add: keeps_inv_def read_clock_def blind)

lemma keeps_ask: "keeps_inv I (ask f)"
  by (simp add: keeps_inv_def ask_def blind)

lemma keeps_query: "keeps_inv I (query env f)"
proof (rule keeps_invI)
  fix w r w'
  assume "I w" and "query env f w = (r, w')"
  then show "I w'" by (cases r) (auto simp: query_Inr query_Inl blind)
qed

lemma keeps_execute:
  assumes "\<And>w d. I w \<Longrightarrow> f (db w) = Inr d \<Longrightarrow> I (w\<lparr>db := d\<rparr>)"
  shows "keeps_inv I (execute env f)"
proof (rule keeps_invI)
  fix w r w'
  assume w: "I w" and r: "execute env f w = (r, w')"
  show "I w'"
  proof (cases r)
    case Inl
    with w r show ?thesis by (simp add: execute_Inl blind)
  next
    case Inr
    with r obtain d where "f (db w) = Inr d" and w': "w' = w\<lparr>db := d, tick := Suc (tick w)\<rparr>"
      by (auto simp: execute_Inr)
    with w assms have "I (w\<lparr>db := d\<rparr>)" by blast
    from blind [OF this, of "Suc (tick w)"] w' show ?thesis by simp
  qed
qed

lemmas keeps_world = keeps_read_clock keeps_ask keeps_query

end

text \<open>
  Actions that send no request: the log is the same before and after. Everything the store
  does is of this kind, so that a transaction, which may put the tables back, leaves the
  log and the tables in step.
\<close>

definition silent :: "('d, 'c, 'a) action \<Rightarrow> bool" where
  "silent m \<longleftrightarrow> (\<forall>cs. keeps_inv (\<lambda>w. calls w = cs) m)"

interpretation log: world_invariant "\<lambda>w. calls w = cs" for cs
  by unfold_locales simp

lemma log_execute: "keeps_inv (\<lambda>w. calls w = cs) (execute env f)"
  by (rule log.keeps_execute) simp

lemmas keeps_log = keeps log.keeps_world log_execute

lemma silentD: "silent m \<Longrightarrow> m w = (r, w') \<Longrightarrow> calls w' = calls w"
  unfolding silent_def using keeps_invD by blast

text \<open>
  An invariant that a transaction keeps: putting the tables back is harmless as long as the
  log did not move.
\<close>

locale transactional = world_invariant I for I :: "('d, 'c) world \<Rightarrow> bool" +
  assumes rollback: "I w \<Longrightarrow> I v \<Longrightarrow> calls v = calls w \<Longrightarrow> I (v\<lparr>db := db w\<rparr>)"
begin

lemma keeps_transaction:
  assumes "silent m" and "keeps_inv I m"
  shows "keeps_inv I (transaction env m)"
proof (rule keeps_invI)
  fix w r w'
  assume w: "I w" and r: "transaction env m w = (r, w')"
  let ?body = "bindE (execute env Inr) (\<lambda>_. bindE m (\<lambda>x. bindE (execute env Inr) (\<lambda>_. ret x)))"
  have body: "keeps_inv I ?body"
    by (intro keeps keeps_execute assms) auto
  obtain s v where v: "?body w = (s, v)" by (cases "?body w")
  from keeps_invD [OF body w v] have "I v" .
  have quiet: "keeps_inv (\<lambda>v. calls v = calls w) ?body"
    by (intro keeps_log) (use assms(1) in \<open>simp add: silent_def\<close>)
  from keeps_invD [OF quiet _ v] have "calls v = calls w" by simp
  with \<open>I v\<close> w have "I (v\<lparr>db := db w\<rparr>)" by (intro rollback) auto
  with \<open>I v\<close> v r show "I w'" by (cases s) (auto simp: transaction_def)
qed

end

interpretation tables: world_invariant "\<lambda>w. J (db w)" for J
  by unfold_locales simp

lemma keeps_table_execute:
  "(\<And>d d'. J d \<Longrightarrow> f d = Inr d' \<Longrightarrow> J d') \<Longrightarrow> keeps_inv (\<lambda>w. J (db w)) (execute env f)"
  by (rule tables.keeps_execute) simp

text \<open>An invariant of the tables survives a transaction: a failure puts them back.\<close>

lemma keeps_table_transaction:
  assumes "keeps_inv (\<lambda>w. J (db w)) m"
  shows "keeps_inv (\<lambda>w. J (db w)) (transaction env m)"
proof (rule keeps_invI)
  fix w r w'
  assume w: "J (db w)" and run: "transaction env m w = (r, w')"
  show "J (db w')"
  proof (cases r)
    case (Inl e)
    have "db w' = db w" by (rule transaction_Inl [OF run [unfolded Inl]])
    with w show ?thesis by simp
  next
    case (Inr x)
    from transaction_Inr [OF run [unfolded Inr]] obtain v where
      v: "m (w\<lparr>tick := Suc (tick w)\<rparr>) = (Inr x, v)" "w' = v\<lparr>tick := Suc (tick v)\<rparr>" by (elim exE conjE)
    have "J (db v)" by (rule keeps_invD [OF assms _ v(1)]) (simp add: w)
    with v(2) show ?thesis by simp
  qed
qed

end
