(* ===== verification/GoTime.thy ===== *)
theory GoTime
  imports Prelude
begin

text \<open>
  The two functions of Go's \<^verbatim>\<open>time\<close> package whose results the program's decisions rest on:
  \<^verbatim>\<open>time.ParseDuration\<close>, which reads the TTLs of leases, grants and bundles, and the
  layout \<^verbatim>\<open>time.RFC3339Nano\<close>, in which the SQLite store writes every instant and by which
  its \<^verbatim>\<open>ORDER BY\<close> clauses compare them. Durations are integers of nanoseconds; the
  overflow checks of the parser are written out, so the result is a signed 64-bit value.
  The fractional part of a number is scaled exactly, where Go computes it in floating
  point (the two can differ by one nanosecond on fractions of more than nine digits).
\<close>

section \<open>ParseDuration\<close>

definition is_digit :: "char \<Rightarrow> bool" where
  "is_digit c \<longleftrightarrow> 48 \<le> (of_char c :: int) \<and> (of_char c :: int) \<le> 57"

definition digit_value :: "char \<Rightarrow> int" where
  "digit_value c = of_char c - 48"

fun leadingInt :: "int \<Rightarrow> string \<Rightarrow> (int \<times> string) option" where
  "leadingInt x [] = Some (x, [])"
| "leadingInt x (c # cs) =
     (if is_digit c
      then if 922337203685477580 < x then None
           else let y = x * 10 + digit_value c
                in if 9223372036854775808 < y then None else leadingInt y cs
      else Some (x, c # cs))"

fun leadingFraction :: "int \<Rightarrow> int \<Rightarrow> bool \<Rightarrow> string \<Rightarrow> int \<times> int \<times> string" where
  "leadingFraction x scale overflow [] = (x, scale, [])"
| "leadingFraction x scale overflow (c # cs) =
     (if is_digit c
      then if overflow \<or> 922337203685477580 < x then leadingFraction x scale True cs
           else let y = x * 10 + digit_value c
                in if 9223372036854775808 < y then leadingFraction x scale True cs
                   else leadingFraction y (scale * 10) False cs
      else (x, scale, c # cs))"

definition unit_nanos :: "string \<Rightarrow> int option" where
  "unit_nanos u =
     (if u = ''ns'' then Some 1
      else if u = ''us'' \<or> u = [CHR 0xC2, CHR 0xB5, CHR ''s''] \<or> u = [CHR 0xCE, CHR 0xBC, CHR ''s''] then Some 1000
      else if u = ''ms'' then Some 1000000
      else if u = ''s'' then Some 1000000000
      else if u = ''m'' then Some 60000000000
      else if u = ''h'' then Some 3600000000000
      else None)"

definition number_char :: "char \<Rightarrow> bool" where
  "number_char c \<longleftrightarrow> c = CHR ''.'' \<or> is_digit c"

text \<open>The optional fraction: its digits, their scale, whether there was a digit, the rest.\<close>

fun fraction_part :: "string \<Rightarrow> int \<times> int \<times> bool \<times> string" where
  "fraction_part [] = (0, 1, False, [])"
| "fraction_part (c # cs) =
     (if c = CHR ''.''
      then case leadingFraction 0 1 False cs of (f, scale, r) \<Rightarrow> (f, scale, length cs \<noteq> length r, r)
      else (0, 1, False, c # cs))"

text \<open>The value of one term \<open>v.f\<close> in the unit \<open>u\<close>, refused when it does not fit.\<close>

definition term_value :: "int \<Rightarrow> int \<Rightarrow> int \<Rightarrow> string \<Rightarrow> int option" where
  "term_value v f scale u =
     (case unit_nanos u of
        None \<Rightarrow> None
      | Some unit \<Rightarrow>
          if 9223372036854775808 div unit < v then None
          else if 9223372036854775808 < v * unit + f * unit div scale then None
          else Some (v * unit + f * unit div scale))"

definition duration_term :: "string \<Rightarrow> (int \<times> string) option" where
  "duration_term s =
     (if s = [] \<or> \<not> number_char (hd s) then None
      else case leadingInt 0 s of
        None \<Rightarrow> None
      | Some (v, s1) \<Rightarrow>
          (case fraction_part s1 of (f, scale, post, s2) \<Rightarrow>
             if length s = length s1 \<and> \<not> post then None
             else if takeWhile (\<lambda>d. \<not> number_char d) s2 = [] then None
             else case term_value v f scale (takeWhile (\<lambda>d. \<not> number_char d) s2) of
               None \<Rightarrow> None
             | Some n \<Rightarrow> Some (n, dropWhile (\<lambda>d. \<not> number_char d) s2)))"

lemma length_leadingInt: "leadingInt x s = Some (v, r) \<Longrightarrow> length r \<le> length s"
  by (induction x s rule: leadingInt.induct) (auto simp: Let_def split: if_splits)

lemma length_leadingFraction: "length (snd (snd (leadingFraction x sc ov s))) \<le> length s"
proof (induction s arbitrary: x sc ov)
  case (Cons c cs)
  then show ?case by (simp add: Let_def le_SucI)
qed simp

lemma length_fraction_part: "length (snd (snd (snd (fraction_part s)))) \<le> length s"
proof (cases s)
  case (Cons c cs)
  then show ?thesis
    using length_leadingFraction [of 0 1 False cs] by (auto split: prod.splits)
qed simp

lemma length_dropWhile_less: "takeWhile P xs \<noteq> [] \<Longrightarrow> length (dropWhile P xs) < length xs"
  by (cases xs) (auto simp: le_imp_less_Suc length_dropWhile_le split: if_splits)

lemma duration_term_shorter:
  assumes "duration_term s = Some (v, r)"
  shows "length r < length s"
proof -
  from assms obtain v0 s1 where s1: "leadingInt 0 s = Some (v0, s1)"
    by (auto simp: duration_term_def split: if_splits option.splits)
  obtain f sc post s2 where s2: "fraction_part s1 = (f, sc, post, s2)"
    by (metis prod_cases4)
  from assms s1 s2 have r: "r = dropWhile (\<lambda>d. \<not> number_char d) s2"
    and u: "takeWhile (\<lambda>d. \<not> number_char d) s2 \<noteq> []"
    by (auto simp: duration_term_def split: if_splits option.splits)
  have "length s2 \<le> length s1"
    using length_fraction_part [of s1] s2 by simp
  also have "\<dots> \<le> length s" using s1 by (rule length_leadingInt)
  finally show ?thesis using length_dropWhile_less [OF u] r by simp
qed

function duration_sum :: "int \<Rightarrow> string \<Rightarrow> int option" where
  "duration_sum d s =
     (if s = [] then Some d
      else case duration_term s of
        None \<Rightarrow> None
      | Some (v, rest) \<Rightarrow> if 9223372036854775808 < d + v then None else duration_sum (d + v) rest)"
  by pat_completeness auto
termination
  by (relation "measure (\<lambda>(d, s). length s)") (auto dest: duration_term_shorter)

declare duration_sum.simps [simp del]

definition ParseDuration :: "string \<Rightarrow> duration result" where
  "ParseDuration orig =
     (let signed = (orig \<noteq> [] \<and> (hd orig = CHR ''-'' \<or> hd orig = CHR ''+''));
          neg = (orig \<noteq> [] \<and> hd orig = CHR ''-'');
          s = (if signed then tl orig else orig);
          bad = Errorf ''time: invalid duration %q'' [orig]
      in if s = ''0'' then Inr 0
         else if s = [] then Inl bad
         else case duration_sum 0 s of
           None \<Rightarrow> Inl bad
         | Some d \<Rightarrow> if neg then Inr (- d)
                    else if 9223372036854775807 < d then Inl bad else Inr d)"

section \<open>Durations are 64-bit values\<close>

lemma is_digit_value: "is_digit c \<Longrightarrow> 0 \<le> digit_value c"
  by (simp add: is_digit_def digit_value_def)

lemma leadingInt_nonneg: "leadingInt x s = Some (v, r) \<Longrightarrow> 0 \<le> x \<Longrightarrow> 0 \<le> v"
  by (induction x s rule: leadingInt.induct) (auto simp: Let_def is_digit_value split: if_splits)

lemma leadingFraction_nonneg:
  "leadingFraction x sc ov s = (f, sc', r) \<Longrightarrow> 0 \<le> x \<Longrightarrow> 0 < sc \<Longrightarrow> 0 \<le> f \<and> 0 < sc'"
proof (induction x sc ov s rule: leadingFraction.induct)
  case (2 x sc ov c cs)
  then show ?case by (auto simp: Let_def is_digit_value split: if_splits)
qed simp

lemma fraction_part_nonneg: "fraction_part s = (f, sc, post, r) \<Longrightarrow> 0 \<le> f \<and> 0 < sc"
  by (cases s) (auto split: if_splits prod.splits dest: leadingFraction_nonneg)

lemma unit_nanos_pos: "unit_nanos u = Some n \<Longrightarrow> 0 < n"
  by (auto simp: unit_nanos_def split: if_splits)

lemma duration_term_bounds:
  assumes "duration_term s = Some (n, r)"
  shows "0 \<le> n \<and> n \<le> 9223372036854775808"
proof -
  from assms obtain v s1 f sc post s2 u where *: "leadingInt 0 s = Some (v, s1)"
    "fraction_part s1 = (f, sc, post, s2)" "term_value v f sc u = Some n"
    by (auto simp: duration_term_def split: if_splits option.splits prod.splits)
  from *(3) obtain unit where u: "unit_nanos u = Some unit"
    and n: "n = v * unit + f * unit div sc" "n \<le> 9223372036854775808"
    by (auto simp: term_value_def split: if_splits option.splits)
  have "0 \<le> v" "0 \<le> f" "0 < sc" "0 < unit"
    using leadingInt_nonneg [OF *(1)] fraction_part_nonneg [OF *(2)] unit_nanos_pos [OF u] by auto
  with n show ?thesis by (simp add: pos_imp_zdiv_nonneg_iff)
qed

lemma duration_sum_bounds:
  "duration_sum d s = Some d' \<Longrightarrow> 0 \<le> d \<Longrightarrow> d \<le> 9223372036854775808 \<Longrightarrow> 0 \<le> d' \<and> d' \<le> 9223372036854775808"
proof (induction d s rule: duration_sum.induct)
  case (1 d s)
  show ?case
  proof (cases "s = []")
    case True
    with "1.prems" show ?thesis by (simp add: duration_sum.simps)
  next
    case False
    with "1.prems"(1) obtain v rest where t: "duration_term s = Some (v, rest)"
      and le: "\<not> 9223372036854775808 < d + v" and r: "duration_sum (d + v) rest = Some d'"
      by (auto simp: duration_sum.simps [of d s] split: option.splits if_splits)
    have "0 \<le> d + v" using duration_term_bounds [OF t] "1.prems"(2) by simp
    from "1.IH" [OF False t refl le r this] le show ?thesis by simp
  qed
qed

lemma ParseDuration_int64:
  assumes "ParseDuration s = Inr d"
  shows "- (2 ^ 63) \<le> d \<and> d < 2 ^ 63"
proof -
  have *: "0 \<le> n \<and> n \<le> 9223372036854775808" if "duration_sum 0 t = Some n" for t n
    using duration_sum_bounds [OF that] by simp
  show ?thesis
    using assms
    by (auto simp: ParseDuration_def Let_def dest!: * split: if_splits option.splits)
qed

section \<open>RFC3339Nano\<close>

definition is_leap :: "int \<Rightarrow> bool" where
  "is_leap y \<longleftrightarrow> y mod 4 = 0 \<and> (y mod 100 \<noteq> 0 \<or> y mod 400 = 0)"

definition month_lengths :: "bool \<Rightarrow> int list" where
  "month_lengths leap = [31, if leap then 29 else 28, 31, 30, 31, 30, 31, 31, 30, 31, 30, 31]"

fun month_day :: "int \<Rightarrow> int list \<Rightarrow> int \<Rightarrow> int \<times> int" where
  "month_day m [] d = (m, d + 1)"
| "month_day m (l # ls) d = (if d < l then (m, d + 1) else month_day (m + 1) ls (d - l))"

text \<open>The civil date of the day \<open>d\<close> days after 1 January of year 1.\<close>

definition civil :: "int \<Rightarrow> int \<times> int \<times> int" where
  "civil d =
     (let n400 = d div 146097; r400 = d mod 146097;
          n100 = min 3 (r400 div 36524); r100 = r400 - n100 * 36524;
          n4 = r100 div 1461; r4 = r100 mod 1461;
          n1 = min 3 (r4 div 365); yday = r4 - n1 * 365;
          year = 400 * n400 + 100 * n100 + 4 * n4 + n1 + 1;
          (m, day) = month_day 1 (month_lengths (is_leap year)) yday
      in (year, m, day))"

definition pad :: "nat \<Rightarrow> int \<Rightarrow> string" where
  "pad n i = (let s = int_digits i in replicate (n - length s) CHR ''0'' @ s)"

definition strip_zeros :: "string \<Rightarrow> string" where
  "strip_zeros s = rev (dropWhile (\<lambda>c. c = CHR ''0'') (rev s))"

text \<open>The layout drops the trailing zeros of the fraction, and the point when nothing is left.\<close>

definition format_nanos :: "int \<Rightarrow> string" where
  "format_nanos n = (if n = 0 then [] else CHR ''.'' # strip_zeros (pad 9 n))"

definition formatTime :: "gotime \<Rightarrow> string" where
  "formatTime t =
     (let sec = t div 1000000000; days = sec div 86400; sod = sec mod 86400;
          (y, m, d) = civil days
      in pad 4 y @ ''-'' @ pad 2 m @ ''-'' @ pad 2 d @ ''T'' @
         pad 2 (sod div 3600) @ '':'' @ pad 2 (sod mod 3600 div 60) @ '':'' @ pad 2 (sod mod 60) @
         format_nanos (t mod 1000000000) @ ''Z'')"

section \<open>Duration.String\<close>

definition fraction_text :: "nat \<Rightarrow> int \<Rightarrow> string" where
  "fraction_text prec u =
     (let digits = strip_zeros (pad prec (u mod 10 ^ prec)) in if digits = [] then [] else CHR ''.'' # digits)"

definition Duration_String :: "duration \<Rightarrow> string" where
  "Duration_String d =
     (let u = \<bar>d\<bar>; s = u div 1000000000; mn = s div 60; h = mn div 60;
          text = (if u = 0 then ''0s''
                  else if u < 1000 then nat_digits u @ ''ns''
                  else if u < 1000000 then nat_digits (u div 1000) @ fraction_text 3 u @ [CHR 0xC2, CHR 0xB5, CHR ''s'']
                  else if u < 1000000000 then nat_digits (u div 1000000) @ fraction_text 6 u @ ''ms''
                  else (if h > 0 then nat_digits h @ ''h'' else []) @
                       (if mn > 0 then nat_digits (mn mod 60) @ ''m'' else []) @
                       nat_digits (s mod 60) @ fraction_text 9 u @ ''s'')
      in if d < 0 then CHR ''-'' # text else text)"

end
