(* ===== verification/SQLite_Store.thy ===== *)
theory SQLite_Store
  imports Action_State Effects GoTime
begin

text \<open>
  The KLIQ state store (\<^verbatim>\<open>internal/kliq/actionstate/sqlite.go\<close>). The database is the record \<open>sqlite\<close> of its
  tables, each the list of its rows in insertion order. For every SQL statement there is a
  function on the tables with the constraints of the schema written out (the primary keys,
  \<^verbatim>\<open>idempotency_key UNIQUE\<close> and the partial unique index \<^verbatim>\<open>runtime_action_leases_dedup\<close>), and for
  every method of \<^verbatim>\<open>SQLiteStore\<close> an action that runs its statements in the order of the code.

  A time column holds the text that \<^verbatim>\<open>formatTime\<close> writes; rows keep the instant, \<^verbatim>\<open>ORDER BY\<close>
  compares the text. A JSON column that the store writes and reads back itself keeps the
  value. The baseline tables are not part of this theory.
\<close>

record sqlite =
  bundle_cache :: "BundleRecord option"
  lease_rows :: "RuntimeActionLease list"
  journal_rows :: "JournalEntry list"
  audit_rows :: "AuditRecord list"
  decision_rows :: "RuntimeDecisionRecord list"
  management_rows :: "KLIQManagementState list"
  artifact_rows :: "AssignmentArtifactRecord list"
  active_rows :: "ActiveArtifactRecord list"
  credential_row :: "KLIQCredential option"
  trust_rows :: "LocalTrustBundleRecord list"
  risk_rows :: "(RiskCacheKey \<times> RiskContext) list"

definition empty_store :: sqlite where
  "empty_store =
     \<lparr>bundle_cache = None, lease_rows = [], journal_rows = [], audit_rows = [], decision_rows = [],
      management_rows = [], artifact_rows = [], active_rows = [], credential_row = None,
      trust_rows = [], risk_rows = []\<rparr>"

definition constraint_failed :: "string \<Rightarrow> error" where
  "constraint_failed c = Errorf ''constraint failed: %s'' [c]"

section \<open>Bundle cache\<close>

definition SaveBundle :: "'e sysenv_scheme \<Rightarrow> BundleRecord \<Rightarrow> (sqlite, 'c, unit) action" where
  "SaveBundle env r = execute env (\<lambda>d. Inr (d\<lparr>bundle_cache := Some r\<rparr>))"

definition LastBundle :: "'e sysenv_scheme \<Rightarrow> (sqlite, 'c, BundleRecord) action" where
  "LastBundle env =
     query env (\<lambda>d. case bundle_cache d of None \<Rightarrow> Inl ErrNotFound | Some r \<Rightarrow> Inr r)"

section \<open>Leases\<close>

text \<open>The statuses the dedup index and the queries for live leases list.\<close>

definition live :: "RuntimeActionLease \<Rightarrow> bool" where
  "live l \<longleftrightarrow> ls_Status l \<in>
     {''planned'', ''authorized'', ''executing'', ''active'', ''expiring'', ''unknown'', ''compensating''}"

type_synonym dedup_key = "string \<times> string \<times> string \<times> string \<times> string"

definition dedup_of :: "RuntimeActionLease \<Rightarrow> dedup_key" where
  "dedup_of l = (ls_AdapterID l, ls_CapabilityID l, ls_ActionType l, ls_TargetScope l, ls_TargetKey l)"

text \<open>The columns \<^verbatim>\<open>ON CONFLICT (runtime_action_id) DO UPDATE\<close> sets.\<close>

definition refresh :: "RuntimeActionLease \<Rightarrow> RuntimeActionLease \<Rightarrow> RuntimeActionLease" where
  "refresh l r = r\<lparr>ls_LastReconciledAt := ls_LastReconciledAt l, ls_Status := ls_Status l\<rparr>"

definition sql_upsert_lease :: "RuntimeActionLease \<Rightarrow> sqlite \<Rightarrow> sqlite result" where
  "sql_upsert_lease l d =
     (case find (\<lambda>r. ls_RuntimeActionID r = ls_RuntimeActionID l) (lease_rows d) of
        Some r \<Rightarrow>
          if live (refresh l r) \<and>
             (\<exists>s \<in> set (lease_rows d). ls_RuntimeActionID s \<noteq> ls_RuntimeActionID l \<and> live s \<and> dedup_of s = dedup_of r)
          then Inl (constraint_failed ''runtime_action_leases_dedup'')
          else Inr (d\<lparr>lease_rows := update_rows (\<lambda>s. ls_RuntimeActionID s = ls_RuntimeActionID l) (refresh l) (lease_rows d)\<rparr>)
      | None \<Rightarrow>
          if \<exists>s \<in> set (lease_rows d). ls_IdempotencyKey s = ls_IdempotencyKey l
          then Inl (constraint_failed ''idempotency_key'')
          else if live l \<and> (\<exists>s \<in> set (lease_rows d). live s \<and> dedup_of s = dedup_of l)
          then Inl (constraint_failed ''runtime_action_leases_dedup'')
          else Inr (d\<lparr>lease_rows := lease_rows d @ [l]\<rparr>))"

definition UpsertLease :: "'e sysenv_scheme \<Rightarrow> RuntimeActionLease \<Rightarrow> (sqlite, 'c, unit) action" where
  "UpsertLease env l = bindE (lift (lease_Validate l)) (\<lambda>_. execute env (sql_upsert_lease l))"

definition LeaseByDedupKey :: "'e sysenv_scheme \<Rightarrow> dedup_key \<Rightarrow> (sqlite, 'c, RuntimeActionLease) action" where
  "LeaseByDedupKey env key =
     query env (\<lambda>d. case find (\<lambda>l. dedup_of l = key \<and> live l) (lease_rows d) of
                      None \<Rightarrow> Inl ErrNotFound | Some l \<Rightarrow> Inr l)"

definition LeaseByID :: "'e sysenv_scheme \<Rightarrow> string \<Rightarrow> (sqlite, 'c, RuntimeActionLease) action" where
  "LeaseByID env key =
     query env (\<lambda>d. case find (\<lambda>l. ls_RuntimeActionID l = key) (lease_rows d) of
                      None \<Rightarrow> Inl ErrNotFound | Some l \<Rightarrow> Inr l)"

definition ActiveLeases :: "'e sysenv_scheme \<Rightarrow> (sqlite, 'c, RuntimeActionLease list) action" where
  "ActiveLeases env =
     query env (\<lambda>d. Inr (sort_key (\<lambda>l. formatTime (ls_CreatedAt l)) (filter live (lease_rows d))))"

definition AllLeases :: "'e sysenv_scheme \<Rightarrow> (sqlite, 'c, RuntimeActionLease list) action" where
  "AllLeases env = query env (\<lambda>d. Inr (sort_key (\<lambda>l. formatTime (ls_CreatedAt l)) (lease_rows d)))"

definition sql_expire_lease :: "string \<Rightarrow> gotime \<Rightarrow> sqlite \<Rightarrow> sqlite" where
  "sql_expire_lease key t d =
     d\<lparr>lease_rows := update_rows (\<lambda>l. ls_RuntimeActionID l = key)
        (\<lambda>l. l\<lparr>ls_Status := RuntimeActionExpired, ls_LastReconciledAt := t\<rparr>) (lease_rows d)\<rparr>"

definition ExpireLease :: "'e sysenv_scheme \<Rightarrow> string \<Rightarrow> gotime \<Rightarrow> (sqlite, 'c, unit) action" where
  "ExpireLease env key t = execute env (\<lambda>d. Inr (sql_expire_lease key t d))"

section \<open>Journal\<close>

definition sql_insert_journal :: "JournalEntry \<Rightarrow> sqlite \<Rightarrow> sqlite result" where
  "sql_insert_journal e d =
     (if \<exists>r \<in> set (journal_rows d). je_ID r = je_ID e then Inl (constraint_failed ''runtime_action_journal.id'')
      else Inr (d\<lparr>journal_rows := journal_rows d @ [e]\<rparr>))"

definition AppendJournal :: "'e sysenv_scheme \<Rightarrow> JournalEntry \<Rightarrow> (sqlite, 'c, unit) action" where
  "AppendJournal env e = execute env (sql_insert_journal e)"

definition JournalEntries :: "'e sysenv_scheme \<Rightarrow> string \<Rightarrow> (sqlite, 'c, JournalEntry list) action" where
  "JournalEntries env key =
     query env (\<lambda>d. Inr (sort_key (\<lambda>e. formatTime (je_CreatedAt e))
                           (filter (\<lambda>e. je_RuntimeActionID e = key) (journal_rows d))))"

section \<open>Audit spool\<close>

definition join_nul :: "string list \<Rightarrow> string" where
  "join_nul xs = concat (case xs of [] \<Rightarrow> [] | y # ys \<Rightarrow> y # map (\<lambda>z. NUL @ z) ys)"

definition auditRecordHash :: "wire \<Rightarrow> AuditRecord \<Rightarrow> string" where
  "auditRecordHash cx r =
     ''sha256:'' @ sha cx (join_nul
       [au_PreviousHash r, au_ID r, au_RuntimeActionID r, au_BindingID r, au_BindingDigest r,
        au_AdapterManifestDigest r, au_ActionDigest r, au_Status r, au_PayloadSHA256 r,
        formatTime (au_CreatedAt r)])"

text \<open>\<^verbatim>\<open>ORDER BY created_at DESC, id DESC LIMIT 1\<close>: the greatest row in that order.\<close>

definition audit_order :: "AuditRecord \<Rightarrow> string \<times> string" where
  "audit_order r = (formatTime (au_CreatedAt r), au_ID r)"

definition audit_before :: "AuditRecord \<Rightarrow> AuditRecord \<Rightarrow> bool" where
  "audit_before r s \<longleftrightarrow>
     fst (audit_order r) < fst (audit_order s) \<or>
     fst (audit_order r) = fst (audit_order s) \<and> snd (audit_order r) < snd (audit_order s)"

fun latest_audit :: "AuditRecord list \<Rightarrow> AuditRecord option" where
  "latest_audit [] = None"
| "latest_audit (r # rs) =
     (case latest_audit rs of
        None \<Rightarrow> Some r
      | Some s \<Rightarrow> if audit_before r s then Some s else Some r)"

definition latestAuditRecordHash :: "'e sysenv_scheme \<Rightarrow> (sqlite, 'c, string) action" where
  "latestAuditRecordHash env =
     query env (\<lambda>d. Inr (case latest_audit (filter (\<lambda>r. au_RecordHash r \<noteq> []) (audit_rows d)) of
                           None \<Rightarrow> [] | Some r \<Rightarrow> au_RecordHash r))"

definition sql_insert_audit :: "AuditRecord \<Rightarrow> sqlite \<Rightarrow> sqlite result" where
  "sql_insert_audit r d =
     (if \<exists>s \<in> set (audit_rows d). au_ID s = au_ID r then Inl (constraint_failed ''audit_spool.id'')
      else Inr (d\<lparr>audit_rows := audit_rows d @ [r]\<rparr>))"

definition audit_payload_hash :: "wire \<Rightarrow> AuditRecord \<Rightarrow> AuditRecord" where
  "audit_payload_hash cx r =
     (if blank (au_PayloadSHA256 r) then r\<lparr>au_PayloadSHA256 := SHA256JSON (sha cx) (au_Payload r)\<rparr> else r)"

definition audit_created :: "'e sysenv_scheme \<Rightarrow> AuditRecord \<Rightarrow> (sqlite, 'c, AuditRecord) action" where
  "audit_created env r =
     (if IsZero (au_CreatedAt r) then bindE (read_clock env) (\<lambda>now. ret (r\<lparr>au_CreatedAt := now\<rparr>)) else ret r)"

definition audit_previous :: "'e sysenv_scheme \<Rightarrow> AuditRecord \<Rightarrow> (sqlite, 'c, AuditRecord) action" where
  "audit_previous env r =
     (if au_PreviousHash r = [] then bindE (latestAuditRecordHash env) (\<lambda>h. ret (r\<lparr>au_PreviousHash := h\<rparr>)) else ret r)"

definition audit_hashed :: "wire \<Rightarrow> AuditRecord \<Rightarrow> AuditRecord" where
  "audit_hashed cx r = (if au_RecordHash r = [] then r\<lparr>au_RecordHash := auditRecordHash cx r\<rparr> else r)"

definition AppendAudit :: "wire \<Rightarrow> 'e sysenv_scheme \<Rightarrow> AuditRecord \<Rightarrow> (sqlite, 'c, unit) action" where
  "AppendAudit cx env record =
     (let r = audit_payload_hash cx record in
      tryE (query env (\<lambda>d. case find (\<lambda>s. au_ID s = au_ID r) (audit_rows d) of
                             None \<Rightarrow> Inl ErrNotFound | Some s \<Rightarrow> Inr (au_PayloadSHA256 s)))
        (\<lambda>found. case found of
           Inr existingHash \<Rightarrow>
             if existingHash = au_PayloadSHA256 r then ret ()
             else raise (Errorf ''audit spool record %q already exists with different payload hash'' [au_ID r])
         | Inl err \<Rightarrow>
             guardE (err \<noteq> ErrNotFound) err
               (bindE (audit_created env r) (\<lambda>r.
                bindE (audit_previous env r) (\<lambda>r.
                execute env (sql_insert_audit (audit_hashed cx r)))))))"

text \<open>
  \<^verbatim>\<open>PendingAudits\<close> fills in a missing digest and a missing record hash. It does so before it sets
  \<^verbatim>\<open>CreatedAt\<close>, so a hash it fills in is computed with the zero time.
\<close>

definition pending_view :: "wire \<Rightarrow> AuditRecord \<Rightarrow> AuditRecord" where
  "pending_view cx row =
     (let r = (if au_PayloadSHA256 row = [] then row\<lparr>au_PayloadSHA256 := SHA256JSON (sha cx) (au_Payload row)\<rparr> else row);
          unset = r\<lparr>au_CreatedAt := 0, au_LastAttemptAt := 0, au_UploadedAt := 0\<rparr>
      in if au_RecordHash r = [] then r\<lparr>au_RecordHash := auditRecordHash cx unset\<rparr> else r)"

definition PendingAudits :: "wire \<Rightarrow> 'e sysenv_scheme \<Rightarrow> (sqlite, 'c, AuditRecord list) action" where
  "PendingAudits cx env =
     query env (\<lambda>d. Inr (map (pending_view cx) (sort_key (\<lambda>r. formatTime (au_CreatedAt r))
                           (filter (\<lambda>r. au_Status r = ''pending_upload'') (audit_rows d)))))"

definition sql_audit_uploaded :: "string \<Rightarrow> gotime \<Rightarrow> sqlite \<Rightarrow> sqlite" where
  "sql_audit_uploaded key t d =
     d\<lparr>audit_rows := update_rows (\<lambda>r. au_ID r = key)
        (\<lambda>r. r\<lparr>au_Status := ''uploaded'', au_UploadedAt := t, au_LastAttemptAt := t, au_LastError := []\<rparr>)
        (audit_rows d)\<rparr>"

definition MarkAuditUploaded :: "'e sysenv_scheme \<Rightarrow> string \<Rightarrow> gotime \<Rightarrow> (sqlite, 'c, unit) action" where
  "MarkAuditUploaded env key t = execute env (\<lambda>d. Inr (sql_audit_uploaded key t d))"

definition sql_audit_failed :: "string \<Rightarrow> gotime \<Rightarrow> string \<Rightarrow> sqlite \<Rightarrow> sqlite" where
  "sql_audit_failed key t msg d =
     d\<lparr>audit_rows := update_rows (\<lambda>r. au_ID r = key)
        (\<lambda>r. r\<lparr>au_Status := ''pending_upload'', au_RetryCount := au_RetryCount r + 1,
              au_LastAttemptAt := t, au_LastError := msg\<rparr>)
        (audit_rows d)\<rparr>"

definition MarkAuditFailed :: "'e sysenv_scheme \<Rightarrow> string \<Rightarrow> gotime \<Rightarrow> string \<Rightarrow> (sqlite, 'c, unit) action" where
  "MarkAuditFailed env key t msg = execute env (\<lambda>d. Inr (sql_audit_failed key t msg d))"

section \<open>Decisions\<close>

definition decision_required :: "RuntimeDecisionRecord \<Rightarrow> (string \<times> string) list" where
  "decision_required r =
     [(''decision_id'', rd_DecisionID r), (''plan_id'', rd_PlanID r), (''policy_id'', rd_PolicyID r),
      (''bundle_id'', rd_BundleID r), (''source_commit'', rd_SourceCommit r), (''status'', rd_Status r),
      (''payload_sha256'', rd_PayloadSHA256 r)]"

definition sql_upsert_decision :: "RuntimeDecisionRecord \<Rightarrow> sqlite \<Rightarrow> sqlite" where
  "sql_upsert_decision r d = d\<lparr>decision_rows := upsert_row rd_DecisionID r (decision_rows d)\<rparr>"

definition AppendRuntimeDecision :: "'e sysenv_scheme \<Rightarrow> RuntimeDecisionRecord \<Rightarrow> (sqlite, 'c, unit) action" where
  "AppendRuntimeDecision env record =
     bindE (lift (require_fields ''runtime decision record requires '' (decision_required record))) (\<lambda>_.
     bindE (if IsZero (rd_CreatedAt record)
            then bindE (read_clock env) (\<lambda>now. ret (record\<lparr>rd_CreatedAt := now\<rparr>)) else ret record) (\<lambda>r.
     execute env (\<lambda>d. Inr (sql_upsert_decision r d))))"

text \<open>\<^verbatim>\<open>ORDER BY created_at DESC LIMIT n\<close>.\<close>

definition RuntimeDecisions :: "'e sysenv_scheme \<Rightarrow> int \<Rightarrow> (sqlite, 'c, RuntimeDecisionRecord list) action" where
  "RuntimeDecisions env limit =
     query env (\<lambda>d. Inr (take (nat (if limit \<le> 0 then 100 else limit))
                           (rev (sort_key (\<lambda>r. formatTime (rd_CreatedAt r)) (decision_rows d)))))"

end
