(* ===== verification/SQLite_Managed.thy ===== *)
theory SQLite_Managed
  imports SQLite_Store
begin

text \<open>
  The rest of the KLIQ state store: the active assignment with its artifacts, saved in one
  transaction with the bundle, the credential, the local trust bundles and the risk cache.
\<close>

section \<open>Local trust bundles\<close>

definition sql_upsert_trust :: "LocalTrustBundleRecord \<Rightarrow> sqlite \<Rightarrow> sqlite" where
  "sql_upsert_trust r d = d\<lparr>trust_rows := upsert_row lt_KeyID r (trust_rows d)\<rparr>"

definition SaveLocalTrustBundle :: "'e sysenv_scheme \<Rightarrow> TrustBundle \<Rightarrow> gotime \<Rightarrow> (sqlite, 'c, unit) action" where
  "SaveLocalTrustBundle env b persistedAt =
     guardE (tb_KeyID b = [] \<or> tb_PublicKey b = [])
       (Errorf ''local trust bundle requires key_id and public_key'' [])
       (bindE (if IsZero persistedAt then read_clock env else ret persistedAt) (\<lambda>t.
        execute env (\<lambda>d. Inr (sql_upsert_trust \<lparr>lt_KeyID = tb_KeyID b, lt_Bundle = b, lt_PersistedAt = t\<rparr> d))))"

definition LastLocalTrustBundle :: "'e sysenv_scheme \<Rightarrow> (sqlite, 'c, TrustBundle) action" where
  "LastLocalTrustBundle env =
     query env (\<lambda>d. case rev (sort_key (\<lambda>r. formatTime (lt_PersistedAt r)) (trust_rows d)) of
                      [] \<Rightarrow> Inl ErrNotFound | r # _ \<Rightarrow> Inr (lt_Bundle r))"

section \<open>Managed activation\<close>

definition validateKLIQManagementState :: "KLIQManagementState \<Rightarrow> unit result" where
  "validateKLIQManagementState s =
     fail_if (ms_KLIQID s = []) (Errorf ''kliq management state requires kliq_id'' [])
    (fail_if (ms_ActiveAssignmentID s = []) (Errorf ''kliq management state requires active_assignment_id'' [])
    (fail_if (ms_ActiveAssignmentVersion s \<le> 0)
       (Errorf ''kliq management state requires positive active_assignment_version'' [])
    (fail_if (ms_ActiveAssignmentSourceCommit s = [])
       (Errorf ''kliq management state requires active_assignment_source_commit'' [])
    (fail_if (ms_ActiveAssignmentDigest s = []) (Errorf ''kliq management state requires active_assignment_digest'' [])
    (fail_if (IsZero (ms_ActiveAssignmentExpiresAt s))
       (Errorf ''kliq management state requires active_assignment_expires_at'' [])
    (fail_if (IsZero (ms_ActiveAssignmentActivatedAt s))
       (Errorf ''kliq management state requires active_assignment_activated_at'' [])
       (Inr ())))))))"

definition validateAssignmentArtifactRecord :: "AssignmentArtifactRecord \<Rightarrow> unit result" where
  "validateAssignmentArtifactRecord r =
     check_then (require_fields ''assignment artifact record requires ''
       [(''kliq_id'', ar_KLIQID r), (''assignment_id'', ar_AssignmentID r), (''artifact_type'', ar_ArtifactType r),
        (''artifact_id'', ar_ArtifactID r), (''sha256'', ar_SHA256 r), (''status'', ar_ActivationStatus r)])
       (\<lambda>_. fail_if (ar_AssignmentVersion r \<le> 0)
              (Errorf ''assignment artifact record requires positive assignment_version'' [])
           (fail_if (ar_EnvelopeJSON r = []) (Errorf ''assignment artifact record requires envelope_json'' [])
           (fail_if (IsZero (ar_ActivatedAt r)) (Errorf ''assignment artifact record requires activated_at'' [])
              (Inr ()))))"

definition sql_upsert_management :: "KLIQManagementState \<Rightarrow> sqlite \<Rightarrow> sqlite" where
  "sql_upsert_management s d = d\<lparr>management_rows := upsert_row ms_KLIQID s (management_rows d)\<rparr>"

definition SaveKLIQManagementState :: "'e sysenv_scheme \<Rightarrow> KLIQManagementState \<Rightarrow> (sqlite, 'c, unit) action" where
  "SaveKLIQManagementState env s =
     bindE (lift (validateKLIQManagementState s)) (\<lambda>_. execute env (\<lambda>d. Inr (sql_upsert_management s d)))"

definition management_state_of :: "sqlite \<Rightarrow> string \<Rightarrow> KLIQManagementState option" where
  "management_state_of d kliqID = find (\<lambda>r. ms_KLIQID r = kliqID) (management_rows d)"

definition GetKLIQManagementState :: "'e sysenv_scheme \<Rightarrow> string \<Rightarrow> (sqlite, 'c, KLIQManagementState) action" where
  "GetKLIQManagementState env kliqID =
     query env (\<lambda>d. case management_state_of d kliqID of None \<Rightarrow> Inl ErrNotFound | Some r \<Rightarrow> Inr r)"

definition signedEnvelopePayload :: "wire \<Rightarrow> bytes \<Rightarrow> bytes result" where
  "signedEnvelopePayload cx envelopeJSON =
     check_then (dec_EnvelopePayload cx envelopeJSON)
       (\<lambda>payload. fail_if (payload = []) (Errorf ''signed envelope has empty payload'' []) (Inr payload))"

definition saveAssignmentTrustBundle ::
  "wire \<Rightarrow> 'e sysenv_scheme \<Rightarrow> bytes \<Rightarrow> gotime \<Rightarrow> gotime \<Rightarrow> (sqlite, 'c, unit) action" where
  "saveAssignmentTrustBundle cx env payload activatedAt verifiedAt =
     bindE (lift (dec_TrustBundle cx payload)) (\<lambda>b.
     if tb_Purpose b \<noteq> ''assignment_verification'' \<or> tb_Status b \<noteq> ''active'' then ret ()
     else guardE (tb_KeyID b = [] \<or> tb_PublicKey b = [])
       (Errorf ''local assignment trust bundle requires key_id and public_key'' [])
       (let persistedAt = (if IsZero activatedAt then verifiedAt else activatedAt) in
        bindE (if IsZero persistedAt then read_clock env else ret persistedAt) (\<lambda>t.
        execute env (\<lambda>d. Inr (sql_upsert_trust \<lparr>lt_KeyID = tb_KeyID b, lt_Bundle = b, lt_PersistedAt = t\<rparr> d)))))"

definition artifact_pk :: "AssignmentArtifactRecord \<Rightarrow> string \<times> string \<times> string \<times> string" where
  "artifact_pk r = (ar_KLIQID r, ar_AssignmentID r, ar_ArtifactType r, ar_ArtifactID r)"

definition sql_insert_artifact :: "AssignmentArtifactRecord \<Rightarrow> sqlite \<Rightarrow> sqlite result" where
  "sql_insert_artifact r d =
     (if \<exists>s \<in> set (artifact_rows d). artifact_pk s = artifact_pk r
      then Inl (constraint_failed ''kliq_assignment_artifacts'')
      else Inr (d\<lparr>artifact_rows := artifact_rows d @ [r]\<rparr>))"

definition active_pk :: "ActiveArtifactRecord \<Rightarrow> string \<times> string" where
  "active_pk r = (act_KLIQID r, act_ArtifactType r)"

definition sql_insert_active :: "ActiveArtifactRecord \<Rightarrow> sqlite \<Rightarrow> sqlite result" where
  "sql_insert_active r d =
     (if \<exists>s \<in> set (active_rows d). active_pk s = active_pk r
      then Inl (constraint_failed ''kliq_active_artifacts'')
      else Inr (d\<lparr>active_rows := active_rows d @ [r]\<rparr>))"

definition sql_clear_artifacts :: "string \<Rightarrow> sqlite \<Rightarrow> sqlite" where
  "sql_clear_artifacts kliqID d = d\<lparr>artifact_rows := filter (\<lambda>r. ar_KLIQID r \<noteq> kliqID) (artifact_rows d)\<rparr>"

definition sql_clear_active :: "string \<Rightarrow> sqlite \<Rightarrow> sqlite" where
  "sql_clear_active kliqID d = d\<lparr>active_rows := filter (\<lambda>r. act_KLIQID r \<noteq> kliqID) (active_rows d)\<rparr>"

definition active_record :: "AssignmentArtifactRecord \<Rightarrow> bytes \<Rightarrow> ActiveArtifactRecord" where
  "active_record a payload =
     \<lparr>act_KLIQID = ar_KLIQID a, act_ArtifactType = ar_ArtifactType a, act_ArtifactID = ar_ArtifactID a,
      act_SHA256 = ar_SHA256 a, act_PayloadJSON = payload, act_ActivatedAt = ar_ActivatedAt a\<rparr>"

text \<open>The body of the loop over the artifacts.\<close>

definition activate_artifact ::
  "wire \<Rightarrow> 'e sysenv_scheme \<Rightarrow> BundleRecord \<Rightarrow> AssignmentArtifactRecord \<Rightarrow> (sqlite, 'c, unit) action" where
  "activate_artifact cx env record a =
     bindE (execute env (sql_insert_artifact a)) (\<lambda>_.
     bindE (lift (signedEnvelopePayload cx (ar_EnvelopeJSON a))) (\<lambda>payload.
     bindE (execute env (sql_insert_active (active_record a payload))) (\<lambda>_.
     if ar_ArtifactType a = ''trust_bundle''
     then saveAssignmentTrustBundle cx env payload (ar_ActivatedAt a) (br_VerifiedAt record)
     else ret ())))"

definition SaveManagedBundleActivation ::
  "wire \<Rightarrow> 'e sysenv_scheme \<Rightarrow> BundleRecord \<Rightarrow> KLIQManagementState \<Rightarrow> AssignmentArtifactRecord list \<Rightarrow>
     (sqlite, 'c, unit) action" where
  "SaveManagedBundleActivation cx env record state artifacts =
     bindE (lift (validateKLIQManagementState state)) (\<lambda>_.
     bindE (lift (for_each validateAssignmentArtifactRecord artifacts)) (\<lambda>_.
     transaction env
       (bindE (SaveBundle env record) (\<lambda>_.
        bindE (execute env (\<lambda>d. Inr (sql_upsert_management state d))) (\<lambda>_.
        bindE (execute env (\<lambda>d. Inr (sql_clear_artifacts (ms_KLIQID state) d))) (\<lambda>_.
        bindE (execute env (\<lambda>d. Inr (sql_clear_active (ms_KLIQID state) d))) (\<lambda>_.
        for_eachE (activate_artifact cx env record) artifacts)))))))"

text \<open>\<^verbatim>\<open>ORDER BY artifact_type, artifact_id\<close>.\<close>

definition AssignmentArtifacts :: "'e sysenv_scheme \<Rightarrow> string \<Rightarrow> (sqlite, 'c, AssignmentArtifactRecord list) action" where
  "AssignmentArtifacts env kliqID =
     query env (\<lambda>d. Inr (sort_key ar_ArtifactType (sort_key ar_ArtifactID
                           (filter (\<lambda>r. ar_KLIQID r = kliqID) (artifact_rows d)))))"

definition ActiveArtifact :: "'e sysenv_scheme \<Rightarrow> string \<Rightarrow> string \<Rightarrow> (sqlite, 'c, ActiveArtifactRecord) action" where
  "ActiveArtifact env kliqID artifactType =
     query env (\<lambda>d. case find (\<lambda>r. act_KLIQID r = kliqID \<and> act_ArtifactType r = artifactType) (active_rows d) of
                      None \<Rightarrow> Inl ErrNotFound | Some r \<Rightarrow> Inr r)"

section \<open>Credential\<close>

definition credential_required :: "KLIQCredential \<Rightarrow> (string \<times> string) list" where
  "credential_required c =
     [(''kliq_id'', kc_KLIQID c), (''node_id'', kc_NodeID c), (''environment'', kc_Environment c),
      (''stage'', kc_Stage c), (''scope'', kc_Scope c), (''trust_key_id'', kc_TrustKeyID c),
      (''assignment_url'', kc_AssignmentURL c), (''public_key_pem'', kc_PublicKeyPEM c),
      (''private_key_pem'', kc_PrivateKeyPEM c), (''service_token'', kc_ServiceToken c)]"

text \<open>The upsert sets every column but \<^verbatim>\<open>created_at\<close>, which keeps its first value.\<close>

definition sql_upsert_credential :: "KLIQCredential \<Rightarrow> sqlite \<Rightarrow> sqlite" where
  "sql_upsert_credential c d =
     (case credential_row d of
        None \<Rightarrow> d\<lparr>credential_row := Some c\<rparr>
      | Some old \<Rightarrow> d\<lparr>credential_row := Some (c\<lparr>kc_CreatedAt := kc_CreatedAt old\<rparr>)\<rparr>)"

definition credential_defaults :: "KLIQCredential \<Rightarrow> gotime \<Rightarrow> KLIQCredential" where
  "credential_defaults c now =
     (let c1 = (if blank (kc_ServiceIdentityProvider c)
                then c\<lparr>kc_ServiceIdentityProvider := ''dev-local-signed-token''\<rparr> else c);
          c2 = (if blank (kc_CredentialStatus c1) then c1\<lparr>kc_CredentialStatus := ''active''\<rparr> else c1);
          c3 = (if IsZero (kc_CreatedAt c2) then c2\<lparr>kc_CreatedAt := now\<rparr> else c2)
      in if IsZero (kc_UpdatedAt c3) then c3\<lparr>kc_UpdatedAt := kc_CreatedAt c3\<rparr> else c3)"

definition SaveKLIQCredential :: "'e sysenv_scheme \<Rightarrow> KLIQCredential \<Rightarrow> (sqlite, 'c, unit) action" where
  "SaveKLIQCredential env c =
     bindE (lift (require_fields ''kliq credential requires '' (credential_required c))) (\<lambda>_.
     guardE (IsZero (kc_ServiceTokenExpiresAt c)) (Errorf ''kliq credential requires service_token_expires_at'' [])
       (bindE (read_clock env) (\<lambda>now.
        execute env (\<lambda>d. Inr (sql_upsert_credential (credential_defaults c now) d)))))"

definition GetKLIQCredential :: "'e sysenv_scheme \<Rightarrow> (sqlite, 'c, KLIQCredential) action" where
  "GetKLIQCredential env =
     query env (\<lambda>d. case credential_row d of None \<Rightarrow> Inl ErrNotFound | Some c \<Rightarrow> Inr c)"

section \<open>Risk cache\<close>

definition sql_upsert_risk :: "RiskCacheKey \<Rightarrow> RiskContext \<Rightarrow> sqlite \<Rightarrow> sqlite" where
  "sql_upsert_risk key ctx d = d\<lparr>risk_rows := upsert_row fst (key, ctx) (risk_rows d)\<rparr>"

definition risk_save_key :: "RiskCacheKey \<Rightarrow> RiskContext \<Rightarrow> RiskCacheKey" where
  "risk_save_key key ctx =
     (let t = NormalizeType (rk_RiskType key) in
      \<lparr>rk_RiskType = (if t = [] then NormalizeType (rc_RiskType ctx) else t),
       rk_Scope = (if rk_Scope key = [] then rc_Scope ctx else rk_Scope key)\<rparr>)"

definition SaveRiskContext :: "'e sysenv_scheme \<Rightarrow> RiskCacheKey \<Rightarrow> RiskContext \<Rightarrow> (sqlite, 'c, unit) action" where
  "SaveRiskContext env key ctx =
     bindE (read_clock env) (\<lambda>wall.
     case ValidateContext ctx 0 wall of
       Inl e \<Rightarrow> if rc_Tier ctx \<noteq> TierUnknown then raise e
                else execute env (\<lambda>d. Inr (sql_upsert_risk (risk_save_key key ctx) ctx d))
     | Inr _ \<Rightarrow> execute env (\<lambda>d. Inr (sql_upsert_risk (risk_save_key key ctx) ctx d)))"

definition risk_load_key :: "RiskCacheKey \<Rightarrow> RiskCacheKey" where
  "risk_load_key key =
     \<lparr>rk_RiskType = NormalizeType (rk_RiskType key),
      rk_Scope = (if rk_Scope key = [] then ScopeLocal else rk_Scope key)\<rparr>"

definition GetRiskContext :: "'e sysenv_scheme \<Rightarrow> RiskCacheKey \<Rightarrow> gotime \<Rightarrow> (sqlite, 'c, RiskContext) action" where
  "GetRiskContext env key0 now =
     (let key = risk_load_key key0 in
      bindE (read_clock env) (\<lambda>wall.
      bindE (query env (\<lambda>d. Inr (find (\<lambda>r. fst r = key) (risk_rows d)))) (\<lambda>row.
      case row of
        None \<Rightarrow> ret (UnknownContext (rk_RiskType key) (rk_Scope key) ''risk_cache'' now [''risk context missing''] wall)
      | Some (_, ctx) \<Rightarrow>
          (case ValidateContext ctx now wall of
             Inl e \<Rightarrow> ret (UnknownContext (rk_RiskType key) (rk_Scope key) ''risk_cache'' now [Error e] wall)
           | Inr _ \<Rightarrow> ret ctx))))"

end
