(* ===== verification/Runtime_Adapter.thy ===== *)
theory Runtime_Adapter
  imports Action_State Effects GoTime
begin

text \<open>
  Plans and the adapters that carry them out (\<^verbatim>\<open>internal/kliq/runtime/plan.go\<close> and
  \<^verbatim>\<open>adapter_executor.go\<close>). An executor is the interface \<^verbatim>\<open>RuntimeExecutor\<close> with its optional
  \<^verbatim>\<open>RuntimeStateReader\<close>: functions of the counter and of what the manager passes, since an
  adapter is another process and may answer anything. The manager's calls are recorded in
  the log of the world. \<open>AdapterRuntimeExecutor\<close> is the executor over a gRPC client, whose
  answers (the status text of the response, or an error) are parameters.
\<close>

section \<open>Plans (plan.go)\<close>

definition ActionModeRequired :: string where "ActionModeRequired = ''required''"
definition ActionModeOptional :: string where "ActionModeOptional = ''optional''"
definition ActionModeFallback :: string where "ActionModeFallback = ''fallback''"
definition ActionModeAnyOf :: string where "ActionModeAnyOf = ''any_of''"

lemmas mode_defs = ActionModeRequired_def ActionModeOptional_def ActionModeFallback_def ActionModeAnyOf_def

record PlannedRuntimeAction =
  pa_ActionID :: string
  pa_AdapterID :: string
  pa_CapabilityID :: string
  pa_CapabilityGrantID :: string
  pa_BindingID :: string
  pa_BindingDigest :: string
  pa_AdapterManifestDigest :: string
  pa_ActionDigest :: string
  pa_CorrelationID :: string
  pa_Mode :: string
  pa_Required :: bool
  pa_ActionType :: string
  pa_TargetScope :: string
  pa_TargetKey :: string
  pa_TTL :: string
  pa_Reason :: string
  pa_AuditID :: string
  pa_Context :: "(string \<times> string) list"
  pa_DowngradeReason :: string

record RuntimeActionPlan =
  rp_PlanID :: string
  rp_DecisionID :: string
  rp_EventType :: string
  rp_EventID :: string
  rp_BundleID :: string
  rp_PolicyID :: string
  rp_SourceCommit :: string
  rp_CorrelationID :: string
  rp_Actions :: "PlannedRuntimeAction list"

definition validateActionMode :: "string \<Rightarrow> unit result" where
  "validateActionMode mode =
     (if mode = ActionModeRequired \<or> mode = ActionModeOptional \<or> mode = ActionModeFallback \<or> mode = ActionModeAnyOf
      then Inr () else Inl (Errorf ''unsupported runtime action mode %q'' [mode]))"

lemma validateActionMode_iff [guards]:
  "validateActionMode mode = Inr u \<longleftrightarrow> mode \<in> {ActionModeRequired, ActionModeOptional, ActionModeFallback, ActionModeAnyOf}"
  by (auto simp: validateActionMode_def)

section \<open>Executors\<close>

record executor =
  ex_Execute :: "nat \<Rightarrow> RuntimeActionLease \<Rightarrow> bytes \<Rightarrow> unit result"
  ex_Cleanup :: "nat \<Rightarrow> RuntimeActionLease \<Rightarrow> unit result"
  ex_State :: "(nat \<Rightarrow> RuntimeActionLease \<Rightarrow> RuntimeActionStatus result) option"

datatype adapter_call =
    Executed RuntimeActionLease bytes
  | Cleaned RuntimeActionLease
  | Queried RuntimeActionLease

definition call_Execute :: "executor \<Rightarrow> RuntimeActionLease \<Rightarrow> bytes \<Rightarrow> ('d, adapter_call, unit) action" where
  "call_Execute ex l signedBundle = request (Executed l signedBundle) (\<lambda>n. ex_Execute ex n l signedBundle)"

definition call_Cleanup :: "executor \<Rightarrow> RuntimeActionLease \<Rightarrow> ('d, adapter_call, unit) action" where
  "call_Cleanup ex l = request (Cleaned l) (\<lambda>n. ex_Cleanup ex n l)"

definition call_State ::
  "(nat \<Rightarrow> RuntimeActionLease \<Rightarrow> RuntimeActionStatus result) \<Rightarrow> RuntimeActionLease \<Rightarrow> ('d, adapter_call, RuntimeActionStatus) action" where
  "call_State reader l = request (Queried l) (\<lambda>n. reader n l)"

definition LocalTestExecutor :: executor where
  "LocalTestExecutor = \<lparr>ex_Execute = (\<lambda>_ _ _. Inr ()), ex_Cleanup = (\<lambda>_ _. Inr ()),
     ex_State = Some (\<lambda>_ _. Inr RuntimeActionActive)\<rparr>"

section \<open>The registry\<close>

type_synonym StaticAdapterRuntimeRegistry = "(string \<times> executor) list"

record AdapterRuntimeDescriptor =
  dsc_AdapterID :: string
  dsc_Healthy :: bool

text \<open>A later entry for the same adapter replaces an earlier one; entries without id or executor are skipped.\<close>

definition register_entry ::
  "string \<times> executor option \<Rightarrow> StaticAdapterRuntimeRegistry \<Rightarrow> StaticAdapterRuntimeRegistry" where
  "register_entry entry reg =
     (case entry of
        (adapterID, Some ex) \<Rightarrow> if adapterID = [] then reg else (adapterID, ex) # filter (\<lambda>e. fst e \<noteq> adapterID) reg
      | (_, None) \<Rightarrow> reg)"

definition NewStaticAdapterRuntimeRegistry :: "(string \<times> executor option) list \<Rightarrow> StaticAdapterRuntimeRegistry" where
  "NewStaticAdapterRuntimeRegistry entries = fold register_entry entries []"

definition registry_Get :: "StaticAdapterRuntimeRegistry \<Rightarrow> string \<Rightarrow> executor option" where
  "registry_Get r adapterID = map_of r adapterID"

definition registry_List :: "StaticAdapterRuntimeRegistry \<Rightarrow> AdapterRuntimeDescriptor list" where
  "registry_List r = map (\<lambda>a. \<lparr>dsc_AdapterID = a, dsc_Healthy = True\<rparr>) (sort (map fst r))"

definition registry_Healthy :: "StaticAdapterRuntimeRegistry \<Rightarrow> string \<Rightarrow> bool" where
  "registry_Healthy r adapterID \<longleftrightarrow> map_of r adapterID \<noteq> None"

section \<open>The executor over gRPC (adapter_executor.go)\<close>

record ExecuteRuntimeActionRequest =
  xq_RuntimeActionId :: string
  xq_IdempotencyKey :: string
  xq_AdapterId :: string
  xq_CapabilityId :: string
  xq_ActionType :: string
  xq_TargetScope :: string
  xq_TargetKey :: string
  xq_Ttl :: string
  xq_Reason :: string
  xq_AuditId :: string
  xq_SourceCommit :: string
  xq_CapabilityGrantId :: string
  xq_CorrelationId :: string
  xq_BindingId :: string
  xq_BindingDigest :: string
  xq_AdapterManifestDigest :: string
  xq_ActionDigest :: string
  xq_SignedBundle :: bytes

record GetRuntimeActionStateRequest =
  gq_IdempotencyKey :: string
  gq_RuntimeActionId :: string
  gq_AdapterId :: string
  gq_ActionType :: string
  gq_TargetScope :: string
  gq_TargetKey :: string
  gq_CapabilityId :: string
  gq_CorrelationId :: string
  gq_BindingId :: string
  gq_BindingDigest :: string
  gq_AdapterManifestDigest :: string
  gq_ActionDigest :: string

record RevokeRuntimeActionRequest =
  vq_IdempotencyKey :: string
  vq_Reason :: string
  vq_AuditId :: string
  vq_RuntimeActionId :: string
  vq_AdapterId :: string
  vq_ActionType :: string
  vq_TargetScope :: string
  vq_TargetKey :: string
  vq_SourceCommit :: string
  vq_CapabilityGrantId :: string
  vq_CapabilityId :: string
  vq_CorrelationId :: string
  vq_BindingId :: string
  vq_BindingDigest :: string
  vq_AdapterManifestDigest :: string
  vq_ActionDigest :: string

record RuntimeActionClient =
  cl_Execute :: "nat \<Rightarrow> ExecuteRuntimeActionRequest \<Rightarrow> string result"
  cl_GetState :: "nat \<Rightarrow> GetRuntimeActionStateRequest \<Rightarrow> string result"
  cl_Revoke :: "nat \<Rightarrow> RevokeRuntimeActionRequest \<Rightarrow> string result"

definition execute_request :: "RuntimeActionLease \<Rightarrow> bytes \<Rightarrow> ExecuteRuntimeActionRequest" where
  "execute_request l signedBundle =
     \<lparr>xq_RuntimeActionId = ls_RuntimeActionID l, xq_IdempotencyKey = ls_IdempotencyKey l,
      xq_AdapterId = ls_AdapterID l, xq_CapabilityId = ls_CapabilityID l, xq_ActionType = ls_ActionType l,
      xq_TargetScope = ls_TargetScope l, xq_TargetKey = ls_TargetKey l, xq_Ttl = ls_TTL l,
      xq_Reason = ls_Reason l, xq_AuditId = ls_AuditID l, xq_SourceCommit = ls_SourceCommit l,
      xq_CapabilityGrantId = ls_CapabilityGrantID l, xq_CorrelationId = ls_CorrelationID l,
      xq_BindingId = ls_BindingID l, xq_BindingDigest = ls_BindingDigest l,
      xq_AdapterManifestDigest = ls_AdapterManifestDigest l, xq_ActionDigest = ls_ActionDigest l,
      xq_SignedBundle = signedBundle\<rparr>"

definition adapter_Execute :: "RuntimeActionClient option \<Rightarrow> nat \<Rightarrow> RuntimeActionLease \<Rightarrow> bytes \<Rightarrow> unit result" where
  "adapter_Execute client n l signedBundle =
     (case client of
        None \<Rightarrow> Inl (Errorf ''adapter runtime executor requires client'' [])
      | Some c \<Rightarrow>
          check_then (cl_Execute c n (execute_request l signedBundle)) (\<lambda>status.
            fail_if (status \<noteq> RuntimeActionActive) (Errorf ''adapter execute returned status %q'' [status]) (Inr ())))"

definition revoke_request :: "RuntimeActionLease \<Rightarrow> RevokeRuntimeActionRequest" where
  "revoke_request l =
     (let sel = Selector l in
      \<lparr>vq_IdempotencyKey = sel_IdempotencyKey sel, vq_Reason = ''ttl expired'', vq_AuditId = ls_AuditID l,
       vq_RuntimeActionId = sel_RuntimeActionID sel, vq_AdapterId = sel_AdapterID sel,
       vq_ActionType = sel_ActionType sel, vq_TargetScope = sel_TargetScope sel, vq_TargetKey = sel_TargetKey sel,
       vq_SourceCommit = ls_SourceCommit l, vq_CapabilityGrantId = ls_CapabilityGrantID l,
       vq_CapabilityId = sel_CapabilityID sel, vq_CorrelationId = ls_CorrelationID l,
       vq_BindingId = ls_BindingID l, vq_BindingDigest = ls_BindingDigest l,
       vq_AdapterManifestDigest = ls_AdapterManifestDigest l, vq_ActionDigest = ls_ActionDigest l\<rparr>)"

definition adapter_Cleanup :: "RuntimeActionClient option \<Rightarrow> nat \<Rightarrow> RuntimeActionLease \<Rightarrow> unit result" where
  "adapter_Cleanup client n l =
     (case client of
        None \<Rightarrow> Inl (Errorf ''adapter runtime executor requires client'' [])
      | Some c \<Rightarrow>
          fail_if (\<not> selector_Valid (Selector l))
            (Errorf ''runtime action lease %q does not contain a complete runtime action selector'' [ls_RuntimeActionID l])
         (check_then (cl_Revoke c n (revoke_request l)) (\<lambda>status.
            if status = RuntimeActionExpired \<or> status = RuntimeActionNotFound then Inr ()
            else Inl (Errorf ''adapter cleanup returned status %q'' [status]))))"

definition state_request :: "RuntimeActionLease \<Rightarrow> GetRuntimeActionStateRequest" where
  "state_request l =
     (let sel = Selector l in
      \<lparr>gq_IdempotencyKey = sel_IdempotencyKey sel, gq_RuntimeActionId = sel_RuntimeActionID sel,
       gq_AdapterId = sel_AdapterID sel, gq_ActionType = sel_ActionType sel,
       gq_TargetScope = sel_TargetScope sel, gq_TargetKey = sel_TargetKey sel,
       gq_CapabilityId = sel_CapabilityID sel, gq_CorrelationId = ls_CorrelationID l,
       gq_BindingId = ls_BindingID l, gq_BindingDigest = ls_BindingDigest l,
       gq_AdapterManifestDigest = ls_AdapterManifestDigest l, gq_ActionDigest = ls_ActionDigest l\<rparr>)"

definition adapter_State :: "RuntimeActionClient option \<Rightarrow> nat \<Rightarrow> RuntimeActionLease \<Rightarrow> RuntimeActionStatus result" where
  "adapter_State client n l =
     (case client of
        None \<Rightarrow> Inl (Errorf ''adapter runtime executor requires client'' [])
      | Some c \<Rightarrow>
          fail_if (\<not> selector_Valid (Selector l))
            (Errorf ''runtime action lease %q does not contain a complete runtime action selector'' [ls_RuntimeActionID l])
            (cl_GetState c n (state_request l)))"

definition AdapterRuntimeExecutor :: "RuntimeActionClient option \<Rightarrow> executor" where
  "AdapterRuntimeExecutor client =
     \<lparr>ex_Execute = adapter_Execute client, ex_Cleanup = adapter_Cleanup client, ex_State = Some (adapter_State client)\<rparr>"

section \<open>Registries and adapters\<close>

lemma register_entry_distinct: "distinct (map fst r) \<Longrightarrow> distinct (map fst (register_entry e r))"
  by (auto simp: register_entry_def distinct_map_filter split: prod.split option.split)

lemma NewStaticAdapterRuntimeRegistry_distinct:
  "distinct (map fst (NewStaticAdapterRuntimeRegistry entries))"
proof -
  have "distinct (map fst r) \<Longrightarrow> distinct (map fst (fold register_entry entries r))" for r
    by (induction entries arbitrary: r) (auto simp: register_entry_distinct)
  then show ?thesis by (simp add: NewStaticAdapterRuntimeRegistry_def)
qed

lemma map_of_register:
  "map_of (register_entry (i, ex) r) key =
     (if key = i \<and> i \<noteq> [] \<and> ex \<noteq> None then ex else map_of r key)"
proof -
  have "map_of (filter (\<lambda>e. fst e \<noteq> i) r) key = (if key = i then None else map_of r key)"
    by (induction r) auto
  then show ?thesis by (auto simp: register_entry_def split: option.split)
qed

text \<open>The registry answers with the last usable entry for an adapter.\<close>

lemma registry_Get_New:
  "registry_Get (NewStaticAdapterRuntimeRegistry entries) key =
     (case rev (filter (\<lambda>e. fst e = key \<and> fst e \<noteq> [] \<and> snd e \<noteq> None) entries) of
        [] \<Rightarrow> None | e # _ \<Rightarrow> snd e)"
proof -
  have "map_of (fold register_entry entries r) key =
     (case rev (filter (\<lambda>e. fst e = key \<and> fst e \<noteq> [] \<and> snd e \<noteq> None) entries) of
        [] \<Rightarrow> map_of r key | e # _ \<Rightarrow> snd e)" for r
    by (induction entries rule: rev_induct) (auto simp: map_of_register split: prod.splits)
  from this [of "[]"] show ?thesis
    by (simp add: registry_Get_def NewStaticAdapterRuntimeRegistry_def split: list.split)
qed

lemma adapter_Execute_ok:
  "adapter_Execute client n l b = Inr u \<longleftrightarrow>
     (\<exists>c. client = Some c \<and> cl_Execute c n (execute_request l b) = Inr RuntimeActionActive)"
  by (auto simp: adapter_Execute_def split: option.split)

lemma adapter_Cleanup_ok:
  "adapter_Cleanup client n l = Inr u \<longleftrightarrow>
     (\<exists>c status. client = Some c \<and> selector_Valid (Selector l) \<and> cl_Revoke c n (revoke_request l) = Inr status \<and>
        status \<in> {RuntimeActionExpired, RuntimeActionNotFound})"
  by (auto simp: adapter_Cleanup_def split: option.split)

end
