(* ===== verification/Bundle_Source.thy ===== *)
theory Bundle_Source
  imports Wire Effects
begin

text \<open>
  Where the KLIQ takes its bundle from (\<^verbatim>\<open>internal/kliq/bundle\<close>): the verification of a signed
  runtime bundle, the local file and the managed assignment that Forge serves over HTTP,
  with the checks of the assignment, its trust bundle and every artifact it carries.

  A verifier and an HTTP client are outside the program; their answers are functions of the
  counter. The managed source is a struct the code mutates through a pointer, so \<^verbatim>\<open>Load\<close>
  returns it updated beside its result, on the error paths too.
\<close>

section \<open>Signed runtime bundles (verifier.go)\<close>

record RuntimeBundleVerification =
  bv_Bundle :: RuntimeBundle
  bv_Envelope :: SignedEnvelope
  bv_Result :: VerificationResult

definition VerifySignedRuntimeBundle ::
  "wire \<Rightarrow> bytes \<Rightarrow> verifier option \<Rightarrow> ('d, 'c, RuntimeBundleVerification) action" where
  "VerifySignedRuntimeBundle cx data verifier =
     (case verifier of
        None \<Rightarrow> raise (Errorf ''runtime bundle verifier is required'' [])
      | Some ver \<Rightarrow>
        bindE (lift (dec_Envelope cx data)) (\<lambda>envelope.
        guardE (env_Kind envelope \<noteq> ''SignedEnvelope'') (Errorf ''runtime bundle must be a signed envelope'' [])
       (bindE (ask (\<lambda>n. ver n envelope)) (\<lambda>res.
        guardE (\<not> vr_Valid res) (Errorf ''runtime bundle signature invalid: %s'' [vr_Error res])
       (guardE (env_ExpiresAt envelope = None) (Errorf ''runtime bundle signed envelope requires expires_at'' [])
       (bindE (lift (dec_RuntimeBundle cx (env_Payload envelope))) (\<lambda>b.
        guardE (rb_Kind b \<noteq> ''RuntimeBundle'') (Errorf ''signed payload is %q, expected RuntimeBundle'' [rb_Kind b])
       (guardE (md_ArtifactType (rb_Metadata b) \<noteq> ''runtime_bundle'')
          (Errorf ''signed payload artifact_type is %q, expected runtime_bundle'' [md_ArtifactType (rb_Metadata b)])
       (guardE (env_PolicyID envelope \<noteq> [] \<and> md_PolicyID (rb_Metadata b) \<noteq> [] \<and>
                env_PolicyID envelope \<noteq> md_PolicyID (rb_Metadata b))
          (Errorf ''signed envelope policy_id %q does not match runtime bundle policy_id %q''
             [env_PolicyID envelope, md_PolicyID (rb_Metadata b)])
       (guardE (env_SourceCommit envelope \<noteq> [] \<and> md_SourceCommit (rb_Metadata b) \<noteq> [] \<and>
                env_SourceCommit envelope \<noteq> md_SourceCommit (rb_Metadata b))
          (Errorf ''signed envelope source_commit %q does not match runtime bundle source_commit %q''
             [env_SourceCommit envelope, md_SourceCommit (rb_Metadata b)])
       (ret \<lparr>bv_Bundle = b, bv_Envelope = envelope, bv_Result = res\<rparr>)))))))))))"

section \<open>The local file (source.go)\<close>

definition LocalFileSource_Load :: "(nat \<Rightarrow> string \<Rightarrow> bytes result) \<Rightarrow> string \<Rightarrow> ('d, 'c, bytes \<times> string) action" where
  "LocalFileSource_Load readFile path = bindE (ask (\<lambda>n. readFile n path)) (\<lambda>data. ret (data, path))"

definition LoadSignedRuntimeBundle ::
  "wire \<Rightarrow> (nat \<Rightarrow> string \<Rightarrow> bytes result) \<Rightarrow> string \<Rightarrow> verifier option \<Rightarrow> ('d, 'c, RuntimeBundleVerification) action" where
  "LoadSignedRuntimeBundle cx readFile path verifier =
     bindE (ask (\<lambda>n. readFile n path)) (\<lambda>data. VerifySignedRuntimeBundle cx data verifier)"

section \<open>The managed assignment (managed_source.go)\<close>

record ManagedAssignmentSource =
  src_BaseURL :: string
  src_BearerToken :: string
  src_KLIQID :: string
  src_Environment :: string
  src_Stage :: string
  src_Scope :: string
  src_TrustKeyID :: string
  src_TrustBundle :: TrustBundle
  src_ActiveAssignmentVersion :: int
  src_ActiveAssignmentDigest :: string
  src_Verifier :: "verifier option"
  src_assignment :: "KLIQAssignment option"
  src_assignmentDigest :: string

text \<open>The unexported field \<^verbatim>\<open>assignment\<close> is \<open>None\<close> until a load has set it (its zero value has an empty id).\<close>

record ManagedAssignmentActivation =
  ma_KLIQID :: string
  ma_AssignmentID :: string
  ma_AssignmentVersion :: int
  ma_SourceCommit :: string
  ma_AssignmentDigest :: string
  ma_ExpiresAt :: gotime

record http_request =
  rq_URL :: string
  rq_Authorization :: "string option"

record http_response =
  rp_StatusCode :: int
  rp_Status :: string
  rp_Body :: bytes

type_synonym http = "nat \<Rightarrow> http_request \<Rightarrow> http_response result"

definition SetActiveAssignment :: "ManagedAssignmentSource \<Rightarrow> int \<Rightarrow> string \<Rightarrow> ManagedAssignmentSource" where
  "SetActiveAssignment s version digest = s\<lparr>src_ActiveAssignmentVersion := version, src_ActiveAssignmentDigest := digest\<rparr>"

definition source_AssignmentArtifacts :: "ManagedAssignmentSource \<Rightarrow> KLIQAssignedArtifact list" where
  "source_AssignmentArtifacts s = (case src_assignment s of None \<Rightarrow> [] | Some a \<Rightarrow> as_Artifacts a)"

definition AssignmentActivation :: "ManagedAssignmentSource \<Rightarrow> ManagedAssignmentActivation option" where
  "AssignmentActivation s =
     (case src_assignment s of
        None \<Rightarrow> None
      | Some a \<Rightarrow>
          if as_AssignmentID a = [] \<or> src_assignmentDigest s = [] then None
          else Some \<lparr>ma_KLIQID = as_KLIQID a, ma_AssignmentID = as_AssignmentID a,
                     ma_AssignmentVersion = as_AssignmentVersion a, ma_SourceCommit = as_SourceCommit a,
                     ma_AssignmentDigest = src_assignmentDigest s, ma_ExpiresAt = as_ExpiresAt a\<rparr>)"

definition expectedArtifactKind :: "string \<Rightarrow> string" where
  "expectedArtifactKind t =
     (if t = ''runtime_bundle'' then ''RuntimeBundle''
      else if t = ''adapter_manifest'' then ''AdapterManifest''
      else if t = ''context_route_pack'' then ''ContextRoutePack''
      else if t = ''conformance_expectation'' then ''ConformanceExpectation''
      else if t = ''adapter_assignment'' then ''AdapterAssignment''
      else [])"

definition validateAssignedArtifactPayloadType :: "wire \<Rightarrow> string \<Rightarrow> bytes \<Rightarrow> unit result" where
  "validateAssignedArtifactPayloadType cx artifactType payload =
     check_then (dec_Header cx payload) (\<lambda>header.
       fail_if (expectedArtifactKind artifactType \<noteq> [] \<and> hd_Kind header \<noteq> expectedArtifactKind artifactType)
         (Errorf ''kind %q does not match artifact type %q'' [hd_Kind header, artifactType])
      (fail_if (hd_ArtifactType header \<noteq> [] \<and> hd_ArtifactType header \<noteq> artifactType)
         (Errorf ''metadata artifact_type %q does not match %q'' [hd_ArtifactType header, artifactType])
         (Inr ())))"

text \<open>PEM, PKIX and base64 are the library's; their order and the checks around them are the code's.\<close>

definition decodeTrustBundlePublicKey :: "wire \<Rightarrow> string \<Rightarrow> bytes result" where
  "decodeTrustBundlePublicKey cx value0 =
     (let value = TrimSpace value0 in
      case pem_Decode cx value of
        Some block \<Rightarrow>
          check_then (parse_PKIX cx block) (\<lambda>key.
            case key of None \<Rightarrow> Inl (Errorf ''trust bundle public key is not Ed25519'' []) | Some k \<Rightarrow> Inr k)
      | None \<Rightarrow>
          (case (case base64_Std cx value of Inl _ \<Rightarrow> base64_RawStd cx value | Inr d \<Rightarrow> Inr d) of
             Inl _ \<Rightarrow> Inl (Errorf ''trust bundle public_key must be PEM or base64 Ed25519 key'' [])
           | Inr decoded \<Rightarrow>
               fail_if (length decoded \<noteq> 32) (Errorf ''trust bundle public_key has invalid Ed25519 length'' [])
                 (Inr decoded)))"

text \<open>The clock of the verifier it returns is stopped at \<open>verifiedAt\<close>.\<close>

definition artifactVerifierFromTrustBundle :: "wire \<Rightarrow> TrustBundle \<Rightarrow> gotime \<Rightarrow> verifier result" where
  "artifactVerifierFromTrustBundle cx b verifiedAt =
     fail_if (tb_KeyID b = [] \<or> tb_PublicKey b = []) (Errorf ''trust bundle requires key_id and public_key'' [])
    (fail_if (tb_Purpose b \<noteq> ''artifact_verification'')
       (Errorf ''trust bundle %q has purpose %q, expected artifact_verification'' [tb_KeyID b, tb_Purpose b])
    (fail_if (tb_Status b \<noteq> ''active'' \<and> tb_Status b \<noteq> ''previous'')
       (Errorf ''trust bundle %q is %q'' [tb_KeyID b, tb_Status b])
    (fail_if (\<not> IsZero (tb_ExpiresAt b) \<and> \<not> After (tb_ExpiresAt b) verifiedAt)
       (Errorf ''trust bundle %q is expired'' [tb_KeyID b])
    (check_then (decodeTrustBundlePublicKey cx (tb_PublicKey b)) (\<lambda>publicKey.
     check_then (NewEd25519Verifier (tb_KeyID b) publicKey) (\<lambda>s.
     Inr (signer_verifier (w_crypto cx) s (\<lambda>_. verifiedAt) (\<lambda>_. verifiedAt))))))))"

definition verifyAssignedArtifactEnvelope ::
  "wire \<Rightarrow> KLIQAssignment \<Rightarrow> KLIQAssignedArtifact \<Rightarrow> verifier \<Rightarrow>
     ('d, 'c, SignedEnvelope \<times> VerificationResult) action" where
  "verifyAssignedArtifactEnvelope cx a art ver =
     guardE (\<not> SupportedAssignmentArtifactType (aa_ArtifactType art))
       (Errorf ''assignment %q contains unsupported artifact type %q'' [as_AssignmentID a, aa_ArtifactType art])
    (case dec_Envelope cx (aa_Envelope art) of
       Inl err \<Rightarrow> raise (Wrapf ''assignment %q artifact %q is not a signed envelope: %w''
                          [as_AssignmentID a, aa_ArtifactID art] err)
     | Inr envelope \<Rightarrow>
       guardE (env_Kind envelope \<noteq> ''SignedEnvelope'')
         (Errorf ''assignment %q artifact %q is not a signed envelope'' [as_AssignmentID a, aa_ArtifactID art])
      (bindE (ask (\<lambda>n. ver n envelope)) (\<lambda>res.
       guardE (\<not> vr_Valid res)
         (Errorf ''assignment %q artifact %q signature invalid: %s'' [as_AssignmentID a, aa_ArtifactID art, vr_Error res])
      (guardE (env_SourceCommit envelope \<noteq> [] \<and> as_SourceCommit a \<noteq> [] \<and> env_SourceCommit envelope \<noteq> as_SourceCommit a)
         (Errorf ''assignment %q artifact %q source_commit mismatch'' [as_AssignmentID a, aa_ArtifactID art])
      (case validateAssignedArtifactPayloadType cx (aa_ArtifactType art) (env_Payload envelope) of
         Inl err \<Rightarrow> raise (Wrapf ''assignment %q artifact %q invalid payload: %w''
                            [as_AssignmentID a, aa_ArtifactID art] err)
       | Inr _ \<Rightarrow> ret (envelope, res))))))"

text \<open>
  The first loop of \<^verbatim>\<open>verifyAssignedArtifacts\<close>: the trust bundles the assignment carries, which
  may name the key of the other artifacts. It carries the verifier and the key id found so far.
\<close>

fun artifact_trust ::
  "wire \<Rightarrow> KLIQAssignment \<Rightarrow> verifier \<Rightarrow> verifier \<Rightarrow> string \<Rightarrow> KLIQAssignedArtifact list \<Rightarrow>
     ('d, 'c, verifier \<times> string) action" where
  "artifact_trust cx a ver av keyID [] = ret (av, keyID)"
| "artifact_trust cx a ver av keyID (art # arts) =
     (if aa_ArtifactType art \<noteq> ''trust_bundle'' then artifact_trust cx a ver av keyID arts
      else bindE (verifyAssignedArtifactEnvelope cx a art ver) (\<lambda>(envelope, res).
        case dec_TrustBundle cx (env_Payload envelope) of
          Inl err \<Rightarrow> raise (Wrapf ''assignment %q artifact %q invalid trust bundle payload: %w''
                             [as_AssignmentID a, aa_ArtifactID art] err)
        | Inr b \<Rightarrow>
            if tb_Purpose b \<noteq> ''artifact_verification'' then artifact_trust cx a ver av keyID arts
            else guardE (keyID \<noteq> [])
              (Errorf ''assignment %q contains more than one artifact_verification trust bundle'' [as_AssignmentID a])
             (case artifactVerifierFromTrustBundle cx b (vr_VerifiedAt res) of
                Inl err \<Rightarrow> raise (Wrapf ''assignment %q artifact %q invalid artifact verification trust bundle: %w''
                                   [as_AssignmentID a, aa_ArtifactID art] err)
              | Inr v \<Rightarrow> artifact_trust cx a ver v (tb_KeyID b) arts)))"

definition verify_other_artifact ::
  "wire \<Rightarrow> KLIQAssignment \<Rightarrow> verifier \<Rightarrow> string \<Rightarrow> KLIQAssignedArtifact \<Rightarrow> ('d, 'c, unit) action" where
  "verify_other_artifact cx a av keyID art =
     (if aa_ArtifactType art = ''trust_bundle'' then ret ()
      else tryE (verifyAssignedArtifactEnvelope cx a art av) (\<lambda>r. case r of
        Inl err \<Rightarrow> if keyID \<noteq> [] then raise (Wrapf ''%w; expected artifact_verification key %q'' [keyID] err) else raise err
      | Inr _ \<Rightarrow> ret ()))"

definition verifyAssignedArtifacts :: "wire \<Rightarrow> verifier \<Rightarrow> KLIQAssignment \<Rightarrow> ('d, 'c, unit) action" where
  "verifyAssignedArtifacts cx ver a =
     bindE (artifact_trust cx a ver ver [] (as_Artifacts a)) (\<lambda>(av, keyID).
     for_eachE (verify_other_artifact cx a av keyID) (as_Artifacts a))"

definition validateTrustBundle :: "TrustBundle \<Rightarrow> KLIQAssignment \<Rightarrow> VerificationResult \<Rightarrow> unit result" where
  "validateTrustBundle b a res =
     (if tb_KeyID b = [] then Inr ()
      else
     fail_if (tb_KeyID b \<noteq> as_TrustBundleRef a)
       (Errorf ''assignment trust bundle %q does not match local trust bundle %q'' [as_TrustBundleRef a, tb_KeyID b])
    (fail_if (tb_KeyID b \<noteq> vr_KeyID res)
       (Errorf ''assignment signing key %q does not match trust bundle key %q'' [vr_KeyID res, tb_KeyID b])
    (fail_if (tb_Purpose b \<noteq> ''assignment_verification'')
       (Errorf ''trust bundle %q has purpose %q, expected assignment_verification'' [tb_KeyID b, tb_Purpose b])
    (fail_if (tb_Status b \<noteq> ''active'') (Errorf ''trust bundle %q is %q'' [tb_KeyID b, tb_Status b])
    (fail_if (\<not> IsZero (tb_ExpiresAt b) \<and> \<not> After (tb_ExpiresAt b) (vr_VerifiedAt res))
       (Errorf ''trust bundle %q is expired'' [tb_KeyID b])
       (Inr ()))))))"

definition activation_context :: "ManagedAssignmentSource \<Rightarrow> VerificationResult \<Rightarrow> KLIQAssignmentActivationContext" where
  "activation_context s res =
     \<lparr>ac_KLIQID = src_KLIQID s, ac_Environment = src_Environment s, ac_Stage = src_Stage s,
      ac_Scope = src_Scope s, ac_TrustKeyID = src_TrustKeyID s, ac_AssignmentDigest = vr_PayloadSHA256 res,
      ac_Now = vr_VerifiedAt res, ac_ActiveAssignmentVersion = src_ActiveAssignmentVersion s,
      ac_ActiveAssignmentDigest = src_ActiveAssignmentDigest s\<rparr>"

definition verifyAssignment ::
  "wire \<Rightarrow> 'e sysenv_scheme \<Rightarrow> ManagedAssignmentSource \<Rightarrow> verifier \<Rightarrow> SignedEnvelope \<Rightarrow> ('d, 'c, KLIQAssignment) action" where
  "verifyAssignment cx env s ver envelope =
     bindE (ask (\<lambda>n. ver n envelope)) (\<lambda>res.
     guardE (\<not> vr_Valid res) (Errorf ''assignment signature invalid: %s'' [vr_Error res])
    (bindE (lift (dec_Assignment cx (env_Payload envelope))) (\<lambda>a0.
     guardE (as_TrustKeyID a0 \<noteq> [] \<and> as_TrustKeyID a0 \<noteq> vr_KeyID res)
       (Errorf ''assignment trust key %q does not match envelope key %q'' [as_TrustKeyID a0, vr_KeyID res])
    (bindE (lift (validateTrustBundle (src_TrustBundle s) a0 res)) (\<lambda>_.
     let a = a0\<lparr>as_SignatureValid := True\<rparr> in
     bindE (lift (ValidateAssignedArtifactDigests (sha cx) a)) (\<lambda>_.
     bindE (verifyAssignedArtifacts cx ver a) (\<lambda>_.
     bindE (read_clock env) (\<lambda>wall.
     bindE (lift (ValidateKLIQAssignmentActivation a (activation_context s res) wall)) (\<lambda>_.
     ret a)))))))))"

text \<open>
  \<^verbatim>\<open>Load\<close>. The result is the bytes and the source reference, or the error, beside the source
  after the call.
\<close>

definition assignment_url :: "ManagedAssignmentSource \<Rightarrow> string" where
  "assignment_url s = TrimRight (src_BaseURL s) (CHR ''/'') @ ''/v1/kliq/assignments/'' @ src_KLIQID s @ ''/latest''"

definition assignment_request :: "ManagedAssignmentSource \<Rightarrow> http_request" where
  "assignment_request s =
     \<lparr>rq_URL = assignment_url s,
      rq_Authorization = (if src_BearerToken s \<noteq> [] then Some (''Bearer '' @ src_BearerToken s) else None)\<rparr>"

definition Load ::
  "wire \<Rightarrow> 'e sysenv_scheme \<Rightarrow> http \<Rightarrow> ManagedAssignmentSource \<Rightarrow>
     ('d, 'c, (bytes \<times> string) result \<times> ManagedAssignmentSource) action" where
  "Load cx env client s =
     (if blank (src_BaseURL s) then ret (Inl (Errorf ''managed assignment source requires base url'' []), s)
      else if blank (src_KLIQID s) then ret (Inl (Errorf ''managed assignment source requires kliq id'' []), s)
      else case src_Verifier s of
        None \<Rightarrow> ret (Inl (Errorf ''managed assignment source requires verifier'' []), s)
      | Some ver \<Rightarrow>
        tryE (ask (\<lambda>n. client n (assignment_request s))) (\<lambda>r. case r of
          Inl err \<Rightarrow> ret (Inl err, s)
        | Inr resp \<Rightarrow>
          if rp_StatusCode resp < 200 \<or> 300 \<le> rp_StatusCode resp
          then ret (Inl (Errorf ''assignment api returned %s: %s''
                           [rp_Status resp, TrimSpace (take 1024 (rp_Body resp))]), s)
          else case dec_EnvelopeStream cx (rp_Body resp) of
            Inl err \<Rightarrow> ret (Inl err, s)
          | Inr envelope \<Rightarrow>
            tryE (verifyAssignment cx env s ver envelope) (\<lambda>r. case r of
              Inl err \<Rightarrow> ret (Inl err, s)
            | Inr a \<Rightarrow>
              (let s' = s\<lparr>src_assignment := Some a, src_assignmentDigest := env_PayloadSHA256 envelope\<rparr> in
               case RuntimeBundleArtifact a of
                 None \<Rightarrow> ret (Inl (Errorf ''assignment %q does not include runtime_bundle artifact'' [as_AssignmentID a]), s')
               | Some art \<Rightarrow> ret (Inr (aa_Envelope art, assignment_url s @ ''#'' @ as_AssignmentID a), s')))))"

section \<open>What loading keeps\<close>

context world_invariant
begin

lemma keeps_VerifySignedRuntimeBundle: "keeps_inv I (VerifySignedRuntimeBundle cx data ver)"
  unfolding VerifySignedRuntimeBundle_def by (intro keeps keeps_world)

lemma keeps_verifyAssignedArtifactEnvelope: "keeps_inv I (verifyAssignedArtifactEnvelope cx a art ver)"
  unfolding verifyAssignedArtifactEnvelope_def by (intro keeps keeps_world)

lemma keeps_artifact_trust: "keeps_inv I (artifact_trust cx a ver av keyID arts)"
  by (induction arts arbitrary: av keyID)
    (auto intro!: keeps keeps_verifyAssignedArtifactEnvelope split: sum.split)

lemma keeps_verifyAssignedArtifacts: "keeps_inv I (verifyAssignedArtifacts cx ver a)"
  unfolding verifyAssignedArtifacts_def verify_other_artifact_def
  by (intro keeps keeps_artifact_trust keeps_verifyAssignedArtifactEnvelope)

lemma keeps_verifyAssignment: "keeps_inv I (verifyAssignment cx env s ver envelope)"
  unfolding verifyAssignment_def by (intro keeps keeps_world keeps_verifyAssignedArtifacts)

lemma keeps_Load: "keeps_inv I (Load cx env client s)"
  unfolding Load_def by (intro keeps keeps_world keeps_verifyAssignment)

lemma keeps_LocalFileSource_Load: "keeps_inv I (LocalFileSource_Load readFile path)"
  unfolding LocalFileSource_Load_def by (intro keeps keeps_world)

lemmas keeps_bundle_source =
  keeps_VerifySignedRuntimeBundle keeps_verifyAssignment keeps_Load keeps_LocalFileSource_Load

end

section \<open>The chain of trust\<close>

text \<open>What a verified bundle is.\<close>

lemma VerifySignedRuntimeBundle_sound:
  assumes "VerifySignedRuntimeBundle cx data v w = (Inr bv, w')"
  shows "\<exists>ver. v = Some ver \<and> dec_Envelope cx data = Inr (bv_Envelope bv) \<and>
    ver (tick w) (bv_Envelope bv) = Inr (bv_Result bv) \<and> vr_Valid (bv_Result bv) \<and>
    env_ExpiresAt (bv_Envelope bv) \<noteq> None \<and> dec_RuntimeBundle cx (env_Payload (bv_Envelope bv)) = Inr (bv_Bundle bv) \<and>
    rb_Kind (bv_Bundle bv) = ''RuntimeBundle'' \<and> md_ArtifactType (rb_Metadata (bv_Bundle bv)) = ''runtime_bundle'' \<and>
    w' = w\<lparr>tick := Suc (tick w)\<rparr>"
  using assms unfolding VerifySignedRuntimeBundle_def
  by (cases v) (auto simp: runs)

text \<open>An artifact whose envelope a verifier accepted, with the payload its type announces.\<close>

definition accepted_by :: "wire \<Rightarrow> verifier \<Rightarrow> KLIQAssignment \<Rightarrow> KLIQAssignedArtifact \<Rightarrow> SignedEnvelope \<Rightarrow> VerificationResult \<Rightarrow> bool" where
  "accepted_by cx ver a art envelope res \<longleftrightarrow>
     SupportedAssignmentArtifactType (aa_ArtifactType art) \<and> dec_Envelope cx (aa_Envelope art) = Inr envelope \<and>
     env_Kind envelope = ''SignedEnvelope'' \<and> (\<exists>n. ver n envelope = Inr res) \<and> vr_Valid res \<and>
     (env_SourceCommit envelope = [] \<or> as_SourceCommit a = [] \<or> env_SourceCommit envelope = as_SourceCommit a) \<and>
     validateAssignedArtifactPayloadType cx (aa_ArtifactType art) (env_Payload envelope) = Inr ()"

lemma verifyAssignedArtifactEnvelope_sound:
  "verifyAssignedArtifactEnvelope cx a art ver w = (Inr (envelope, res), w') \<Longrightarrow> accepted_by cx ver a art envelope res"
  unfolding verifyAssignedArtifactEnvelope_def accepted_by_def
  by (auto simp: steps elim!: step_elims split: sum.splits)

text \<open>
  The key that signs the other artifacts: the verifier of the assignment itself, or one made
  from a trust bundle the assignment carries, which the verifier of the assignment accepted.
\<close>

definition delegated :: "wire \<Rightarrow> verifier \<Rightarrow> KLIQAssignment \<Rightarrow> KLIQAssignedArtifact list \<Rightarrow> verifier \<Rightarrow> bool" where
  "delegated cx ver a arts av \<longleftrightarrow>
     (\<exists>art \<in> set arts. \<exists>envelope res b. aa_ArtifactType art = ''trust_bundle'' \<and> accepted_by cx ver a art envelope res \<and>
        dec_TrustBundle cx (env_Payload envelope) = Inr b \<and> artifactVerifierFromTrustBundle cx b (vr_VerifiedAt res) = Inr av)"

lemma artifact_trust_sound:
  "artifact_trust cx a ver av0 key0 arts w = (Inr (av, key), w') \<Longrightarrow>
     (av = av0 \<or> delegated cx ver a arts av) \<and>
     (\<forall>art \<in> set arts. aa_ArtifactType art = ''trust_bundle'' \<longrightarrow> (\<exists>envelope res. accepted_by cx ver a art envelope res))"
proof (induction arts arbitrary: av0 key0 w)
  case Nil
  then show ?case by (simp add: runs)
next
  case (Cons art arts)
  show ?case
  proof (cases "aa_ArtifactType art = ''trust_bundle''")
    case False
    with Cons.prems have "artifact_trust cx a ver av0 key0 arts w = (Inr (av, key), w')" by simp
    from Cons.IH [OF this] False show ?thesis by (auto simp: delegated_def)
  next
    case True
    with Cons.prems obtain envelope res v b where
      env: "verifyAssignedArtifactEnvelope cx a art ver w = (Inr (envelope, res), v)" and
      b: "dec_TrustBundle cx (env_Payload envelope) = Inr b" and
      rest: "tb_Purpose b \<noteq> ''artifact_verification'' \<and> artifact_trust cx a ver av0 key0 arts v = (Inr (av, key), w') \<or>
        (\<exists>u. artifactVerifierFromTrustBundle cx b (vr_VerifiedAt res) = Inr u \<and>
             artifact_trust cx a ver u (tb_KeyID b) arts v = (Inr (av, key), w'))"
      by (auto simp: steps elim!: step_elims split: sum.splits if_splits)
    from verifyAssignedArtifactEnvelope_sound [OF env] have acc: "accepted_by cx ver a art envelope res" .
    from rest show ?thesis
    proof (elim disjE exE conjE)
      assume "artifact_trust cx a ver av0 key0 arts v = (Inr (av, key), w')"
      from Cons.IH [OF this] acc show ?thesis by (auto simp: delegated_def)
    next
      fix u
      assume u: "artifactVerifierFromTrustBundle cx b (vr_VerifiedAt res) = Inr u"
        and "artifact_trust cx a ver u (tb_KeyID b) arts v = (Inr (av, key), w')"
      from Cons.IH [OF this(2)] acc True b u show ?thesis by (auto simp: delegated_def)
    qed
  qed
qed

lemma verify_other_artifacts_sound:
  "for_eachE (verify_other_artifact cx a av key) arts w = (Inr u, w') \<Longrightarrow> art \<in> set arts \<Longrightarrow>
     aa_ArtifactType art \<noteq> ''trust_bundle'' \<Longrightarrow> \<exists>envelope res. accepted_by cx av a art envelope res"
proof (induction arts arbitrary: w)
  case (Cons b arts)
  then obtain v where b: "verify_other_artifact cx a av key b w = (Inr (), v)"
    and rest: "for_eachE (verify_other_artifact cx a av key) arts v = (Inr u, w')"
    by (auto simp: runs)
  show ?case
  proof (cases "art = b")
    case True
    with b Cons.prems(3) obtain envelope res v' where
      "verifyAssignedArtifactEnvelope cx a art av w = (Inr (envelope, res), v')"
      by (auto simp: verify_other_artifact_def elim!: step_elims split: sum.splits if_splits)
    from verifyAssignedArtifactEnvelope_sound [OF this] show ?thesis by blast
  next
    case False
    with Cons rest show ?thesis by auto
  qed
qed simp

text \<open>Every artifact of the assignment is accepted by the verifier of its kind.\<close>

definition chain_of_trust :: "wire \<Rightarrow> verifier \<Rightarrow> KLIQAssignment \<Rightarrow> bool" where
  "chain_of_trust cx ver a \<longleftrightarrow>
     (\<exists>av. (av = ver \<or> delegated cx ver a (as_Artifacts a) av) \<and>
       (\<forall>art \<in> set (as_Artifacts a). \<exists>envelope res.
          accepted_by cx (if aa_ArtifactType art = ''trust_bundle'' then ver else av) a art envelope res))"

lemma verifyAssignedArtifacts_sound:
  assumes "verifyAssignedArtifacts cx ver a w = (Inr u, w')"
  shows "chain_of_trust cx ver a"
proof -
  from assms obtain av key v where
    trust: "artifact_trust cx a ver ver [] (as_Artifacts a) w = (Inr (av, key), v)" and
    others: "for_eachE (verify_other_artifact cx a av key) (as_Artifacts a) v = (Inr u, w')"
    by (auto simp: verifyAssignedArtifacts_def runs)
  from artifact_trust_sound [OF trust] verify_other_artifacts_sound [OF others] show ?thesis
    unfolding chain_of_trust_def by (intro exI [of _ av]) auto
qed

text \<open>What an accepted assignment is.\<close>

lemma verifyAssignment_sound:
  assumes "verifyAssignment cx env s ver envelope w = (Inr a, w')"
  shows "\<exists>res a0 wall. ver (tick w) envelope = Inr res \<and> vr_Valid res \<and>
    dec_Assignment cx (env_Payload envelope) = Inr a0 \<and> a = a0\<lparr>as_SignatureValid := True\<rparr> \<and>
    validateTrustBundle (src_TrustBundle s) a0 res = Inr () \<and>
    ValidateAssignedArtifactDigests (sha cx) a = Inr () \<and> chain_of_trust cx ver a \<and>
    ValidateKLIQAssignmentActivation a (activation_context s res) wall = Inr ()"
  using assms unfolding verifyAssignment_def Let_def
  by (auto simp: runs dest!: verifyAssignedArtifacts_sound)

lemma Load_sound:
  assumes "Load cx env client s w = (Inr (Inr (data, ref), s'), w')"
  shows "\<exists>ver envelope a v art. src_Verifier s = Some ver \<and>
    verifyAssignment cx env s ver envelope v = (Inr a, w') \<and>
    src_assignment s' = Some a \<and> src_assignmentDigest s' = env_PayloadSHA256 envelope \<and>
    RuntimeBundleArtifact a = Some art \<and> data = aa_Envelope art"
  using assms unfolding Load_def
  by (auto simp: steps Let_def elim!: step_elims split: if_splits option.splits sum.splits) blast

lemma Load_total: "\<exists>r s' w'. Load cx env client s w = (Inr (r, s'), w')"
proof -
  have "fst (Load cx env client s w) \<noteq> Inl e" for e
    unfolding Load_def
    by (auto simp: tryE_def ret_def Let_def split: prod.split sum.split option.split)
  then show ?thesis by (metis obj_sumE prod.collapse)
qed

end
