(* ===== verification/Artifact_Checks.thy ===== *)
theory Artifact_Checks
  imports Bundle_Source Action_State GoTime
begin

text \<open>
  The checks of the artifacts an assignment carries before it is activated, and the records
  that are saved for them (\<^verbatim>\<open>validateManagedAssignmentArtifacts\<close> and what it calls in
  \<^verbatim>\<open>internal/kliq/runtime/manager.go\<close>).
\<close>

definition parsePositiveDuration :: "string \<Rightarrow> string \<Rightarrow> duration result" where
  "parsePositiveDuration value field =
     fail_if (value = []) (Errorf ''%s is required'' [field])
    (case ParseDuration value of
       Inl err \<Rightarrow> Inl (Wrapf ''invalid %s %q: %w'' [field, value] err)
     | Inr parsed \<Rightarrow> fail_if (parsed \<le> 0) (Errorf ''%s must be positive'' [field]) (Inr parsed))"

lemma parsePositiveDuration_iff [guards]:
  "parsePositiveDuration value field = Inr d \<longleftrightarrow> value \<noteq> [] \<and> ParseDuration value = Inr d \<and> 0 < d"
  by (auto simp: parsePositiveDuration_def split: sum.splits)

definition missing :: "string \<Rightarrow> string \<Rightarrow> unit result \<Rightarrow> unit result" where
  "missing value field rest = fail_if (blank value) (Errorf (field @ '' is required'') []) rest"

lemma missing_iff [simp, guards]: "missing value field rest = Inr u \<longleftrightarrow> \<not> blank value \<and> rest = Inr u"
  by (simp add: missing_def)

definition assignmentArtifactPayload :: "wire \<Rightarrow> KLIQAssignedArtifact \<Rightarrow> bytes result" where
  "assignmentArtifactPayload cx art =
     check_then (dec_Envelope cx (aa_Envelope art)) (\<lambda>envelope.
       fail_if (env_Payload envelope = []) (Errorf ''signed envelope payload is empty'' []) (Inr (env_Payload envelope)))"

definition validateRuntimeBundleArtifact :: "wire \<Rightarrow> bytes \<Rightarrow> unit result" where
  "validateRuntimeBundleArtifact cx payload =
     check_then (dec_RuntimeBundle cx payload) (\<lambda>b.
       fail_if (rb_Kind b \<noteq> ''RuntimeBundle'') (Errorf ''kind must be RuntimeBundle'' [])
      (missing (md_ID (rb_Metadata b)) ''metadata.id''
      (missing (md_PolicyID (rb_Metadata b)) ''metadata.policy_id''
      (missing (bs_PolicyID (rb_Spec b)) ''spec.policy_id'' (Inr ())))))"

definition validateAdapterAssignmentArtifact :: "wire \<Rightarrow> bytes \<Rightarrow> unit result" where
  "validateAdapterAssignmentArtifact cx payload =
     check_then (dec_AdapterAssignment cx payload) (\<lambda>a.
       fail_if (adp_Kind a \<noteq> ''AdapterAssignment'') (Errorf ''kind must be AdapterAssignment'' [])
      (missing (adp_AdapterID a) ''adapter_id'' (missing (adp_Endpoint a) ''endpoint'' (Inr ()))))"

definition manifest_capability :: "nat \<times> ManifestCapability \<Rightarrow> unit result" where
  "manifest_capability ic =
     (case ic of (i, c) \<Rightarrow>
       fail_if (blank (mc_CapabilityID c))
         (Errorf ''spec.capabilities[%d].capability_id is required'' [int_digits (int i)])
      (fail_if (blank (mc_ImplementationStatus c))
         (Errorf ''spec.capabilities[%d].implementation_status is required'' [int_digits (int i)])
         (Inr ())))"

definition validateAdapterManifestArtifact :: "wire \<Rightarrow> bytes \<Rightarrow> unit result" where
  "validateAdapterManifestArtifact cx payload =
     check_then (dec_AdapterManifest cx payload) (\<lambda>m.
       fail_if (amd_Kind m \<noteq> ''AdapterManifest'') (Errorf ''kind must be AdapterManifest'' [])
      (missing (amd_MetadataID m) ''metadata.id''
      (fail_if (TrimSpace (amd_MetadataArtifactType m) \<noteq> ''adapter_manifest'')
         (Errorf ''metadata.artifact_type must be adapter_manifest'' [])
      (missing (ams_AdapterID (amd_Spec m)) ''spec.adapter_id''
      (missing (ams_AdapterVersion (amd_Spec m)) ''spec.adapter_version''
      (missing (ams_ProtocolVersion (amd_Spec m)) ''spec.protocol_version''
      (missing (ams_Status (amd_Spec m)) ''spec.status''
      (missing (ams_Digest (amd_Spec m)) ''spec.digest''
      (fail_if (ams_Capabilities (amd_Spec m) = []) (Errorf ''spec.capabilities is required'' [])
      (for_each manifest_capability (List.enumerate 0 (ams_Capabilities (amd_Spec m)))))))))))))"

definition validateContextRoutePackArtifact :: "wire \<Rightarrow> bytes \<Rightarrow> unit result" where
  "validateContextRoutePackArtifact cx payload =
     check_then (dec_ContextRoutePack cx payload) (\<lambda>pack.
       fail_if (cp_Kind pack \<noteq> ''ContextRoutePack'') (Errorf ''kind must be ContextRoutePack'' [])
      (missing (cps_PolicyID (cp_Spec pack)) ''spec.policy_id''
      (missing (cps_Target (cp_Spec pack)) ''spec.target''
      (missing (cps_Stage (cp_Spec pack)) ''spec.stage''
      (fail_if (cps_Routes (cp_Spec pack) = []) (Errorf ''spec.routes is required'' [])
      (for_each (\<lambda>route. missing (cr_Name route) ''route.name'' (Inr ())) (cps_Routes (cp_Spec pack))))))))"

definition validateConformanceExpectationArtifact :: "wire \<Rightarrow> bytes \<Rightarrow> unit result" where
  "validateConformanceExpectationArtifact cx payload =
     check_then (dec_ConformanceExpectation cx payload) (\<lambda>e.
       fail_if (ce_Kind e \<noteq> ''ConformanceExpectation'') (Errorf ''kind must be ConformanceExpectation'' [])
      (missing (ces_PolicyID (ce_Spec e)) ''spec.policy_id''
      (missing (ces_Target (ce_Spec e)) ''spec.target''
      (missing (ces_Stage (ce_Spec e)) ''spec.stage''
      (fail_if (ces_Expectations (ce_Spec e) = [] \<and> ces_Prohibit (ce_Spec e) = [])
         (Errorf ''spec.expectations or spec.prohibit is required'' [])
         (Inr ()))))))"

definition validTrustBundlePurpose :: "string \<Rightarrow> bool" where
  "validTrustBundlePurpose purpose \<longleftrightarrow>
     TrimSpace purpose = ''assignment_verification'' \<or> TrimSpace purpose = ''artifact_verification''"

definition validateTrustBundleArtifact :: "wire \<Rightarrow> bytes \<Rightarrow> gotime \<Rightarrow> unit result" where
  "validateTrustBundleArtifact cx payload now =
     check_then (dec_TrustBundle cx payload) (\<lambda>b.
       missing (tb_KeyID b) ''key_id''
      (missing (tb_PublicKey b) ''public_key''
      (fail_if (\<not> validTrustBundlePurpose (tb_Purpose b)) (Errorf ''unsupported trust bundle purpose %q'' [tb_Purpose b])
      (fail_if (tb_Status b \<noteq> ''active'' \<and> tb_Status b \<noteq> ''previous'')
         (Errorf ''trust bundle status %q cannot verify managed assignments'' [tb_Status b])
      (fail_if (\<not> IsZero (tb_ExpiresAt b) \<and> \<not> Before now (tb_ExpiresAt b)) (Errorf ''trust bundle is expired'' [])
         (Inr ()))))))"

definition validateManagementProfileArtifact :: "wire \<Rightarrow> bytes \<Rightarrow> unit result" where
  "validateManagementProfileArtifact cx payload =
     check_then (dec_ManagementProfile cx payload) (\<lambda>p.
       fail_if (mp_Kind p \<noteq> [] \<and> mp_Kind p \<noteq> ''KLIQManagementProfile'' \<and> mp_Kind p \<noteq> ''ManagementProfile'')
         (Errorf ''unsupported management profile kind %q'' [mp_Kind p])
      (missing (mp_ProfileID p) ''profile_id''
      (missing (mp_Mode p) ''mode''
      (for_each (\<lambda>(name, value).
           if blank value then Inr () else check_then (parsePositiveDuration value name) (\<lambda>_. Inr ()))
         [(''poll_interval'', mp_PollInterval p), (''heartbeat_interval'', mp_HeartbeatInterval p),
          (''status_interval'', mp_StatusInterval p), (''decision_interval'', mp_DecisionInterval p),
          (''reconcile_interval'', mp_ReconcileInterval p), (''audit_flush_interval'', mp_AuditFlushInterval p)]))))"

definition validateFallbackProfileArtifact :: "wire \<Rightarrow> bytes \<Rightarrow> unit result" where
  "validateFallbackProfileArtifact cx payload =
     check_then (dec_FallbackProfile cx payload) (\<lambda>p.
       fail_if (fp_Kind p \<noteq> [] \<and> fp_Kind p \<noteq> ''KLIQFallbackProfile'' \<and> fp_Kind p \<noteq> ''FallbackProfile'')
         (Errorf ''unsupported fallback profile kind %q'' [fp_Kind p])
      (missing (fp_ProfileID p) ''profile_id''
      (missing (fp_Mode p) ''mode''
      (fail_if (\<not> fp_AuditRequired p) (Errorf ''audit_required must be true'' []) (Inr ())))))"

definition wrap_error :: "string \<Rightarrow> string \<Rightarrow> unit result \<Rightarrow> unit result" where
  "wrap_error f artifactID r = (case r of Inl err \<Rightarrow> Inl (Wrapf f [artifactID] err) | Inr _ \<Rightarrow> Inr ())"

lemma wrap_error_iff [simp, guards]: "wrap_error f i r = Inr u \<longleftrightarrow> r = Inr ()"
  by (auto simp: wrap_error_def split: sum.splits)

text \<open>The body of the loop of \<^verbatim>\<open>validateManagedAssignmentArtifacts\<close>.\<close>

definition validate_artifact :: "wire \<Rightarrow> gotime \<Rightarrow> KLIQAssignedArtifact \<Rightarrow> unit result" where
  "validate_artifact cx now art =
     (case assignmentArtifactPayload cx art of
        Inl err \<Rightarrow> Inl (Wrapf ''assignment artifact %q payload unavailable: %w'' [aa_ArtifactID art] err)
      | Inr payload \<Rightarrow>
          (let t = aa_ArtifactType art; key = aa_ArtifactID art in
           if t = ''runtime_bundle'' then
             wrap_error ''runtime bundle artifact %q invalid: %w'' key (validateRuntimeBundleArtifact cx payload)
           else if t = ''adapter_manifest'' then
             wrap_error ''adapter manifest artifact %q invalid: %w'' key (validateAdapterManifestArtifact cx payload)
           else if t = ''adapter_assignment'' then
             wrap_error ''adapter assignment artifact %q invalid: %w'' key (validateAdapterAssignmentArtifact cx payload)
           else if t = ''context_route_pack'' then
             wrap_error ''context route pack artifact %q invalid: %w'' key (validateContextRoutePackArtifact cx payload)
           else if t = ''conformance_expectation'' then
             wrap_error ''conformance expectation artifact %q invalid: %w'' key
               (validateConformanceExpectationArtifact cx payload)
           else if t = ''trust_bundle'' then
             wrap_error ''trust bundle artifact %q invalid: %w'' key (validateTrustBundleArtifact cx payload now)
           else if t = ''management_profile'' then
             wrap_error ''management profile artifact %q invalid: %w'' key (validateManagementProfileArtifact cx payload)
           else if t = ''fallback_profile'' then
             wrap_error ''fallback profile artifact %q invalid: %w'' key (validateFallbackProfileArtifact cx payload)
           else Inl (Errorf ''unsupported assignment artifact type %q'' [t])))"

definition validateManagedAssignmentArtifacts :: "wire \<Rightarrow> KLIQAssignedArtifact list \<Rightarrow> gotime \<Rightarrow> unit result" where
  "validateManagedAssignmentArtifacts cx artifacts now =
     check_then (for_each (validate_artifact cx now) artifacts) (\<lambda>_.
       fail_if (\<not> (\<exists>art \<in> set artifacts. aa_ArtifactType art = ''runtime_bundle''))
         (Errorf ''managed assignment requires runtime_bundle artifact'' [])
         (Inr ()))"

definition assignmentArtifactActivationStatus :: "string \<Rightarrow> string" where
  "assignmentArtifactActivationStatus t =
     (if SupportedAssignmentArtifactType t then ''activated'' else ''unknown'')"

definition assignmentArtifactActivationMessage :: "string \<Rightarrow> string" where
  "assignmentArtifactActivationMessage t =
     (if t = ''runtime_bundle'' then ''runtime bundle verified and active''
      else if t = ''adapter_manifest'' then ''adapter manifest verified and active for approved runtime adapter provenance''
      else if t = ''adapter_assignment'' then ''adapter assignment validated and available for daemon registry activation''
      else if t = ''context_route_pack'' then ''context route pack validated and active for local context routing''
      else if t = ''conformance_expectation'' then ''conformance expectation validated and active for local evidence expectations''
      else if t = ''trust_bundle'' then ''trust bundle validated and active in assignment artifact state''
      else if t = ''management_profile'' then ''management profile validated and available for daemon interval control''
      else if t = ''fallback_profile'' then ''fallback profile validated and active for local fallback behavior''
      else ''artifact type not recognized by activation status mapper'')"

definition artifact_record ::
  "ManagedAssignmentActivation \<Rightarrow> gotime \<Rightarrow> KLIQAssignedArtifact \<Rightarrow> AssignmentArtifactRecord" where
  "artifact_record activation activatedAt art =
     \<lparr>ar_KLIQID = ma_KLIQID activation, ar_AssignmentID = ma_AssignmentID activation,
      ar_AssignmentVersion = ma_AssignmentVersion activation, ar_ArtifactType = aa_ArtifactType art,
      ar_ArtifactID = aa_ArtifactID art, ar_ArtifactRef = aa_ArtifactRef art, ar_SHA256 = aa_SHA256 art,
      ar_EnvelopeJSON = aa_Envelope art,
      ar_ActivationStatus = assignmentArtifactActivationStatus (aa_ArtifactType art),
      ar_ActivationMessage = assignmentArtifactActivationMessage (aa_ArtifactType art),
      ar_ActivatedAt = activatedAt\<rparr>"

definition assignmentArtifactRecords ::
  "ManagedAssignmentActivation \<Rightarrow> KLIQAssignedArtifact list \<Rightarrow> gotime \<Rightarrow> AssignmentArtifactRecord list" where
  "assignmentArtifactRecords activation artifacts activatedAt = map (artifact_record activation activatedAt) artifacts"

section \<open>What the checks guarantee\<close>

lemma validate_artifact_supported:
  "validate_artifact cx now art = Inr u \<Longrightarrow> SupportedAssignmentArtifactType (aa_ArtifactType art)"
  by (simp add: validate_artifact_def SupportedAssignmentArtifactType_def Let_def split: sum.splits if_splits)

lemma validate_artifact_fallback:
  assumes "validate_artifact cx now art = Inr u" and "aa_ArtifactType art = ''fallback_profile''"
  shows "\<exists>payload p. assignmentArtifactPayload cx art = Inr payload \<and> dec_FallbackProfile cx payload = Inr p \<and> fp_AuditRequired p"
  using assms
  by (auto simp: validate_artifact_def Let_def validateFallbackProfileArtifact_def split: sum.splits)

lemma validate_artifact_trust:
  assumes "validate_artifact cx now art = Inr u" and "aa_ArtifactType art = ''trust_bundle''"
  shows "\<exists>payload b. assignmentArtifactPayload cx art = Inr payload \<and> dec_TrustBundle cx payload = Inr b \<and>
    validTrustBundlePurpose (tb_Purpose b) \<and> tb_Status b \<in> {''active'', ''previous''} \<and>
    (IsZero (tb_ExpiresAt b) \<or> Before now (tb_ExpiresAt b))"
  using assms
  by (auto simp: validate_artifact_def Let_def validateTrustBundleArtifact_def split: sum.splits)

lemma validateManagedAssignmentArtifacts_iff [guards]:
  "validateManagedAssignmentArtifacts cx artifacts now = Inr u \<longleftrightarrow>
     (\<forall>art \<in> set artifacts. validate_artifact cx now art = Inr ()) \<and>
     (\<exists>art \<in> set artifacts. aa_ArtifactType art = ''runtime_bundle'')"
  by (auto simp: validateManagedAssignmentArtifacts_def)

end
