(* ===== verification/Runtime_Plan.thy ===== *)
theory Runtime_Plan
  imports SQLite_Managed Runtime_Adapter Artifact_Checks
begin

text \<open>
  The first half of the runtime manager (\<^verbatim>\<open>internal/kliq/runtime/manager.go\<close>): loading and activating
  a bundle, the checks that the active assignment makes before an action, and the plan that
  is derived from a request, the verified bundle and the risk cache.

  The record \<open>system\<close> collects what surrounds the manager: clock and database faults
  (\<open>sysenv\<close>), decoders and primitives (\<open>wire\<close>), the HTTP client and the file system.
  \<^verbatim>\<open>m.Now\<close>, when set, is the clock of the system; \<open>m_Store\<close> says whether a store is configured
  (the interface \<^verbatim>\<open>actionstate.Store\<close> includes \<^verbatim>\<open>SaveManagedBundleActivation\<close>, so the type
  assertion of \<^verbatim>\<open>LoadManagedBundle\<close> always succeeds and its second branch is dead).
\<close>

record system = sysenv +
  sys_wire :: wire
  sys_http :: http
  sys_readFile :: "nat \<Rightarrow> string \<Rightarrow> bytes result"

type_synonym kliq_world = "(sqlite, adapter_call) world"
type_synonym 'a kliq = "(sqlite, adapter_call, 'a) action"

record Manager =
  m_Store :: bool
  m_Verifier :: "verifier option"
  m_TrustBundle :: TrustBundle
  m_Registry :: "StaticAdapterRuntimeRegistry option"

record ExecuteRequest =
  er_DecisionID :: string
  er_EventType :: string
  er_EventID :: string
  er_RiskType :: string
  er_AdapterID :: string
  er_CapabilityID :: string
  er_CapabilityGrantID :: string
  er_BindingID :: string
  er_BindingDigest :: string
  er_AdapterManifestDigest :: string
  er_ActionDigest :: string
  er_Mode :: string
  er_ActionType :: string
  er_TargetScope :: string
  er_TargetKey :: string
  er_TTL :: string
  er_Reason :: string
  er_AuditID :: string
  er_CorrelationID :: string
  er_DeriveAuditIDFromDecisionID :: bool

section \<open>Loading a bundle\<close>

text \<open>\<open>load\<close> is the method \<^verbatim>\<open>Load\<close> of the source.\<close>

definition buildBundleRecord :: "system \<Rightarrow> Manager \<Rightarrow> (bytes \<times> string) kliq \<Rightarrow> BundleRecord kliq" where
  "buildBundleRecord S m load =
     bindE load (\<lambda>(data, sourceRef).
     bindE (VerifySignedRuntimeBundle (sys_wire S) data (m_Verifier m)) (\<lambda>verified.
     bindE (read_clock S) (\<lambda>now.
     ret \<lparr>br_BundleID = md_ID (rb_Metadata (bv_Bundle verified)),
          br_PolicyID = md_PolicyID (rb_Metadata (bv_Bundle verified)),
          br_SourceCommit = md_SourceCommit (rb_Metadata (bv_Bundle verified)),
          br_CorrelationID = md_CorrelationID (rb_Metadata (bv_Bundle verified)),
          br_KeyID = env_KeyID (bv_Envelope verified), br_PayloadSHA256 = env_PayloadSHA256 (bv_Envelope verified),
          br_BundleSource = sourceRef, br_EnvelopeJSON = data,
          br_ExpiresAt = (case env_ExpiresAt (bv_Envelope verified) of None \<Rightarrow> 0 | Some t \<Rightarrow> t),
          br_VerifiedAt = now\<rparr>)))"

definition loadBundle :: "system \<Rightarrow> Manager \<Rightarrow> (bytes \<times> string) kliq \<Rightarrow> BundleRecord kliq" where
  "loadBundle S m load =
     bindE (buildBundleRecord S m load) (\<lambda>record. bindE (SaveBundle S record) (\<lambda>_. ret record))"

definition LoadBundle :: "system \<Rightarrow> Manager \<Rightarrow> (bytes \<times> string) kliq \<Rightarrow> BundleRecord kliq" where
  "LoadBundle S m load =
     guardE (\<not> m_Store m) (Errorf ''kliq runtime manager requires state store'' [])
    (guardE (m_Verifier m = None) (Errorf ''kliq runtime manager requires bundle verifier'' [])
       (loadBundle S m load))"

definition source_with_verifier :: "Manager \<Rightarrow> ManagedAssignmentSource \<Rightarrow> ManagedAssignmentSource" where
  "source_with_verifier m s = (if src_Verifier s = None then s\<lparr>src_Verifier := m_Verifier m\<rparr> else s)"

text \<open>The source takes the active version and digest from the store.\<close>

definition source_with_active :: "system \<Rightarrow> ManagedAssignmentSource \<Rightarrow> ManagedAssignmentSource kliq" where
  "source_with_active S s =
     (if src_KLIQID s = [] then ret s
      else tryE (GetKLIQManagementState S (src_KLIQID s)) (\<lambda>r. case r of
        Inl err \<Rightarrow> if errors_Is err ErrNotFound then ret s else raise err
      | Inr state \<Rightarrow> ret (SetActiveAssignment s (ms_ActiveAssignmentVersion state) (ms_ActiveAssignmentDigest state))))"

definition management_state :: "ManagedAssignmentActivation \<Rightarrow> gotime \<Rightarrow> KLIQManagementState" where
  "management_state a now =
     \<lparr>ms_KLIQID = ma_KLIQID a, ms_ActiveAssignmentID = ma_AssignmentID a,
      ms_ActiveAssignmentVersion = ma_AssignmentVersion a, ms_ActiveAssignmentSourceCommit = ma_SourceCommit a,
      ms_ActiveAssignmentDigest = ma_AssignmentDigest a, ms_ActiveAssignmentExpiresAt = ma_ExpiresAt a,
      ms_ActiveAssignmentActivatedAt = now\<rparr>"

text \<open>What follows a successful load of the source.\<close>

definition activate_loaded :: "system \<Rightarrow> BundleRecord \<Rightarrow> ManagedAssignmentSource \<Rightarrow> BundleRecord kliq" where
  "activate_loaded S record s =
     (case AssignmentActivation s of
        None \<Rightarrow> raise (Errorf ''managed assignment source did not expose activated assignment state'' [])
      | Some activation \<Rightarrow>
          bindE (read_clock S) (\<lambda>now1.
          bindE (lift (validateManagedAssignmentArtifacts (sys_wire S) (source_AssignmentArtifacts s) now1)) (\<lambda>_.
          bindE (read_clock S) (\<lambda>now2.
          bindE (read_clock S) (\<lambda>now3.
          bindE (SaveManagedBundleActivation (sys_wire S) S record (management_state activation now3)
                   (assignmentArtifactRecords activation (source_AssignmentArtifacts s) now2)) (\<lambda>_.
          ret record))))))"

text \<open>The manager's result, beside the source after the call.\<close>

definition LoadManagedBundle ::
  "system \<Rightarrow> Manager \<Rightarrow> ManagedAssignmentSource option \<Rightarrow> (BundleRecord result \<times> ManagedAssignmentSource option) kliq" where
  "LoadManagedBundle S m source =
     (if \<not> m_Store m then ret (Inl (Errorf ''kliq runtime manager requires state store'' []), source)
      else if m_Verifier m = None then ret (Inl (Errorf ''kliq runtime manager requires bundle verifier'' []), source)
      else case source of
        None \<Rightarrow> ret (Inl (Errorf ''managed assignment source is required'' []), None)
      | Some s0 \<Rightarrow>
        (let s1 = source_with_verifier m s0 in
         tryE (source_with_active S s1) (\<lambda>r. case r of
           Inl err \<Rightarrow> ret (Inl err, Some s1)
         | Inr s2 \<Rightarrow>
           bindE (Load (sys_wire S) S (sys_http S) s2) (\<lambda>(loaded, s3).
           tryE (bindE (buildBundleRecord S m (lift loaded)) (\<lambda>record. activate_loaded S record s3)) (\<lambda>r.
           ret (r, Some s3))))))"

definition CachedBundle :: "system \<Rightarrow> Manager \<Rightarrow> (RuntimeBundleVerification \<times> BundleRecord) kliq" where
  "CachedBundle S m =
     guardE (\<not> m_Store m) (Errorf ''kliq runtime manager requires state store'' [])
    (guardE (m_Verifier m = None) (Errorf ''kliq runtime manager requires bundle verifier'' [])
    (bindE (LastBundle S) (\<lambda>record.
     bindE (VerifySignedRuntimeBundle (sys_wire S) (br_EnvelopeJSON record) (m_Verifier m)) (\<lambda>verified.
     ret (verified, record)))))"

section \<open>What the active assignment allows\<close>

text \<open>\<^verbatim>\<open>if errors.Is(err, ErrNotFound) { return nil }; if err != nil { return err }\<close>, then the rest.\<close>

definition when_found :: "'a kliq \<Rightarrow> ('a \<Rightarrow> unit kliq) \<Rightarrow> unit kliq" where
  "when_found m k =
     tryE m (\<lambda>r. case r of
       Inl err \<Rightarrow> if errors_Is err ErrNotFound then ret () else raise err
     | Inr x \<Rightarrow> k x)"

definition ensureActiveAssignmentAllowsNewActions :: "system \<Rightarrow> unit kliq" where
  "ensureActiveAssignmentAllowsNewActions S =
     when_found (GetKLIQCredential S) (\<lambda>credential.
     when_found (GetKLIQManagementState S (kc_KLIQID credential)) (\<lambda>state.
     bindE (read_clock S) (\<lambda>now.
     guardE (\<not> Before now (ms_ActiveAssignmentExpiresAt state))
       (Errorf ''active assignment %q is expired; denying new runtime actions'' [ms_ActiveAssignmentID state])
       (ret ()))))"

definition routeAllowsConsumer :: "string list \<Rightarrow> string \<Rightarrow> string \<Rightarrow> bool" where
  "routeAllowsConsumer consumers adapterID capabilityID \<longleftrightarrow>
     (\<exists>c \<in> set consumers. TrimSpace c = ''*'' \<or> TrimSpace c = adapterID \<or> TrimSpace c = capabilityID)"

definition ensureActiveContextRouteAllowsAction :: "system \<Rightarrow> string \<Rightarrow> string \<Rightarrow> unit kliq" where
  "ensureActiveContextRouteAllowsAction S adapterID capabilityID =
     when_found (GetKLIQCredential S) (\<lambda>credential.
     when_found (ActiveArtifact S (kc_KLIQID credential) ''context_route_pack'') (\<lambda>record.
     bindE (lift (dec_ContextRoutePack (sys_wire S) (act_PayloadJSON record))) (\<lambda>pack.
     guardE (\<not> (\<exists>route \<in> set (cps_Routes (cp_Spec pack)). routeAllowsConsumer (cr_Consumers route) adapterID capabilityID))
       (Errorf ''active context route pack %q does not allow adapter %q capability %q''
          [act_ArtifactID record, adapterID, capabilityID])
       (ret ()))))"

text \<open>A spool with an audit that an upload has already failed on.\<close>

definition degraded :: "AuditRecord list \<Rightarrow> bool" where
  "degraded pending \<longleftrightarrow> (\<exists>r \<in> set pending. au_RetryCount r > 0 \<or> au_LastError r \<noteq> [])"

definition ensureActiveFallbackAllowsExecution :: "system \<Rightarrow> unit kliq" where
  "ensureActiveFallbackAllowsExecution S =
     when_found (GetKLIQCredential S) (\<lambda>credential.
     when_found (ActiveArtifact S (kc_KLIQID credential) ''fallback_profile'') (\<lambda>record.
     bindE (lift (dec_FallbackProfile (sys_wire S) (act_PayloadJSON record))) (\<lambda>profile.
     guardE (\<not> fp_AuditRequired profile)
       (Errorf ''active fallback profile %q disables required audit; denying runtime action'' [fp_ProfileID profile])
    (if \<not> fp_DenyNewActionsWhenDegraded profile then ret ()
     else tryE (PendingAudits (sys_wire S) S) (\<lambda>r. case r of
       Inl err \<Rightarrow> raise (Wrapf ''audit spool unavailable under fallback profile %q: %w'' [fp_ProfileID profile] err)
     | Inr pending \<Rightarrow>
         guardE (degraded pending)
           (Errorf ''active fallback profile %q denies new runtime actions while audit spool is degraded'' [fp_ProfileID profile])
           (ret ()))))))"

section \<open>Plans\<close>

definition shortHash :: "wire \<Rightarrow> string \<Rightarrow> string" where
  "shortHash cx value = take 16 (sha cx value)"

definition actionAllowed :: "RuntimeBundle \<Rightarrow> string \<Rightarrow> bool" where
  "actionAllowed b actionType \<longleftrightarrow>
     (\<exists>a \<in> set (bs_RuntimeActions (rb_Spec b)). ra_CanonicalID a = actionType \<or> ra_Label a = actionType)"

definition grantAllowsScope :: "CapabilityGrant \<Rightarrow> string \<Rightarrow> bool" where
  "grantAllowsScope g targetScope \<longleftrightarrow> (\<exists>s \<in> set (cg_AllowedTargetScopes g). TrimSpace s = targetScope)"

definition grant_ttl_check :: "CapabilityGrant \<Rightarrow> duration \<Rightarrow> unit result" where
  "grant_ttl_check g ttl =
     (if blank (cg_MaxTTL g) then Inr ()
      else check_then (parsePositiveDuration (cg_MaxTTL g) ''capability grant max_ttl'') (\<lambda>maxTTL.
        fail_if (ttl > maxTTL)
          (Errorf ''ttl %s exceeds capability grant max_ttl %s'' [Duration_String ttl, Duration_String maxTTL])
          (Inr ())))"

definition grant_expiry_check :: "wire \<Rightarrow> CapabilityGrant \<Rightarrow> string \<Rightarrow> gotime \<Rightarrow> unit result" where
  "grant_expiry_check cx g grantID now =
     (if blank (cg_ExpiresAt g) then Inr ()
      else case parse_RFC3339 cx (TrimSpace (cg_ExpiresAt g)) of
        Inl err \<Rightarrow> Inl (Wrapf ''capability grant %q expires_at is invalid: %w'' [grantID] err)
      | Inr expiresAt \<Rightarrow> fail_if (\<not> Before now expiresAt) (Errorf ''capability grant %q is expired'' [grantID]) (Inr ()))"

definition validateCapabilityGrant ::
  "wire \<Rightarrow> RuntimeBundle \<Rightarrow> string \<Rightarrow> string \<Rightarrow> string \<Rightarrow> string \<Rightarrow> string \<Rightarrow> duration \<Rightarrow> gotime \<Rightarrow> CapabilityGrant result" where
  "validateCapabilityGrant cx b adapterID capabilityID actionType targetScope grantID ttl now =
     (case find (\<lambda>g. cg_ID g = grantID) (bs_CapabilityGrants (rb_Spec b)) of
        None \<Rightarrow> Inl (Errorf ''capability grant %q is not present in runtime bundle %q'' [grantID, md_ID (rb_Metadata b)])
      | Some g \<Rightarrow>
     fail_if (TrimSpace (cg_AdapterID g) \<noteq> adapterID)
       (Errorf ''capability grant %q adapter_id %q does not match requested adapter %q'' [grantID, cg_AdapterID g, adapterID])
    (fail_if (TrimSpace (cg_CapabilityID g) \<noteq> capabilityID)
       (Errorf ''capability grant %q capability_id %q does not match requested capability %q''
          [grantID, cg_CapabilityID g, capabilityID])
    (fail_if (TrimSpace (cg_ActionType g) \<noteq> actionType)
       (Errorf ''capability grant %q action_type %q does not match requested action %q'' [grantID, cg_ActionType g, actionType])
    (fail_if (\<not> grantAllowsScope g targetScope)
       (Errorf ''target scope %q is not allowed by capability grant %q'' [targetScope, grantID])
    (check_then (grant_ttl_check g ttl) (\<lambda>_.
     check_then (grant_expiry_check cx g grantID now) (\<lambda>_.
     check_then (for_each (\<lambda>(field, value).
         fail_if (blank value) (Errorf ''capability grant %q missing required provenance field %s'' [grantID, field]) (Inr ()))
       [(''binding_id'', cg_BindingID g), (''binding_digest'', cg_BindingDigest g),
        (''adapter_manifest_digest'', cg_AdapterManifestDigest g), (''action_digest'', cg_ActionDigest g)]) (\<lambda>_.
     Inr g))))))))"

definition provenance_check :: "string \<times> string \<times> string \<Rightarrow> unit result" where
  "provenance_check c =
     (case c of (field, requested0, expected0) \<Rightarrow>
       let requested = TrimSpace requested0; expected = TrimSpace expected0 in
       if requested = [] then Inr ()
       else fail_if (requested \<noteq> expected)
              (Errorf ''requested %s %q does not match runtime bundle grant %q'' [field, requested, expected]) (Inr ()))"

definition validateRequestedProvenance :: "ExecuteRequest \<Rightarrow> CapabilityGrant \<Rightarrow> unit result" where
  "validateRequestedProvenance req g =
     for_each provenance_check
       [(''binding_id'', er_BindingID req, cg_BindingID g), (''binding_digest'', er_BindingDigest req, cg_BindingDigest g),
        (''adapter_manifest_digest'', er_AdapterManifestDigest req, cg_AdapterManifestDigest g),
        (''action_digest'', er_ActionDigest req, cg_ActionDigest g)]"

definition zero_RiskContext :: RiskContext where
  "zero_RiskContext =
     \<lparr>rc_RiskType = [], rc_Tier = [], rc_Score = None, rc_Confidence = 0, rc_Reasons = [], rc_Signals = [],
      rc_Source = [], rc_Scope = [], rc_EvaluatedAt = 0, rc_ValidUntil = 0\<rparr>"

text \<open>The action a risk behaviour of the bundle calls for, the context it was read from, and whether there is one.\<close>

definition actionFromRiskCache :: "system \<Rightarrow> RuntimeBundle \<Rightarrow> string \<Rightarrow> (string \<times> RiskContext \<times> bool) kliq" where
  "actionFromRiskCache S b requestedRiskType =
     (let riskType = NormalizeType requestedRiskType in
      guardE (riskType = []) (Errorf ''risk_type is required when action_type is omitted'' [])
     (bindE (read_clock S) (\<lambda>now.
      bindE (GetRiskContext S \<lparr>rk_RiskType = riskType, rk_Scope = ScopeLocal\<rparr> now) (\<lambda>ctx.
      case MatchBehavior (bs_RiskBehavior (rb_Spec b)) ctx of
        None \<Rightarrow> ret ([], ctx, False)
      | Some behavior \<Rightarrow>
          (let (actionType, actionable) = RuntimeActionForEffect (pb_Effect behavior) in ret (actionType, ctx, actionable))))))"

definition riskCorrelationID :: "wire \<Rightarrow> string \<Rightarrow> string \<Rightarrow> string \<Rightarrow> string \<Rightarrow> string" where
  "riskCorrelationID cx requested bundleCorrelationID bundleID decisionID =
     (let c1 = TrimSpace requested;
          c2 = (if c1 = [] then TrimSpace bundleCorrelationID else c1)
      in if c2 = [] then ''correlation.local.'' @ shortHash cx (bundleID @ NUL @ decisionID) else c2)"

definition plan_id :: "wire \<Rightarrow> RuntimeBundle \<Rightarrow> string \<Rightarrow> string" where
  "plan_id cx b decisionID = ''runtime_action_plan.'' @ shortHash cx (md_ID (rb_Metadata b) @ NUL @ decisionID)"

definition plan_for ::
  "wire \<Rightarrow> ExecuteRequest \<Rightarrow> RuntimeBundle \<Rightarrow> PlannedRuntimeAction list \<Rightarrow> RuntimeActionPlan" where
  "plan_for cx req b actions =
     \<lparr>rp_PlanID = plan_id cx b (TrimSpace (er_DecisionID req)), rp_DecisionID = TrimSpace (er_DecisionID req),
      rp_EventType = TrimSpace (er_EventType req), rp_EventID = TrimSpace (er_EventID req),
      rp_BundleID = md_ID (rb_Metadata b), rp_PolicyID = md_PolicyID (rb_Metadata b),
      rp_SourceCommit = md_SourceCommit (rb_Metadata b),
      rp_CorrelationID = riskCorrelationID cx (er_CorrelationID req) (md_CorrelationID (rb_Metadata b))
        (md_ID (rb_Metadata b)) (TrimSpace (er_DecisionID req)),
      rp_Actions = actions\<rparr>"

text \<open>The scalar arguments of a planned action, as the plan computes them from the request and the bundle.\<close>

record plan_args =
  pl_adapterID :: string
  pl_capabilityID :: string
  pl_grantID :: string
  pl_mode :: string
  pl_reason :: string
  pl_auditID :: string

definition plan_arguments :: "wire \<Rightarrow> ExecuteRequest \<Rightarrow> plan_args result" where
  "plan_arguments cx req =
     (let decisionID = TrimSpace (er_DecisionID req); adapterID = TrimSpace (er_AdapterID req);
          capabilityID = TrimSpace (er_CapabilityID req); grantID = TrimSpace (er_CapabilityGrantID req);
          mode = TrimSpace (er_Mode req); reason = TrimSpace (er_Reason req); auditID = TrimSpace (er_AuditID req) in
      fail_if (decisionID = []) (Errorf ''decision id is required'' [])
     (fail_if (adapterID = []) (Errorf ''adapter id is required'' [])
     (fail_if (capabilityID = []) (Errorf ''capability id is required'' [])
     (fail_if (grantID = []) (Errorf ''capability grant id is required'' [])
     (fail_if (mode = []) (Errorf ''runtime action mode is required'' [])
     (check_then (validateActionMode mode) (\<lambda>_.
      fail_if (reason = []) (Errorf ''runtime action reason is required'' [])
     (fail_if (auditID = [] \<and> \<not> er_DeriveAuditIDFromDecisionID req)
        (Errorf ''audit id is required unless explicit derivation from decision_id is requested'' [])
     (Inr \<lparr>pl_adapterID = adapterID, pl_capabilityID = capabilityID, pl_grantID = grantID, pl_mode = mode,
           pl_reason = reason,
           pl_auditID = (if auditID = [] then ''audit.'' @ shortHash cx decisionID else auditID)\<rparr>)))))))))"

record plan_limits =
  pl_ttlText :: string
  pl_ttl :: duration
  pl_targetScope :: string
  pl_targetKey :: string

definition plan_bounds :: "ExecuteRequest \<Rightarrow> RuntimeBundle \<Rightarrow> plan_limits result" where
  "plan_bounds req b =
     (let spec = rb_Spec b;
          ttlText = (if blank (er_TTL req) then bs_MaxTTL spec else TrimSpace (er_TTL req));
          targetScope = (if blank (er_TargetScope req) then bs_MaxScope spec else TrimSpace (er_TargetScope req));
          targetKey = TrimSpace (er_TargetKey req) in
      fail_if (\<not> bs_RuntimeAllowed spec)
        (Errorf ''runtime bundle %q does not allow runtime actions'' [md_ID (rb_Metadata b)])
     (check_then (parsePositiveDuration ttlText ''ttl'') (\<lambda>ttl.
      check_then (parsePositiveDuration (bs_MaxTTL spec) ''bundle max_ttl'') (\<lambda>maxTTL.
      fail_if (ttl > maxTTL) (Errorf ''ttl %s exceeds bundle max_ttl %s'' [Duration_String ttl, Duration_String maxTTL])
     (fail_if (targetScope = []) (Errorf ''target scope is required'' [])
     (fail_if (bs_MaxScope spec \<noteq> [] \<and> targetScope \<noteq> bs_MaxScope spec)
        (Errorf ''target scope %q does not match bundle max_scope %q'' [targetScope, bs_MaxScope spec])
     (fail_if (targetKey = []) (Errorf ''target key is required'' [])
     (Inr \<lparr>pl_ttlText = ttlText, pl_ttl = ttl, pl_targetScope = targetScope, pl_targetKey = targetKey\<rparr>))))))))"

definition planned_action ::
  "wire \<Rightarrow> ExecuteRequest \<Rightarrow> RuntimeBundle \<Rightarrow> plan_args \<Rightarrow> plan_limits \<Rightarrow> CapabilityGrant \<Rightarrow> string \<Rightarrow> RiskContext \<Rightarrow>
     PlannedRuntimeAction" where
  "planned_action cx req b a bnd g actionType ctx =
     (let planID = plan_id cx b (TrimSpace (er_DecisionID req));
          correlationID = riskCorrelationID cx (er_CorrelationID req) (md_CorrelationID (rb_Metadata b))
            (md_ID (rb_Metadata b)) (TrimSpace (er_DecisionID req)) in
      \<lparr>pa_ActionID = ''planned_runtime_action.'' @ shortHash cx (planID @ NUL @ pl_adapterID a @ NUL @ pl_capabilityID a @ NUL @
         actionType @ NUL @ pl_targetScope bnd @ NUL @ pl_targetKey bnd),
       pa_AdapterID = pl_adapterID a, pa_CapabilityID = pl_capabilityID a, pa_CapabilityGrantID = pl_grantID a,
       pa_BindingID = TrimSpace (cg_BindingID g), pa_BindingDigest = TrimSpace (cg_BindingDigest g),
       pa_AdapterManifestDigest = TrimSpace (cg_AdapterManifestDigest g), pa_ActionDigest = TrimSpace (cg_ActionDigest g),
       pa_CorrelationID = correlationID, pa_Mode = pl_mode a, pa_Required = (pl_mode a = ActionModeRequired),
       pa_ActionType = actionType, pa_TargetScope = pl_targetScope bnd, pa_TargetKey = pl_targetKey bnd,
       pa_TTL = pl_ttlText bnd, pa_Reason = pl_reason a, pa_AuditID = pl_auditID a,
       pa_Context = [(''target_scope'', pl_targetScope bnd), (''target_key'', pl_targetKey bnd), (''reason'', pl_reason a),
         (''ttl'', pl_ttlText bnd), (''correlation_id'', correlationID), (''risk_type'', rc_RiskType ctx),
         (''risk_tier'', rc_Tier ctx)],
       pa_DowngradeReason = []\<rparr>)"

text \<open>The requested action type, or the one the risk cache calls for.\<close>

definition plan_action_type :: "system \<Rightarrow> ExecuteRequest \<Rightarrow> RuntimeBundle \<Rightarrow> (string \<times> RiskContext \<times> bool) kliq" where
  "plan_action_type S req b =
     (if TrimSpace (er_ActionType req) = [] then actionFromRiskCache S b (TrimSpace (er_RiskType req))
      else ret (TrimSpace (er_ActionType req), zero_RiskContext, True))"

definition planFromRequest :: "system \<Rightarrow> Manager \<Rightarrow> ExecuteRequest \<Rightarrow> (RuntimeActionPlan \<times> bytes) kliq" where
  "planFromRequest S m req =
     (let cx = sys_wire S in
      bindE (lift (plan_arguments cx req)) (\<lambda>a.
      bindE (CachedBundle S m) (\<lambda>(verified, record).
      bindE (ensureActiveAssignmentAllowsNewActions S) (\<lambda>_.
      bindE (ensureActiveContextRouteAllowsAction S (pl_adapterID a) (pl_capabilityID a)) (\<lambda>_.
      let b = bv_Bundle verified in
      bindE (lift (plan_bounds req b)) (\<lambda>bnd.
      bindE (plan_action_type S req b) (\<lambda>(actionType, ctx, actionable).
      if \<not> actionable then ret (plan_for cx req b [], br_EnvelopeJSON record)
      else
      guardE (actionType = []) (Errorf ''runtime action type is required'' [])
     (guardE (\<not> actionAllowed b actionType)
        (Errorf ''runtime action %q is not allowed by bundle %q'' [actionType, md_ID (rb_Metadata b)])
     (bindE (read_clock S) (\<lambda>now.
      bindE (lift (validateCapabilityGrant cx b (pl_adapterID a) (pl_capabilityID a) actionType (pl_targetScope bnd)
                     (pl_grantID a) (pl_ttl bnd) now)) (\<lambda>g.
      bindE (lift (validateRequestedProvenance req g)) (\<lambda>_.
      ret (plan_for cx req b [planned_action cx req b a bnd g actionType ctx], br_EnvelopeJSON record)))))))))))))"

end
