(* ===== verification/Runtime_Manager.thy ===== *)
theory Runtime_Manager
  imports Runtime_Plan
begin

text \<open>
  The second half of the runtime manager (\<^verbatim>\<open>internal/kliq/runtime/manager.go\<close>): executing a planned
  action under a lease, recovering from a lost answer, and reconciling the leases with the
  adapters. Calls to adapters and statements to the store come in the order of the code, and
  every error path is a branch.
\<close>

definition AuditPendingUpload :: string where "AuditPendingUpload = ''pending_upload''"

record RuntimeActionExecutionResult =
  xr_Lease :: RuntimeActionLease
  xr_Applied :: bool
  xr_Message :: string

record ExecuteResult =
  ex_Plan :: RuntimeActionPlan
  ex_Results :: "RuntimeActionExecutionResult list"

record AdapterReconcileResult =
  arr_AdapterID :: string
  arr_Expired :: int
  arr_Active :: int
  arr_Unknown :: int
  arr_Findings :: "string list"

record ReconcileResult =
  rr_Expired :: int
  rr_Active :: int
  rr_Unknown :: int
  rr_Findings :: "string list"
  rr_AdapterResults :: "(string \<times> AdapterReconcileResult) list"

section \<open>Records of an execution\<close>

definition journal :: "wire \<Rightarrow> string \<Rightarrow> string \<Rightarrow> RuntimeActionStatus \<Rightarrow> string \<Rightarrow> gotime \<Rightarrow> JournalEntry" where
  "journal cx runtimeActionID event status message now =
     \<lparr>je_ID = ''journal.'' @ shortHash cx (runtimeActionID @ event @ formatTime now),
      je_RuntimeActionID = runtimeActionID, je_Event = event, je_Status = status, je_Message = message,
      je_CreatedAt = now\<rparr>"

definition audit_payload :: "wire \<Rightarrow> RuntimeActionLease \<Rightarrow> string \<Rightarrow> bytes" where
  "audit_payload cx l message =
     enc_Object cx
       [(''runtime_action_id'', ls_RuntimeActionID l), (''plan_id'', ls_PlanID l), (''decision_id'', ls_DecisionID l),
        (''policy_id'', ls_PolicyID l), (''bundle_id'', ls_BundleID l), (''source_commit'', ls_SourceCommit l),
        (''correlation_id'', ls_CorrelationID l), (''adapter_id'', ls_AdapterID l),
        (''capability_id'', ls_CapabilityID l), (''capability_grant_id'', ls_CapabilityGrantID l),
        (''binding_id'', ls_BindingID l), (''binding_digest'', ls_BindingDigest l),
        (''adapter_manifest_digest'', ls_AdapterManifestDigest l), (''action_digest'', ls_ActionDigest l),
        (''mode'', ls_Mode l), (''action_type'', ls_ActionType l), (''target_scope'', ls_TargetScope l),
        (''audit_id'', ls_AuditID l), (''status'', ls_Status l), (''message'', message),
        (''expires_at'', formatTime (ls_ExpiresAt l))]"

definition audit :: "wire \<Rightarrow> RuntimeActionLease \<Rightarrow> string \<Rightarrow> gotime \<Rightarrow> AuditRecord" where
  "audit cx l message now =
     \<lparr>au_ID = ''audit_spool.'' @ shortHash cx (ls_RuntimeActionID l @ ls_Status l @ message @ formatTime now),
      au_RuntimeActionID = ls_RuntimeActionID l, au_BindingID = ls_BindingID l, au_BindingDigest = ls_BindingDigest l,
      au_AdapterManifestDigest = ls_AdapterManifestDigest l, au_ActionDigest = ls_ActionDigest l,
      au_Status = AuditPendingUpload, au_Payload = audit_payload cx l message,
      au_PayloadSHA256 = SHA256JSON (sha cx) (audit_payload cx l message), au_PreviousHash = [], au_RecordHash = [],
      au_CreatedAt = now, au_RetryCount = 0, au_LastAttemptAt = 0, au_UploadedAt = 0, au_LastError = []\<rparr>"

definition decision_fields :: "RuntimeActionPlan \<Rightarrow> (string \<times> string) list" where
  "decision_fields plan =
     [(''decision_id'', rp_DecisionID plan), (''event_type'', rp_EventType plan), (''event_id'', rp_EventID plan),
      (''plan_id'', rp_PlanID plan), (''bundle_id'', rp_BundleID plan), (''policy_id'', rp_PolicyID plan),
      (''source_commit'', rp_SourceCommit plan), (''correlation_id'', rp_CorrelationID plan)]"

definition decision_record :: "wire \<Rightarrow> RuntimeActionPlan \<Rightarrow> string \<Rightarrow> string \<Rightarrow> bytes \<Rightarrow> gotime \<Rightarrow> RuntimeDecisionRecord" where
  "decision_record cx plan status activatedAction data now =
     \<lparr>rd_DecisionID = rp_DecisionID plan, rd_PlanID = rp_PlanID plan, rd_PolicyID = rp_PolicyID plan,
      rd_BundleID = rp_BundleID plan, rd_SourceCommit = rp_SourceCommit plan, rd_CorrelationID = rp_CorrelationID plan,
      rd_EventType = rp_EventType plan, rd_EventID = rp_EventID plan, rd_Status = status,
      rd_PayloadSHA256 = SHA256JSON (sha cx) data, rd_CreatedAt = now, rd_ActivatedAction = activatedAction\<rparr>"

definition runtimeDecisionRecord ::
  "wire \<Rightarrow> RuntimeActionPlan \<Rightarrow> RuntimeActionExecutionResult \<Rightarrow> gotime \<Rightarrow> RuntimeDecisionRecord" where
  "runtimeDecisionRecord cx plan res now =
     (let status = (if xr_Applied res then ''executed'' else if xr_Message res \<noteq> [] then ''deduplicated'' else ''planned'');
          activated = (if xr_Applied res \<or> xr_Message res \<noteq> [] then ls_RuntimeActionID (xr_Lease res) else [])
      in decision_record cx plan status activated
           (enc_Object cx (decision_fields plan @ [(''activated_action'', activated), (''status'', status)])) now)"

definition noActionRuntimeDecisionRecord :: "wire \<Rightarrow> RuntimeActionPlan \<Rightarrow> gotime \<Rightarrow> RuntimeDecisionRecord" where
  "noActionRuntimeDecisionRecord cx plan now =
     decision_record cx plan ''no_action'' [] (enc_Object cx (decision_fields plan @ [(''status'', ''no_action'')])) now"

definition idempotencyKey ::
  "wire \<Rightarrow> string \<Rightarrow> string \<Rightarrow> string \<Rightarrow> string \<Rightarrow> string \<Rightarrow> string \<Rightarrow> string \<Rightarrow> string" where
  "idempotencyKey cx bundleID decisionID adapterID capabilityID actionType targetScope targetKey =
     ''sha256:'' @ sha cx (bundleID @ NUL @ decisionID @ NUL @ adapterID @ NUL @ capabilityID @ NUL @ actionType @ NUL @
       targetScope @ NUL @ targetKey)"

definition parsed_ttl :: "string \<Rightarrow> duration" where
  "parsed_ttl text = (case ParseDuration text of Inl _ \<Rightarrow> 0 | Inr d \<Rightarrow> d)"

definition leaseFromPlannedAction :: "wire \<Rightarrow> RuntimeActionPlan \<Rightarrow> PlannedRuntimeAction \<Rightarrow> gotime \<Rightarrow> RuntimeActionLease" where
  "leaseFromPlannedAction cx plan action now =
     (let key = idempotencyKey cx (rp_BundleID plan) (rp_DecisionID plan) (pa_AdapterID action) (pa_CapabilityID action)
                  (pa_ActionType action) (pa_TargetScope action) (pa_TargetKey action) in
      \<lparr>ls_RuntimeActionID = ''runtime_action.'' @ shortHash cx key, ls_PlanID = rp_PlanID plan,
       ls_DecisionID = rp_DecisionID plan, ls_PolicyID = rp_PolicyID plan, ls_BundleID = rp_BundleID plan,
       ls_SourceCommit = rp_SourceCommit plan, ls_CorrelationID = rp_CorrelationID plan,
       ls_ActionType = pa_ActionType action, ls_TargetScope = pa_TargetScope action, ls_TargetKey = pa_TargetKey action,
       ls_TTL = pa_TTL action, ls_ExpiresAt = now + parsed_ttl (pa_TTL action), ls_Reason = pa_Reason action,
       ls_AuditID = pa_AuditID action, ls_CapabilityGrantID = pa_CapabilityGrantID action,
       ls_BindingID = pa_BindingID action, ls_BindingDigest = pa_BindingDigest action,
       ls_AdapterManifestDigest = pa_AdapterManifestDigest action, ls_ActionDigest = pa_ActionDigest action,
       ls_AdapterID = pa_AdapterID action, ls_CapabilityID = pa_CapabilityID action, ls_Mode = pa_Mode action,
       ls_Required = pa_Required action, ls_IdempotencyKey = key, ls_CreatedAt = now, ls_LastReconciledAt = now,
       ls_Status = RuntimeActionActive\<rparr>)"

section \<open>Executing a planned action\<close>

definition expireLease :: "system \<Rightarrow> executor \<Rightarrow> RuntimeActionLease \<Rightarrow> gotime \<Rightarrow> string \<Rightarrow> unit kliq" where
  "expireLease S ex l now message =
     bindE (call_Cleanup ex l) (\<lambda>_.
     bindE (ExpireLease S (ls_RuntimeActionID l) now) (\<lambda>_.
     bindE (AppendJournal S (journal (sys_wire S) (ls_RuntimeActionID l) ''expired'' RuntimeActionExpired message now)) (\<lambda>_.
     AppendAudit (sys_wire S) S
       (audit (sys_wire S) (l\<lparr>ls_Status := RuntimeActionExpired, ls_LastReconciledAt := now\<rparr>) message now))))"

definition recordFailedExecute ::
  "system \<Rightarrow> RuntimeActionLease \<Rightarrow> gotime \<Rightarrow> string \<Rightarrow> string \<Rightarrow> error \<Rightarrow> 'a kliq" where
  "recordFailedExecute S l0 now event message err =
     (let l = l0\<lparr>ls_Status := RuntimeActionFailed, ls_LastReconciledAt := now\<rparr> in
      bindE (ignoreE (UpsertLease S l)) (\<lambda>_.
      bindE (ignoreE (AppendJournal S (journal (sys_wire S) (ls_RuntimeActionID l) event (ls_Status l) message now))) (\<lambda>_.
      bindE (ignoreE (AppendAudit (sys_wire S) S (audit (sys_wire S) l message now))) (\<lambda>_.
      raise err))))"

text \<open>Both successful readbacks save the lease, then journal and audit it.\<close>

definition recover_as ::
  "system \<Rightarrow> RuntimeActionLease \<Rightarrow> gotime \<Rightarrow> string \<Rightarrow> string \<Rightarrow> bool \<Rightarrow> RuntimeActionExecutionResult kliq" where
  "recover_as S l now event message applied =
     bindE (UpsertLease S l) (\<lambda>_.
     bindE (AppendJournal S (journal (sys_wire S) (ls_RuntimeActionID l) event (ls_Status l) message now)) (\<lambda>_.
     bindE (AppendAudit (sys_wire S) S (audit (sys_wire S) l message now)) (\<lambda>_.
     ret \<lparr>xr_Lease = l, xr_Applied = applied, xr_Message = message\<rparr>)))"

definition recoverAfterExecuteError ::
  "system \<Rightarrow> executor \<Rightarrow> RuntimeActionLease \<Rightarrow> gotime \<Rightarrow> error \<Rightarrow> RuntimeActionExecutionResult kliq" where
  "recoverAfterExecuteError S ex l now executeErr =
     (case ex_State ex of
        None \<Rightarrow> recordFailedExecute S l now ''execute_failed'' (Error executeErr) executeErr
      | Some reader \<Rightarrow>
        tryE (call_State reader l) (\<lambda>r. case r of
          Inl err \<Rightarrow>
            recordFailedExecute S l now ''execute_readback_failed''
              (''execute failed and adapter readback failed: '' @ Error err) executeErr
        | Inr status \<Rightarrow>
            if status = RuntimeActionActive then
              recover_as S (l\<lparr>ls_Status := RuntimeActionActive\<rparr>) now ''execute_recovered_by_readback''
                ''adapter execute response was lost; active state recovered by readback'' True
            else if status = RuntimeActionExpired then
              recover_as S (l\<lparr>ls_Status := RuntimeActionExpired, ls_LastReconciledAt := now\<rparr>) now
                ''execute_recovered_expired_by_readback''
                ''adapter execute response was lost; expired state recovered by readback'' False
            else if status = RuntimeActionUnknown \<or> status = RuntimeActionNotFound \<or> status = [] then
              recordFailedExecute S l now ''execute_readback_unknown''
                ''execute failed and adapter readback returned unknown state'' executeErr
            else
              recordFailedExecute S l now ''execute_readback_unsupported''
                (''execute failed and adapter readback returned unsupported state '' @ status) executeErr))"

definition appendActiveConformanceExpectationAudit :: "system \<Rightarrow> RuntimeActionLease \<Rightarrow> gotime \<Rightarrow> unit kliq" where
  "appendActiveConformanceExpectationAudit S l now =
     when_found (GetKLIQCredential S) (\<lambda>credential.
     when_found (ActiveArtifact S (kc_KLIQID credential) ''conformance_expectation'') (\<lambda>record.
     bindE (lift (dec_ConformanceExpectation (sys_wire S) (act_PayloadJSON record))) (\<lambda>expectation.
     if ces_Expectations (ce_Spec expectation) = [] \<and> ces_Prohibit (ce_Spec expectation) = [] then ret ()
     else AppendAudit (sys_wire S) S
            (audit (sys_wire S) l ''conformance expectations active for runtime action'' now))))"

definition wrapE :: "string \<Rightarrow> 'a kliq \<Rightarrow> 'a kliq" where
  "wrapE f m = tryE m (\<lambda>r. case r of Inl err \<Rightarrow> raise (Wrapf f [] err) | Inr x \<Rightarrow> ret x)"

definition authorized_message :: string where
  "authorized_message = ''runtime action activation authorized''"

text \<open>The part of \<^verbatim>\<open>executePlannedAction\<close> from the new lease on.\<close>

definition executeLease ::
  "system \<Rightarrow> executor \<Rightarrow> RuntimeActionLease \<Rightarrow> bytes \<Rightarrow> gotime \<Rightarrow> RuntimeActionExecutionResult kliq" where
  "executeLease S ex l signedBundle now =
     bindE (wrapE ''local conformance audit write failed; denying runtime action: %w''
              (appendActiveConformanceExpectationAudit S l now)) (\<lambda>_.
     bindE (wrapE ''local audit write failed; denying runtime action: %w''
              (AppendAudit (sys_wire S) S (audit (sys_wire S) l authorized_message now))) (\<lambda>_.
     tryE (call_Execute ex l signedBundle) (\<lambda>r. case r of
       Inl err \<Rightarrow> recoverAfterExecuteError S ex l now err
     | Inr _ \<Rightarrow>
         bindE (UpsertLease S l) (\<lambda>_.
         bindE (AppendJournal S (journal (sys_wire S) (ls_RuntimeActionID l) ''activated'' (ls_Status l)
                  ''runtime action activated'' now)) (\<lambda>_.
         ret \<lparr>xr_Lease = l, xr_Applied = True, xr_Message = ''runtime action activated''\<rparr>)))))"

definition action_dedup :: "PlannedRuntimeAction \<Rightarrow> dedup_key" where
  "action_dedup a = (pa_AdapterID a, pa_CapabilityID a, pa_ActionType a, pa_TargetScope a, pa_TargetKey a)"

definition executePlannedAction ::
  "system \<Rightarrow> RuntimeActionPlan \<Rightarrow> PlannedRuntimeAction \<Rightarrow> executor \<Rightarrow> bytes \<Rightarrow> RuntimeActionExecutionResult kliq" where
  "executePlannedAction S plan action ex signedBundle =
     bindE (read_clock S) (\<lambda>now.
     bindE (ensureActiveFallbackAllowsExecution S) (\<lambda>_.
     tryE (LeaseByDedupKey S (action_dedup action)) (\<lambda>found. case found of
       Inr existing \<Rightarrow>
         if Before now (ls_ExpiresAt existing) then
           bindE (ignoreE (AppendJournal S (journal (sys_wire S) (ls_RuntimeActionID existing) ''deduplicated'' (ls_Status existing)
                     ''active lease already exists for adapter/capability; ttl was not extended'' now))) (\<lambda>_.
           ret \<lparr>xr_Lease = existing, xr_Applied = False, xr_Message = ''active lease already exists; ttl not extended''\<rparr>)
         else
           bindE (expireLease S ex existing now ''expired before new runtime action'') (\<lambda>_.
           executeLease S ex (leaseFromPlannedAction (sys_wire S) plan action now) signedBundle now)
     | Inl err \<Rightarrow>
         guardE (\<not> errors_Is err ErrNotFound) err
           (executeLease S ex (leaseFromPlannedAction (sys_wire S) plan action now) signedBundle now))))"

definition executorFor :: "Manager \<Rightarrow> string \<Rightarrow> executor option" where
  "executorFor m adapterID = (case m_Registry m of None \<Rightarrow> None | Some r \<Rightarrow> registry_Get r adapterID)"

definition ExecutePlan :: "system \<Rightarrow> Manager \<Rightarrow> RuntimeActionPlan \<Rightarrow> bytes \<Rightarrow> ExecuteResult kliq" where
  "ExecutePlan S m plan signedBundle =
     guardE (\<not> m_Store m) (Errorf ''kliq runtime manager requires state store'' [])
    (case rp_Actions plan of
       [] \<Rightarrow> raise (Errorf ''runtime action plan requires at least one planned action'' [])
     | action # others \<Rightarrow>
       guardE (others \<noteq> []) (Errorf ''multi-action runtime plans are modeled but not executable in this slice'' [])
      (bindE (lift (validateActionMode (pa_Mode action))) (\<lambda>_.
       guardE (pa_Mode action \<noteq> ActionModeRequired \<or> \<not> pa_Required action)
         (Errorf ''slice 5.5 execution supports exactly one required action'' [])
      (case executorFor m (pa_AdapterID action) of
         None \<Rightarrow> raise (Errorf ''runtime adapter %q is not registered'' [pa_AdapterID action])
       | Some ex \<Rightarrow>
         bindE (executePlannedAction S plan action ex signedBundle) (\<lambda>res.
         bindE (read_clock S) (\<lambda>now.
         bindE (AppendRuntimeDecision S (runtimeDecisionRecord (sys_wire S) plan res now)) (\<lambda>_.
         ret \<lparr>ex_Plan = plan, ex_Results = [res]\<rparr>)))))))"

definition ExecuteAction :: "system \<Rightarrow> Manager \<Rightarrow> ExecuteRequest \<Rightarrow> ExecuteResult kliq" where
  "ExecuteAction S m req =
     bindE (planFromRequest S m req) (\<lambda>(plan, signedBundle).
     if rp_Actions plan = [] then
       bindE (read_clock S) (\<lambda>now.
       bindE (AppendRuntimeDecision S (noActionRuntimeDecisionRecord (sys_wire S) plan now)) (\<lambda>_.
       ret \<lparr>ex_Plan = plan, ex_Results = []\<rparr>))
     else ExecutePlan S m plan signedBundle)"

section \<open>Reconciliation\<close>

definition markLeaseUnknown :: "system \<Rightarrow> RuntimeActionLease \<Rightarrow> gotime \<Rightarrow> string \<Rightarrow> unit kliq" where
  "markLeaseUnknown S l0 now message =
     (let l = l0\<lparr>ls_Status := RuntimeActionUnknown, ls_LastReconciledAt := now\<rparr> in
      bindE (UpsertLease S l) (\<lambda>_.
      bindE (AppendJournal S (journal (sys_wire S) (ls_RuntimeActionID l) ''unknown'' (ls_Status l) message now)) (\<lambda>_.
      AppendAudit (sys_wire S) S (audit (sys_wire S) l message now))))"

text \<open>
  The two results the loops update together. The counters are increments of both, and a
  message is appended to the findings of both.
\<close>

type_synonym tally = "ReconcileResult \<times> AdapterReconcileResult"

definition tally_expired :: "tally \<Rightarrow> tally" where
  "tally_expired ra = (case ra of (r, a) \<Rightarrow> (r\<lparr>rr_Expired := rr_Expired r + 1\<rparr>, a\<lparr>arr_Expired := arr_Expired a + 1\<rparr>))"

definition tally_active :: "tally \<Rightarrow> tally" where
  "tally_active ra = (case ra of (r, a) \<Rightarrow> (r\<lparr>rr_Active := rr_Active r + 1\<rparr>, a\<lparr>arr_Active := arr_Active a + 1\<rparr>))"

definition tally_finding :: "string \<Rightarrow> tally \<Rightarrow> tally" where
  "tally_finding message ra =
     (case ra of (r, a) \<Rightarrow>
       (r\<lparr>rr_Findings := rr_Findings r @ [message]\<rparr>, a\<lparr>arr_Findings := arr_Findings a @ [message]\<rparr>))"

definition tally_unknown :: "string \<Rightarrow> tally \<Rightarrow> tally" where
  "tally_unknown message ra =
     tally_finding message
       (case ra of (r, a) \<Rightarrow> (r\<lparr>rr_Unknown := rr_Unknown r + 1\<rparr>, a\<lparr>arr_Unknown := arr_Unknown a + 1\<rparr>))"

definition reconcileActiveLease :: "system \<Rightarrow> executor \<Rightarrow> gotime \<Rightarrow> RuntimeActionLease \<Rightarrow> tally \<Rightarrow> tally kliq" where
  "reconcileActiveLease S ex now l t =
     (case ex_State ex of
        None \<Rightarrow> bindE (ignoreE (UpsertLease S (l\<lparr>ls_LastReconciledAt := now\<rparr>))) (\<lambda>_. ret (tally_active t))
      | Some reader \<Rightarrow>
        tryE (call_State reader l) (\<lambda>r. case r of
          Inl err \<Rightarrow>
            (let message = ''failed to read runtime action state '' @ ls_RuntimeActionID l @ '': '' @ Error err in
             bindE (ignoreE (markLeaseUnknown S l now message)) (\<lambda>_. ret (tally_unknown message t)))
        | Inr status \<Rightarrow>
            if status = RuntimeActionActive then
              bindE (ignoreE (UpsertLease S (l\<lparr>ls_Status := RuntimeActionActive, ls_LastReconciledAt := now\<rparr>))) (\<lambda>_.
              ret (tally_active t))
            else if status = RuntimeActionExpired then
              bindE (ignoreE (ExpireLease S (ls_RuntimeActionID l) now)) (\<lambda>_.
              bindE (ignoreE (AppendJournal S (journal (sys_wire S) (ls_RuntimeActionID l) ''adapter_readback_expired''
                       RuntimeActionExpired ''adapter readback reported expired action'' now))) (\<lambda>_.
              bindE (ignoreE (AppendAudit (sys_wire S) S
                       (audit (sys_wire S) (l\<lparr>ls_Status := RuntimeActionExpired, ls_LastReconciledAt := now\<rparr>)
                          ''adapter readback reported expired action'' now))) (\<lambda>_.
              ret (tally_expired t))))
            else
              (let message = ''adapter readback returned unknown runtime action state for '' @ ls_RuntimeActionID l in
               bindE (ignoreE (markLeaseUnknown S l now message)) (\<lambda>_. ret (tally_unknown message t)))))"

definition groupLeasesByAdapter :: "RuntimeActionLease list \<Rightarrow> string \<Rightarrow> RuntimeActionLease list" where
  "groupLeasesByAdapter leases =
     fold (\<lambda>l grouped. grouped(ls_AdapterID l := grouped (ls_AdapterID l) @ [l])) leases (\<lambda>_. [])"

definition adapter_ids :: "RuntimeActionLease list \<Rightarrow> string list" where
  "adapter_ids leases = sort (remdups (map ls_AdapterID leases))"

definition unregistered_lease :: "system \<Rightarrow> string \<Rightarrow> gotime \<Rightarrow> RuntimeActionLease \<Rightarrow> tally \<Rightarrow> tally kliq" where
  "unregistered_lease S adapterID now l t =
     (let message = sprintf ''runtime adapter %q is not registered for lease %s'' [adapterID, ls_RuntimeActionID l] [] in
      bindE (ignoreE (markLeaseUnknown S l now message)) (\<lambda>_. ret (tally_unknown message t)))"

definition registered_lease :: "system \<Rightarrow> executor \<Rightarrow> gotime \<Rightarrow> RuntimeActionLease \<Rightarrow> tally \<Rightarrow> tally kliq" where
  "registered_lease S ex now l t =
     (if Before now (ls_ExpiresAt l) then reconcileActiveLease S ex now l t
      else tryE (expireLease S ex l now ''ttl expired during restart reconciliation'') (\<lambda>r. case r of
        Inl err \<Rightarrow> ret (tally_finding (''failed to cleanup expired runtime action '' @ ls_RuntimeActionID l @ '': '' @ Error err) t)
      | Inr _ \<Rightarrow> ret (tally_expired t)))"

definition new_adapter_result :: "string \<Rightarrow> AdapterReconcileResult" where
  "new_adapter_result adapterID =
     \<lparr>arr_AdapterID = adapterID, arr_Expired = 0, arr_Active = 0, arr_Unknown = 0, arr_Findings = []\<rparr>"

definition new_reconcile_result :: ReconcileResult where
  "new_reconcile_result = \<lparr>rr_Expired = 0, rr_Active = 0, rr_Unknown = 0, rr_Findings = [], rr_AdapterResults = []\<rparr>"

definition store_adapter_result :: "string \<Rightarrow> tally \<Rightarrow> ReconcileResult" where
  "store_adapter_result adapterID ra =
     (case ra of (r, a) \<Rightarrow> r\<lparr>rr_AdapterResults := rr_AdapterResults r @ [(adapterID, a)]\<rparr>)"

definition reconcile_adapter ::
  "system \<Rightarrow> Manager \<Rightarrow> gotime \<Rightarrow> (string \<Rightarrow> RuntimeActionLease list) \<Rightarrow> string \<Rightarrow> ReconcileResult \<Rightarrow> ReconcileResult kliq" where
  "reconcile_adapter S m now grouped adapterID r =
     bindE (foldE (case executorFor m adapterID of
                     None \<Rightarrow> unregistered_lease S adapterID now
                   | Some ex \<Rightarrow> registered_lease S ex now)
              (grouped adapterID) (r, new_adapter_result adapterID)) (\<lambda>t.
     ret (store_adapter_result adapterID t))"

definition add_finding :: "string \<Rightarrow> ReconcileResult \<Rightarrow> ReconcileResult" where
  "add_finding message r = r\<lparr>rr_Findings := rr_Findings r @ [message]\<rparr>"

definition Reconcile :: "system \<Rightarrow> Manager \<Rightarrow> ReconcileResult kliq" where
  "Reconcile S m =
     guardE (\<not> m_Store m) (Errorf ''kliq runtime manager requires state store'' [])
    (tryE (CachedBundle S m) (\<lambda>cached.
     let bundleAuthorityDegraded = \<not> is_ok cached;
         result0 = (case cached of
           Inl err \<Rightarrow> add_finding (''cached runtime bundle unavailable or invalid: '' @ Error err) new_reconcile_result
         | Inr _ \<Rightarrow> new_reconcile_result) in
     bindE (read_clock S) (\<lambda>now.
     bindE (ActiveLeases S) (\<lambda>leases.
     bindE (foldE (reconcile_adapter S m now (groupLeasesByAdapter leases)) (adapter_ids leases) result0) (\<lambda>r.
     ret (if rr_Expired r > 0
          then (let r' = add_finding ''expired runtime action leases were cleaned up'' r in
                if bundleAuthorityDegraded then add_finding ''cleanup executed with degraded bundle authority'' r' else r')
          else r))))))"

text \<open>The dry run only reads.\<close>

definition dry_run_lease :: "gotime \<Rightarrow> RuntimeActionLease \<Rightarrow> tally \<Rightarrow> tally" where
  "dry_run_lease now l t =
     (if \<not> selector_Valid (Selector l)
      then tally_unknown (''runtime action lease '' @ ls_RuntimeActionID l @ '' has incomplete selector'') t
      else if Before now (ls_ExpiresAt l) then tally_active t
      else tally_expired t)"

definition dry_run_adapter :: "gotime \<Rightarrow> (string \<Rightarrow> RuntimeActionLease list) \<Rightarrow> string \<Rightarrow> ReconcileResult \<Rightarrow> ReconcileResult" where
  "dry_run_adapter now grouped adapterID r =
     store_adapter_result adapterID (fold (dry_run_lease now) (grouped adapterID) (r, new_adapter_result adapterID))"

definition ReconcileDryRun :: "system \<Rightarrow> Manager \<Rightarrow> ReconcileResult kliq" where
  "ReconcileDryRun S m =
     guardE (\<not> m_Store m) (Errorf ''kliq runtime manager requires state store'' [])
    (tryE (LastBundle S) (\<lambda>last.
     let result0 = (case last of
           Inl err \<Rightarrow> add_finding (''cached runtime bundle unavailable: '' @ Error err) new_reconcile_result
         | Inr _ \<Rightarrow> new_reconcile_result) in
     bindE (read_clock S) (\<lambda>now.
     bindE (ActiveLeases S) (\<lambda>leases.
     let r = fold (dry_run_adapter now (groupLeasesByAdapter leases)) (adapter_ids leases) result0 in
     ret (if rr_Expired r > 0 then add_finding ''expired runtime action leases would be cleaned up'' r else r)))))"

end
