(* ===== verification/Store_Invariants.thy ===== *)
theory Store_Invariants
  imports SQLite_Managed "HOL-Library.Sublist"
begin

text \<open>
  What every method of the store keeps. The relation \<open>table_step\<close> has one rule for each SQL
  statement that writes; it is the interface between the statements and their clients. The
  locale \<open>store_world\<close> is an invariant of the world that every such step keeps, and its
  lemmas carry the invariant through the methods of \<^verbatim>\<open>SQLiteStore\<close>. An invariant of the tables
  alone (\<open>store_tables\<close>) is the most frequent case; it is interpreted on three properties:
  the constraints of the schema, the append-only audit spool, and the immutable columns of a
  lease.
\<close>

inductive table_step :: "sqlite \<Rightarrow> sqlite \<Rightarrow> bool" where
  step_bundle: "table_step d (d\<lparr>bundle_cache := b\<rparr>)"
| step_lease: "sql_upsert_lease l d = Inr d' \<Longrightarrow> table_step d d'"
| step_expire: "table_step d (sql_expire_lease key t d)"
| step_journal: "sql_insert_journal e d = Inr d' \<Longrightarrow> table_step d d'"
| step_audit: "sql_insert_audit r d = Inr d' \<Longrightarrow> table_step d d'"
| step_uploaded: "table_step d (sql_audit_uploaded key t d)"
| step_failed: "table_step d (sql_audit_failed key t msg d)"
| step_decision: "table_step d (sql_upsert_decision rd d)"
| step_trust: "table_step d (sql_upsert_trust tb d)"
| step_management: "table_step d (sql_upsert_management ms d)"
| step_artifact: "sql_insert_artifact ar d = Inr d' \<Longrightarrow> table_step d d'"
| step_active: "sql_insert_active act d = Inr d' \<Longrightarrow> table_step d d'"
| step_clear_artifacts: "table_step d (sql_clear_artifacts key d)"
| step_clear_active: "table_step d (sql_clear_active key d)"
| step_credential: "table_step d (sql_upsert_credential c d)"
| step_risk: "table_step d (sql_upsert_risk rk ctx d)"

section \<open>The store sends no request\<close>

lemmas silent_defs = silent_def SaveBundle_def activate_artifact_def saveAssignmentTrustBundle_def

lemma silent_activation:
  "silent (bindE (SaveBundle env record) (\<lambda>_.
        bindE (execute env (\<lambda>d. Inr (sql_upsert_management state d))) (\<lambda>_.
        bindE (execute env (\<lambda>d. Inr (sql_clear_artifacts key d))) (\<lambda>_.
        bindE (execute env (\<lambda>d. Inr (sql_clear_active key d))) (\<lambda>_.
        for_eachE (activate_artifact cx env record) artifacts)))))"
  unfolding silent_defs by (intro allI keeps_log)

section \<open>Invariants of a world with a store\<close>

locale store_world = transactional I for I :: "(sqlite, 'c) world \<Rightarrow> bool" +
  assumes step: "I w \<Longrightarrow> table_step (db w) d \<Longrightarrow> I (w\<lparr>db := d\<rparr>)"
begin

lemma keeps_write: "(\<And>d d'. f d = Inr d' \<Longrightarrow> table_step d d') \<Longrightarrow> keeps_inv I (execute env f)"
  by (rule keeps_execute) (auto intro: step)

lemma keeps_update: "(\<And>d. table_step d (f d)) \<Longrightarrow> keeps_inv I (execute env (\<lambda>d. Inr (f d)))"
  by (rule keeps_write) auto

lemmas keeps_store = keeps keeps_world

lemma keeps_SaveBundle: "keeps_inv I (SaveBundle env r)"
  unfolding SaveBundle_def by (intro keeps_update table_step.intros)

lemma keeps_LastBundle: "keeps_inv I (LastBundle env)"
  unfolding LastBundle_def by (intro keeps_store)

lemma keeps_UpsertLease: "keeps_inv I (UpsertLease env l)"
  unfolding UpsertLease_def by (intro keeps_store keeps_write) (rule step_lease)

lemma keeps_LeaseByDedupKey: "keeps_inv I (LeaseByDedupKey env k)"
  unfolding LeaseByDedupKey_def by (intro keeps_store)

lemma keeps_ActiveLeases: "keeps_inv I (ActiveLeases env)"
  unfolding ActiveLeases_def by (intro keeps_store)

lemma keeps_ExpireLease: "keeps_inv I (ExpireLease env key t)"
  unfolding ExpireLease_def by (intro keeps_update table_step.intros)

lemma keeps_AppendJournal: "keeps_inv I (AppendJournal env e)"
  unfolding AppendJournal_def by (intro keeps_write) (rule step_journal)

lemma keeps_AppendAudit: "keeps_inv I (AppendAudit cx env r)"
  unfolding AppendAudit_def audit_created_def audit_previous_def latestAuditRecordHash_def
  by (intro keeps_store keeps_write) (rule step_audit)

lemma keeps_PendingAudits: "keeps_inv I (PendingAudits cx env)"
  unfolding PendingAudits_def by (intro keeps_store)

lemma keeps_MarkAuditUploaded: "keeps_inv I (MarkAuditUploaded env key t)"
  unfolding MarkAuditUploaded_def by (intro keeps_update table_step.intros)

lemma keeps_MarkAuditFailed: "keeps_inv I (MarkAuditFailed env key t msg)"
  unfolding MarkAuditFailed_def by (intro keeps_update table_step.intros)

lemma keeps_AppendRuntimeDecision: "keeps_inv I (AppendRuntimeDecision env r)"
  unfolding AppendRuntimeDecision_def by (intro keeps_store keeps_update table_step.intros)

lemma keeps_SaveLocalTrustBundle: "keeps_inv I (SaveLocalTrustBundle env b t)"
  unfolding SaveLocalTrustBundle_def by (intro keeps_store keeps_update table_step.intros)

lemma keeps_SaveKLIQManagementState: "keeps_inv I (SaveKLIQManagementState env s)"
  unfolding SaveKLIQManagementState_def by (intro keeps_store keeps_update table_step.intros)

lemma keeps_GetKLIQManagementState: "keeps_inv I (GetKLIQManagementState env k)"
  unfolding GetKLIQManagementState_def by (intro keeps_store)

lemma keeps_insert_artifact: "keeps_inv I (execute env (sql_insert_artifact a))"
  by (intro keeps_write) (rule step_artifact)

lemma keeps_insert_active: "keeps_inv I (execute env (sql_insert_active a))"
  by (intro keeps_write) (rule step_active)

lemma keeps_activate_artifact: "keeps_inv I (activate_artifact cx env r a)"
  unfolding activate_artifact_def saveAssignmentTrustBundle_def
  by (intro keeps_store keeps_insert_artifact keeps_insert_active keeps_update table_step.intros)

lemma keeps_SaveManagedBundleActivation: "keeps_inv I (SaveManagedBundleActivation cx env r s arts)"
  unfolding SaveManagedBundleActivation_def
  by (intro keeps keeps_transaction silent_activation keeps_SaveBundle keeps_update table_step.intros keeps_activate_artifact)

lemma keeps_ActiveArtifact: "keeps_inv I (ActiveArtifact env k t)"
  unfolding ActiveArtifact_def by (intro keeps_store)

lemma keeps_SaveKLIQCredential: "keeps_inv I (SaveKLIQCredential env c)"
  unfolding SaveKLIQCredential_def by (intro keeps_store keeps_update table_step.intros)

lemma keeps_GetKLIQCredential: "keeps_inv I (GetKLIQCredential env)"
  unfolding GetKLIQCredential_def by (intro keeps_store)

lemma keeps_SaveRiskContext: "keeps_inv I (SaveRiskContext env k ctx)"
  unfolding SaveRiskContext_def by (intro keeps_store keeps_update table_step.intros)

lemma keeps_GetRiskContext: "keeps_inv I (GetRiskContext env k now)"
  unfolding GetRiskContext_def by (intro keeps_store)

lemmas keeps_methods =
  keeps_SaveBundle keeps_LastBundle keeps_UpsertLease keeps_LeaseByDedupKey keeps_ActiveLeases
  keeps_ExpireLease keeps_AppendJournal keeps_AppendAudit keeps_PendingAudits
  keeps_MarkAuditUploaded keeps_MarkAuditFailed keeps_AppendRuntimeDecision
  keeps_SaveLocalTrustBundle keeps_SaveKLIQManagementState keeps_GetKLIQManagementState
  keeps_SaveManagedBundleActivation keeps_ActiveArtifact keeps_SaveKLIQCredential
  keeps_GetKLIQCredential keeps_SaveRiskContext keeps_GetRiskContext

end

section \<open>Invariants of the tables\<close>

locale store_tables =
  fixes J :: "sqlite \<Rightarrow> bool"
  assumes table: "J d \<Longrightarrow> table_step d d' \<Longrightarrow> J d'"

sublocale store_tables \<subseteq> store_world "\<lambda>w. J (db w)"
  by unfold_locales (auto intro: table)

section \<open>The constraints of the schema\<close>

definition dedup_unique :: "RuntimeActionLease list \<Rightarrow> bool" where
  "dedup_unique rows \<longleftrightarrow>
     (\<forall>l \<in> set rows. \<forall>s \<in> set rows. live l \<and> live s \<and> dedup_of l = dedup_of s \<longrightarrow> ls_RuntimeActionID l = ls_RuntimeActionID s)"

definition leases_ok :: "RuntimeActionLease list \<Rightarrow> bool" where
  "leases_ok rows \<longleftrightarrow>
     distinct (map ls_RuntimeActionID rows) \<and> distinct (map ls_IdempotencyKey rows) \<and> dedup_unique rows"

definition store_ok :: "sqlite \<Rightarrow> bool" where
  "store_ok d \<longleftrightarrow>
     leases_ok (lease_rows d) \<and> distinct (map je_ID (journal_rows d)) \<and> distinct (map au_ID (audit_rows d)) \<and>
     distinct (map rd_DecisionID (decision_rows d)) \<and> distinct (map ms_KLIQID (management_rows d)) \<and>
     distinct (map artifact_pk (artifact_rows d)) \<and> distinct (map active_pk (active_rows d)) \<and>
     distinct (map lt_KeyID (trust_rows d)) \<and> distinct (map fst (risk_rows d))"

lemma refresh_simps [simp]:
  "ls_RuntimeActionID (refresh l r) = ls_RuntimeActionID r"
  "ls_IdempotencyKey (refresh l r) = ls_IdempotencyKey r"
  "dedup_of (refresh l r) = dedup_of r"
  "ls_Status (refresh l r) = ls_Status l"
  "ls_ExpiresAt (refresh l r) = ls_ExpiresAt r"
  by (simp_all add: refresh_def dedup_of_def)

lemma dedup_uniqueI:
  "(\<And>l s. l \<in> set rows \<Longrightarrow> s \<in> set rows \<Longrightarrow> live l \<Longrightarrow> live s \<Longrightarrow> dedup_of l = dedup_of s \<Longrightarrow>
     ls_RuntimeActionID l = ls_RuntimeActionID s) \<Longrightarrow> dedup_unique rows"
  unfolding dedup_unique_def by blast

lemma dedup_uniqueD:
  "dedup_unique rows \<Longrightarrow> l \<in> set rows \<Longrightarrow> s \<in> set rows \<Longrightarrow> live l \<Longrightarrow> live s \<Longrightarrow> dedup_of l = dedup_of s \<Longrightarrow>
     ls_RuntimeActionID l = ls_RuntimeActionID s"
  unfolding dedup_unique_def by blast

lemma leases_ok_append:
  assumes "leases_ok rows"
    and "\<forall>s \<in> set rows. ls_RuntimeActionID s \<noteq> ls_RuntimeActionID l"
    and "\<forall>s \<in> set rows. ls_IdempotencyKey s \<noteq> ls_IdempotencyKey l"
    and free: "\<And>s. live l \<Longrightarrow> s \<in> set rows \<Longrightarrow> live s \<Longrightarrow> dedup_of s \<noteq> dedup_of l"
  shows "leases_ok (rows @ [l])"
proof -
  have old: "dedup_unique rows" using assms(1) by (simp add: leases_ok_def)
  have "dedup_unique (rows @ [l])"
  proof (rule dedup_uniqueI)
    fix a b
    assume ab: "a \<in> set (rows @ [l])" "b \<in> set (rows @ [l])" "live a" "live b" "dedup_of a = dedup_of b"
    then consider "a = l" "b = l" | "a \<in> set rows" "b = l" | "a = l" "b \<in> set rows" | "a \<in> set rows" "b \<in> set rows"
      by auto
    then show "ls_RuntimeActionID a = ls_RuntimeActionID b"
      by cases (use ab free old dedup_uniqueD in metis)+
  qed
  moreover have "ls_RuntimeActionID l \<notin> set (map ls_RuntimeActionID rows)"
    and "ls_IdempotencyKey l \<notin> set (map ls_IdempotencyKey rows)"
    using assms(2,3) by auto
  ultimately show ?thesis using assms(1) by (simp add: leases_ok_def)
qed

text \<open>Rewriting rows without touching keys keeps the constraints if the rewritten live rows clash with nothing.\<close>

lemma leases_ok_update:
  assumes ok: "leases_ok rows"
    and keys: "\<And>r. ls_RuntimeActionID (f r) = ls_RuntimeActionID r" "\<And>r. ls_IdempotencyKey (f r) = ls_IdempotencyKey r"
      "\<And>r. dedup_of (f r) = dedup_of r"
    and free: "\<And>r s. r \<in> set rows \<Longrightarrow> s \<in> set rows \<Longrightarrow> ls_RuntimeActionID r = key \<Longrightarrow> live (f r) \<Longrightarrow>
      ls_RuntimeActionID s \<noteq> key \<Longrightarrow> live s \<Longrightarrow> dedup_of s \<noteq> dedup_of r"
  shows "leases_ok (update_rows (\<lambda>r. ls_RuntimeActionID r = key) f rows)" (is "leases_ok ?rows")
proof -
  have old: "dedup_unique rows" using ok by (simp add: leases_ok_def)
  have row: "\<exists>r \<in> set rows. dedup_of r = dedup_of l \<and> ls_RuntimeActionID r = ls_RuntimeActionID l \<and>
      (if ls_RuntimeActionID l = key then l = f r else l = r)" if "l \<in> set ?rows" for l
    using that by (auto simp: set_update_rows keys)
  have "dedup_unique ?rows"
  proof (rule dedup_uniqueI)
    fix a b
    assume ab: "a \<in> set ?rows" "b \<in> set ?rows" and l: "live a" "live b" and eq: "dedup_of a = dedup_of b"
    from row [OF ab(1)] obtain r where r: "r \<in> set rows" "dedup_of r = dedup_of a"
      "ls_RuntimeActionID r = ls_RuntimeActionID a" "if ls_RuntimeActionID a = key then a = f r else a = r" by blast
    from row [OF ab(2)] obtain s where s: "s \<in> set rows" "dedup_of s = dedup_of b"
      "ls_RuntimeActionID s = ls_RuntimeActionID b" "if ls_RuntimeActionID b = key then b = f s else b = s" by blast
    show "ls_RuntimeActionID a = ls_RuntimeActionID b"
    proof (cases "ls_RuntimeActionID a = key"; cases "ls_RuntimeActionID b = key")
      assume n: "ls_RuntimeActionID a \<noteq> key" "ls_RuntimeActionID b \<noteq> key"
      with r s l eq dedup_uniqueD [OF old r(1) s(1)] show ?thesis by simp
    next
      assume n: "ls_RuntimeActionID a = key" "ls_RuntimeActionID b \<noteq> key"
      with free [OF r(1) s(1)] r s l eq show ?thesis by simp
    next
      assume n: "ls_RuntimeActionID a \<noteq> key" "ls_RuntimeActionID b = key"
      with free [OF s(1) r(1)] r s l eq show ?thesis by simp
    qed simp
  qed
  then show ?thesis
    using ok keys by (simp add: leases_ok_def map_update_rows)
qed

lemma sql_upsert_lease_ok:
  assumes "leases_ok (lease_rows d)" and "sql_upsert_lease l d = Inr d'"
  shows "leases_ok (lease_rows d')"
proof (cases "find (\<lambda>r. ls_RuntimeActionID r = ls_RuntimeActionID l) (lease_rows d)")
  case None
  with assms(2) have "lease_rows d' = lease_rows d @ [l]"
    and "\<forall>s \<in> set (lease_rows d). ls_RuntimeActionID s \<noteq> ls_RuntimeActionID l"
    and "\<forall>s \<in> set (lease_rows d). ls_IdempotencyKey s \<noteq> ls_IdempotencyKey l"
    and "\<And>s. live l \<Longrightarrow> s \<in> set (lease_rows d) \<Longrightarrow> live s \<Longrightarrow> dedup_of s \<noteq> dedup_of l"
    by (auto simp: sql_upsert_lease_def find_None_iff_all split: if_splits)
  with leases_ok_append [OF assms(1)] show ?thesis by simp
next
  case (Some r)
  then have r: "r \<in> set (lease_rows d)" "ls_RuntimeActionID r = ls_RuntimeActionID l"
    by (auto dest: find_SomeD)
  have uniq: "s = r" if "s \<in> set (lease_rows d)" "ls_RuntimeActionID s = ls_RuntimeActionID l" for s
    using that r assms(1) by (auto simp: leases_ok_def dest: distinct_map_inj)
  from Some assms(2) have d': "lease_rows d' = update_rows (\<lambda>s. ls_RuntimeActionID s = ls_RuntimeActionID l) (refresh l) (lease_rows d)"
    and free: "\<not> (live (refresh l r) \<and> (\<exists>s \<in> set (lease_rows d). ls_RuntimeActionID s \<noteq> ls_RuntimeActionID l \<and> live s \<and> dedup_of s = dedup_of r))"
    by (auto simp: sql_upsert_lease_def split: if_splits)
  show ?thesis
    unfolding d' by (rule leases_ok_update [OF assms(1)]) (use free uniq in auto)
qed

lemma live_expired: "\<not> live (l\<lparr>ls_Status := RuntimeActionExpired, ls_LastReconciledAt := t\<rparr>)"
  by (simp add: live_def RuntimeActionExpired_def)

lemma sql_expire_lease_ok:
  "leases_ok (lease_rows d) \<Longrightarrow> leases_ok (lease_rows (sql_expire_lease key t d))"
  unfolding sql_expire_lease_def
  by (simp, rule leases_ok_update) (simp_all add: dedup_of_def live_expired)

lemma store_ok_lease: "store_ok d \<Longrightarrow> sql_upsert_lease l d = Inr d' \<Longrightarrow> store_ok d'"
  using sql_upsert_lease_ok [of d l d']
  by (auto simp: store_ok_def sql_upsert_lease_def split: option.splits if_splits)

lemma store_ok_expire: "store_ok d \<Longrightarrow> store_ok (sql_expire_lease key t d)"
  using sql_expire_lease_ok [of d key t] by (auto simp: store_ok_def sql_expire_lease_def)

lemmas table_defs =
  sql_insert_journal_def sql_insert_audit_def sql_audit_uploaded_def sql_audit_failed_def
  sql_insert_artifact_def sql_insert_active_def sql_clear_artifacts_def sql_clear_active_def
  sql_upsert_credential_def sql_upsert_decision_def sql_upsert_trust_def sql_upsert_management_def
  sql_upsert_risk_def

interpretation schema: store_tables store_ok
proof
  fix d d'
  assume "store_ok d" and "table_step d d'"
  from this(2,1) show "store_ok d'"
  proof cases
    case (step_lease l)
    then show ?thesis using \<open>store_ok d\<close> by (rule store_ok_lease [rotated])
  next
    case (step_expire key t)
    then show ?thesis using \<open>store_ok d\<close> by (simp add: store_ok_expire)
  qed (auto simp: store_ok_def table_defs map_update_rows distinct_upsert_row distinct_map_filter
        split: if_splits option.splits, metis+)
qed

lemma store_ok_empty: "store_ok empty_store"
  by (simp add: store_ok_def empty_store_def leases_ok_def dedup_unique_def)

section \<open>The append-only audit spool\<close>

text \<open>What an upload attempt does not touch: everything but status, attempts and error.\<close>

definition audit_core :: "AuditRecord \<Rightarrow> AuditRecord" where
  "audit_core r = r\<lparr>au_Status := [], au_RetryCount := 0, au_LastAttemptAt := 0, au_UploadedAt := 0, au_LastError := []\<rparr>"

definition spool_extends :: "AuditRecord list \<Rightarrow> sqlite \<Rightarrow> bool" where
  "spool_extends rows d \<longleftrightarrow> prefix (map audit_core rows) (map audit_core (audit_rows d))"

lemma spool_extends_refl: "spool_extends (audit_rows d) d"
  by (simp add: spool_extends_def)

lemma sql_upsert_lease_audit: "sql_upsert_lease l d = Inr d' \<Longrightarrow> audit_rows d' = audit_rows d"
  by (auto simp: sql_upsert_lease_def split: option.splits if_splits)

lemma table_step_spool: "table_step d d' \<Longrightarrow> prefix (map audit_core (audit_rows d)) (map audit_core (audit_rows d'))"
  by (cases rule: table_step.cases, assumption)
    (auto simp: sql_upsert_lease_audit sql_expire_lease_def table_defs audit_core_def map_update_rows
      split: if_splits option.splits)

interpretation spool: store_tables "spool_extends rows" for rows
  by unfold_locales (auto simp: spool_extends_def dest: table_step_spool intro: prefix_order.trans)

text \<open>An append that succeeds leaves a record with the id and the digest in the spool.\<close>

lemma AppendAudit_present:
  assumes "AppendAudit cx env r w = (Inr u, v)" and "\<not> blank (au_PayloadSHA256 r)"
  shows "\<exists>s \<in> set (audit_rows (db v)). au_ID s = au_ID r \<and> au_PayloadSHA256 s = au_PayloadSHA256 r"
proof -
  from assms(2) have r: "audit_payload_hash cx r = r" by (simp add: audit_payload_hash_def)
  show ?thesis
    using assms(1) unfolding AppendAudit_def r Let_def
    by (auto simp: steps audit_created_def audit_previous_def audit_hashed_def sql_insert_audit_def
        elim!: step_elims dest!: find_SomeD split: sum.splits option.splits if_splits) blast+
qed

section \<open>The immutable columns of a lease\<close>

text \<open>A row keeps all its columns but the status and the time of the last reconciliation.\<close>

definition lease_core :: "RuntimeActionLease \<Rightarrow> RuntimeActionLease" where
  "lease_core l = l\<lparr>ls_LastReconciledAt := 0, ls_Status := []\<rparr>"

definition leases_extend :: "RuntimeActionLease list \<Rightarrow> sqlite \<Rightarrow> bool" where
  "leases_extend rows d \<longleftrightarrow> prefix (map lease_core rows) (map lease_core (lease_rows d))"

lemma leases_extend_refl: "leases_extend (lease_rows d) d"
  by (simp add: leases_extend_def)

lemma lease_core_refresh [simp]: "lease_core (refresh l r) = lease_core r"
  by (simp add: lease_core_def refresh_def)

lemma lease_core_expire [simp]:
  "lease_core (l\<lparr>ls_Status := st, ls_LastReconciledAt := t\<rparr>) = lease_core l"
  by (simp add: lease_core_def)

lemma table_step_leases: "table_step d d' \<Longrightarrow> prefix (map lease_core (lease_rows d)) (map lease_core (lease_rows d'))"
  by (cases rule: table_step.cases, assumption)
    (auto simp: sql_upsert_lease_def sql_expire_lease_def table_defs map_update_rows
      split: if_splits option.splits)

interpretation lease_columns: store_tables "leases_extend rows" for rows
  by unfold_locales (auto simp: leases_extend_def dest: table_step_leases intro: prefix_order.trans)

end
