(* ===== verification/Manager_Invariants.thy ===== *)
theory Manager_Invariants
  imports Runtime_Manager Store_Invariants
begin

text \<open>
  What every operation of the manager keeps. The locale \<open>manager_world\<close> states what an
  invariant has to survive: the statements of the store, the passive calls to an adapter
  (cleanup and readback), and a request to execute, which the manager only sends after the
  authorization audit of that lease has been appended. Its lemmas carry the invariant
  through execution, recovery, reconciliation and loading. It is interpreted on invariants
  of the tables, on invariants of the call log, and on the audit trail of the log.
\<close>

definition is_passive :: "adapter_call \<Rightarrow> bool" where
  "is_passive c \<longleftrightarrow> (case c of Executed l b \<Rightarrow> False | _ \<Rightarrow> True)"

locale manager_world = store_world I for I :: "kliq_world \<Rightarrow> bool" +
  fixes S :: system
    and ok :: "RuntimeActionLease \<Rightarrow> bytes \<Rightarrow> bool"
  assumes passive_call: "I w \<Longrightarrow> is_passive c \<Longrightarrow> I (w\<lparr>calls := calls w @ [c]\<rparr>)"
    and audited_call: "I w \<Longrightarrow> I v \<Longrightarrow> ok l b \<Longrightarrow>
      AppendAudit (sys_wire S) S (audit (sys_wire S) l authorized_message now) w = (Inr u, v) \<Longrightarrow>
      I (v\<lparr>calls := calls v @ [Executed l b]\<rparr>)"
begin

lemma keeps_passive: "is_passive c \<Longrightarrow> keeps_inv I (request c f)"
proof (rule keeps_invI)
  fix w r w'
  assume c: "is_passive c" and w: "I w" and r: "request c f w = (r, w')"
  have "I (w\<lparr>calls := calls w @ [c]\<rparr>)" using w c by (rule passive_call)
  from blind [OF this, of "Suc (tick w)"] r show "I w'" by (simp add: request_eq)
qed

lemma keeps_call_Cleanup: "keeps_inv I (call_Cleanup ex l)"
  unfolding call_Cleanup_def by (rule keeps_passive) (simp add: is_passive_def)

lemma keeps_call_State: "keeps_inv I (call_State reader l)"
  unfolding call_State_def by (rule keeps_passive) (simp add: is_passive_def)

lemma keeps_when_found: "keeps_inv I m \<Longrightarrow> (\<And>x. keeps_inv I (k x)) \<Longrightarrow> keeps_inv I (when_found m k)"
  unfolding when_found_def by (intro keeps)

lemma keeps_wrapE: "keeps_inv I m \<Longrightarrow> keeps_inv I (wrapE f m)"
  unfolding wrapE_def by (intro keeps)

lemmas keeps_manager = keeps keeps_world keeps_methods keeps_bundle_source keeps_call_Cleanup keeps_call_State keeps_when_found

lemma keeps_expireLease: "keeps_inv I (expireLease S ex l now message)"
  unfolding expireLease_def by (intro keeps_manager)

lemma keeps_recordFailedExecute: "keeps_inv I (recordFailedExecute S l now event message err)"
  unfolding recordFailedExecute_def by (intro keeps_manager)

lemma keeps_recover_as: "keeps_inv I (recover_as S l now event message applied)"
  unfolding recover_as_def by (intro keeps_manager)

lemma keeps_recoverAfterExecuteError: "keeps_inv I (recoverAfterExecuteError S ex l now err)"
  unfolding recoverAfterExecuteError_def by (intro keeps_manager keeps_recordFailedExecute keeps_recover_as)

lemma keeps_conformance_audit: "keeps_inv I (appendActiveConformanceExpectationAudit S l now)"
  unfolding appendActiveConformanceExpectationAudit_def by (intro keeps_manager)

text \<open>The authorization audit, then the request.\<close>

lemma keeps_audited_execute:
  assumes "ok l b" and rest: "\<And>r. keeps_inv I (k r)"
  shows "keeps_inv I (bindE (wrapE f (AppendAudit (sys_wire S) S (audit (sys_wire S) l authorized_message now)))
    (\<lambda>_. tryE (call_Execute ex l b) k))"
proof (rule keeps_invI)
  fix w r w'
  assume w: "I w"
    and r: "bindE (wrapE f (AppendAudit (sys_wire S) S (audit (sys_wire S) l authorized_message now)))
      (\<lambda>_. tryE (call_Execute ex l b) k) w = (r, w')"
  obtain s v where v: "AppendAudit (sys_wire S) S (audit (sys_wire S) l authorized_message now) w = (s, v)"
    by (cases "AppendAudit (sys_wire S) S (audit (sys_wire S) l authorized_message now) w")
  have Iv: "I v" by (rule keeps_invD [OF keeps_AppendAudit w v])
  show "I w'"
  proof (cases s)
    case (Inl e)
    with v r Iv show ?thesis by (auto simp: wrapE_def bindE_def tryE_def raise_def split: prod.splits sum.splits)
  next
    case (Inr u)
    define v1 where "v1 = v\<lparr>calls := calls v @ [Executed l b], tick := Suc (tick v)\<rparr>"
    have "I (v\<lparr>calls := calls v @ [Executed l b]\<rparr>)"
      using audited_call [OF w Iv assms(1)] v Inr by simp
    from blind [OF this, of "Suc (tick v)"] have "I v1" by (simp add: v1_def)
    moreover from Inr v r have "k (ex_Execute ex (tick v) l b) v1 = (r, w')"
      by (simp add: wrapE_def bindE_def tryE_def ret_def call_Execute_def request_def v1_def)
    ultimately show ?thesis using keeps_invD [OF rest] by blast
  qed
qed

lemma keeps_executeLease: "ok l b \<Longrightarrow> keeps_inv I (executeLease S ex l b now)"
  unfolding executeLease_def
  by (intro keeps_bindE keeps_wrapE keeps_conformance_audit keeps_audited_execute keeps_case_sum
      keeps_recoverAfterExecuteError keeps_UpsertLease keeps_AppendJournal keeps_ret)

lemma keeps_ensureActiveFallback: "keeps_inv I (ensureActiveFallbackAllowsExecution S)"
  unfolding ensureActiveFallbackAllowsExecution_def by (intro keeps_manager)

lemma keeps_executePlannedAction:
  "(\<And>now. ok (leaseFromPlannedAction (sys_wire S) plan action now) b) \<Longrightarrow>
     keeps_inv I (executePlannedAction S plan action ex b)"
  unfolding executePlannedAction_def
  by (intro keeps_manager keeps_ensureActiveFallback keeps_expireLease keeps_executeLease)

lemma keeps_ExecutePlan:
  "(\<And>action now. action \<in> set (rp_Actions plan) \<Longrightarrow> ok (leaseFromPlannedAction (sys_wire S) plan action now) b) \<Longrightarrow>
     keeps_inv I (ExecutePlan S m plan b)"
  unfolding ExecutePlan_def
  by (cases "rp_Actions plan") (auto intro!: keeps_manager keeps_executePlannedAction)

lemma keeps_CachedBundle: "keeps_inv I (CachedBundle S m)"
  unfolding CachedBundle_def by (intro keeps_manager)

lemma keeps_planFromRequest: "keeps_inv I (planFromRequest S m req)"
  unfolding planFromRequest_def plan_action_type_def actionFromRiskCache_def
    ensureActiveAssignmentAllowsNewActions_def ensureActiveContextRouteAllowsAction_def
  by (intro keeps_manager keeps_CachedBundle)

text \<open>Executing a request: the plan it derives decides which leases may be sent.\<close>

lemma keeps_ExecuteAction:
  assumes "\<And>w plan b v action now. I w \<Longrightarrow> planFromRequest S m req w = (Inr (plan, b), v) \<Longrightarrow>
    action \<in> set (rp_Actions plan) \<Longrightarrow> ok (leaseFromPlannedAction (sys_wire S) plan action now) b"
  shows "keeps_inv I (ExecuteAction S m req)"
proof (rule keeps_invI)
  fix w r w'
  assume w: "I w" and r: "ExecuteAction S m req w = (r, w')"
  obtain s v where v: "planFromRequest S m req w = (s, v)" by (cases "planFromRequest S m req w")
  have Iv: "I v" by (rule keeps_invD [OF keeps_planFromRequest w v])
  show "I w'"
  proof (cases s)
    case (Inl e)
    with v r Iv show ?thesis by (simp add: ExecuteAction_def bindE_def)
  next
    case (Inr p)
    then obtain plan b where p: "s = Inr (plan, b)" by (cases p) auto
    have plan: "keeps_inv I (ExecutePlan S m plan b)"
      by (rule keeps_ExecutePlan) (use assms w v p in blast)
    have rest: "keeps_inv I (if rp_Actions plan = [] then
       bindE (read_clock S) (\<lambda>now.
       bindE (AppendRuntimeDecision S (noActionRuntimeDecisionRecord (sys_wire S) plan now)) (\<lambda>_.
       ret \<lparr>ex_Plan = plan, ex_Results = []\<rparr>))
      else ExecutePlan S m plan b)" (is "keeps_inv I ?rest")
      by (intro keeps_if keeps_bindE keeps_read_clock keeps_AppendRuntimeDecision keeps_ret plan)
    from v p r have "?rest v = (r, w')" by (simp add: ExecuteAction_def bindE_def)
    from keeps_invD [OF rest Iv this] show ?thesis .
  qed
qed

lemma keeps_markLeaseUnknown: "keeps_inv I (markLeaseUnknown S l now message)"
  unfolding markLeaseUnknown_def by (intro keeps_manager)

lemma keeps_reconcileActiveLease: "keeps_inv I (reconcileActiveLease S ex now l t)"
  unfolding reconcileActiveLease_def by (intro keeps_manager keeps_markLeaseUnknown)

lemma keeps_reconcile_adapter: "keeps_inv I (reconcile_adapter S m now grouped adapterID r)"
proof -
  have "keeps_inv I (unregistered_lease S adapterID now l t)" for l t
    unfolding unregistered_lease_def by (intro keeps_manager keeps_markLeaseUnknown)
  moreover have "keeps_inv I (registered_lease S ex now l t)" for ex l t
    unfolding registered_lease_def by (intro keeps_manager keeps_reconcileActiveLease keeps_expireLease)
  ultimately have "keeps_inv I (foldE (case executorFor m adapterID of
       None \<Rightarrow> unregistered_lease S adapterID now | Some ex \<Rightarrow> registered_lease S ex now) ls t)" for ls t
    by (cases "executorFor m adapterID") (auto intro!: keeps_foldE)
  then show ?thesis unfolding reconcile_adapter_def by (intro keeps_bindE keeps_ret)
qed

lemma keeps_Reconcile: "keeps_inv I (Reconcile S m)"
  unfolding Reconcile_def by (intro keeps_manager keeps_CachedBundle keeps_reconcile_adapter)

lemma keeps_ReconcileDryRun: "keeps_inv I (ReconcileDryRun S m)"
  unfolding ReconcileDryRun_def by (intro keeps_manager)

lemma keeps_buildBundleRecord: "keeps_inv I load \<Longrightarrow> keeps_inv I (buildBundleRecord S m load)"
  unfolding buildBundleRecord_def by (intro keeps_manager)

lemma keeps_LoadBundle: "keeps_inv I load \<Longrightarrow> keeps_inv I (LoadBundle S m load)"
  unfolding LoadBundle_def loadBundle_def by (intro keeps_manager keeps_buildBundleRecord)

lemma keeps_LoadManagedBundle: "keeps_inv I (LoadManagedBundle S m source)"
  unfolding LoadManagedBundle_def source_with_active_def activate_loaded_def
  by (intro keeps_manager keeps_buildBundleRecord)

end

section \<open>Instances\<close>

text \<open>Invariants of the tables: the calls are not their business.\<close>

sublocale store_tables \<subseteq> tab: manager_world "\<lambda>w. J (db w)" S "\<lambda>_ _. True" for S
  by unfold_locales auto

text \<open>Invariants of the log: every request to execute is one of an allowed set.\<close>

definition log_within :: "(RuntimeActionLease \<Rightarrow> bytes \<Rightarrow> bool) \<Rightarrow> kliq_world \<Rightarrow> bool" where
  "log_within P w \<longleftrightarrow> (\<forall>l b. Executed l b \<in> set (calls w) \<longrightarrow> P l b)"

interpretation within: manager_world "log_within P" S P for P S
proof unfold_locales
  fix w c
  assume "log_within P w" and "is_passive c"
  then show "log_within P (w\<lparr>calls := calls w @ [c]\<rparr>)"
    by (cases c) (auto simp: log_within_def is_passive_def)
qed (auto simp: log_within_def)

section \<open>The audit trail\<close>

text \<open>The spool holds the authorization audit of a lease: a record with its id and the digest of its payload.\<close>

definition authorized_audit :: "wire \<Rightarrow> RuntimeActionLease \<Rightarrow> sqlite \<Rightarrow> bool" where
  "authorized_audit cx l d \<longleftrightarrow>
     (\<exists>now. \<exists>r \<in> set (audit_rows d). au_ID r = au_ID (audit cx l authorized_message now) \<and>
        au_PayloadSHA256 r = SHA256JSON (sha cx) (audit_payload cx l authorized_message))"

definition audited :: "wire \<Rightarrow> kliq_world \<Rightarrow> bool" where
  "audited cx w \<longleftrightarrow> (\<forall>l b. Executed l b \<in> set (calls w) \<longrightarrow> authorized_audit cx l (db w))"

lemma authorized_audit_step:
  assumes "authorized_audit cx l d" and "table_step d d'"
  shows "authorized_audit cx l d'"
proof -
  from assms(1) obtain now r where r: "r \<in> set (audit_rows d)" "au_ID r = au_ID (audit cx l authorized_message now)"
    "au_PayloadSHA256 r = SHA256JSON (sha cx) (audit_payload cx l authorized_message)"
    by (auto simp: authorized_audit_def)
  have "audit_core r \<in> set (map audit_core (audit_rows d'))"
    using set_mono_prefix [OF table_step_spool [OF assms(2)]] r(1) by auto
  then obtain s where s: "s \<in> set (audit_rows d')" "audit_core s = audit_core r" by auto
  then have "au_ID s = au_ID r" "au_PayloadSHA256 s = au_PayloadSHA256 r"
    by (auto simp: audit_core_def dest!: arg_cong [where f = "\<lambda>x. (au_ID x, au_PayloadSHA256 x)"])
  with r s show ?thesis unfolding authorized_audit_def by metis
qed

lemma AppendAudit_authorized:
  "AppendAudit cx S (audit cx l authorized_message now) w = (Inr u, v) \<Longrightarrow> authorized_audit cx l (db v)"
  using AppendAudit_present [of cx S "audit cx l authorized_message now" w u v]
  by (auto simp: authorized_audit_def audit_def SHA256JSON_def blank_iff is_space_def)

interpretation trail: manager_world "audited (sys_wire S)" S "\<lambda>_ _. True" for S
proof unfold_locales
  fix w d
  assume "audited (sys_wire S) w" and "table_step (db w) d"
  then show "audited (sys_wire S) (w\<lparr>db := d\<rparr>)"
    by (auto simp: audited_def intro: authorized_audit_step)
next
  fix w c
  assume "audited (sys_wire S) w" and "is_passive c"
  then show "audited (sys_wire S) (w\<lparr>calls := calls w @ [c]\<rparr>)"
    by (cases c) (auto simp: audited_def is_passive_def)
next
  fix w v l b now u
  assume "audited (sys_wire S) v"
    and "AppendAudit (sys_wire S) S (audit (sys_wire S) l authorized_message now) w = (Inr u, v)"
  then show "audited (sys_wire S) (v\<lparr>calls := calls v @ [Executed l b]\<rparr>)"
    by (auto simp: audited_def dest: AppendAudit_authorized)
qed (auto simp: audited_def)

section \<open>Reachable states\<close>

text \<open>
  The operations of the daemon on its store, with any arguments, and any configuration of
  the manager at each of them (a restart may bring another key or another registry).
\<close>

datatype kliq_op =
    OpExecuteAction ExecuteRequest
  | OpExecutePlan RuntimeActionPlan bytes
  | OpLoadBundle string
  | OpLoadManagedBundle "ManagedAssignmentSource option"
  | OpReconcile
  | OpReconcileDryRun
  | OpMarkAuditUploaded string gotime
  | OpMarkAuditFailed string gotime string
  | OpSaveKLIQCredential KLIQCredential
  | OpSaveRiskContext RiskCacheKey RiskContext
  | OpSaveLocalTrustBundle TrustBundle gotime

fun run_op :: "system \<Rightarrow> Manager \<Rightarrow> kliq_op \<Rightarrow> unit kliq" where
  "run_op S m (OpExecuteAction req) = ignoreE (ExecuteAction S m req)"
| "run_op S m (OpExecutePlan plan b) = ignoreE (ExecutePlan S m plan b)"
| "run_op S m (OpLoadBundle path) = ignoreE (LoadBundle S m (LocalFileSource_Load (sys_readFile S) path))"
| "run_op S m (OpLoadManagedBundle source) = ignoreE (LoadManagedBundle S m source)"
| "run_op S m OpReconcile = ignoreE (Reconcile S m)"
| "run_op S m OpReconcileDryRun = ignoreE (ReconcileDryRun S m)"
| "run_op S m (OpMarkAuditUploaded key t) = ignoreE (MarkAuditUploaded S key t)"
| "run_op S m (OpMarkAuditFailed key t msg) = ignoreE (MarkAuditFailed S key t msg)"
| "run_op S m (OpSaveKLIQCredential c) = ignoreE (SaveKLIQCredential S c)"
| "run_op S m (OpSaveRiskContext key ctx) = ignoreE (SaveRiskContext S key ctx)"
| "run_op S m (OpSaveLocalTrustBundle b t) = ignoreE (SaveLocalTrustBundle S b t)"

definition initial_world :: kliq_world where
  "initial_world = \<lparr>db = empty_store, calls = [], tick = 0\<rparr>"

inductive reachable :: "system \<Rightarrow> kliq_world \<Rightarrow> bool" for S where
  reachable_start: "reachable S initial_world"
| reachable_step: "reachable S w \<Longrightarrow> run_op S m op w = (r, w') \<Longrightarrow> reachable S w'"

context manager_world
begin

text \<open>Where no request to execute is refused, every operation keeps the invariant.\<close>

lemma keeps_run_op:
  assumes "\<And>l b. ok l b"
  shows "keeps_inv I (run_op S m op)"
  using assms
  by (cases op)
    (auto intro!: keeps_ignoreE keeps_ExecuteAction keeps_ExecutePlan keeps_LoadBundle keeps_LocalFileSource_Load
      keeps_LoadManagedBundle keeps_Reconcile keeps_ReconcileDryRun keeps_methods)

lemma reachable_invariant:
  assumes "\<And>l b. ok l b" and "I initial_world" and "reachable S w"
  shows "I w"
  using assms(3)
proof induction
  case reachable_start
  show ?case by (rule assms(2))
next
  case (reachable_step w m op r w')
  from keeps_invD [OF keeps_run_op [OF assms(1)] reachable_step.IH reachable_step.hyps(2)] show ?case .
qed

end

lemma reachable_store_ok: "reachable S w \<Longrightarrow> store_ok (db w)"
  by (rule schema.tab.reachable_invariant) (auto simp: initial_world_def store_ok_empty)

lemma reachable_audited: "reachable S w \<Longrightarrow> audited (sys_wire S) w"
  by (rule trail.reachable_invariant) (auto simp: initial_world_def audited_def)

end
