(* ===== verification/Examples.thy ===== *)
theory Examples
  imports Manager_Invariants
begin

text \<open>
  Concrete values at which the properties are instantiated: a toy hash and signature scheme,
  decoders that return fixed artifacts, a bundle that grants one rate-limiting action, a
  managed assignment that carries it, and a clock that stands still. Nothing in the
  development depends on them.
\<close>

text \<open>Every third byte: enough to keep the identifiers of the examples apart.\<close>

fun toy_hash :: "bytes \<Rightarrow> string" where
  "toy_hash (a # b # c # rest) = a # toy_hash rest"
| "toy_hash rest = rest"

text \<open>
  A key pair is a 32-byte public key that the 64-byte private key starts with, and a
  signature is that key followed by the message.
\<close>

definition toy_crypto :: crypto where
  "toy_crypto =
     \<lparr>sha256_hex = toy_hash,
      ed25519_sign = (\<lambda>priv msg. take 32 priv @ msg),
      ed25519_verify = (\<lambda>pub msg sig. sig = pub @ msg),
      marshal_header = (\<lambda>h. Inr (ph_KeyID h @ ph_PayloadSHA256 h))\<rparr>"

definition toy_signer :: DevLocalSigner where
  "toy_signer = \<lparr>ds_KeyID = ''key-1'', ds_PrivateKey = replicate 64 CHR ''k'', ds_PublicKey = replicate 32 CHR ''k''\<rparr>"

definition toy_metadata :: SigningMetadata where
  "toy_metadata = \<lparr>sm_KeyID = [], sm_SourceCommit = ''abc'', sm_PolicyID = ''p1'', sm_ExpiresAt = Some 100000\<rparr>"

definition toy_envelope :: SignedEnvelope where
  "toy_envelope = projr (Sign toy_crypto toy_signer ''payload'' toy_metadata 5)"

definition toy_artifact :: KLIQAssignedArtifact where
  "toy_artifact =
     \<lparr>aa_ArtifactType = ''runtime_bundle'', aa_ArtifactID = ''b-1'', aa_ArtifactRef = [],
      aa_SHA256 = SHA256JSON toy_hash ''bundle'', aa_Envelope = ''bundle''\<rparr>"

definition toy_assignment :: KLIQAssignment where
  "toy_assignment =
     \<lparr>as_AssignmentID = ''a-1'', as_AssignmentVersion = 7, as_KLIQID = ''kliq-1'', as_Environment = ''lab'',
      as_Stage = ''dev'', as_Scope = ''local'', as_SourceCommit = ''abc'', as_TrustKeyID = ''key-1'',
      as_TrustBundleRef = ''key-1'', as_CreatedAt = 1, as_ExpiresAt = 5000, as_ApprovedRollback = True,
      as_Artifacts = [toy_artifact], as_Status = ''active'', as_RevokedAt = 0, as_RevokedReason = [],
      as_SignatureValid = True, as_ManifestSigned = False, as_ManifestDigest = [], as_ManifestSignatureValid = False,
      as_Provenance = None\<rparr>"

definition toy_activation :: KLIQAssignmentActivationContext where
  "toy_activation =
     \<lparr>ac_KLIQID = ''kliq-1'', ac_Environment = ''lab'', ac_Stage = ''dev'', ac_Scope = ''local'',
      ac_TrustKeyID = ''key-1'', ac_AssignmentDigest = ''d'', ac_Now = 50, ac_ActiveAssignmentVersion = 9,
      ac_ActiveAssignmentDigest = ''e''\<rparr>"

definition toy_behaviour :: PolicyRiskBehavior where
  "toy_behaviour = \<lparr>pb_RiskType = ''risk_type.scan'', pb_Tier = ''high'', pb_Effect = ''effect.rate_limit'', pb_RuntimeHint = []\<rparr>"

definition toy_risk :: RiskContext where
  "toy_risk = \<lparr>rc_RiskType = ''scan'', rc_Tier = TierHigh, rc_Score = None, rc_Confidence = 1, rc_Reasons = [],
     rc_Signals = [], rc_Source = ''s'', rc_Scope = ScopeLocal, rc_EvaluatedAt = 1, rc_ValidUntil = 2000\<rparr>"

definition toy_grant :: CapabilityGrant where
  "toy_grant =
     \<lparr>cg_ID = ''g-1'', cg_BindingID = ''bind'', cg_BindingDigest = ''bd'', cg_AdapterID = ''fw'',
      cg_AdapterManifestDigest = ''md'', cg_CapabilityID = ''cap'', cg_ActionType = ''runtime_action.rate_limit_source'',
      cg_ActionDigest = ''ad'', cg_AllowedTargetScopes = [''source''], cg_MaxTTL = ''500ns'', cg_Stage = ''dev'',
      cg_Environment = ''lab'', cg_Owner = ''o'', cg_ApprovalRef = [], cg_ExpiresAt = [], cg_RateLimit = None\<rparr>"

definition toy_bundle :: RuntimeBundle where
  "toy_bundle =
     \<lparr>rb_Kind = ''RuntimeBundle'',
      rb_Metadata = \<lparr>md_ID = ''b-1'', md_PolicyID = ''p1'', md_ArtifactType = ''runtime_bundle'', md_KNI = [],
        md_SourcePath = [], md_SourceCommit = ''abc'', md_CorrelationID = ''corr'', md_CreatedAt = 1, md_Digests = []\<rparr>,
      rb_Spec = \<lparr>bs_PolicyID = ''p1'', bs_RuntimeAllowed = True,
        bs_RuntimeActions = [\<lparr>ra_Label = ''rate limit'', ra_CanonicalID = ''runtime_action.rate_limit_source''\<rparr>],
        bs_CapabilityGrants = [toy_grant], bs_RiskRecipe = [], bs_RiskBehavior = [toy_behaviour], bs_MaxTTL = ''1us'',
        bs_MaxTTLSource = [], bs_MaxScope = ''source'', bs_MaxScopeSource = []\<rparr>,
      rb_Status = \<lparr>st_Status = [], st_Phase = [], st_Message = []\<rparr>\<rparr>"

definition toy_fallback :: KLIQFallbackProfile where
  "toy_fallback = \<lparr>fp_Kind = ''FallbackProfile'', fp_ProfileID = ''fb'', fp_Mode = ''strict'',
     fp_AllowCachedAssignmentFallback = True, fp_DenyNewActionsWhenDegraded = True, fp_AuditRequired = True\<rparr>"

definition unsupported :: "'a result" where
  "unsupported = Inl (Errorf ''no such artifact'' [])"

definition toy_wire :: wire where
  "toy_wire =
     \<lparr>w_crypto = toy_crypto, dec_Envelope = (\<lambda>_. Inr toy_envelope), dec_EnvelopePayload = (\<lambda>_. Inr ''payload''),
      dec_Assignment = (\<lambda>_. Inr toy_assignment), dec_RuntimeBundle = (\<lambda>_. Inr toy_bundle),
      dec_AdapterManifest = (\<lambda>_. unsupported), dec_AdapterAssignment = (\<lambda>_. unsupported),
      dec_ContextRoutePack = (\<lambda>_. unsupported), dec_ConformanceExpectation = (\<lambda>_. unsupported),
      dec_TrustBundle = (\<lambda>_. unsupported), dec_ManagementProfile = (\<lambda>_. unsupported),
      dec_FallbackProfile = (\<lambda>_. Inr toy_fallback),
      dec_Header = (\<lambda>_. Inr \<lparr>hd_Kind = ''RuntimeBundle'', hd_ArtifactType = ''runtime_bundle''\<rparr>),
      dec_EnvelopeStream = (\<lambda>_. Inr toy_envelope), pem_Decode = (\<lambda>_. None), parse_PKIX = (\<lambda>_. unsupported),
      base64_Std = (\<lambda>_. unsupported), base64_RawStd = (\<lambda>_. unsupported),
      enc_Object = (\<lambda>fields. concat (map (\<lambda>(k, v). take 4 v) fields)),
      parse_RFC3339 = (\<lambda>_. unsupported)\<rparr>"

definition toy_system :: "gotime \<Rightarrow> system" where
  "toy_system now =
     \<lparr>clock = (\<lambda>_. now), fault = (\<lambda>_. None), sys_wire = toy_wire,
      sys_http = (\<lambda>_ _. Inr \<lparr>rp_StatusCode = 200, rp_Status = ''200 OK'', rp_Body = ''body''\<rparr>),
      sys_readFile = (\<lambda>_ _. Inr ''bundle'')\<rparr>"

definition toy_verifier :: verifier where
  "toy_verifier = signer_verifier toy_crypto toy_signer (\<lambda>_. 50) (\<lambda>_. 50)"

definition toy_trust :: TrustBundle where
  "toy_trust = \<lparr>tb_KeyID = ''key-1'', tb_PublicKey = ''pk'', tb_Purpose = ''assignment_verification'', tb_Status = ''active'',
     tb_ExpiresAt = 0, tb_Issuer = ''forge''\<rparr>"

definition toy_manager :: Manager where
  "toy_manager = \<lparr>m_Store = True, m_Verifier = Some toy_verifier, m_TrustBundle = toy_trust,
     m_Registry = Some (NewStaticAdapterRuntimeRegistry [(''fw'', Some LocalTestExecutor)])\<rparr>"

definition toy_request :: ExecuteRequest where
  "toy_request =
     \<lparr>er_DecisionID = ''d-1'', er_EventType = ''event'', er_EventID = ''e-1'', er_RiskType = [], er_AdapterID = ''fw'',
      er_CapabilityID = ''cap'', er_CapabilityGrantID = ''g-1'', er_BindingID = [], er_BindingDigest = [],
      er_AdapterManifestDigest = [], er_ActionDigest = [], er_Mode = ''required'',
      er_ActionType = ''runtime_action.rate_limit_source'', er_TargetScope = [], er_TargetKey = ''10.0.0.1'',
      er_TTL = ''200ns'', er_Reason = ''scan'', er_AuditID = ''audit-1'', er_CorrelationID = [],
      er_DeriveAuditIDFromDecisionID = False\<rparr>"

definition toy_source :: ManagedAssignmentSource where
  "toy_source =
     \<lparr>src_BaseURL = ''http://forge/'', src_BearerToken = ''t'', src_KLIQID = ''kliq-1'', src_Environment = ''lab'',
      src_Stage = ''dev'', src_Scope = ''local'', src_TrustKeyID = ''key-1'', src_TrustBundle = toy_trust,
      src_ActiveAssignmentVersion = 0, src_ActiveAssignmentDigest = [], src_Verifier = None,
      src_assignment = None, src_assignmentDigest = []\<rparr>"

definition toy_credential :: KLIQCredential where
  "toy_credential =
     \<lparr>kc_KLIQID = ''kliq-1'', kc_NodeID = ''n'', kc_Environment = ''lab'', kc_Stage = ''dev'', kc_Scope = ''local'',
      kc_TrustKeyID = ''key-1'', kc_AssignmentURL = ''u'', kc_PublicKeyPEM = ''pk'', kc_PrivateKeyPEM = ''sk'',
      kc_ServiceIdentityProvider = ''dev'', kc_SPIFFEID = [], kc_CredentialStatus = ''active'', kc_ServiceToken = ''tok'',
      kc_ServiceTokenExpiresAt = 9000, kc_CreatedAt = 1, kc_UpdatedAt = 1\<rparr>"

text \<open>The world after loading the bundle, and after executing the request on it, at time 1000.\<close>

definition loaded_world :: kliq_world where
  "loaded_world = snd (run_op (toy_system 1000) toy_manager (OpLoadBundle ''bundle.json'') initial_world)"

definition executed_world :: kliq_world where
  "executed_world = snd (run_op (toy_system 1000) toy_manager (OpExecuteAction toy_request) loaded_world)"

definition toy_lease :: RuntimeActionLease where
  "toy_lease =
     \<lparr>ls_RuntimeActionID = ''runtime_action.s2:1rceor0'', ls_PlanID = ''runtime_action_plan.b'' @ NUL @ ''1'',
      ls_DecisionID = ''d-1'', ls_PolicyID = ''p1'', ls_BundleID = ''b-1'', ls_SourceCommit = ''abc'', ls_CorrelationID = ''corr'',
      ls_ActionType = ''runtime_action.rate_limit_source'', ls_TargetScope = ''source'', ls_TargetKey = ''10.0.0.1'',
      ls_TTL = ''200ns'', ls_ExpiresAt = 1200, ls_Reason = ''scan'', ls_AuditID = ''audit-1'', ls_CapabilityGrantID = ''g-1'',
      ls_BindingID = ''bind'', ls_BindingDigest = ''bd'', ls_AdapterManifestDigest = ''md'', ls_ActionDigest = ''ad'',
      ls_AdapterID = ''fw'', ls_CapabilityID = ''cap'', ls_Mode = ''required'', ls_Required = True,
      ls_IdempotencyKey = ''sha256:b'' @ NUL @ ''1wartecoreitocsr'' @ NUL @ ''.0'',
      ls_CreatedAt = 1000, ls_LastReconciledAt = 1000, ls_Status = ''active''\<rparr>"

lemma loaded_reachable: "reachable (toy_system 1000) loaded_world"
  unfolding loaded_world_def by (rule reachable_step [OF reachable_start prod.collapse [symmetric]])

lemma executed_reachable: "reachable (toy_system 1000) executed_world"
  unfolding executed_world_def by (rule reachable_step [OF loaded_reachable prod.collapse [symmetric]])

lemma executed_leases: "lease_rows (db executed_world) = [toy_lease]"
  by code_simp

lemma executed_calls: "calls executed_world = [Executed toy_lease ''bundle'']"
  by code_simp

lemma toy_lease_live: "live toy_lease"
  by (simp add: live_def toy_lease_def)

end
