(* ===== verification/Properties_Core.thy ===== *)
theory Properties_Core
  imports Examples
begin

text \<open>
  The properties of the parts that keep no state: signed envelopes, the activation rule, the
  digests of an assignment, risk tiers, durations, registries and the gRPC executor.
\<close>

section \<open>Signed envelopes\<close>

text \<open>
  C31. An envelope that the signer made verifies under the signer's public key until it
  expires, and reports the digest of the signed payload; the hypothesis on Ed25519 is that a
  signature made with the private key verifies under the public key.
\<close>

theorem sign_verify_roundtrip:
  assumes "Sign cr s payload meta now = Inr e"
    and "length (ds_PublicKey s) = 32"
    and "\<And>msg. ed25519_verify cr (ds_PublicKey s) msg (ed25519_sign cr (ds_PrivateKey s) msg)"
    and "\<And>t. sm_ExpiresAt meta = Some t \<Longrightarrow> Before now2 t"
  shows "vr_Valid (Verify cr s e now1 now2) \<and> vr_Error (Verify cr s e now1 now2) = [] \<and>
    vr_PayloadSHA256 (Verify cr s e now1 now2) = ''sha256:'' @ sha256_hex cr payload"
proof -
  note f = Sign_fields [OF assms(1)]
  then have "vr_Valid (Verify cr s e now1 now2)"
    using assms(2-4) by (auto simp: Verify_valid_iff expired_at_def split: option.split)
  moreover from this have "vr_Error (Verify cr s e now1 now2) = []"
    by (auto simp: Verify_def Let_def split: if_splits sum.splits)
  ultimately show ?thesis using f by simp
qed

theorem sign_verify_roundtrip_witness:
  "Sign toy_crypto toy_signer ''payload'' toy_metadata 5 = Inr toy_envelope \<and>
   vr_Valid (Verify toy_crypto toy_signer toy_envelope 6 7)"
proof -
  have sign: "Sign toy_crypto toy_signer ''payload'' toy_metadata 5 = Inr toy_envelope"
    by (simp add: toy_envelope_def Sign_def toy_signer_def toy_metadata_def toy_crypto_def fail_if_def Let_def signingInput_def)
  moreover have "vr_Valid (Verify toy_crypto toy_signer toy_envelope 6 7)"
    using sign_verify_roundtrip [OF sign, of 7 6] by (simp add: toy_signer_def toy_crypto_def toy_metadata_def)
  ultimately show ?thesis by simp
qed

text \<open>
  An envelope is accepted exactly when it is an Ed25519 envelope of the verifier's key,
  not expired, with the digest of its payload, and with a signature over its protected
  header that the public key verifies.
\<close>

theorem verify_accepts_exactly:
  "vr_Valid (Verify cr s e now1 now2) \<longleftrightarrow>
     env_Kind e = ''SignedEnvelope'' \<and> env_Algorithm e = ''Ed25519'' \<and>
     env_KeyID e \<noteq> [] \<and> env_KeyID e = ds_KeyID s \<and> length (ds_PublicKey s) = 32 \<and>
     \<not> expired_at e now2 \<and> env_PayloadSHA256 e = ''sha256:'' @ sha256_hex cr (env_Payload e) \<and>
     (\<exists>input. marshal_header cr (protected_header e) = Inr input \<and>
        ed25519_verify cr (ds_PublicKey s) input (env_Signature e))"
  by (simp add: Verify_valid_iff signingInput_def)

section \<open>Assignments\<close>


text \<open>
  C30. An older assignment is never activated unless it is an approved rollback whose own
  signature is valid; a valid signature of the manifest alone is not enough for that.
\<close>

theorem rollback_needs_approval:
  assumes "ValidateKLIQAssignmentActivation a ctx wall = Inr ()"
    and "as_AssignmentVersion a < ac_ActiveAssignmentVersion ctx"
  shows "as_ApprovedRollback a \<and> as_SignatureValid a"
  using assms by (auto simp: activation_iff version_admissible_def)

theorem rollback_needs_approval_witness:
  "ValidateKLIQAssignmentActivation toy_assignment toy_activation 0 = Inr () \<and>
   as_AssignmentVersion toy_assignment < ac_ActiveAssignmentVersion toy_activation \<and>
   as_ApprovedRollback toy_assignment \<and> as_SignatureValid toy_assignment"
proof -
  have "ValidateKLIQAssignmentActivation toy_assignment toy_activation 0 = Inr ()"
    by (simp add: activation_iff complete_assignment_def targets_def version_admissible_def toy_assignment_def toy_activation_def)
  moreover have "as_AssignmentVersion toy_assignment < ac_ActiveAssignmentVersion toy_activation"
    by (simp add: toy_assignment_def toy_activation_def)
  ultimately show ?thesis using rollback_needs_approval [of toy_assignment toy_activation 0] by simp
qed

text \<open>
  When the digests of an assignment are accepted, the bytes of every artifact envelope
  are the bytes the digest was taken of: replacing the envelope of one artifact by bytes with
  another hash, under the same digest, is refused.
\<close>

theorem replaced_artifact_is_refused:
  assumes "ValidateAssignedArtifactDigests sha256 a = Inr ()"
    and "i < length (as_Artifacts a)"
    and "sha256 bytes \<noteq> sha256 (aa_Envelope (as_Artifacts a ! i))"
  shows "\<exists>e. ValidateAssignedArtifactDigests sha256
      (a\<lparr>as_Artifacts := (as_Artifacts a)[i := (as_Artifacts a ! i)\<lparr>aa_Envelope := bytes\<rparr>]\<rparr>) = Inl e"
    (is "\<exists>e. ?v = Inl e")
proof -
  have "aa_SHA256 (as_Artifacts a ! i) = SHA256JSON sha256 (aa_Envelope (as_Artifacts a ! i))"
    using assms(1,2) by (simp add: validate_digests_iff)
  with assms(3) have "aa_SHA256 (as_Artifacts a ! i) \<noteq> SHA256JSON sha256 bytes"
    by (simp add: SHA256JSON_def)
  with assms(2) have "?v \<noteq> Inr ()"
    by (auto simp: validate_digests_iff set_conv_nth intro!: exI [of _ i])
  then show ?thesis by (cases ?v) auto
qed

theorem replaced_artifact_is_refused_witness:
  "\<exists>e. ValidateAssignedArtifactDigests id
     (toy_assignment\<lparr>as_Artifacts := [\<lparr>aa_ArtifactType = ''runtime_bundle'', aa_ArtifactID = ''b'', aa_ArtifactRef = [],
        aa_SHA256 = ''sha256:one'', aa_Envelope = ''two''\<rparr>]\<rparr>) = Inl e"
  using replaced_artifact_is_refused [of id "toy_assignment\<lparr>as_Artifacts := [\<lparr>aa_ArtifactType = ''runtime_bundle'',
      aa_ArtifactID = ''b'', aa_ArtifactRef = [], aa_SHA256 = ''sha256:one'', aa_Envelope = ''one''\<rparr>]\<rparr>" 0 "''two''"]
  by (simp add: validate_digests_iff SHA256JSON_def)

section \<open>Risk\<close>


text \<open>
  The behaviour chosen for a risk context is the first of the bundle whose normalized
  type and tier are those of the context: no earlier behaviour matches.
\<close>

theorem behaviour_is_first_match:
  assumes "MatchBehavior behaviors ctx = Some b"
  shows "\<exists>i < length behaviors. behaviors ! i = b \<and>
    NormalizeType (pb_RiskType b) = NormalizeType (rc_RiskType ctx) \<and>
    NormalizeTier (pb_Tier b) = NormalizeTier (rc_Tier ctx) \<and>
    (\<forall>j < i. \<not> (NormalizeType (pb_RiskType (behaviors ! j)) = NormalizeType (rc_RiskType ctx) \<and>
               NormalizeTier (pb_Tier (behaviors ! j)) = NormalizeTier (rc_Tier ctx)))"
  using assms unfolding MatchBehavior_def find_Some_iff by blast

theorem behaviour_is_first_match_witness:
  "MatchBehavior [toy_behaviour] toy_risk = Some toy_behaviour \<and> (\<exists>i < length [toy_behaviour]. [toy_behaviour] ! i = toy_behaviour)"
proof -
  have m: "MatchBehavior [toy_behaviour] toy_risk = Some toy_behaviour"
    by (simp add: MatchBehavior_def toy_behaviour_def toy_risk_def NormalizeType_def NormalizeTier_def TrimPrefix_def
        HasPrefix_def TrimSpace_def is_space_def tier_defs)
  with behaviour_is_first_match [OF m] show ?thesis by blast
qed

section \<open>Durations\<close>



section \<open>Adapters\<close>

text \<open>
  The registry answers with the last entry that names the adapter and has an executor,
  and with none when there is no such entry or the id is empty.
\<close>

theorem registry_returns_last_registration:
  "registry_Get (NewStaticAdapterRuntimeRegistry entries) adapterID =
     (case rev (filter (\<lambda>e. fst e = adapterID \<and> fst e \<noteq> [] \<and> snd e \<noteq> None) entries) of
        [] \<Rightarrow> None | e # _ \<Rightarrow> snd e)"
  by (rule registry_Get_New)

text \<open>
  The gRPC executor reports success exactly when the adapter answered: an execution that
  is active, a cleanup that is expired or not found for a complete selector. Every other
  answer, and every transport error, is an error.
\<close>

theorem adapter_success_exactly:
  "(ex_Execute (AdapterRuntimeExecutor client) n l b = Inr () \<longleftrightarrow>
      (\<exists>c. client = Some c \<and> cl_Execute c n (execute_request l b) = Inr RuntimeActionActive)) \<and>
   (ex_Cleanup (AdapterRuntimeExecutor client) n l = Inr () \<longleftrightarrow>
      (\<exists>c status. client = Some c \<and> selector_Valid (Selector l) \<and> cl_Revoke c n (revoke_request l) = Inr status \<and>
         status \<in> {RuntimeActionExpired, RuntimeActionNotFound}))"
  by (simp add: AdapterRuntimeExecutor_def adapter_Execute_ok adapter_Cleanup_ok)

end
