(* ===== verification/Properties_Store.thy ===== *)
theory Properties_Store
  imports Examples
begin

text \<open>
  The properties of the KLIQ state store: atomic activation, the audit spool, the leases and
  the risk cache, each with what its methods do to the tables. The lemmas before each
  property describe one method; they hold for every clock and every pattern of faults.
\<close>

section \<open>Managed activation\<close>

text \<open>The rows an activation inserts for its artifacts.\<close>

definition activates :: "wire \<Rightarrow> AssignmentArtifactRecord list \<Rightarrow> ActiveArtifactRecord list \<Rightarrow> bool" where
  "activates cx arts acts \<longleftrightarrow>
     list_all2 (\<lambda>a r. \<exists>payload. signedEnvelopePayload cx (ar_EnvelopeJSON a) = Inr payload \<and> r = active_record a payload) arts acts"

text \<open>The tables an activation does not touch.\<close>

definition same_runtime_tables :: "sqlite \<Rightarrow> sqlite \<Rightarrow> bool" where
  "same_runtime_tables d d' \<longleftrightarrow>
     lease_rows d' = lease_rows d \<and> journal_rows d' = journal_rows d \<and> audit_rows d' = audit_rows d \<and>
     decision_rows d' = decision_rows d \<and> credential_row d' = credential_row d \<and> risk_rows d' = risk_rows d"

lemma same_runtime_tables_trans:
  "same_runtime_tables d d1 \<Longrightarrow> same_runtime_tables d1 d2 \<Longrightarrow> same_runtime_tables d d2"
  by (simp add: same_runtime_tables_def)

lemma trust_rows_same [simp]: "(d :: sqlite)\<lparr>trust_rows := trust_rows d\<rparr> = d"
  by (cases d) simp

lemma trust_row_effect:
  assumes "saveAssignmentTrustBundle cx env payload t1 t2 w = (Inr u, w')"
  shows "\<exists>rows. db w' = (db w)\<lparr>trust_rows := rows\<rparr>"
proof -
  from assms obtain b where b: "(if tb_Purpose b \<noteq> ''assignment_verification'' \<or> tb_Status b \<noteq> ''active'' then ret ()
     else guardE (tb_KeyID b = [] \<or> tb_PublicKey b = [])
       (Errorf ''local assignment trust bundle requires key_id and public_key'' [])
       (let persistedAt = (if IsZero t1 then t2 else t1) in
        bindE (if IsZero persistedAt then read_clock env else ret persistedAt) (\<lambda>t.
        execute env (\<lambda>d. Inr (sql_upsert_trust \<lparr>lt_KeyID = tb_KeyID b, lt_Bundle = b, lt_PersistedAt = t\<rparr> d))))) w = (Inr u, w')"
    unfolding saveAssignmentTrustBundle_def by (auto simp: lift_def elim!: bindE_InrE)
  show ?thesis
  proof (cases "tb_Purpose b \<noteq> ''assignment_verification'' \<or> tb_Status b \<noteq> ''active''")
    case True
    with b show ?thesis by (intro exI [of _ "trust_rows (db w)"]) auto
  next
    case False
    with b show ?thesis
      by (auto simp: steps Let_def sql_upsert_trust_def elim!: bindE_InrE split: if_splits)
  qed
qed

lemma activate_artifact_effect:
  assumes "activate_artifact cx env record a w = (Inr u, w')"
  shows "\<exists>payload rows. signedEnvelopePayload cx (ar_EnvelopeJSON a) = Inr payload \<and>
    db w' = (db w)\<lparr>artifact_rows := artifact_rows (db w) @ [a],
                   active_rows := active_rows (db w) @ [active_record a payload], trust_rows := rows\<rparr>"
proof -
  from assms obtain payload d1 d2 where
    d1: "sql_insert_artifact a (db w) = Inr d1" and
    payload: "signedEnvelopePayload cx (ar_EnvelopeJSON a) = Inr payload" and
    d2: "sql_insert_active (active_record a payload) d1 = Inr d2" and
    rest: "(if ar_ArtifactType a = ''trust_bundle''
      then saveAssignmentTrustBundle cx env payload (ar_ActivatedAt a) (br_VerifiedAt record) else ret ())
      (w\<lparr>db := d2, tick := Suc (Suc (tick w))\<rparr>) = (Inr u, w')"
    by (auto simp: activate_artifact_def steps elim!: step_elims)
  from rest have "\<exists>rows. db w' = d2\<lparr>trust_rows := rows\<rparr>"
  proof (cases "ar_ArtifactType a = ''trust_bundle''")
    case True
    with rest show ?thesis using trust_row_effect by fastforce
  next
    case False
    with rest show ?thesis by (intro exI [of _ "trust_rows d2"]) auto
  qed
  with d1 d2 payload show ?thesis
    by (auto simp: sql_insert_artifact_def sql_insert_active_def split: if_splits)
qed

lemma activate_artifacts_effect:
  "for_eachE (activate_artifact cx env record) arts w = (Inr u, w') \<Longrightarrow>
     \<exists>acts rows. activates cx arts acts \<and>
       db w' = (db w)\<lparr>artifact_rows := artifact_rows (db w) @ arts, active_rows := active_rows (db w) @ acts, trust_rows := rows\<rparr>"
proof (induction arts arbitrary: w)
  case Nil
  then show ?case
    by (intro exI [of _ "[]"] exI [of _ "trust_rows (db w)"]) (simp add: activates_def)
next
  case (Cons a arts)
  from Cons.prems obtain v where a: "activate_artifact cx env record a w = (Inr (), v)"
    and rest: "for_eachE (activate_artifact cx env record) arts v = (Inr u, w')"
    by (auto elim!: step_elims)
  from activate_artifact_effect [OF a] obtain payload rows0 where
    payload: "signedEnvelopePayload cx (ar_EnvelopeJSON a) = Inr payload" and
    v: "db v = (db w)\<lparr>artifact_rows := artifact_rows (db w) @ [a],
                      active_rows := active_rows (db w) @ [active_record a payload], trust_rows := rows0\<rparr>" by blast
  from Cons.IH [OF rest] obtain acts rows where acts: "activates cx arts acts"
    "db w' = (db v)\<lparr>artifact_rows := artifact_rows (db v) @ arts, active_rows := active_rows (db v) @ acts, trust_rows := rows\<rparr>"
    by blast
  show ?case
    by (intro exI [of _ "active_record a payload # acts"] exI [of _ rows]) (use acts payload v in \<open>simp add: activates_def\<close>)
qed

lemma SaveManagedBundleActivation_effect:
  assumes "SaveManagedBundleActivation cx env record state arts w = (Inr u, w')"
  shows "\<exists>acts rows. activates cx arts acts \<and>
    db w' = (db w)\<lparr>bundle_cache := Some record, management_rows := upsert_row ms_KLIQID state (management_rows (db w)),
      artifact_rows := filter (\<lambda>r. ar_KLIQID r \<noteq> ms_KLIQID state) (artifact_rows (db w)) @ arts,
      active_rows := filter (\<lambda>r. act_KLIQID r \<noteq> ms_KLIQID state) (active_rows (db w)) @ acts, trust_rows := rows\<rparr>"
proof -
  let ?d = "(db w)\<lparr>bundle_cache := Some record, management_rows := upsert_row ms_KLIQID state (management_rows (db w)),
      artifact_rows := filter (\<lambda>r. ar_KLIQID r \<noteq> ms_KLIQID state) (artifact_rows (db w)),
      active_rows := filter (\<lambda>r. act_KLIQID r \<noteq> ms_KLIQID state) (active_rows (db w))\<rparr>"
  from assms obtain v where
    loop: "for_eachE (activate_artifact cx env record) arts
      (w\<lparr>db := ?d, tick := Suc (Suc (Suc (Suc (Suc (tick w)))))\<rparr>) = (Inr u, v)"
    and v: "db v = db w'"
    unfolding SaveManagedBundleActivation_def
    by (auto simp: steps SaveBundle_def sql_upsert_management_def sql_clear_artifacts_def sql_clear_active_def
        elim!: step_elims dest!: transaction_Inr)
  from activate_artifacts_effect [OF loop] v show ?thesis by auto
qed

lemma SaveManagedBundleActivation_failure:
  "SaveManagedBundleActivation cx env record state arts w = (Inl e, w') \<Longrightarrow> db w' = db w"
  unfolding SaveManagedBundleActivation_def
  by (auto simp: bindE_Inl dest: transaction_Inl)

text \<open>
  C27. Activating an assignment is all or nothing. A failure, at whatever statement, leaves the
  tables as they were. A success stores the bundle and the state of the KLIQ, replaces the
  artifacts of that KLIQ by exactly the given ones, each active one with the payload of its
  envelope, and touches no row of another KLIQ and no lease, journal, audit, decision,
  credential or risk row.
\<close>

theorem activation_is_atomic:
  assumes "SaveManagedBundleActivation cx env record state arts w = (r, w')"
  shows "case r of
      Inl e \<Rightarrow> db w' = db w
    | Inr u \<Rightarrow> bundle_cache (db w') = Some record \<and> management_state_of (db w') (ms_KLIQID state) = Some state \<and>
        (\<forall>k. k \<noteq> ms_KLIQID state \<longrightarrow> management_state_of (db w') k = management_state_of (db w) k) \<and>
        artifact_rows (db w') = filter (\<lambda>r. ar_KLIQID r \<noteq> ms_KLIQID state) (artifact_rows (db w)) @ arts \<and>
        (\<exists>acts. activates cx arts acts \<and>
          active_rows (db w') = filter (\<lambda>r. act_KLIQID r \<noteq> ms_KLIQID state) (active_rows (db w)) @ acts) \<and>
        same_runtime_tables (db w) (db w')"
proof (cases r)
  case (Inl e)
  with assms SaveManagedBundleActivation_failure show ?thesis by auto
next
  case (Inr u)
  with assms have "SaveManagedBundleActivation cx env record state arts w = (Inr u, w')" by simp
  from SaveManagedBundleActivation_effect [OF this] Inr show ?thesis
    by (auto simp: management_state_of_def find_upsert_row same_runtime_tables_def)
qed

definition toy_activation_record :: ManagedAssignmentActivation where
  "toy_activation_record = \<lparr>ma_KLIQID = ''kliq-1'', ma_AssignmentID = ''a-1'', ma_AssignmentVersion = 7, ma_SourceCommit = ''abc'',
     ma_AssignmentDigest = ''d'', ma_ExpiresAt = 5000\<rparr>"

definition toy_bundle_record :: BundleRecord where
  "toy_bundle_record = \<lparr>br_BundleID = ''b-1'', br_PolicyID = ''p1'', br_SourceCommit = ''abc'', br_CorrelationID = [],
     br_KeyID = ''key-1'', br_PayloadSHA256 = [], br_BundleSource = [], br_EnvelopeJSON = ''bundle'', br_ExpiresAt = 5000,
     br_VerifiedAt = 50\<rparr>"

theorem activation_is_atomic_witness:
  "case fst (SaveManagedBundleActivation toy_wire (toy_system 1000) toy_bundle_record (management_state toy_activation_record 60)
       (assignmentArtifactRecords toy_activation_record [toy_artifact] 60) initial_world) of
     Inl e \<Rightarrow> False
   | Inr u \<Rightarrow> bundle_cache (db (snd (SaveManagedBundleActivation toy_wire (toy_system 1000) toy_bundle_record
       (management_state toy_activation_record 60) (assignmentArtifactRecords toy_activation_record [toy_artifact] 60)
       initial_world))) = Some toy_bundle_record"
  (is "case fst ?run of Inl e \<Rightarrow> False | Inr u \<Rightarrow> _")
proof -
  have "fst ?run = Inr ()" by code_simp
  with activation_is_atomic [OF prod.collapse [symmetric], of toy_wire "toy_system 1000" toy_bundle_record
      "management_state toy_activation_record 60" "assignmentArtifactRecords toy_activation_record [toy_artifact] 60" initial_world]
  show ?thesis by simp
qed

section \<open>The audit spool\<close>

text \<open>The two ways an append succeeds.\<close>

lemma AppendAudit_cases:
  assumes "AppendAudit cx env r w = (Inr u, w')"
  obtains (existing) s where "find (\<lambda>s. au_ID s = au_ID r) (audit_rows (db w)) = Some s"
      "au_PayloadSHA256 s = au_PayloadSHA256 (audit_payload_hash cx r)" "w' = w\<lparr>tick := Suc (tick w)\<rparr>"
  | (fresh) v1 r1 v2 r2 where "find (\<lambda>s. au_ID s = au_ID r) (audit_rows (db w)) = None"
      "audit_created env (audit_payload_hash cx r) (w\<lparr>tick := Suc (tick w)\<rparr>) = (Inr r1, v1)"
      "audit_previous env r1 v1 = (Inr r2, v2)"
      "db w' = (db w)\<lparr>audit_rows := audit_rows (db w) @ [audit_hashed cx r2]\<rparr>"
      "db v1 = db w"
proof -
  have id: "au_ID (audit_payload_hash cx r) = au_ID r" by (simp add: audit_payload_hash_def)
  obtain found v where
    q: "query env (\<lambda>d. case find (\<lambda>s. au_ID s = au_ID r) (audit_rows d) of
          None \<Rightarrow> Inl ErrNotFound | Some s \<Rightarrow> Inr (au_PayloadSHA256 s)) w = (found, v)" and
    rest: "(case found of
           Inr existingHash \<Rightarrow>
             if existingHash = au_PayloadSHA256 (audit_payload_hash cx r) then ret ()
             else raise (Errorf ''audit spool record %q already exists with different payload hash'' [au_ID r])
         | Inl err \<Rightarrow>
             guardE (err \<noteq> ErrNotFound) err
               (bindE (audit_created env (audit_payload_hash cx r)) (\<lambda>r.
                bindE (audit_previous env r) (\<lambda>r.
                execute env (sql_insert_audit (audit_hashed cx r)))))) v = (Inr u, w')"
    using assms unfolding AppendAudit_def Let_def id by (rule tryE_E)
  show thesis
  proof (cases found)
    case (Inr h)
    with q obtain s where s: "find (\<lambda>s. au_ID s = au_ID r) (audit_rows (db w)) = Some s" "h = au_PayloadSHA256 s"
      and v: "v = w\<lparr>tick := Suc (tick w)\<rparr>"
      by (auto simp: query_Inr split: option.splits)
    from Inr rest have "h = au_PayloadSHA256 (audit_payload_hash cx r)" "w' = v" by (auto split: if_splits)
    with s v show thesis by (intro existing) auto
  next
    case (Inl err)
    with rest have err: "err = ErrNotFound" by (auto simp: steps)
    with q Inl have v: "v = w\<lparr>tick := Suc (tick w)\<rparr>" and none: "find (\<lambda>s. au_ID s = au_ID r) (audit_rows (db w)) = None"
      by (auto simp: query_Inl driver_error_def ErrNotFound_def split: option.splits)
    from Inl rest err obtain r1 v1 r2 v2 where
      c: "audit_created env (audit_payload_hash cx r) v = (Inr r1, v1)" and p: "audit_previous env r1 v1 = (Inr r2, v2)" and
      e: "execute env (sql_insert_audit (audit_hashed cx r2)) v2 = (Inr u, w')"
      by (auto simp: steps elim!: bindE_InrE)
    have "db v1 = db v" using c by (auto simp: audit_created_def steps elim!: bindE_InrE split: if_splits)
    moreover have "db v2 = db v1" using p
      by (auto simp: audit_previous_def latestAuditRecordHash_def steps elim!: bindE_InrE split: if_splits)
    ultimately have "db w' = (db w)\<lparr>audit_rows := audit_rows (db w) @ [audit_hashed cx r2]\<rparr>"
      using e v by (auto simp: execute_Inr sql_insert_audit_def split: if_splits)
    with none c p v \<open>db v1 = db v\<close> show thesis by (intro fresh [of r1 v1 r2 v2]) auto
  qed
qed

lemma audit_steps_fields:
  assumes "audit_created env r w = (Inr r1, v1)" and "audit_previous env r1 v1 = (Inr r2, v2)"
  shows "au_ID (audit_hashed cx r2) = au_ID r" "au_Payload (audit_hashed cx r2) = au_Payload r"
    "au_PayloadSHA256 (audit_hashed cx r2) = au_PayloadSHA256 r"
    "au_RecordHash (audit_hashed cx r2) = (if au_RecordHash r = [] then auditRecordHash cx r2 else au_RecordHash r)"
    "au_PreviousHash r = [] \<Longrightarrow> au_PreviousHash (audit_hashed cx r2) =
       (case latest_audit (filter (\<lambda>r. au_RecordHash r \<noteq> []) (audit_rows (db v1))) of None \<Rightarrow> [] | Some s \<Rightarrow> au_RecordHash s)"
  using assms
  by (auto simp: audit_created_def audit_previous_def audit_hashed_def latestAuditRecordHash_def steps
      elim!: bindE_InrE split: if_splits)

lemma find_after_none: "find p xs = None \<Longrightarrow> find p (xs @ ys) = find p ys"
  by (induction xs) (auto split: if_splits)

lemma audit_payload_hash_fields [simp]:
  "au_ID (audit_payload_hash cx r) = au_ID r" "au_Payload (audit_payload_hash cx r) = au_Payload r"
  "au_RecordHash (audit_payload_hash cx r) = au_RecordHash r" "au_PreviousHash (audit_payload_hash cx r) = au_PreviousHash r"
  by (simp_all add: audit_payload_hash_def)

lemma auditRecordHash_of_hashed: "auditRecordHash cx (r\<lparr>au_RecordHash := h\<rparr>) = auditRecordHash cx r"
  by (simp add: auditRecordHash_def)

text \<open>
  A new audit record is appended at the end of the spool with its id and payload, linked
  to the record the store considers the latest, and sealed with the hash of its own content
  and that link. Nothing else in the database changes.
\<close>

theorem appended_audit_is_linked_and_sealed:
  assumes "AppendAudit cx env r w = (Inr u, w')"
    and "\<forall>s \<in> set (audit_rows (db w)). au_ID s \<noteq> au_ID r"
    and "au_PreviousHash r = []" and "au_RecordHash r = []"
  shows "\<exists>s. db w' = (db w)\<lparr>audit_rows := audit_rows (db w) @ [s]\<rparr> \<and> au_ID s = au_ID r \<and> au_Payload s = au_Payload r \<and>
    au_PreviousHash s = (case latest_audit (filter (\<lambda>r. au_RecordHash r \<noteq> []) (audit_rows (db w))) of
                           None \<Rightarrow> [] | Some p \<Rightarrow> au_RecordHash p) \<and>
    au_RecordHash s = auditRecordHash cx s"
  using assms(1)
proof (cases rule: AppendAudit_cases)
  case (existing s)
  with assms(2) show ?thesis by (auto dest: find_SomeD)
next
  case (fresh v1 r1 v2 r2)
  note f = audit_steps_fields [OF fresh(2,3), of cx]
  have "au_RecordHash (audit_hashed cx r2) = auditRecordHash cx (audit_hashed cx r2)"
    using f(4) assms(4) by (simp add: audit_hashed_def auditRecordHash_of_hashed split: if_splits)
  with f fresh(4,5) assms(3) show ?thesis by (intro exI [of _ "audit_hashed cx r2"]) simp
qed

definition toy_audit :: AuditRecord where
  "toy_audit = audit toy_wire (leaseFromPlannedAction toy_wire (plan_for toy_wire toy_request toy_bundle [])
     (planned_action toy_wire toy_request toy_bundle
        \<lparr>pl_adapterID = ''fw'', pl_capabilityID = ''cap'', pl_grantID = ''g-1'', pl_mode = ''required'', pl_reason = ''scan'', pl_auditID = ''a''\<rparr>
        \<lparr>pl_ttlText = ''200ns'', pl_ttl = 200, pl_targetScope = ''source'', pl_targetKey = ''k''\<rparr> toy_grant ''t'' zero_RiskContext) 1000)
     ''message'' 1000"

definition audited_world :: kliq_world where
  "audited_world = snd (AppendAudit toy_wire (toy_system 1000) toy_audit initial_world)"

lemma toy_audit_appended: "AppendAudit toy_wire (toy_system 1000) toy_audit initial_world = (Inr (), audited_world)"
proof -
  have "fst (AppendAudit toy_wire (toy_system 1000) toy_audit initial_world) = Inr ()" by code_simp
  then show ?thesis by (simp add: audited_world_def prod_eq_iff)
qed

theorem appended_audit_is_linked_and_sealed_witness:
  "\<exists>s. db audited_world = (db initial_world)\<lparr>audit_rows := [s]\<rparr> \<and> au_ID s = au_ID toy_audit \<and> au_RecordHash s = auditRecordHash toy_wire s"
proof -
  have "au_PreviousHash toy_audit = []" "au_RecordHash toy_audit = []" "audit_rows (db initial_world) = []"
    by (simp_all add: toy_audit_def audit_def initial_world_def empty_store_def)
  with appended_audit_is_linked_and_sealed [OF toy_audit_appended] show ?thesis by auto
qed

text \<open>
  Appending the same audit record again succeeds and changes nothing: a retried write
  leaves one record in the spool.
\<close>

theorem append_audit_idempotent:
  assumes "AppendAudit cx env r w = (Inr u, w')" and "fault env (tick w') = None"
  shows "\<exists>w''. AppendAudit cx env r w' = (Inr (), w'') \<and> db w'' = db w'"
proof -
  have "\<exists>s. find (\<lambda>s. au_ID s = au_ID r) (audit_rows (db w')) = Some s \<and>
      au_PayloadSHA256 s = au_PayloadSHA256 (audit_payload_hash cx r)"
    using assms(1)
  proof (cases rule: AppendAudit_cases)
    case (existing s)
    then show ?thesis by simp
  next
    case (fresh v1 r1 v2 r2)
    then show ?thesis using audit_steps_fields [OF fresh(2,3), of cx]
      by (auto simp: find_after_none)
  qed
  then obtain s where "find (\<lambda>s. au_ID s = au_ID r) (audit_rows (db w')) = Some s"
    "au_PayloadSHA256 s = au_PayloadSHA256 (audit_payload_hash cx r)" by blast
  with assms(2) show ?thesis
    by (intro exI [of _ "w'\<lparr>tick := Suc (tick w')\<rparr>"])
      (simp add: AppendAudit_def Let_def tryE_def query_def statement_def ret_def)
qed

theorem append_audit_idempotent_witness:
  "\<exists>w''. AppendAudit toy_wire (toy_system 1000) toy_audit audited_world = (Inr (), w'') \<and> db w'' = db audited_world"
  using append_audit_idempotent [OF toy_audit_appended] by (simp add: toy_system_def)


text \<open>
  Marking an audit uploaded takes it out of the pending audits; marking it failed keeps it
  there with one more retry and the error, which is what degrades the spool.
\<close>

theorem upload_outcome:
  assumes "r \<in> set (audit_rows d)"
  shows "(\<forall>s \<in> set (audit_rows (sql_audit_uploaded (au_ID r) t d)). au_ID s = au_ID r \<longrightarrow> au_Status s \<noteq> ''pending_upload'') \<and>
    r\<lparr>au_Status := ''pending_upload'', au_RetryCount := au_RetryCount r + 1, au_LastAttemptAt := t, au_LastError := msg\<rparr>
      \<in> set (audit_rows (sql_audit_failed (au_ID r) t msg d))"
  using assms by (auto simp: sql_audit_uploaded_def sql_audit_failed_def set_update_rows)

theorem upload_outcome_witness:
  "toy_audit\<lparr>au_RetryCount := 1, au_LastAttemptAt := 9, au_LastError := ''x''\<rparr>
     \<in> set (audit_rows (sql_audit_failed (au_ID toy_audit) 9 ''x'' (empty_store\<lparr>audit_rows := [toy_audit]\<rparr>)))"
  using upload_outcome [of toy_audit "empty_store\<lparr>audit_rows := [toy_audit]\<rparr>" 9 "''x''"]
  by (simp add: toy_audit_def audit_def AuditPendingUpload_def)

section \<open>Leases\<close>

text \<open>
  In a store that satisfies its schema, the lookup by adapter, capability, action and
  target finds a lease exactly when there is a live one, and it is the only one; once that
  lease is expired the lookup finds none, so the target is free again.
\<close>

theorem lookup_finds_the_live_lease:
  assumes "store_ok d" and "l \<in> set (lease_rows d)" and "live l"
  shows "find (\<lambda>s. dedup_of s = dedup_of l \<and> live s) (lease_rows d) = Some l \<and>
    find (\<lambda>s. dedup_of s = dedup_of l \<and> live s) (lease_rows (sql_expire_lease (ls_RuntimeActionID l) t d)) = None"
proof -
  have uniq: "s = l" if "s \<in> set (lease_rows d)" "dedup_of s = dedup_of l \<and> live s" for s
  proof -
    have "ls_RuntimeActionID s = ls_RuntimeActionID l"
      using that assms by (auto simp: store_ok_def leases_ok_def dest: dedup_uniqueD)
    then show ?thesis using that(1) assms by (auto simp: store_ok_def leases_ok_def dest: distinct_map_inj)
  qed
  then have "find (\<lambda>s. dedup_of s = dedup_of l \<and> live s) (lease_rows d) = Some l"
    by (intro find_Some_unique) (use assms in auto)
  moreover have "\<forall>s \<in> set (lease_rows (sql_expire_lease (ls_RuntimeActionID l) t d)). \<not> (dedup_of s = dedup_of l \<and> live s)"
    using uniq by (auto simp: sql_expire_lease_def set_update_rows live_expired)
  ultimately show ?thesis by (simp add: find_None_iff_all)
qed

theorem lookup_finds_the_live_lease_witness:
  "find (\<lambda>s. dedup_of s = dedup_of toy_lease \<and> live s) (lease_rows (db executed_world)) = Some toy_lease"
  using lookup_finds_the_live_lease [OF reachable_store_ok [OF executed_reachable], of toy_lease]
  by (simp add: executed_leases toy_lease_live)

text \<open>
  Saving a lease whose id is already stored changes its status and its reconciliation
  time only: the stored expiry stays the one of the first save, whatever expiry the caller
  passes.
\<close>

theorem saved_lease_keeps_first_expiry:
  assumes "store_ok (db w)" and "old \<in> set (lease_rows (db w))" and "ls_RuntimeActionID old = ls_RuntimeActionID l"
    and "UpsertLease env l w = (Inr u, w')"
  shows "old\<lparr>ls_Status := ls_Status l, ls_LastReconciledAt := ls_LastReconciledAt l\<rparr> \<in> set (lease_rows (db w')) \<and>
    (\<forall>r \<in> set (lease_rows (db w')). ls_RuntimeActionID r = ls_RuntimeActionID l \<longrightarrow> ls_ExpiresAt r = ls_ExpiresAt old)"
proof -
  have uniq: "s = old" if "s \<in> set (lease_rows (db w))" "ls_RuntimeActionID s = ls_RuntimeActionID l" for s
    using that assms(1-3) by (auto simp: store_ok_def leases_ok_def dest: distinct_map_inj)
  have "find (\<lambda>r. ls_RuntimeActionID r = ls_RuntimeActionID l) (lease_rows (db w)) = Some old"
  proof (rule find_Some_unique)
    show "old \<in> set (lease_rows (db w))" "ls_RuntimeActionID old = ls_RuntimeActionID l" by (fact assms)+
  qed (rule uniq)
  with assms(4) have "lease_rows (db w') =
      update_rows (\<lambda>s. ls_RuntimeActionID s = ls_RuntimeActionID l) (refresh l) (lease_rows (db w))"
    by (auto simp: UpsertLease_def sql_upsert_lease_def steps elim!: step_elims split: if_splits)
  moreover have "refresh l old = old\<lparr>ls_Status := ls_Status l, ls_LastReconciledAt := ls_LastReconciledAt l\<rparr>"
    by (simp add: refresh_def)
  ultimately show ?thesis using assms(2,3)
    by (auto simp: set_update_rows image_iff dest: uniq)
qed

definition resaved_world :: kliq_world where
  "resaved_world = snd (UpsertLease (toy_system 2000) (toy_lease\<lparr>ls_ExpiresAt := 9999\<rparr>) executed_world)"

section \<open>The risk cache\<close>

lemma GetRiskContext_known:
  assumes "GetRiskContext env key now w = (Inr ctx, w')" and "rc_Tier ctx \<noteq> TierUnknown"
  shows "(risk_load_key key, ctx) \<in> set (risk_rows (db w)) \<and>
    Before (if IsZero now then clock env (tick w) else now) (rc_ValidUntil ctx)"
  using assms
  by (auto simp: GetRiskContext_def Let_def steps UnknownContext_def ValidateContext_iff
      elim!: step_elims dest!: find_SomeD split: option.splits sum.splits)

text \<open>
  The risk cache never answers with a stale tier: a tier other than unknown is that of a
  stored context for the asked type and scope whose validity has not ended; a context that is
  missing, malformed or stale is answered with the unknown tier.
\<close>

theorem risk_cache_is_never_stale:
  assumes "GetRiskContext env key now w = (Inr ctx, w')"
  shows "rc_Tier ctx = TierUnknown \<or>
    (risk_load_key key, ctx) \<in> set (risk_rows (db w)) \<and>
    Before (if IsZero now then clock env (tick w) else now) (rc_ValidUntil ctx)"
  using GetRiskContext_known [OF assms] by blast

definition risky_world :: kliq_world where
  "risky_world = snd (SaveRiskContext (toy_system 1000) \<lparr>rk_RiskType = ''scan'', rk_Scope = ScopeLocal\<rparr> toy_risk initial_world)"

text \<open>
  What is saved is read back: a valid context saved under a canonical key is returned for
  that key as long as it is valid, and any other key still reads what it read before.
\<close>

theorem risk_cache_roundtrip:
  assumes "SaveRiskContext env key ctx w = (Inr u, w')" and "ValidateContext ctx now wall = Inr ()"
    and "NormalizeType (rk_RiskType key) = rk_RiskType key" and "rk_RiskType key \<noteq> []" and "rk_Scope key \<noteq> []"
    and "\<not> IsZero now" and "fault env (Suc (tick w')) = None"
  shows "fst (GetRiskContext env key now w') = Inr ctx \<and>
    (\<forall>k. k \<noteq> key \<longrightarrow> find (\<lambda>r. fst r = k) (risk_rows (db w')) = find (\<lambda>r. fst r = k) (risk_rows (db w)))"
proof -
  have key: "risk_save_key key ctx = key" "risk_load_key key = key"
    using assms(3-5) by (simp_all add: risk_save_key_def risk_load_key_def Let_def)
  from assms(1) have "risk_rows (db w') = upsert_row fst (key, ctx) (risk_rows (db w))"
    unfolding SaveRiskContext_def key
    by (elim bindE_InrE) (auto simp: steps sql_upsert_risk_def split: sum.splits if_splits)
  moreover have "ValidateContext ctx now (clock env (tick w')) = Inr ()"
    using assms(2,6) by (simp add: ValidateContext_iff)
  ultimately show ?thesis using assms(7)
    by (simp add: GetRiskContext_def key Let_def bindE_def read_clock_def query_def statement_def ret_def find_upsert_row)
qed

theorem risk_cache_roundtrip_witness:
  "fst (GetRiskContext (toy_system 1000) \<lparr>rk_RiskType = ''scan'', rk_Scope = ScopeLocal\<rparr> 1500 risky_world) = Inr toy_risk"
proof -
  have save: "SaveRiskContext (toy_system 1000) \<lparr>rk_RiskType = ''scan'', rk_Scope = ScopeLocal\<rparr> toy_risk initial_world = (Inr (), risky_world)"
  proof -
    have "fst (SaveRiskContext (toy_system 1000) \<lparr>rk_RiskType = ''scan'', rk_Scope = ScopeLocal\<rparr> toy_risk initial_world) = Inr ()"
      by code_simp
    then show ?thesis by (simp add: risky_world_def prod_eq_iff)
  qed
  have "ValidateContext toy_risk 1500 0 = Inr ()" "NormalizeType ''scan'' = ''scan''" "ScopeLocal \<noteq> []"
    by code_simp+
  with risk_cache_roundtrip [OF save, of 1500 0] show ?thesis by (simp add: toy_system_def)
qed

end
