(* ===== verification/Properties_Manager.thy ===== *)
theory Properties_Manager
  imports Properties_Store
begin

text \<open>
  The properties of the runtime manager: what is sent to an adapter and under which
  authority, what denies an action, what reconciliation counts, and what loading a managed
  assignment changes. Lemmas about single operations come before the properties that use
  them.
\<close>

section \<open>Operations that only read\<close>

definition readonly :: "'a kliq \<Rightarrow> bool" where
  "readonly m \<longleftrightarrow> (\<forall>d cs. keeps_inv (\<lambda>w. db w = d \<and> calls w = cs) m)"

interpretation same: world_invariant "\<lambda>w. db w = d \<and> calls w = cs" for d cs
  by unfold_locales simp

lemma readonlyD: "readonly m \<Longrightarrow> m w = (r, w') \<Longrightarrow> db w' = db w \<and> calls w' = calls w"
  unfolding readonly_def using keeps_invD by blast

lemmas keeps_same = keeps same.keeps_world same.keeps_bundle_source

lemmas query_defs =
  LastBundle_def GetKLIQCredential_def GetKLIQManagementState_def ActiveArtifact_def PendingAudits_def
  LeaseByDedupKey_def ActiveLeases_def GetRiskContext_def

lemma readonly_CachedBundle: "readonly (CachedBundle S m)"
  unfolding readonly_def CachedBundle_def query_defs by (intro allI keeps_same)

lemma readonly_ensureAssignment: "readonly (ensureActiveAssignmentAllowsNewActions S)"
  unfolding readonly_def ensureActiveAssignmentAllowsNewActions_def when_found_def query_defs
  by (intro allI keeps_same)

lemma readonly_ensureFallback: "readonly (ensureActiveFallbackAllowsExecution S)"
  unfolding readonly_def ensureActiveFallbackAllowsExecution_def when_found_def query_defs
  by (intro allI keeps_same)

lemma readonly_planFromRequest: "readonly (planFromRequest S m req)"
  unfolding readonly_def planFromRequest_def plan_action_type_def actionFromRiskCache_def CachedBundle_def
    ensureActiveAssignmentAllowsNewActions_def ensureActiveContextRouteAllowsAction_def when_found_def query_defs
  by (intro allI keeps_same)

lemma readonly_ReconcileDryRun: "readonly (ReconcileDryRun S m)"
  unfolding readonly_def ReconcileDryRun_def query_defs by (intro allI keeps_same)

lemma readonly_Load: "readonly (Load cx S client s)"
  unfolding readonly_def by (intro allI keeps_same)

lemma readonly_source_with_active: "readonly (source_with_active S s)"
  unfolding readonly_def source_with_active_def query_defs by (intro allI keeps_same)

lemma readonly_buildBundleRecord: "readonly load \<Longrightarrow> readonly (buildBundleRecord S m load)"
  unfolding readonly_def buildBundleRecord_def by (intro allI keeps_same) blast

section \<open>Authority\<close>

text \<open>What a capability grant has to say for a request to pass.\<close>

definition grant_covers ::
  "wire \<Rightarrow> CapabilityGrant \<Rightarrow> string \<Rightarrow> string \<Rightarrow> string \<Rightarrow> string \<Rightarrow> duration \<Rightarrow> gotime \<Rightarrow> bool" where
  "grant_covers cx g adapterID capabilityID actionType targetScope ttl now \<longleftrightarrow>
     TrimSpace (cg_AdapterID g) = adapterID \<and> TrimSpace (cg_CapabilityID g) = capabilityID \<and>
     TrimSpace (cg_ActionType g) = actionType \<and> grantAllowsScope g targetScope \<and>
     (\<not> blank (cg_MaxTTL g) \<longrightarrow> (\<exists>maxTTL. ParseDuration (cg_MaxTTL g) = Inr maxTTL \<and> 0 < maxTTL \<and> ttl \<le> maxTTL)) \<and>
     (\<not> blank (cg_ExpiresAt g) \<longrightarrow> (\<exists>t. parse_RFC3339 cx (TrimSpace (cg_ExpiresAt g)) = Inr t \<and> Before now t)) \<and>
     \<not> blank (cg_BindingID g) \<and> \<not> blank (cg_BindingDigest g) \<and> \<not> blank (cg_AdapterManifestDigest g) \<and> \<not> blank (cg_ActionDigest g)"

lemma grant_ttl_check_iff [guards]:
  "grant_ttl_check g ttl = Inr u \<longleftrightarrow>
     (\<not> blank (cg_MaxTTL g) \<longrightarrow> (\<exists>maxTTL. ParseDuration (cg_MaxTTL g) = Inr maxTTL \<and> 0 < maxTTL \<and> ttl \<le> maxTTL))"
  by (auto simp: grant_ttl_check_def parsePositiveDuration_iff)

lemma grant_expiry_check_iff [guards]:
  "grant_expiry_check cx g grantID now = Inr u \<longleftrightarrow>
     (\<not> blank (cg_ExpiresAt g) \<longrightarrow> (\<exists>t. parse_RFC3339 cx (TrimSpace (cg_ExpiresAt g)) = Inr t \<and> Before now t))"
  by (auto simp: grant_expiry_check_def split: sum.splits)

lemma validateCapabilityGrant_iff [guards]:
  "validateCapabilityGrant cx b adapterID capabilityID actionType targetScope grantID ttl now = Inr g \<longleftrightarrow>
     find (\<lambda>g. cg_ID g = grantID) (bs_CapabilityGrants (rb_Spec b)) = Some g \<and>
     grant_covers cx g adapterID capabilityID actionType targetScope ttl now"
  unfolding validateCapabilityGrant_def grant_covers_def
  by (cases "find (\<lambda>g. cg_ID g = grantID) (bs_CapabilityGrants (rb_Spec b))")
    (auto simp: grant_ttl_check_iff grant_expiry_check_iff simp del: for_each.simps)


text \<open>A lease that a bundle authorizes.\<close>

definition bundle_authorizes :: "wire \<Rightarrow> RuntimeBundle \<Rightarrow> RuntimeActionLease \<Rightarrow> bool" where
  "bundle_authorizes cx b l \<longleftrightarrow>
     bs_RuntimeAllowed (rb_Spec b) \<and> actionAllowed b (ls_ActionType l) \<and> ls_BundleID l = md_ID (rb_Metadata b) \<and>
     (bs_MaxScope (rb_Spec b) = [] \<or> ls_TargetScope l = bs_MaxScope (rb_Spec b)) \<and>
     (\<exists>ttl maxTTL. ParseDuration (ls_TTL l) = Inr ttl \<and> ParseDuration (bs_MaxTTL (rb_Spec b)) = Inr maxTTL \<and>
        0 < ttl \<and> ttl \<le> maxTTL \<and> ls_ExpiresAt l = ls_CreatedAt l + ttl \<and>
        (\<exists>g \<in> set (bs_CapabilityGrants (rb_Spec b)). \<exists>now. cg_ID g = ls_CapabilityGrantID l \<and>
           grant_covers cx g (ls_AdapterID l) (ls_CapabilityID l) (ls_ActionType l) (ls_TargetScope l) ttl now \<and>
           ls_BindingID l = TrimSpace (cg_BindingID g) \<and> ls_BindingDigest l = TrimSpace (cg_BindingDigest g) \<and>
           ls_AdapterManifestDigest l = TrimSpace (cg_AdapterManifestDigest g) \<and>
           ls_ActionDigest l = TrimSpace (cg_ActionDigest g)))"

text \<open>The bytes of a bundle that the manager's verifier accepted.\<close>

definition verified_bundle :: "wire \<Rightarrow> Manager \<Rightarrow> bytes \<Rightarrow> RuntimeBundle \<Rightarrow> bool" where
  "verified_bundle cx m data b \<longleftrightarrow>
     (\<exists>ver n envelope res. m_Verifier m = Some ver \<and> dec_Envelope cx data = Inr envelope \<and>
        ver n envelope = Inr res \<and> vr_Valid res \<and> dec_RuntimeBundle cx (env_Payload envelope) = Inr b)"

lemma CachedBundle_verified:
  "CachedBundle S m w = (Inr (verified, record), w') \<Longrightarrow>
     verified_bundle (sys_wire S) m (br_EnvelopeJSON record) (bv_Bundle verified)"
  by (auto simp: CachedBundle_def verified_bundle_def steps elim!: step_elims dest!: VerifySignedRuntimeBundle_sound) blast

lemma plan_arguments_Inr:
  "plan_arguments cx req = Inr a \<Longrightarrow>
     pl_adapterID a = TrimSpace (er_AdapterID req) \<and> pl_capabilityID a = TrimSpace (er_CapabilityID req) \<and>
     pl_grantID a = TrimSpace (er_CapabilityGrantID req)"
  by (auto simp: plan_arguments_def Let_def)

lemma plan_bounds_Inr:
  "plan_bounds req b = Inr bnd \<Longrightarrow>
     bs_RuntimeAllowed (rb_Spec b) \<and> ParseDuration (pl_ttlText bnd) = Inr (pl_ttl bnd) \<and> 0 < pl_ttl bnd \<and>
     (\<exists>maxTTL. ParseDuration (bs_MaxTTL (rb_Spec b)) = Inr maxTTL \<and> pl_ttl bnd \<le> maxTTL) \<and>
     (bs_MaxScope (rb_Spec b) = [] \<or> pl_targetScope bnd = bs_MaxScope (rb_Spec b)) \<and> pl_targetScope bnd \<noteq> [] \<and>
     pl_targetKey bnd \<noteq> []"
  by (auto simp: plan_bounds_def Let_def parsePositiveDuration_iff)

lemma planFromRequest_sound:
  assumes "planFromRequest S m req w = (Inr (plan, data), w')" and "action \<in> set (rp_Actions plan)"
  shows "\<exists>b. verified_bundle (sys_wire S) m data b \<and>
    bundle_authorizes (sys_wire S) b (leaseFromPlannedAction (sys_wire S) plan action now)"
proof -
  from assms obtain a verified rcd v bnd g actionType ctx t where
    cached: "CachedBundle S m w = (Inr (verified, rcd), v)" and
    bounds: "plan_bounds req (bv_Bundle verified) = Inr bnd" and
    allowed: "actionAllowed (bv_Bundle verified) actionType" and
    grant: "validateCapabilityGrant (sys_wire S) (bv_Bundle verified) (pl_adapterID a) (pl_capabilityID a) actionType
      (pl_targetScope bnd) (pl_grantID a) (pl_ttl bnd) t = Inr g" and
    plan: "plan = plan_for (sys_wire S) req (bv_Bundle verified)
      [planned_action (sys_wire S) req (bv_Bundle verified) a bnd g actionType ctx]" and
    data: "data = br_EnvelopeJSON rcd"
    unfolding planFromRequest_def Let_def
    by (auto simp: steps plan_for_def elim!: step_elims split: if_splits)
  from grant have g: "g \<in> set (bs_CapabilityGrants (rb_Spec (bv_Bundle verified)))" "cg_ID g = pl_grantID a"
    "grant_covers (sys_wire S) g (pl_adapterID a) (pl_capabilityID a) actionType (pl_targetScope bnd) (pl_ttl bnd) t"
    by (auto simp: validateCapabilityGrant_iff dest: find_SomeD)
  have action: "action = planned_action (sys_wire S) req (bv_Bundle verified) a bnd g actionType ctx"
    using assms(2) plan by (simp add: plan_for_def)
  show ?thesis
  proof (intro exI conjI)
    show "verified_bundle (sys_wire S) m data (bv_Bundle verified)"
      using CachedBundle_verified [OF cached] data by simp
    show "bundle_authorizes (sys_wire S) (bv_Bundle verified) (leaseFromPlannedAction (sys_wire S) plan action now)"
      unfolding bundle_authorizes_def action plan
      using plan_bounds_Inr [OF bounds] allowed g
      by (auto simp: leaseFromPlannedAction_def planned_action_def plan_for_def Let_def parsed_ttl_def)
  qed
qed

text \<open>
  C1. Whatever a request asks for, an adapter is only ever asked to execute what a signed
  bundle authorizes: the bundle sent along is one the verifier accepted, it allows the action,
  one of its grants covers adapter, capability, action and scope with complete provenance,
  the lease carries that grant's digests, and its expiry is its creation plus a positive time
  to live within the limits of the bundle and of the grant.
\<close>

theorem only_authorized_actions_are_executed:
  assumes "ExecuteAction S m req w = (r, w')" and "Executed l data \<in> set (calls w')"
  shows "Executed l data \<in> set (calls w) \<or>
    (\<exists>b. verified_bundle (sys_wire S) m data b \<and> bundle_authorizes (sys_wire S) b l)"
proof -
  let ?P = "\<lambda>l data. Executed l data \<in> set (calls w) \<or>
    (\<exists>b. verified_bundle (sys_wire S) m data b \<and> bundle_authorizes (sys_wire S) b l)"
  have "keeps_inv (log_within ?P) (ExecuteAction S m req)"
    by (rule within.keeps_ExecuteAction) (use planFromRequest_sound in blast)
  moreover have "log_within ?P w" by (simp add: log_within_def)
  ultimately have "log_within ?P w'" using assms(1) by (rule keeps_invD)
  with assms(2) show ?thesis by (auto simp: log_within_def)
qed

theorem only_authorized_actions_are_executed_witness:
  "\<exists>b. verified_bundle toy_wire toy_manager ''bundle'' b \<and> bundle_authorizes toy_wire b toy_lease"
proof -
  have run: "ExecuteAction (toy_system 1000) toy_manager toy_request loaded_world =
      (fst (ExecuteAction (toy_system 1000) toy_manager toy_request loaded_world), executed_world)"
    by (simp add: executed_world_def ignoreE_def prod_eq_iff)
  have "calls loaded_world = []" by code_simp
  with only_authorized_actions_are_executed [OF run, of toy_lease "''bundle''"] show ?thesis
    by (simp add: executed_calls toy_system_def)
qed

end
