(* ===== verification/Properties_Execution.thy ===== *)
theory Properties_Execution
  imports Properties_Manager
begin

text \<open>
  What denies an action, what a reported execution is backed by, what reconciliation counts,
  and what loading a managed assignment changes.
\<close>

section \<open>What denies an action\<close>

lemma driver_error_not_missing [simp]: "\<not> errors_Is (driver_error msg) ErrNotFound"
  by (simp add: driver_error_def ErrNotFound_def)

text \<open>A query for a row that is there: the row, or an error that does not say it is missing.\<close>

lemma query_present:
  assumes "query env f w = (r, w')" and "f (db w) = Inr x"
  shows "db w' = db w \<and> calls w' = calls w \<and> (r = Inr x \<or> (\<exists>msg. r = Inl (driver_error msg)))"
  using assms by (cases r) (auto simp: query_Inr query_Inl)

lemma when_found_present:
  assumes "when_found (query env f) k w = (Inr u, w')" and "f (db w) = Inr x"
  shows "\<exists>v. db v = db w \<and> k x v = (Inr u, w')"
  using assms unfolding when_found_def
  by (auto elim!: step_elims dest!: query_present split: sum.splits if_splits)

lemma expired_assignment_refused:
  assumes "credential_row (db w) = Some c" and "management_state_of (db w) (kc_KLIQID c) = Some state"
    and "\<And>n. \<not> Before (clock S n) (ms_ActiveAssignmentExpiresAt state)"
  shows "ensureActiveAssignmentAllowsNewActions S w \<noteq> (Inr u, w')"
proof
  assume run: "ensureActiveAssignmentAllowsNewActions S w = (Inr u, w')"
  from when_found_present [OF run [unfolded ensureActiveAssignmentAllowsNewActions_def GetKLIQCredential_def], of c] assms(1)
  obtain v where v: "db v = db w" and "when_found (GetKLIQManagementState S (kc_KLIQID c)) (\<lambda>state.
     bindE (read_clock S) (\<lambda>now. guardE (\<not> Before now (ms_ActiveAssignmentExpiresAt state))
       (Errorf ''active assignment %q is expired; denying new runtime actions'' [ms_ActiveAssignmentID state])
       (ret ()))) v = (Inr u, w')" by auto
  from when_found_present [OF this(2) [unfolded GetKLIQManagementState_def], of state] assms(2,3) v
  show False by (auto simp: steps elim!: step_elims)
qed

text \<open>
  Once the active assignment has expired, no request is executed: whatever it asks for it
  ends in an error, no adapter is called, and the store is as it was.
\<close>

theorem expired_assignment_denies:
  assumes "credential_row (db w) = Some c" and "management_state_of (db w) (kc_KLIQID c) = Some state"
    and "\<And>n. \<not> Before (clock S n) (ms_ActiveAssignmentExpiresAt state)"
    and "ExecuteAction S m req w = (r, w')"
  shows "(\<exists>e. r = Inl e) \<and> db w' = db w \<and> calls w' = calls w"
proof -
  obtain p v where p: "planFromRequest S m req w = (p, v)" by (cases "planFromRequest S m req w")
  have "p \<noteq> Inr x" for x
  proof
    assume "p = Inr x"
    with p obtain a verified rcd v1 v2 u where
      "CachedBundle S m w = (Inr (verified, rcd), v1)" "ensureActiveAssignmentAllowsNewActions S v1 = (Inr u, v2)"
      unfolding planFromRequest_def Let_def by (auto simp: steps elim!: step_elims)
    with expired_assignment_refused [of v1 c state S] assms(1-3) readonlyD [OF readonly_CachedBundle] show False by metis
  qed
  then obtain e where e: "p = Inl e" by (cases p) auto
  with p assms(4) have "r = Inl e" "w' = v" by (auto simp: ExecuteAction_def bindE_def)
  with readonlyD [OF readonly_planFromRequest p] show ?thesis by simp
qed

definition expired_world :: kliq_world where
  "expired_world = \<lparr>db = empty_store\<lparr>credential_row := Some toy_credential,
     management_rows := [management_state toy_activation_record 60]\<rparr>, calls = [], tick = 0\<rparr>"

theorem expired_assignment_denies_witness:
  "\<exists>e. fst (ExecuteAction (toy_system 7000) toy_manager toy_request expired_world) = Inl e"
  using expired_assignment_denies [OF _ _ _ prod.collapse [symmetric], of expired_world toy_credential
      "management_state toy_activation_record 60" "toy_system 7000" toy_manager toy_request]
  by (auto simp: expired_world_def management_state_of_def management_state_def toy_activation_record_def
      toy_credential_def toy_system_def)

text \<open>
  While an upload of the audit spool has failed, an active fallback profile that denies
  new actions in that state stops every planned action before anything happens: it ends in an
  error, no adapter is called, no lease is written, and the store is as it was.
\<close>

theorem degraded_spool_denies:
  assumes "credential_row (db w) = Some c"
    and "find (\<lambda>r. act_KLIQID r = kc_KLIQID c \<and> act_ArtifactType r = ''fallback_profile'') (active_rows (db w)) = Some row"
    and "dec_FallbackProfile (sys_wire S) (act_PayloadJSON row) = Inr profile"
    and "fp_DenyNewActionsWhenDegraded profile"
    and "au \<in> set (audit_rows (db w))" and "au_Status au = ''pending_upload''" and "au_RetryCount au > 0 \<or> au_LastError au \<noteq> []"
    and "executePlannedAction S plan action ex b w = (r, w')"
  shows "(\<exists>e. r = Inl e) \<and> db w' = db w \<and> calls w' = calls w"
proof -
  let ?w = "w\<lparr>tick := Suc (tick w)\<rparr>"
  obtain p v where p: "ensureActiveFallbackAllowsExecution S ?w = (p, v)"
    by (cases "ensureActiveFallbackAllowsExecution S ?w")
  have spool: "degraded (map (pending_view (sys_wire S)) (sort_key (\<lambda>r. formatTime (au_CreatedAt r))
      (filter (\<lambda>r. au_Status r = ''pending_upload'') (audit_rows (db w)))))"
    unfolding degraded_def using assms(5-7)
    by (intro bexI [of _ "pending_view (sys_wire S) au"]) (auto simp: pending_view_def Let_def)
  have "p \<noteq> Inr u" for u
  proof
    assume u: "p = Inr u"
    from when_found_present [OF p [unfolded u ensureActiveFallbackAllowsExecution_def GetKLIQCredential_def], of c] assms(1)
    obtain v1 where v1: "db v1 = db w" and run: "when_found (ActiveArtifact S (kc_KLIQID c) ''fallback_profile'') (\<lambda>record.
       bindE (lift (dec_FallbackProfile (sys_wire S) (act_PayloadJSON record))) (\<lambda>profile.
       guardE (\<not> fp_AuditRequired profile)
         (Errorf ''active fallback profile %q disables required audit; denying runtime action'' [fp_ProfileID profile])
      (if \<not> fp_DenyNewActionsWhenDegraded profile then ret ()
       else tryE (PendingAudits (sys_wire S) S) (\<lambda>r. case r of
         Inl err \<Rightarrow> raise (Wrapf ''audit spool unavailable under fallback profile %q: %w'' [fp_ProfileID profile] err)
       | Inr pending \<Rightarrow>
           guardE (degraded pending)
             (Errorf ''active fallback profile %q denies new runtime actions while audit spool is degraded'' [fp_ProfileID profile])
             (ret ()))))) v1 = (Inr u, v)" by auto
    from when_found_present [OF run [unfolded ActiveArtifact_def], of row] assms(2-4) v1 spool show False
      by (auto simp: steps PendingAudits_def elim!: step_elims split: sum.splits)
  qed
  then obtain e where e: "p = Inl e" by (cases p) auto
  with p assms(8) have "r = Inl e" "w' = v" by (auto simp: executePlannedAction_def bindE_def read_clock_def)
  with readonlyD [OF readonly_ensureFallback p] show ?thesis by simp
qed

definition toy_action :: PlannedRuntimeAction where
  "toy_action = planned_action toy_wire toy_request toy_bundle
     \<lparr>pl_adapterID = ''fw'', pl_capabilityID = ''cap'', pl_grantID = ''g-1'', pl_mode = ''required'', pl_reason = ''scan'', pl_auditID = ''audit-1''\<rparr>
     \<lparr>pl_ttlText = ''200ns'', pl_ttl = 200, pl_targetScope = ''source'', pl_targetKey = ''10.0.0.1''\<rparr>
     toy_grant ''runtime_action.rate_limit_source'' zero_RiskContext"

definition toy_plan :: RuntimeActionPlan where
  "toy_plan = plan_for toy_wire toy_request toy_bundle [toy_action]"

definition degraded_world :: kliq_world where
  "degraded_world = \<lparr>db = empty_store\<lparr>credential_row := Some toy_credential,
     active_rows := [\<lparr>act_KLIQID = ''kliq-1'', act_ArtifactType = ''fallback_profile'', act_ArtifactID = ''fb'',
       act_SHA256 = [], act_PayloadJSON = ''fb'', act_ActivatedAt = 60\<rparr>],
     audit_rows := [toy_audit\<lparr>au_RetryCount := 1\<rparr>]\<rparr>, calls = [], tick = 0\<rparr>"

section \<open>Deduplication\<close>

text \<open>
  A target that already has a live lease which has not expired is not acted on again: no
  adapter is called, no lease, audit or decision is written, and a result names the existing
  lease with its expiry unchanged, marked as not applied.
\<close>

theorem live_lease_is_not_extended:
  assumes "find (\<lambda>l. dedup_of l = action_dedup action \<and> live l) (lease_rows (db w)) = Some l"
    and "\<And>n. Before (clock S n) (ls_ExpiresAt l)"
    and "executePlannedAction S plan action ex b w = (r, w')"
  shows "calls w' = calls w \<and> lease_rows (db w') = lease_rows (db w) \<and> audit_rows (db w') = audit_rows (db w) \<and>
    (\<forall>res. r = Inr res \<longrightarrow> xr_Lease res = l \<and> \<not> xr_Applied res)"
proof -
  let ?w = "w\<lparr>tick := Suc (tick w)\<rparr>"
  obtain p v where p: "ensureActiveFallbackAllowsExecution S ?w = (p, v)"
    by (cases "ensureActiveFallbackAllowsExecution S ?w")
  note same = readonlyD [OF readonly_ensureFallback p]
  show ?thesis
  proof (cases p)
    case (Inl e)
    with p assms(3) same show ?thesis by (auto simp: executePlannedAction_def bindE_def read_clock_def)
  next
    case (Inr u)
    obtain found v1 where q: "LeaseByDedupKey S (action_dedup action) v = (found, v1)"
      by (cases "LeaseByDedupKey S (action_dedup action) v")
    from query_present [OF q [unfolded LeaseByDedupKey_def], of l] same assms(1)
    have v1: "db v1 = db w" "calls v1 = calls w" and f: "found = Inr l \<or> (\<exists>msg. found = Inl (driver_error msg))" by auto
    obtain j v2 where j: "AppendJournal S (journal (sys_wire S) (ls_RuntimeActionID l) ''deduplicated'' (ls_Status l)
        ''active lease already exists for adapter/capability; ttl was not extended'' (clock S (tick w))) v1 = (j, v2)"
      by (cases "AppendJournal S (journal (sys_wire S) (ls_RuntimeActionID l) ''deduplicated'' (ls_Status l)
        ''active lease already exists for adapter/capability; ttl was not extended'' (clock S (tick w))) v1")
    have "calls v2 = calls v1 \<and> lease_rows (db v2) = lease_rows (db v1) \<and> audit_rows (db v2) = audit_rows (db v1)"
      using j by (cases j) (auto simp: AppendJournal_def execute_Inr execute_Inl sql_insert_journal_def split: if_splits)
    with assms(2,3) p Inr q v1 f j show ?thesis
      by (auto simp: executePlannedAction_def bindE_def read_clock_def tryE_def ignoreE_def ret_def raise_def)
  qed
qed

theorem live_lease_is_not_extended_witness:
  "calls (snd (executePlannedAction (toy_system 1100) toy_plan toy_action LocalTestExecutor ''bundle'' executed_world)) =
     calls executed_world"
  using live_lease_is_not_extended [OF _ _ prod.collapse [symmetric], of toy_action executed_world toy_lease "toy_system 1100"
      toy_plan LocalTestExecutor "''bundle''"]
  by (simp add: executed_leases toy_lease_live toy_lease_def toy_system_def dedup_of_def action_dedup_def toy_action_def
      planned_action_def live_def Let_def)

section \<open>What a reported execution is backed by\<close>
















section \<open>Reconciliation\<close>

lemma grouping: "groupLeasesByAdapter leases = (\<lambda>adapterID. filter (\<lambda>l. ls_AdapterID l = adapterID) leases)"
proof -
  have "fold (\<lambda>l grouped. grouped(ls_AdapterID l := grouped (ls_AdapterID l) @ [l])) leases g =
      (\<lambda>a. g a @ filter (\<lambda>l. ls_AdapterID l = a) leases)" for g
    by (induction leases arbitrary: g) (auto simp: fun_eq_iff)
  from this [of "\<lambda>_. []"] show ?thesis by (simp add: groupLeasesByAdapter_def)
qed

text \<open>
  Grouping the leases by adapter, one lease at a time, gives every adapter exactly its
  leases in their order, and the sorted adapter ids that are visited are those with a lease,
  each once.
\<close>

theorem grouping_is_filtering:
  "groupLeasesByAdapter leases = (\<lambda>adapterID. filter (\<lambda>l. ls_AdapterID l = adapterID) leases) \<and>
   distinct (adapter_ids leases) \<and> sorted (adapter_ids leases) \<and>
   set (adapter_ids leases) = {a. groupLeasesByAdapter leases a \<noteq> []}"
  by (auto simp: grouping adapter_ids_def filter_empty_conv)

text \<open>Totals that are the sums over the adapters, each adapter once.\<close>

definition totals_agree :: "ReconcileResult \<Rightarrow> bool" where
  "totals_agree r \<longleftrightarrow>
     rr_Expired r = sum_list (map (arr_Expired \<circ> snd) (rr_AdapterResults r)) \<and>
     rr_Active r = sum_list (map (arr_Active \<circ> snd) (rr_AdapterResults r)) \<and>
     rr_Unknown r = sum_list (map (arr_Unknown \<circ> snd) (rr_AdapterResults r))"

text \<open>One adapter's loop: the totals grow by what its own result counts.\<close>

definition tally_from :: "ReconcileResult \<Rightarrow> tally \<Rightarrow> bool" where
  "tally_from r0 t \<longleftrightarrow>
     (case t of (r, a) \<Rightarrow> rr_Expired r = rr_Expired r0 + arr_Expired a \<and> rr_Active r = rr_Active r0 + arr_Active a \<and>
        rr_Unknown r = rr_Unknown r0 + arr_Unknown a \<and> rr_AdapterResults r = rr_AdapterResults r0)"

lemma tally_from_new: "tally_from r (r, new_adapter_result adapterID)"
  by (simp add: tally_from_def new_adapter_result_def)

lemmas tally_defs = tally_expired_def tally_active_def tally_finding_def tally_unknown_def

lemma tally_from_steps:
  assumes "tally_from r0 t"
  shows "tally_from r0 (tally_expired t)" "tally_from r0 (tally_active t)" "tally_from r0 (tally_finding msg t)"
    "tally_from r0 (tally_unknown msg t)"
  using assms by (auto simp: tally_from_def tally_defs split: prod.splits)

lemma totals_agree_store:
  "totals_agree r0 \<Longrightarrow> tally_from r0 t \<Longrightarrow> totals_agree (store_adapter_result adapterID t)"
  by (auto simp: totals_agree_def tally_from_def store_adapter_result_def split: prod.splits)

text \<open>A loop keeps what each of its steps keeps of the value it carries.\<close>

lemma foldE_carries:
  assumes "\<And>x s v s' v'. P s \<Longrightarrow> f x s v = (Inr s', v') \<Longrightarrow> P s'" and "P s" and "foldE f xs s w = (Inr s', w')"
  shows "P s'"
  using assms(2,3)
proof (induction xs arbitrary: s w)
  case (Cons x xs)
  from Cons.prems(2) obtain s1 v where "f x s w = (Inr s1, v)" "foldE f xs s1 v = (Inr s', w')" by (auto elim!: step_elims)
  with assms(1) Cons show ?case by blast
qed simp

lemma reconcileActiveLease_tally:
  "tally_from r0 t \<Longrightarrow> reconcileActiveLease S ex now l t v = (Inr t', v') \<Longrightarrow> tally_from r0 t'"
  unfolding reconcileActiveLease_def
  by (auto simp: steps Let_def tally_from_steps elim!: step_elims split: option.splits sum.splits if_splits)

lemma lease_tally:
  "tally_from r0 t \<Longrightarrow> registered_lease S ex now l t v = (Inr t', v') \<Longrightarrow> tally_from r0 t'"
  "tally_from r0 t \<Longrightarrow> unregistered_lease S adapterID now l t v = (Inr t', v') \<Longrightarrow> tally_from r0 t'"
  unfolding registered_lease_def unregistered_lease_def
  by (auto simp: steps Let_def tally_from_steps reconcileActiveLease_tally elim!: step_elims split: sum.splits if_splits)

lemma reconcile_adapter_totals:
  assumes "totals_agree r" and "reconcile_adapter S m now grouped adapterID r v = (Inr r', v')"
  shows "totals_agree r'"
proof -
  from assms(2) obtain t v1 where
    "foldE (case executorFor m adapterID of None \<Rightarrow> unregistered_lease S adapterID now | Some ex \<Rightarrow> registered_lease S ex now)
       (grouped adapterID) (r, new_adapter_result adapterID) v = (Inr t, v1)" (is "foldE ?step _ _ _ = _")
    and r': "r' = store_adapter_result adapterID t"
    unfolding reconcile_adapter_def by (auto elim!: step_elims)
  from this(1) have "tally_from r t"
    by (rule foldE_carries [where P = "tally_from r", rotated 2])
      (auto simp: tally_from_new split: option.splits dest: lease_tally)
  with assms(1) r' show ?thesis by (simp add: totals_agree_store)
qed

text \<open>
  The totals reconciliation reports are the sums of what it reports for the adapters.
\<close>

theorem reconcile_totals_are_sums:
  assumes "Reconcile S m w = (Inr r, w')"
  shows "rr_Expired r = sum_list (map (arr_Expired \<circ> snd) (rr_AdapterResults r)) \<and>
    rr_Active r = sum_list (map (arr_Active \<circ> snd) (rr_AdapterResults r)) \<and>
    rr_Unknown r = sum_list (map (arr_Unknown \<circ> snd) (rr_AdapterResults r))"
proof -
  have start: "totals_agree (case cached of Inl err \<Rightarrow> add_finding (f err) new_reconcile_result | Inr _ \<Rightarrow> new_reconcile_result)"
    for cached :: "'z result" and f
    by (cases cached) (simp_all add: totals_agree_def add_finding_def new_reconcile_result_def)
  have finding: "totals_agree (add_finding msg r) \<longleftrightarrow> totals_agree r" for msg r
    by (simp add: totals_agree_def add_finding_def)
  from assms obtain cached :: "(RuntimeBundleVerification \<times> BundleRecord) result" and now leases v r1 v1 where
    "foldE (reconcile_adapter S m now (groupLeasesByAdapter leases)) (adapter_ids leases)
      (case cached of Inl err \<Rightarrow> add_finding (''cached runtime bundle unavailable or invalid: '' @ Error err) new_reconcile_result
         | Inr _ \<Rightarrow> new_reconcile_result) v = (Inr r1, v1)"
    and r: "totals_agree r1 \<longleftrightarrow> totals_agree r"
    unfolding Reconcile_def Let_def by (auto simp: steps finding elim!: step_elims split: if_splits)
  from this(1) have "totals_agree r1"
    by (rule foldE_carries [where P = totals_agree, rotated 2]) (auto intro: reconcile_adapter_totals start)
  with r show ?thesis by (simp add: totals_agree_def)
qed

section \<open>The dry run\<close>

lemma sum_over_groups:
  fixes key :: "'a \<Rightarrow> 'k :: linorder"
  shows "(\<Sum>k \<leftarrow> sort (remdups (map key xs)). int (length (filter P (filter (\<lambda>x. key x = k) xs)))) = int (length (filter P xs))"
proof -
  have "(\<Sum>k \<in> B. int (length (filter P (filter (\<lambda>x. key x = k) xs)))) = int (length (filter P xs))"
    if "finite B" "key ` set xs \<subseteq> B" for B
    using that(2)
  proof (induction xs)
    case (Cons x xs)
    have "(\<Sum>k \<in> B. int (length (filter P (filter (\<lambda>y. key y = k) (x # xs))))) =
        (\<Sum>k \<in> B. (if key x = k then (if P x then 1 else 0) else 0)) + (\<Sum>k \<in> B. int (length (filter P (filter (\<lambda>y. key y = k) xs))))"
      by (subst sum.distrib [symmetric]) (rule sum.cong, auto)
    with Cons that(1) show ?case by (simp add: sum.delta)
  qed simp
  then show ?thesis by (simp add: sum_list_distinct_conv_sum_set)
qed

definition dry_class :: "gotime \<Rightarrow> RuntimeActionLease \<Rightarrow> nat" where
  "dry_class now l = (if \<not> selector_Valid (Selector l) then 2 else if Before now (ls_ExpiresAt l) then 0 else 1)"

abbreviation tally_of :: "gotime \<Rightarrow> nat \<Rightarrow> RuntimeActionLease list \<Rightarrow> int" where
  "tally_of now k ls \<equiv> int (length (filter (\<lambda>l. dry_class now l = k) ls))"

lemma dry_run_leases:
  "fold (dry_run_lease now) ls (r, a) = (r', a') \<Longrightarrow>
     rr_Active r' = rr_Active r + tally_of now 0 ls \<and> rr_Expired r' = rr_Expired r + tally_of now 1 ls \<and>
     rr_Unknown r' = rr_Unknown r + tally_of now 2 ls \<and> rr_AdapterResults r' = rr_AdapterResults r"
proof (induction ls arbitrary: r a)
  case (Cons l ls)
  obtain r1 a1 where step: "dry_run_lease now l (r, a) = (r1, a1)" by (cases "dry_run_lease now l (r, a)")
  with Cons.prems Cons.IH [of r1 a1] show ?case
    by (auto simp: dry_run_lease_def dry_class_def tally_defs split: if_splits)
qed simp

lemma dry_run_adapters:
  "fold (dry_run_adapter now grouped) keys r = r' \<Longrightarrow>
     rr_Active r' = rr_Active r + (\<Sum>k \<leftarrow> keys. tally_of now 0 (grouped k)) \<and>
     rr_Expired r' = rr_Expired r + (\<Sum>k \<leftarrow> keys. tally_of now 1 (grouped k)) \<and>
     rr_Unknown r' = rr_Unknown r + (\<Sum>k \<leftarrow> keys. tally_of now 2 (grouped k)) \<and>
     map fst (rr_AdapterResults r') = map fst (rr_AdapterResults r) @ keys"
proof (induction keys arbitrary: r)
  case (Cons k keys)
  obtain r1 a1 where step: "fold (dry_run_lease now) (grouped k) (r, new_adapter_result k) = (r1, a1)"
    by (cases "fold (dry_run_lease now) (grouped k) (r, new_adapter_result k)")
  with Cons.prems Cons.IH [of "store_adapter_result k (r1, a1)"] dry_run_leases [OF step] show ?case
    by (simp add: dry_run_adapter_def store_adapter_result_def)
qed simp

lemma tally_of_sorted: "tally_of now k (sort_key f (filter P ls)) = int (length (filter (\<lambda>l. P l \<and> dry_class now l = k) ls))"
  by (simp add: filter_sort conj_commute)

lemma ReconcileDryRun_counts:
  assumes "ReconcileDryRun S m w = (Inr r, w')"
  shows "\<exists>n. let count = (\<lambda>k. int (length (filter (\<lambda>l. live l \<and> dry_class (clock S n) l = k) (lease_rows (db w))))) in
    rr_Active r = count 0 \<and> rr_Expired r = count 1 \<and> rr_Unknown r = count 2"
proof -
  from assms obtain cached v1 where cached: "LastBundle S w = (cached, v1)" and
    rest: "(let start = (case cached of
           Inl err \<Rightarrow> add_finding (''cached runtime bundle unavailable: '' @ Error err) new_reconcile_result
         | Inr _ \<Rightarrow> new_reconcile_result) in
     bindE (read_clock S) (\<lambda>now. bindE (ActiveLeases S) (\<lambda>leases.
     let r = fold (dry_run_adapter now (groupLeasesByAdapter leases)) (adapter_ids leases) start in
     ret (if rr_Expired r > 0 then add_finding ''expired runtime action leases would be cleaned up'' r else r)))) v1 = (Inr r, w')"
    unfolding ReconcileDryRun_def guardE_Inr by (blast elim: tryE_E)
  define start where "start = (case cached of
      Inl err \<Rightarrow> add_finding (''cached runtime bundle unavailable: '' @ Error err) new_reconcile_result
    | Inr _ \<Rightarrow> new_reconcile_result)"
  then have start: "rr_Active start = 0" "rr_Expired start = 0" "rr_Unknown start = 0"
    by (cases cached; simp add: add_finding_def new_reconcile_result_def)+
  have same: "db v1 = db w"
    using cached by (cases cached) (auto simp: LastBundle_def query_Inr query_Inl)
  define n where "n = tick v1"
  define v0 where "v0 = sort_key (\<lambda>l. formatTime (ls_CreatedAt l)) (filter live (lease_rows (db w)))"
  have r: "r = (let r = fold (dry_run_adapter (clock S n) (groupLeasesByAdapter v0)) (adapter_ids v0) start in
      if rr_Expired r > 0 then add_finding ''expired runtime action leases would be cleaned up'' r else r)"
    using rest unfolding start_def [symmetric]
    by (auto simp: Let_def steps ActiveLeases_def same n_def v0_def elim!: step_elims)
  have sums: "(\<Sum>k \<leftarrow> adapter_ids v0. tally_of now c (groupLeasesByAdapter v0 k)) = tally_of now c v0" for now c
    unfolding grouping adapter_ids_def by (rule sum_over_groups)
  have sorted: "tally_of now c v0 = int (length (filter (\<lambda>l. live l \<and> dry_class now l = c) (lease_rows (db w))))" for now c
    unfolding v0_def by (rule tally_of_sorted)
  from dry_run_adapters [OF refl, of "clock S n" "groupLeasesByAdapter v0" "adapter_ids v0" start] start
  have "rr_Active r = tally_of (clock S n) 0 v0 \<and> rr_Expired r = tally_of (clock S n) 1 v0 \<and> rr_Unknown r = tally_of (clock S n) 2 v0"
    unfolding sums by (simp add: r Let_def add_finding_def)
  then show ?thesis unfolding sorted Let_def by (rule exI)
qed

text \<open>
  The dry run changes nothing, calls no adapter, and counts every live lease exactly once:
  as unknown when its selector is incomplete, otherwise as active before its expiry and as
  expired from then on, at one instant the clock showed.
\<close>

theorem dry_run_counts_live_leases:
  assumes "ReconcileDryRun S m w = (Inr r, w')"
  shows "db w' = db w \<and> calls w' = calls w \<and>
    (\<exists>n. let leases = filter live (lease_rows (db w)); complete = (\<lambda>l. selector_Valid (Selector l)) in
      rr_Active r = int (length (filter (\<lambda>l. complete l \<and> Before (clock S n) (ls_ExpiresAt l)) leases)) \<and>
      rr_Expired r = int (length (filter (\<lambda>l. complete l \<and> \<not> Before (clock S n) (ls_ExpiresAt l)) leases)) \<and>
      rr_Unknown r = int (length (filter (\<lambda>l. \<not> complete l) leases)) \<and>
      rr_Active r + rr_Expired r + rr_Unknown r = int (length leases))"
proof -
  from ReconcileDryRun_counts [OF assms] obtain n where
    n: "let count = (\<lambda>k. int (length (filter (\<lambda>l. live l \<and> dry_class (clock S n) l = k) (lease_rows (db w))))) in
      rr_Active r = count 0 \<and> rr_Expired r = count 1 \<and> rr_Unknown r = count 2" by blast
  have split: "length (filter (\<lambda>l. live l \<and> dry_class t l = 0) ls) + length (filter (\<lambda>l. live l \<and> dry_class t l = 1) ls) +
      length (filter (\<lambda>l. live l \<and> dry_class t l = 2) ls) = length (filter live ls)" for t ls
    by (induction ls) (auto simp: dry_class_def)
  have "filter (\<lambda>l. live l \<and> dry_class t l = 0) ls = filter (\<lambda>l. selector_Valid (Selector l) \<and> Before t (ls_ExpiresAt l)) (filter live ls)"
    "filter (\<lambda>l. live l \<and> dry_class t l = 1) ls = filter (\<lambda>l. selector_Valid (Selector l) \<and> \<not> Before t (ls_ExpiresAt l)) (filter live ls)"
    "filter (\<lambda>l. live l \<and> dry_class t l = 2) ls = filter (\<lambda>l. \<not> selector_Valid (Selector l)) (filter live ls)" for t ls
    by (auto simp: dry_class_def intro: filter_cong)
  with n split [of "clock S n" "lease_rows (db w)"] show ?thesis
    using readonlyD [OF readonly_ReconcileDryRun assms] by (auto simp: Let_def intro!: exI [of _ n])
qed

section \<open>Loading a managed assignment\<close>








end
