(* ===== verification/Forge_Domain.thy ===== *)
theory Forge_Domain
  imports Wire Effects
begin

text \<open>
  What the two management stores of Forge share (\<^verbatim>\<open>internal/forge/management/store.go\<close> and the
  managed types of \<^verbatim>\<open>internal/core/domain/assignment.go\<close>): the records they keep, the audit
  context of a request, the digests, and the rules for trust bundles. SHA-256, the text of
  an instant (\<^verbatim>\<open>time.Time.String\<close>, which includes the monotonic reading when there is one) and
  the JSON decoder of an assignment are parameters of the environment.
\<close>

section \<open>Records\<close>

record KLIQEnrollmentToken =
  et_TokenID :: string
  et_TokenSHA256 :: string
  et_Environment :: string
  et_Stage :: string
  et_Scope :: string
  et_ExpiresAt :: gotime
  et_CreatedAt :: gotime
  et_UsedAt :: gotime
  et_RevokedAt :: gotime
  et_RevokedReason :: string

record KLIQIdentity =
  ki_IdentityID :: string
  ki_KLIQID :: string
  ki_NodeID :: string
  ki_Environment :: string
  ki_Stage :: string
  ki_Scope :: string
  ki_TrustKeyID :: string
  ki_PublicKeyPEM :: string
  ki_CSRPEM :: string
  ki_ServiceIdentityProvider :: string
  ki_SPIFFEID :: string
  ki_CredentialStatus :: string
  ki_CredentialExpiresAt :: gotime
  ki_Status :: string
  ki_IssuedAt :: gotime
  ki_RevokedAt :: gotime
  ki_RevokedReason :: string

record KLIQRegistration =
  kr_RegistrationID :: string
  kr_KLIQID :: string
  kr_NodeID :: string
  kr_Environment :: string
  kr_Stage :: string
  kr_Scope :: string
  kr_Version :: string
  kr_AdapterInventory :: "string list"
  kr_Capabilities :: "string list"
  kr_AttestationState :: string
  kr_Identity :: KLIQIdentity
  kr_ManagementProfile :: KLIQManagementProfile
  kr_Status :: string
  kr_RegisteredAt :: gotime
  kr_RevokedAt :: gotime
  kr_RevokedReason :: string

record KLIQRevocation =
  rv_RevocationID :: string
  rv_TargetType :: string
  rv_TargetID :: string
  rv_Reason :: string
  rv_CreatedAt :: gotime
  rv_CreatedBy :: string

text \<open>A JSON value (\<^verbatim>\<open>any\<close>), and a map of them as its entries.\<close>

datatype json = JNull | JBool bool | JNumber rat | JString string | JArray "json list" | JObject "(string \<times> json) list"

type_synonym metadata = "(string \<times> json) list"

record ManagementAuditEvent =
  ev_EventID :: string
  ev_EventType :: string
  ev_Actor :: string
  ev_TargetType :: string
  ev_TargetID :: string
  ev_KLIQID :: string
  ev_Environment :: string
  ev_Stage :: string
  ev_Scope :: string
  ev_Metadata :: metadata
  ev_CreatedAt :: gotime

record KLIQHeartbeat =
  hb_KLIQID :: string
  hb_Environment :: string
  hb_Stage :: string
  hb_Scope :: string
  hb_Version :: string
  hb_AssignmentID :: string
  hb_AssignmentVersion :: int
  hb_BundleID :: string
  hb_SourceCommit :: string
  hb_Status :: string
  hb_Findings :: "string list"
  hb_ReportedAt :: gotime

record KLIQStatusReport =
  sr_KLIQID :: string
  sr_Environment :: string
  sr_Stage :: string
  sr_Scope :: string
  sr_AssignmentID :: string
  sr_AssignmentVersion :: int
  sr_BundleID :: string
  sr_SourceCommit :: string
  sr_Status :: string
  sr_Findings :: "string list"
  sr_RuntimeActions :: int
  sr_PendingAudits :: int
  sr_AdapterHealth :: "string list"
  sr_RuntimeSummary :: string
  sr_AuditSpoolState :: string
  sr_ReportedAt :: gotime

record KLIQAuditUpload =
  up_KLIQID :: string
  up_Environment :: string
  up_Stage :: string
  up_Scope :: string
  up_AuditRecordID :: string
  up_RuntimeActionID :: string
  up_Payload :: bytes
  up_PayloadSHA256 :: string
  up_CreatedAt :: gotime
  up_UploadedAt :: gotime

record KLIQAuditUploadAck =
  ak_Status :: string
  ak_AuditRecordID :: string
  ak_AckID :: string
  ak_AckedAt :: gotime

definition zero_KLIQIdentity :: KLIQIdentity where
  "zero_KLIQIdentity =
     \<lparr>ki_IdentityID = [], ki_KLIQID = [], ki_NodeID = [], ki_Environment = [], ki_Stage = [], ki_Scope = [],
      ki_TrustKeyID = [], ki_PublicKeyPEM = [], ki_CSRPEM = [], ki_ServiceIdentityProvider = [], ki_SPIFFEID = [],
      ki_CredentialStatus = [], ki_CredentialExpiresAt = 0, ki_Status = [], ki_IssuedAt = 0, ki_RevokedAt = 0, ki_RevokedReason = []\<rparr>"

section \<open>The environment and the audit context of a request\<close>

record forge_env = sysenv +
  fe_sha :: "bytes \<Rightarrow> string"
  fe_timeString :: "gotime \<Rightarrow> string"
  fe_decAssignment :: "bytes \<Rightarrow> KLIQAssignment result"

text \<open>The two context values a request carries; \<open>[]\<close> when it carries none.\<close>

record audit_context =
  cx_actor :: string
  cx_metadata :: metadata

definition WithAuditActor :: "audit_context \<Rightarrow> string \<Rightarrow> audit_context" where
  "WithAuditActor ctx actor = (if actor = [] then ctx else ctx\<lparr>cx_actor := actor\<rparr>)"

definition auditActor :: "audit_context \<Rightarrow> string" where
  "auditActor ctx = cx_actor ctx"

definition WithAuditMetadata :: "audit_context \<Rightarrow> metadata \<Rightarrow> audit_context" where
  "WithAuditMetadata ctx metadata = (if metadata = [] then ctx else ctx\<lparr>cx_metadata := metadata\<rparr>)"

fun put_entry :: "string \<Rightarrow> 'v \<Rightarrow> (string \<times> 'v) list \<Rightarrow> (string \<times> 'v) list" where
  "put_entry k v [] = [(k, v)]"
| "put_entry k v (e # es) = (if fst e = k then (k, v) # es else e # put_entry k v es)"

definition auditMetadata :: "audit_context \<Rightarrow> metadata \<Rightarrow> metadata" where
  "auditMetadata ctx extra = fold (\<lambda>(k, v). put_entry k v) extra (fold (\<lambda>(k, v). put_entry k v) (cx_metadata ctx) [])"

definition ErrManagementNotFound :: error where
  "ErrManagementNotFound = Sentinel ''kliq management record not found''"

section \<open>Digests and identifiers\<close>

definition TokenSHA256 :: "'e forge_env_scheme \<Rightarrow> string \<Rightarrow> string" where
  "TokenSHA256 env secret = ''sha256:'' @ fe_sha env secret"

definition mgmt_shortHash :: "'e forge_env_scheme \<Rightarrow> string \<Rightarrow> string" where
  "mgmt_shortHash env value = take 16 (fe_sha env value)"

definition StableKLIQID :: "'e forge_env_scheme \<Rightarrow> string \<Rightarrow> string \<Rightarrow> string \<Rightarrow> string \<Rightarrow> string" where
  "StableKLIQID env nodeID environment stage scope =
     ''kliq.'' @ take 16 (fe_sha env (nodeID @ NUL @ environment @ NUL @ stage @ NUL @ scope))"

definition assignmentDigest :: "'e forge_env_scheme \<Rightarrow> SignedEnvelope \<Rightarrow> string" where
  "assignmentDigest env envelope =
     (if env_PayloadSHA256 envelope \<noteq> [] then env_PayloadSHA256 envelope
      else ''sha256:'' @ fe_sha env (env_Payload envelope))"

text \<open>\<^verbatim>\<open>fmt.Sprintf("%s:%d", kliqID, version)\<close>.\<close>

definition assignment_target :: "string \<Rightarrow> int \<Rightarrow> string" where
  "assignment_target kliqID version = kliqID @ '':'' @ int_digits version"

definition event_id :: "'e forge_env_scheme \<Rightarrow> ManagementAuditEvent \<Rightarrow> string" where
  "event_id env e =
     (if ev_EventID e = []
      then ''management_audit_event.'' @ mgmt_shortHash env (ev_EventType e @ ev_TargetType e @ ev_TargetID e @ fe_timeString env (ev_CreatedAt e))
      else ev_EventID e)"

section \<open>Rules for enrollment tokens, registrations and trust bundles\<close>

text \<open>The checks a token passes before it is used, in both stores.\<close>

definition token_usable :: "KLIQEnrollmentToken \<Rightarrow> string \<Rightarrow> string \<Rightarrow> string \<Rightarrow> gotime \<Rightarrow> unit result" where
  "token_usable token environment stage scope usedAt =
     fail_if (\<not> IsZero (et_ExpiresAt token) \<and> \<not> Before usedAt (et_ExpiresAt token)) (Errorf ''enrollment token expired'' [])
    (fail_if (\<not> IsZero (et_UsedAt token)) (Errorf ''enrollment token already used'' [])
    (fail_if (\<not> IsZero (et_RevokedAt token)) (Errorf ''enrollment token revoked'' [])
    (fail_if (et_Environment token \<noteq> [] \<and> et_Environment token \<noteq> environment) (Errorf ''enrollment token environment mismatch'' [])
    (fail_if (et_Stage token \<noteq> [] \<and> et_Stage token \<noteq> stage) (Errorf ''enrollment token stage mismatch'' [])
    (fail_if (et_Scope token \<noteq> [] \<and> et_Scope token \<noteq> scope) (Errorf ''enrollment token scope mismatch'' [])
    (Inr ()))))))"

text \<open>The defaults both stores fill in before they save a registration.\<close>

definition registration_defaults :: "KLIQRegistration \<Rightarrow> KLIQRegistration" where
  "registration_defaults r =
     (let i = kr_Identity r;
          i1 = (if ki_IdentityID i = [] then i\<lparr>ki_IdentityID := ''kliq_identity.'' @ kr_KLIQID r\<rparr> else i);
          i2 = (if ki_Status i1 = [] then i1\<lparr>ki_Status := ''active''\<rparr> else i1);
          i3 = (if ki_ServiceIdentityProvider i2 = [] then i2\<lparr>ki_ServiceIdentityProvider := ''spiffe-ready''\<rparr> else i2);
          i4 = (if ki_CredentialStatus i3 = [] then i3\<lparr>ki_CredentialStatus := ''active''\<rparr> else i3);
          i5 = (if IsZero (ki_IssuedAt i4) then i4\<lparr>ki_IssuedAt := kr_RegisteredAt r\<rparr> else i4)
      in (if kr_Status r = [] then r\<lparr>kr_Status := ''active''\<rparr> else r)\<lparr>kr_Identity := i5\<rparr>)"

definition mgmt_validTrustBundlePurpose :: "string \<Rightarrow> bool" where
  "mgmt_validTrustBundlePurpose purpose \<longleftrightarrow>
     TrimSpace purpose = ''assignment_verification'' \<or> TrimSpace purpose = ''artifact_verification''"

definition validateNewTrustBundle :: "TrustBundle \<Rightarrow> unit result" where
  "validateNewTrustBundle b =
     fail_if (blank (tb_KeyID b)) (Errorf ''trust bundle requires key_id'' [])
    (fail_if (blank (tb_PublicKey b)) (Errorf ''trust bundle %q requires public_key'' [tb_KeyID b])
    (fail_if (\<not> mgmt_validTrustBundlePurpose (tb_Purpose b))
       (Errorf ''trust bundle %q has unsupported purpose %q'' [tb_KeyID b, tb_Purpose b])
    (if TrimSpace (tb_Status b) \<in> {[], ''active'', ''previous'', ''revoked''} then Inr ()
     else Inl (Errorf ''trust bundle %q has unsupported status %q'' [tb_KeyID b, tb_Status b]))))"

text \<open>The switch on the existing status at the end of \<^verbatim>\<open>validateTrustBundleUpdate\<close>.\<close>

definition trust_status_update :: "string \<Rightarrow> string \<Rightarrow> string \<Rightarrow> unit result" where
  "trust_status_update keyID old new =
     (if old \<in> {[], ''active'', ''previous''} then
        (if new \<in> {[], old, ''active'', ''previous'', ''revoked''} then
           fail_if (old = ''previous'' \<and> new = ''active'')
             (Errorf ''trust bundle %q cannot move from previous to active without explicit rotation'' [keyID]) (Inr ())
         else Inl (Errorf ''trust bundle %q has invalid status transition %q to %q'' [keyID, old, new]))
      else if old = ''revoked'' then
        fail_if (new \<noteq> ''revoked'') (Errorf ''trust bundle %q is revoked and cannot be reactivated'' [keyID]) (Inr ())
      else Inl (Errorf ''trust bundle %q has unsupported existing status %q'' [keyID, old]))"

definition validateTrustBundleUpdate :: "TrustBundle \<Rightarrow> TrustBundle \<Rightarrow> unit result" where
  "validateTrustBundleUpdate existing incoming =
     fail_if (tb_KeyID existing \<noteq> tb_KeyID incoming) (Errorf ''trust bundle key_id mismatch'' [])
    (fail_if (tb_PublicKey existing \<noteq> [] \<and> tb_PublicKey incoming \<noteq> [] \<and> tb_PublicKey existing \<noteq> tb_PublicKey incoming)
       (Errorf ''trust bundle %q public key cannot be replaced without explicit rotation'' [tb_KeyID incoming])
    (fail_if (tb_Purpose existing \<noteq> [] \<and> tb_Purpose incoming \<noteq> [] \<and> tb_Purpose existing \<noteq> tb_Purpose incoming)
       (Errorf ''trust bundle %q purpose cannot be changed without explicit rotation'' [tb_KeyID incoming])
    (fail_if (tb_Issuer existing \<noteq> [] \<and> tb_Issuer incoming \<noteq> [] \<and> tb_Issuer existing \<noteq> tb_Issuer incoming)
       (Errorf ''trust bundle %q issuer cannot be changed without explicit rotation'' [tb_KeyID incoming])
    (fail_if (\<not> IsZero (tb_ExpiresAt incoming) \<and> \<not> IsZero (tb_ExpiresAt existing) \<and> After (tb_ExpiresAt incoming) (tb_ExpiresAt existing))
       (Errorf ''trust bundle %q expiry cannot be silently extended'' [tb_KeyID incoming])
    (trust_status_update (tb_KeyID incoming) (tb_Status existing) (tb_Status incoming))))))"

definition default_status :: "TrustBundle \<Rightarrow> TrustBundle" where
  "default_status b = (if tb_Status b = [] then b\<lparr>tb_Status := ''active''\<rparr> else b)"

section \<open>Facts\<close>

lemma validateNewTrustBundle_iff [guards]:
  "validateNewTrustBundle b = Inr u \<longleftrightarrow>
     \<not> blank (tb_KeyID b) \<and> \<not> blank (tb_PublicKey b) \<and> mgmt_validTrustBundlePurpose (tb_Purpose b) \<and>
     TrimSpace (tb_Status b) \<in> {[], ''active'', ''previous'', ''revoked''}"
  by (auto simp: validateNewTrustBundle_def)

lemma token_usable_iff [guards]:
  "token_usable token environment stage scope usedAt = Inr u \<longleftrightarrow>
     (IsZero (et_ExpiresAt token) \<or> Before usedAt (et_ExpiresAt token)) \<and> IsZero (et_UsedAt token) \<and> IsZero (et_RevokedAt token) \<and>
     (et_Environment token = [] \<or> et_Environment token = environment) \<and> (et_Stage token = [] \<or> et_Stage token = stage) \<and>
     (et_Scope token = [] \<or> et_Scope token = scope)"
  by (auto simp: token_usable_def)

text \<open>How the status of a stored trust bundle may change: revoked is final, previous never returns to active.\<close>

definition status_moves :: "string \<Rightarrow> string \<Rightarrow> bool" where
  "status_moves old new \<longleftrightarrow>
     (old = ''revoked'' \<longrightarrow> new = ''revoked'') \<and> (old = ''previous'' \<longrightarrow> new = ''previous'' \<or> new = ''revoked'')"

lemma status_moves_trans: "status_moves a b \<Longrightarrow> status_moves b c \<Longrightarrow> status_moves a c"
  unfolding status_moves_def by blast

lemma status_moves_simps [simp]:
  "status_moves s s" "status_moves s ''revoked''" "status_moves ''active'' s"
  by (simp_all add: status_moves_def)

lemma trust_status_update_moves:
  assumes "trust_status_update keyID old new = Inr u" and "new \<noteq> []"
  shows "status_moves old new"
  using assms unfolding trust_status_update_def status_moves_def
  by (cases "old = ''revoked''"; cases "old = ''previous''") (simp_all split: if_splits)

lemma validateTrustBundleUpdate_moves:
  assumes "validateTrustBundleUpdate existing incoming = Inr u" and "tb_Status incoming \<noteq> []"
  shows "tb_KeyID incoming = tb_KeyID existing \<and> status_moves (tb_Status existing) (tb_Status incoming) \<and>
    (tb_PublicKey existing \<noteq> [] \<longrightarrow> tb_PublicKey incoming \<noteq> [] \<longrightarrow> tb_PublicKey incoming = tb_PublicKey existing) \<and>
    (tb_Purpose existing \<noteq> [] \<longrightarrow> tb_Purpose incoming \<noteq> [] \<longrightarrow> tb_Purpose incoming = tb_Purpose existing)"
  using assms unfolding validateTrustBundleUpdate_def by (auto dest: trust_status_update_moves)

lemma default_status_nonempty [simp]: "tb_Status (default_status b) \<noteq> []" "tb_KeyID (default_status b) = tb_KeyID b"
  by (simp_all add: default_status_def)

end
