(* ===== verification/Forge_Memory.thy ===== *)
theory Forge_Memory
  imports Forge_Domain
begin

text \<open>
  The in-memory management store (\<^verbatim>\<open>internal/forge/management/store.go\<close>). Every method holds the
  mutex from its first statement to its return, so a method is one step on the whole store:
  an action on the record \<open>MemoryStore\<close>. Maps are partial functions and the audit trail is
  the list the code appends to. The only effect from outside is the clock.
\<close>

record assignmentRecord =
  ag_Version :: int
  ag_Envelope :: SignedEnvelope
  ag_RevokedAt :: gotime
  ag_RevokedReason :: string

record MemoryStore =
  mem_tokensByHash :: "string \<rightharpoonup> KLIQEnrollmentToken"
  mem_tokensByID :: "string \<rightharpoonup> KLIQEnrollmentToken"
  mem_registrations :: "string \<rightharpoonup> KLIQRegistration"
  mem_identities :: "string \<rightharpoonup> KLIQIdentity"
  mem_assignments :: "string \<rightharpoonup> assignmentRecord"
  mem_trustBundles :: "string \<rightharpoonup> TrustBundle"
  mem_revocations :: "string \<rightharpoonup> KLIQRevocation"
  mem_auditEvents :: "ManagementAuditEvent list"
  mem_heartbeats :: "string \<rightharpoonup> KLIQHeartbeat"
  mem_statusReports :: "string \<rightharpoonup> KLIQStatusReport"

definition NewMemoryStore :: MemoryStore where
  "NewMemoryStore =
     \<lparr>mem_tokensByHash = Map.empty, mem_tokensByID = Map.empty, mem_registrations = Map.empty,
      mem_identities = Map.empty, mem_assignments = Map.empty, mem_trustBundles = Map.empty,
      mem_revocations = Map.empty, mem_auditEvents = [], mem_heartbeats = Map.empty, mem_statusReports = Map.empty\<rparr>"

type_synonym 'a mem = "(MemoryStore, unit, 'a) action"

text \<open>Reading a value of the store, and replacing the store.\<close>

definition gets :: "('d \<Rightarrow> 'a) \<Rightarrow> ('d, 'c, 'a) action" where
  "gets f w = (Inr (f (db w)), w)"

definition puts :: "('d \<Rightarrow> 'd) \<Rightarrow> ('d, 'c, unit) action" where
  "puts f w = (Inr (), w\<lparr>db := f (db w)\<rparr>)"

lemma gets_eq [simp]: "gets f w = (r, w') \<longleftrightarrow> r = Inr (f (db w)) \<and> w' = w"
  by (auto simp: gets_def)

lemma puts_eq [simp]: "puts f w = (r, w') \<longleftrightarrow> r = Inr () \<and> w' = w\<lparr>db := f (db w)\<rparr>"
  by (auto simp: puts_def)

text \<open>An entry of a map of the store, or \<^verbatim>\<open>ErrNotFound\<close>.\<close>

definition entry :: "('d \<Rightarrow> 'k \<rightharpoonup> 'v) \<Rightarrow> 'k \<Rightarrow> ('d, 'c, 'v) action" where
  "entry f k = bindE (gets (\<lambda>d. f d k)) (\<lambda>v. case v of None \<Rightarrow> raise ErrManagementNotFound | Some x \<Rightarrow> ret x)"

section \<open>The audit trail\<close>

definition appendAuditLocked :: "'e forge_env_scheme \<Rightarrow> ManagementAuditEvent \<Rightarrow> unit mem" where
  "appendAuditLocked env event =
     (let e = event\<lparr>ev_EventID := event_id env event\<rparr> in
      bindE (if IsZero (ev_CreatedAt e) then read_clock env else ret (ev_CreatedAt e)) (\<lambda>t.
      puts (\<lambda>d. d\<lparr>mem_auditEvents := mem_auditEvents d @ [e\<lparr>ev_CreatedAt := t\<rparr>]\<rparr>)))"

definition new_event :: "audit_context \<Rightarrow> string \<Rightarrow> string \<Rightarrow> string \<Rightarrow> gotime \<Rightarrow> ManagementAuditEvent" where
  "new_event ctx eventType targetType targetID createdAt =
     \<lparr>ev_EventID = [], ev_EventType = eventType, ev_Actor = auditActor ctx, ev_TargetType = targetType,
      ev_TargetID = targetID, ev_KLIQID = [], ev_Environment = [], ev_Stage = [], ev_Scope = [],
      ev_Metadata = [], ev_CreatedAt = createdAt\<rparr>"

definition mem_SaveAuditEvent :: "'e forge_env_scheme \<Rightarrow> audit_context \<Rightarrow> ManagementAuditEvent \<Rightarrow> unit mem" where
  "mem_SaveAuditEvent env ctx event =
     appendAuditLocked env (if ev_Actor event = [] then event\<lparr>ev_Actor := auditActor ctx\<rparr> else event)"

definition event_selected :: "string \<Rightarrow> string \<Rightarrow> ManagementAuditEvent \<Rightarrow> bool" where
  "event_selected targetType targetID e \<longleftrightarrow>
     (targetType = [] \<or> ev_TargetType e = targetType) \<and> (targetID = [] \<or> ev_TargetID e = targetID)"

definition mem_AuditEvents :: "string \<Rightarrow> string \<Rightarrow> ManagementAuditEvent list mem" where
  "mem_AuditEvents targetType targetID = gets (\<lambda>d. filter (event_selected targetType targetID) (mem_auditEvents d))"

text \<open>A revocation: the record under the key of its target, and the event.\<close>

definition record_revocation ::
  "'e forge_env_scheme \<Rightarrow> audit_context \<Rightarrow> string \<Rightarrow> string \<Rightarrow> string \<Rightarrow> string \<Rightarrow> gotime \<Rightarrow> string \<Rightarrow> unit mem" where
  "record_revocation env ctx targetType targetID hashed reason revokedAt kliqID =
     bindE (puts (\<lambda>d. d\<lparr>mem_revocations := (mem_revocations d)(targetType @ '':'' @ targetID \<mapsto>
       \<lparr>rv_RevocationID = ''revocation.'' @ mgmt_shortHash env hashed, rv_TargetType = targetType, rv_TargetID = targetID,
        rv_Reason = reason, rv_CreatedAt = revokedAt, rv_CreatedBy = auditActor ctx\<rparr>)\<rparr>)) (\<lambda>_.
     appendAuditLocked env ((new_event ctx ''revocation'' targetType targetID revokedAt)
       \<lparr>ev_KLIQID := kliqID, ev_Metadata := [(''reason'', JString reason)]\<rparr>))"

section \<open>Enrollment tokens\<close>

definition save_token :: "KLIQEnrollmentToken \<Rightarrow> MemoryStore \<Rightarrow> MemoryStore" where
  "save_token t d =
     d\<lparr>mem_tokensByHash := (mem_tokensByHash d)(et_TokenSHA256 t \<mapsto> t), mem_tokensByID := (mem_tokensByID d)(et_TokenID t \<mapsto> t)\<rparr>"

definition token_event :: "audit_context \<Rightarrow> string \<Rightarrow> KLIQEnrollmentToken \<Rightarrow> gotime \<Rightarrow> ManagementAuditEvent" where
  "token_event ctx eventType t createdAt =
     (new_event ctx eventType ''kliq_enrollment_token'' (et_TokenID t) createdAt)
       \<lparr>ev_Environment := et_Environment t, ev_Stage := et_Stage t, ev_Scope := et_Scope t\<rparr>"

definition mem_CreateEnrollmentToken ::
  "'e forge_env_scheme \<Rightarrow> audit_context \<Rightarrow> KLIQEnrollmentToken \<Rightarrow> string \<Rightarrow> unit mem" where
  "mem_CreateEnrollmentToken env ctx token secret =
     guardE (et_TokenID token = [] \<or> secret = []) (Errorf ''enrollment token id and secret are required'' [])
    (bindE (if IsZero (et_CreatedAt token) then read_clock env else ret (et_CreatedAt token)) (\<lambda>created.
     let t = token\<lparr>et_TokenSHA256 := TokenSHA256 env secret, et_CreatedAt := created\<rparr> in
     bindE (puts (save_token t)) (\<lambda>_.
     appendAuditLocked env (token_event ctx ''enrollment_token_created'' t (et_CreatedAt t)))))"

definition mem_EnrollmentToken :: "string \<Rightarrow> KLIQEnrollmentToken mem" where
  "mem_EnrollmentToken tokenID = entry mem_tokensByID tokenID"

definition mem_UseEnrollmentToken ::
  "'e forge_env_scheme \<Rightarrow> audit_context \<Rightarrow> string \<Rightarrow> string \<Rightarrow> string \<Rightarrow> string \<Rightarrow> gotime \<Rightarrow> KLIQEnrollmentToken mem" where
  "mem_UseEnrollmentToken env ctx secret environment stage scope usedAt =
     bindE (entry mem_tokensByHash (TokenSHA256 env secret)) (\<lambda>token.
     bindE (lift (token_usable token environment stage scope usedAt)) (\<lambda>_.
     let t = token\<lparr>et_UsedAt := usedAt\<rparr> in
     bindE (puts (save_token t)) (\<lambda>_.
     bindE (appendAuditLocked env (token_event ctx ''enrollment_token_used'' t (et_UsedAt t))) (\<lambda>_.
     ret t))))"

definition mem_RevokeEnrollmentToken ::
  "'e forge_env_scheme \<Rightarrow> audit_context \<Rightarrow> string \<Rightarrow> string \<Rightarrow> gotime \<Rightarrow> unit mem" where
  "mem_RevokeEnrollmentToken env ctx tokenID reason revokedAt =
     bindE (entry mem_tokensByID tokenID) (\<lambda>token.
     bindE (puts (save_token (token\<lparr>et_RevokedAt := revokedAt, et_RevokedReason := reason\<rparr>))) (\<lambda>_.
     record_revocation env ctx ''kliq_enrollment_token'' tokenID
       (''kliq_enrollment_token:'' @ tokenID @ fe_timeString env revokedAt) reason revokedAt []))"

section \<open>Registrations\<close>

definition registration_event ::
  "audit_context \<Rightarrow> string \<Rightarrow> string \<Rightarrow> string \<Rightarrow> KLIQRegistration \<Rightarrow> gotime \<Rightarrow> ManagementAuditEvent" where
  "registration_event ctx eventType targetType targetID r createdAt =
     (new_event ctx eventType targetType targetID createdAt)
       \<lparr>ev_KLIQID := kr_KLIQID r, ev_Environment := kr_Environment r, ev_Stage := kr_Stage r, ev_Scope := kr_Scope r,
        ev_Metadata := auditMetadata ctx [(''kliq_id'', JString (kr_KLIQID r))]\<rparr>"

definition mem_Register :: "'e forge_env_scheme \<Rightarrow> audit_context \<Rightarrow> KLIQRegistration \<Rightarrow> unit mem" where
  "mem_Register env ctx registration =
     guardE (kr_KLIQID registration = []) (Errorf ''kliq registration requires kliq_id'' [])
    (let r = registration_defaults registration in
     bindE (puts (\<lambda>d. d\<lparr>mem_registrations := (mem_registrations d)(kr_KLIQID r \<mapsto> r),
                       mem_identities := (mem_identities d)(kr_KLIQID r \<mapsto> kr_Identity r)\<rparr>)) (\<lambda>_.
     bindE (appendAuditLocked env
              (registration_event ctx ''kliq_enrolled'' ''kliq_registration'' (kr_RegistrationID r) r (kr_RegisteredAt r))) (\<lambda>_.
     appendAuditLocked env
       (registration_event ctx ''identity_issued'' ''kliq_identity'' (ki_IdentityID (kr_Identity r)) r (ki_IssuedAt (kr_Identity r))))))"

definition mem_Registration :: "string \<Rightarrow> KLIQRegistration mem" where
  "mem_Registration kliqID = entry mem_registrations kliqID"

definition mem_Identity :: "string \<Rightarrow> KLIQIdentity mem" where
  "mem_Identity kliqID = entry mem_identities kliqID"

text \<open>A missing key of a Go map reads as the zero value.\<close>

definition revoke_kliq :: "string \<Rightarrow> KLIQRegistration \<Rightarrow> string \<Rightarrow> gotime \<Rightarrow> MemoryStore \<Rightarrow> MemoryStore" where
  "revoke_kliq kliqID registration reason revokedAt d =
     (let r = registration\<lparr>kr_Status := ''revoked'', kr_RevokedAt := revokedAt, kr_RevokedReason := reason\<rparr>;
          identity = (case mem_identities d kliqID of None \<Rightarrow> zero_KLIQIdentity | Some i \<Rightarrow> i);
          i = identity\<lparr>ki_Status := ''revoked'', ki_CredentialStatus := ''revoked'', ki_RevokedAt := revokedAt, ki_RevokedReason := reason\<rparr>
      in d\<lparr>mem_registrations := (mem_registrations d)(kliqID \<mapsto> r), mem_identities := (mem_identities d)(kliqID \<mapsto> i)\<rparr>)"

definition mem_RevokeKLIQ :: "'e forge_env_scheme \<Rightarrow> audit_context \<Rightarrow> string \<Rightarrow> string \<Rightarrow> gotime \<Rightarrow> unit mem" where
  "mem_RevokeKLIQ env ctx kliqID reason revokedAt =
     bindE (entry mem_registrations kliqID) (\<lambda>registration.
     bindE (puts (revoke_kliq kliqID registration reason revokedAt)) (\<lambda>_.
     record_revocation env ctx ''kliq_registration'' kliqID (''kliq_registration:'' @ kliqID @ fe_timeString env revokedAt)
       reason revokedAt kliqID))"

section \<open>Trust bundles\<close>

definition put_trust :: "TrustBundle \<Rightarrow> string \<Rightarrow> MemoryStore \<Rightarrow> MemoryStore" where
  "put_trust b keyID d = d\<lparr>mem_trustBundles := (mem_trustBundles d)(keyID \<mapsto> b)\<rparr>"

definition mem_SaveTrustBundle :: "TrustBundle \<Rightarrow> unit mem" where
  "mem_SaveTrustBundle bundle0 =
     (let b = default_status bundle0 in
      bindE (lift (validateNewTrustBundle b)) (\<lambda>_.
      bindE (gets (\<lambda>d. mem_trustBundles d (tb_KeyID b))) (\<lambda>existing.
      bindE (lift (case existing of None \<Rightarrow> Inr () | Some e \<Rightarrow> validateTrustBundleUpdate e b)) (\<lambda>_.
      puts (put_trust b (tb_KeyID b))))))"

definition mem_TrustBundle :: "string \<Rightarrow> TrustBundle mem" where
  "mem_TrustBundle keyID = entry mem_trustBundles keyID"

definition rotation_metadata :: "audit_context \<Rightarrow> string \<Rightarrow> TrustBundle \<Rightarrow> string \<Rightarrow> metadata" where
  "rotation_metadata ctx currentKeyID nxt reason =
     auditMetadata ctx
       [(''previous_key_id'', JString currentKeyID), (''active_key_id'', JString (tb_KeyID nxt)),
        (''purpose'', JString (tb_Purpose nxt)), (''reason'', JString reason)]"

definition mem_RotateTrustBundle ::
  "'e forge_env_scheme \<Rightarrow> audit_context \<Rightarrow> string \<Rightarrow> TrustBundle \<Rightarrow> string \<Rightarrow> gotime \<Rightarrow> unit mem" where
  "mem_RotateTrustBundle env ctx currentKeyID0 next0 reason rotatedAt0 =
     (let currentKeyID = TrimSpace currentKeyID0; nxt = default_status next0 in
      guardE (currentKeyID = []) (Errorf ''current trust bundle key_id is required'' [])
     (bindE (entry mem_trustBundles currentKeyID) (\<lambda>current.
      guardE (tb_Status current \<noteq> ''active'') (Errorf ''trust bundle %q must be active to rotate'' [currentKeyID])
     (bindE (lift (validateNewTrustBundle nxt)) (\<lambda>_.
      guardE (tb_KeyID nxt = currentKeyID) (Errorf ''rotation requires a new trust bundle key_id'' [])
     (bindE (gets (\<lambda>d. mem_trustBundles d (tb_KeyID nxt))) (\<lambda>existing.
      guardE (existing \<noteq> None) (Errorf ''trust bundle %q already exists'' [tb_KeyID nxt])
     (guardE (tb_Purpose current \<noteq> [] \<and> tb_Purpose nxt \<noteq> tb_Purpose current)
        (Errorf ''trust bundle rotation purpose mismatch: %q to %q'' [tb_Purpose current, tb_Purpose nxt])
     (guardE (tb_Status nxt \<noteq> ''active'') (Errorf ''new trust bundle %q must be active'' [tb_KeyID nxt])
     (bindE (if IsZero rotatedAt0 then read_clock env else ret rotatedAt0) (\<lambda>rotatedAt.
      bindE (puts (put_trust (current\<lparr>tb_Status := ''previous''\<rparr>) currentKeyID)) (\<lambda>_.
      bindE (puts (put_trust nxt (tb_KeyID nxt))) (\<lambda>_.
      appendAuditLocked env ((new_event ctx ''trust_bundle_rotated'' ''trust_key'' currentKeyID rotatedAt)
        \<lparr>ev_Metadata := rotation_metadata ctx currentKeyID nxt reason\<rparr>))))))))))))))"

definition mem_RevokeTrustBundle :: "'e forge_env_scheme \<Rightarrow> audit_context \<Rightarrow> string \<Rightarrow> string \<Rightarrow> gotime \<Rightarrow> unit mem" where
  "mem_RevokeTrustBundle env ctx keyID reason revokedAt =
     bindE (entry mem_trustBundles keyID) (\<lambda>b.
     bindE (puts (put_trust (b\<lparr>tb_Status := ''revoked''\<rparr>) keyID)) (\<lambda>_.
     record_revocation env ctx ''trust_key'' keyID (''trust_key:'' @ keyID @ fe_timeString env revokedAt) reason revokedAt []))"

section \<open>Assignments\<close>

text \<open>
  Versions are \<^verbatim>\<open>int64\<close>: the next version after the greatest one wraps to the least.
\<close>

definition int64_add :: "int \<Rightarrow> int \<Rightarrow> int" where
  "int64_add a b = (a + b + 2 ^ 63) mod 2 ^ 64 - 2 ^ 63"

definition mem_NextAssignmentVersion :: "string \<Rightarrow> int mem" where
  "mem_NextAssignmentVersion kliqID =
     gets (\<lambda>d. case mem_assignments d kliqID of None \<Rightarrow> 1 | Some r \<Rightarrow> int64_add (ag_Version r) 1)"

definition assignment_event ::
  "'e forge_env_scheme \<Rightarrow> audit_context \<Rightarrow> string \<Rightarrow> string \<Rightarrow> int \<Rightarrow> SignedEnvelope \<Rightarrow> gotime \<Rightarrow> ManagementAuditEvent" where
  "assignment_event env ctx eventType kliqID version envelope createdAt =
     (new_event ctx eventType ''kliq_assignment'' (assignment_target kliqID version) createdAt)
       \<lparr>ev_KLIQID := kliqID, ev_Metadata := [(''digest'', JString (assignmentDigest env envelope))]\<rparr>"

definition publish_assignment ::
  "'e forge_env_scheme \<Rightarrow> audit_context \<Rightarrow> string \<Rightarrow> int \<Rightarrow> SignedEnvelope \<Rightarrow> unit mem" where
  "publish_assignment env ctx kliqID version envelope =
     bindE (puts (\<lambda>d. d\<lparr>mem_assignments := (mem_assignments d)(kliqID \<mapsto>
       \<lparr>ag_Version = version, ag_Envelope = envelope, ag_RevokedAt = 0, ag_RevokedReason = []\<rparr>)\<rparr>)) (\<lambda>_.
     bindE (read_clock env) (\<lambda>now.
     appendAuditLocked env (assignment_event env ctx ''assignment_published'' kliqID version envelope now)))"

definition mem_SaveAssignment :: "'e forge_env_scheme \<Rightarrow> audit_context \<Rightarrow> string \<Rightarrow> int \<Rightarrow> SignedEnvelope \<Rightarrow> unit mem" where
  "mem_SaveAssignment env ctx kliqID version envelope =
     guardE (kliqID = [] \<or> version \<le> 0) (Errorf ''assignment requires kliq_id and positive assignment_version'' [])
    (bindE (gets (\<lambda>d. mem_assignments d kliqID)) (\<lambda>existing.
     case existing of
       None \<Rightarrow> publish_assignment env ctx kliqID version envelope
     | Some r \<Rightarrow>
         if version < ag_Version r then
           raise (Errorf ''assignment version %d is older than existing version %d'' [int_digits version, int_digits (ag_Version r)])
         else if version = ag_Version r then
           (if assignmentDigest env (ag_Envelope r) = assignmentDigest env envelope then ret ()
            else raise (Errorf ''assignment version %d already exists with different digest'' [int_digits version]))
         else publish_assignment env ctx kliqID version envelope))"

definition mem_LatestAssignment :: "'e forge_env_scheme \<Rightarrow> audit_context \<Rightarrow> string \<Rightarrow> SignedEnvelope mem" where
  "mem_LatestAssignment env ctx kliqID =
     bindE (entry mem_assignments kliqID) (\<lambda>r.
     guardE (\<not> IsZero (ag_RevokedAt r)) ErrManagementNotFound
    (bindE (read_clock env) (\<lambda>now.
     bindE (appendAuditLocked env (assignment_event env ctx ''assignment_pulled'' kliqID (ag_Version r) (ag_Envelope r) now)) (\<lambda>_.
     ret (ag_Envelope r)))))"

definition mem_RevokeAssignment ::
  "'e forge_env_scheme \<Rightarrow> audit_context \<Rightarrow> string \<Rightarrow> int \<Rightarrow> string \<Rightarrow> gotime \<Rightarrow> unit mem" where
  "mem_RevokeAssignment env ctx kliqID version reason revokedAt =
     bindE (entry mem_assignments kliqID) (\<lambda>r.
     guardE (ag_Version r \<noteq> version) ErrManagementNotFound
    (bindE (puts (\<lambda>d. d\<lparr>mem_assignments := (mem_assignments d)(kliqID \<mapsto> r\<lparr>ag_RevokedAt := revokedAt, ag_RevokedReason := reason\<rparr>)\<rparr>)) (\<lambda>_.
     record_revocation env ctx ''kliq_assignment'' (assignment_target kliqID version)
       (''kliq_assignment:'' @ assignment_target kliqID version @ '':'' @ fe_timeString env revokedAt) reason revokedAt kliqID)))"

section \<open>Reports\<close>

definition mem_SaveHeartbeat :: "KLIQHeartbeat \<Rightarrow> unit mem" where
  "mem_SaveHeartbeat h =
     guardE (hb_KLIQID h = []) (Errorf ''heartbeat requires kliq_id'' [])
       (puts (\<lambda>d. d\<lparr>mem_heartbeats := (mem_heartbeats d)(hb_KLIQID h \<mapsto> h)\<rparr>))"

definition mem_SaveStatusReport :: "KLIQStatusReport \<Rightarrow> unit mem" where
  "mem_SaveStatusReport r =
     guardE (sr_KLIQID r = []) (Errorf ''status report requires kliq_id'' [])
       (puts (\<lambda>d. d\<lparr>mem_statusReports := (mem_statusReports d)(sr_KLIQID r \<mapsto> r)\<rparr>))"

definition mem_StatusReport :: "string \<Rightarrow> KLIQStatusReport mem" where
  "mem_StatusReport kliqID = entry mem_statusReports kliqID"

end
