(* ===== verification/Forge_Postgres.thy ===== *)
theory Forge_Postgres
  imports Forge_Memory
begin

text \<open>
  The PostgreSQL management store (\<^verbatim>\<open>internal/forge/management/postgres.go\<close>). Each table is a list
  of rows; a row keeps the keys and the columns that statements change or filter on, and the
  struct its JSON column was marshalled from, which is what every read decodes. Columns that
  only repeat a field of that struct and are never read are left out. Statements, faults of
  the driver and transactions are those of the effects theory; a statement that violates a
  primary key, a unique column or a foreign key returns an error.
\<close>

section \<open>Tables\<close>

record pg_token =
  pt_token_id :: string
  pt_token_sha256 :: string
  pt_used_at :: "gotime option"
  pt_revoked_at :: "gotime option"
  pt_revoked_reason :: string
  pt_token_json :: KLIQEnrollmentToken

record pg_registration =
  pr_kliq_id :: string
  pr_registration_id :: string
  pr_status :: string
  pr_revoked_at :: "gotime option"
  pr_revoked_reason :: string
  pr_registration_json :: KLIQRegistration

record pg_identity =
  pi_identity_id :: string
  pi_kliq_id :: string
  pi_credential_status :: string
  pi_status :: string
  pi_revoked_at :: "gotime option"
  pi_revoked_reason :: string
  pi_identity_json :: KLIQIdentity

record pg_trust =
  pb_key_id :: string
  pb_status :: string
  pb_trust_bundle_json :: TrustBundle

record pg_assignment =
  pa_kliq_id :: string
  pa_assignment_version :: int
  pa_revoked_at :: "gotime option"
  pa_revoked_reason :: string
  pa_envelope_json :: SignedEnvelope

record pg_artifact =
  pf_kliq_id :: string
  pf_assignment_version :: int
  pf_artifact_json :: KLIQAssignedArtifact

record pg_event =
  pe_event_id :: string
  pe_event_json :: ManagementAuditEvent

record postgres =
  pg_tokens :: "pg_token list"
  pg_registrations :: "pg_registration list"
  pg_identities :: "pg_identity list"
  pg_trust_bundles :: "pg_trust list"
  pg_assignments :: "pg_assignment list"
  pg_artifacts :: "pg_artifact list"
  pg_heartbeats :: "KLIQHeartbeat list"
  pg_status_reports :: "KLIQStatusReport list"
  pg_revocations :: "KLIQRevocation list"
  pg_events :: "pg_event list"

definition empty_postgres :: postgres where
  "empty_postgres =
     \<lparr>pg_tokens = [], pg_registrations = [], pg_identities = [], pg_trust_bundles = [], pg_assignments = [],
      pg_artifacts = [], pg_heartbeats = [], pg_status_reports = [], pg_revocations = [], pg_events = []\<rparr>"

type_synonym 'a pgop = "(postgres, unit, 'a) action"

definition violates :: "string \<Rightarrow> error" where
  "violates constraint = Errorf ''ERROR: violates constraint %s'' [constraint]"

text \<open>A query for one row: \<^verbatim>\<open>sql.ErrNoRows\<close> becomes \<^verbatim>\<open>ErrNotFound\<close>.\<close>

definition query_row :: "'e sysenv_scheme \<Rightarrow> (postgres \<Rightarrow> 'r list) \<Rightarrow> ('r \<Rightarrow> bool) \<Rightarrow> 'r pgop" where
  "query_row env table P =
     query env (\<lambda>d. case find P (table d) of None \<Rightarrow> Inl ErrManagementNotFound | Some r \<Rightarrow> Inr r)"

definition registered :: "string \<Rightarrow> postgres \<Rightarrow> bool" where
  "registered kliqID d \<longleftrightarrow> (\<exists>r \<in> set (pg_registrations d). pr_kliq_id r = kliqID)"

section \<open>The audit trail\<close>

definition pg_insert_event :: "pg_event \<Rightarrow> postgres \<Rightarrow> postgres result" where
  "pg_insert_event e d =
     (if \<exists>r \<in> set (pg_events d). pe_event_id r = pe_event_id e then Inl (violates ''management_audit_events_pkey'')
      else Inr (d\<lparr>pg_events := pg_events d @ [e]\<rparr>))"

definition pg_SaveAuditEvent :: "'e forge_env_scheme \<Rightarrow> audit_context \<Rightarrow> ManagementAuditEvent \<Rightarrow> unit pgop" where
  "pg_SaveAuditEvent env ctx event =
     (let e = event\<lparr>ev_EventID := event_id env event\<rparr> in
      bindE (if IsZero (ev_CreatedAt e) then read_clock env else ret (ev_CreatedAt e)) (\<lambda>t.
      let e2 = e\<lparr>ev_CreatedAt := t\<rparr>;
          e3 = (if ev_Actor e2 = [] then e2\<lparr>ev_Actor := auditActor ctx\<rparr> else e2) in
      execute env (pg_insert_event \<lparr>pe_event_id = ev_EventID e3, pe_event_json = e3\<rparr>)))"

definition auditEvent ::
  "audit_context \<Rightarrow> string \<Rightarrow> string \<Rightarrow> string \<Rightarrow> string \<Rightarrow> string \<Rightarrow> string \<Rightarrow> string \<Rightarrow> gotime \<Rightarrow> metadata \<Rightarrow> ManagementAuditEvent" where
  "auditEvent ctx eventType targetType targetID kliqID environment stage scope createdAt metadata =
     \<lparr>ev_EventID = [], ev_EventType = eventType, ev_Actor = auditActor ctx, ev_TargetType = targetType,
      ev_TargetID = targetID, ev_KLIQID = kliqID, ev_Environment = environment, ev_Stage = stage, ev_Scope = scope,
      ev_Metadata = auditMetadata ctx metadata, ev_CreatedAt = createdAt\<rparr>"

text \<open>A \<^verbatim>\<open>timestamptz\<close> keeps microseconds.\<close>

definition pg_timestamptz :: "gotime \<Rightarrow> int" where
  "pg_timestamptz t = t div 1000"

definition pg_AuditEvents :: "'e forge_env_scheme \<Rightarrow> string \<Rightarrow> string \<Rightarrow> ManagementAuditEvent list pgop" where
  "pg_AuditEvents env targetType targetID =
     query env (\<lambda>d. Inr (map pe_event_json (sort_key (\<lambda>r. pg_timestamptz (ev_CreatedAt (pe_event_json r)))
       (filter (\<lambda>r. event_selected targetType targetID (pe_event_json r)) (pg_events d)))))"

text \<open>\<^verbatim>\<open>ON CONFLICT (revocation_id) DO NOTHING\<close>.\<close>

definition pg_insert_revocation :: "KLIQRevocation \<Rightarrow> postgres \<Rightarrow> postgres" where
  "pg_insert_revocation r d =
     (if \<exists>s \<in> set (pg_revocations d). rv_RevocationID s = rv_RevocationID r then d
      else d\<lparr>pg_revocations := pg_revocations d @ [r]\<rparr>)"

definition saveRevocation ::
  "'e forge_env_scheme \<Rightarrow> audit_context \<Rightarrow> string \<Rightarrow> string \<Rightarrow> string \<Rightarrow> gotime \<Rightarrow> string \<Rightarrow> unit pgop" where
  "saveRevocation env ctx targetType targetID reason revokedAt kliqID =
     (let r = \<lparr>rv_RevocationID = ''revocation.'' @ mgmt_shortHash env (targetType @ targetID @ fe_timeString env revokedAt),
               rv_TargetType = targetType, rv_TargetID = targetID, rv_Reason = reason, rv_CreatedAt = revokedAt,
               rv_CreatedBy = auditActor ctx\<rparr> in
      bindE (execute env (\<lambda>d. Inr (pg_insert_revocation r d))) (\<lambda>_.
      pg_SaveAuditEvent env ctx (auditEvent ctx ''revocation'' targetType targetID kliqID [] [] [] revokedAt [(''reason'', JString reason)])))"

section \<open>Enrollment tokens\<close>

definition pg_insert_token :: "KLIQEnrollmentToken \<Rightarrow> postgres \<Rightarrow> postgres result" where
  "pg_insert_token t d =
     (if \<exists>r \<in> set (pg_tokens d). pt_token_id r = et_TokenID t then Inl (violates ''kliq_enrollment_tokens_pkey'')
      else if \<exists>r \<in> set (pg_tokens d). pt_token_sha256 r = et_TokenSHA256 t then Inl (violates ''kliq_enrollment_tokens_token_sha256_key'')
      else Inr (d\<lparr>pg_tokens := pg_tokens d @
        [\<lparr>pt_token_id = et_TokenID t, pt_token_sha256 = et_TokenSHA256 t, pt_used_at = None, pt_revoked_at = None,
          pt_revoked_reason = [], pt_token_json = t\<rparr>]\<rparr>))"

definition pg_CreateEnrollmentToken ::
  "'e forge_env_scheme \<Rightarrow> audit_context \<Rightarrow> KLIQEnrollmentToken \<Rightarrow> string \<Rightarrow> unit pgop" where
  "pg_CreateEnrollmentToken env ctx token secret =
     guardE (et_TokenID token = [] \<or> secret = []) (Errorf ''enrollment token id and secret are required'' [])
    (bindE (if IsZero (et_CreatedAt token) then read_clock env else ret (et_CreatedAt token)) (\<lambda>created.
     let t = token\<lparr>et_TokenSHA256 := TokenSHA256 env secret, et_CreatedAt := created\<rparr> in
     bindE (execute env (pg_insert_token t)) (\<lambda>_.
     pg_SaveAuditEvent env ctx (auditEvent ctx ''enrollment_token_created'' ''kliq_enrollment_token'' (et_TokenID t) []
       (et_Environment t) (et_Stage t) (et_Scope t) (et_CreatedAt t) []))))"

definition pg_EnrollmentToken :: "'e forge_env_scheme \<Rightarrow> string \<Rightarrow> KLIQEnrollmentToken pgop" where
  "pg_EnrollmentToken env tokenID =
     bindE (query_row env pg_tokens (\<lambda>r. pt_token_id r = tokenID)) (\<lambda>r. ret (pt_token_json r))"

definition pg_use_token :: "KLIQEnrollmentToken \<Rightarrow> postgres \<Rightarrow> postgres" where
  "pg_use_token t d =
     d\<lparr>pg_tokens := update_rows (\<lambda>r. pt_token_id r = et_TokenID t)
        (\<lambda>r. r\<lparr>pt_used_at := Some (et_UsedAt t), pt_token_json := t\<rparr>) (pg_tokens d)\<rparr>"

definition pg_UseEnrollmentToken ::
  "'e forge_env_scheme \<Rightarrow> audit_context \<Rightarrow> string \<Rightarrow> string \<Rightarrow> string \<Rightarrow> string \<Rightarrow> gotime \<Rightarrow> KLIQEnrollmentToken pgop" where
  "pg_UseEnrollmentToken env ctx secret environment stage scope usedAt =
     bindE (transaction env
       (bindE (query_row env pg_tokens (\<lambda>r. pt_token_sha256 r = TokenSHA256 env secret)) (\<lambda>row.
        let token = pt_token_json row; t = token\<lparr>et_UsedAt := usedAt\<rparr> in
        bindE (lift (token_usable token environment stage scope usedAt)) (\<lambda>_.
        bindE (execute env (\<lambda>d. Inr (pg_use_token t d))) (\<lambda>_.
        ret t))))) (\<lambda>t.
     bindE (pg_SaveAuditEvent env ctx (auditEvent ctx ''enrollment_token_used'' ''kliq_enrollment_token'' (et_TokenID t) []
       (et_Environment t) (et_Stage t) (et_Scope t) (et_UsedAt t) [])) (\<lambda>_.
     ret t))"

definition pg_RevokeEnrollmentToken ::
  "'e forge_env_scheme \<Rightarrow> audit_context \<Rightarrow> string \<Rightarrow> string \<Rightarrow> gotime \<Rightarrow> unit pgop" where
  "pg_RevokeEnrollmentToken env ctx tokenID reason revokedAt =
     bindE (pg_EnrollmentToken env tokenID) (\<lambda>token.
     let t = token\<lparr>et_RevokedAt := revokedAt, et_RevokedReason := reason\<rparr> in
     bindE (execute env (\<lambda>d. Inr (d\<lparr>pg_tokens := update_rows (\<lambda>r. pt_token_id r = tokenID)
       (\<lambda>r. r\<lparr>pt_revoked_at := Some revokedAt, pt_revoked_reason := reason, pt_token_json := t\<rparr>) (pg_tokens d)\<rparr>))) (\<lambda>_.
     saveRevocation env ctx ''kliq_enrollment_token'' tokenID reason revokedAt []))"

section \<open>Registrations\<close>

definition pg_insert_registration :: "KLIQRegistration \<Rightarrow> postgres \<Rightarrow> postgres result" where
  "pg_insert_registration r d =
     (if registered (kr_KLIQID r) d then Inl (violates ''kliq_registrations_pkey'')
      else if \<exists>s \<in> set (pg_registrations d). pr_registration_id s = kr_RegistrationID r
      then Inl (violates ''kliq_registrations_registration_id_key'')
      else Inr (d\<lparr>pg_registrations := pg_registrations d @
        [\<lparr>pr_kliq_id = kr_KLIQID r, pr_registration_id = kr_RegistrationID r, pr_status = kr_Status r, pr_revoked_at = None,
          pr_revoked_reason = [], pr_registration_json = r\<rparr>]\<rparr>))"

definition pg_insert_identity :: "string \<Rightarrow> KLIQIdentity \<Rightarrow> postgres \<Rightarrow> postgres result" where
  "pg_insert_identity kliqID i d =
     (if \<exists>s \<in> set (pg_identities d). pi_identity_id s = ki_IdentityID i then Inl (violates ''kliq_identities_pkey'')
      else if \<exists>s \<in> set (pg_identities d). pi_kliq_id s = kliqID then Inl (violates ''kliq_identities_kliq_id_key'')
      else if \<not> registered kliqID d then Inl (violates ''kliq_identities_kliq_id_fkey'')
      else Inr (d\<lparr>pg_identities := pg_identities d @
        [\<lparr>pi_identity_id = ki_IdentityID i, pi_kliq_id = kliqID, pi_credential_status = ki_CredentialStatus i,
          pi_status = ki_Status i, pi_revoked_at = None, pi_revoked_reason = [], pi_identity_json = i\<rparr>]\<rparr>))"

definition pg_registration_event ::
  "audit_context \<Rightarrow> string \<Rightarrow> string \<Rightarrow> string \<Rightarrow> KLIQRegistration \<Rightarrow> gotime \<Rightarrow> ManagementAuditEvent" where
  "pg_registration_event ctx eventType targetType targetID r createdAt =
     auditEvent ctx eventType targetType targetID (kr_KLIQID r) (kr_Environment r) (kr_Stage r) (kr_Scope r) createdAt
       [(''kliq_id'', JString (kr_KLIQID r))]"

definition pg_Register :: "'e forge_env_scheme \<Rightarrow> audit_context \<Rightarrow> KLIQRegistration \<Rightarrow> unit pgop" where
  "pg_Register env ctx registration =
     guardE (kr_KLIQID registration = []) (Errorf ''kliq registration requires kliq_id'' [])
    (let r = registration_defaults registration in
     bindE (transaction env
       (bindE (execute env (pg_insert_registration r)) (\<lambda>_.
        execute env (pg_insert_identity (kr_KLIQID r) (kr_Identity r))))) (\<lambda>_.
     bindE (pg_SaveAuditEvent env ctx
              (pg_registration_event ctx ''kliq_enrolled'' ''kliq_registration'' (kr_RegistrationID r) r (kr_RegisteredAt r))) (\<lambda>_.
     pg_SaveAuditEvent env ctx
       (pg_registration_event ctx ''identity_issued'' ''kliq_identity'' (ki_IdentityID (kr_Identity r)) r (ki_IssuedAt (kr_Identity r))))))"

definition pg_Registration :: "'e forge_env_scheme \<Rightarrow> string \<Rightarrow> KLIQRegistration pgop" where
  "pg_Registration env kliqID =
     bindE (query_row env pg_registrations (\<lambda>r. pr_kliq_id r = kliqID)) (\<lambda>r. ret (pr_registration_json r))"

definition pg_Identity :: "'e forge_env_scheme \<Rightarrow> string \<Rightarrow> KLIQIdentity pgop" where
  "pg_Identity env kliqID =
     bindE (query_row env pg_identities (\<lambda>r. pi_kliq_id r = kliqID)) (\<lambda>r. ret (pi_identity_json r))"

definition pg_revoked_registration :: "KLIQRegistration \<Rightarrow> string \<Rightarrow> gotime \<Rightarrow> KLIQRegistration" where
  "pg_revoked_registration r reason revokedAt =
     r\<lparr>kr_Status := ''revoked'', kr_RevokedAt := revokedAt, kr_RevokedReason := reason,
       kr_Identity := (kr_Identity r)\<lparr>ki_Status := ''revoked'', ki_RevokedAt := revokedAt, ki_RevokedReason := reason\<rparr>\<rparr>"

definition pg_RevokeKLIQ :: "'e forge_env_scheme \<Rightarrow> audit_context \<Rightarrow> string \<Rightarrow> string \<Rightarrow> gotime \<Rightarrow> unit pgop" where
  "pg_RevokeKLIQ env ctx kliqID reason revokedAt =
     bindE (pg_Registration env kliqID) (\<lambda>registration.
     let r = pg_revoked_registration registration reason revokedAt in
     bindE (transaction env
       (bindE (execute env (\<lambda>d. Inr (d\<lparr>pg_registrations := update_rows (\<lambda>s. pr_kliq_id s = kliqID)
          (\<lambda>s. s\<lparr>pr_status := ''revoked'', pr_revoked_at := Some revokedAt, pr_revoked_reason := reason, pr_registration_json := r\<rparr>)
          (pg_registrations d)\<rparr>))) (\<lambda>_.
        execute env (\<lambda>d. Inr (d\<lparr>pg_identities := update_rows (\<lambda>s. pi_kliq_id s = kliqID)
          (\<lambda>s. s\<lparr>pi_status := ''revoked'', pi_credential_status := ''revoked'', pi_revoked_at := Some revokedAt,
                pi_revoked_reason := reason, pi_identity_json := kr_Identity r\<rparr>)
          (pg_identities d)\<rparr>))))) (\<lambda>_.
     saveRevocation env ctx ''kliq_registration'' kliqID reason revokedAt kliqID))"

section \<open>Trust bundles\<close>

definition pg_TrustBundle :: "'e forge_env_scheme \<Rightarrow> string \<Rightarrow> TrustBundle pgop" where
  "pg_TrustBundle env keyID =
     bindE (query_row env pg_trust_bundles (\<lambda>r. pb_key_id r = keyID)) (\<lambda>r. ret (pb_trust_bundle_json r))"

definition trust_row :: "TrustBundle \<Rightarrow> pg_trust" where
  "trust_row b = \<lparr>pb_key_id = tb_KeyID b, pb_status = tb_Status b, pb_trust_bundle_json = b\<rparr>"

definition pg_upsert_trust :: "TrustBundle \<Rightarrow> postgres \<Rightarrow> postgres" where
  "pg_upsert_trust b d = d\<lparr>pg_trust_bundles := upsert_row pb_key_id (trust_row b) (pg_trust_bundles d)\<rparr>"

text \<open>
  Saving a bundle reads the stored one, compares, and writes, in statements of their own:
  nothing locks the row in between.
\<close>

definition pg_trust_checked :: "'e forge_env_scheme \<Rightarrow> TrustBundle \<Rightarrow> TrustBundle pgop" where
  "pg_trust_checked env bundle0 =
     (let b = default_status bundle0 in
      bindE (lift (validateNewTrustBundle b)) (\<lambda>_.
      tryE (pg_TrustBundle env (tb_KeyID b)) (\<lambda>r. case r of
        Inr existing \<Rightarrow> bindE (lift (validateTrustBundleUpdate existing b)) (\<lambda>_. ret b)
      | Inl err \<Rightarrow> guardE (\<not> errors_Is err ErrManagementNotFound) err (ret b))))"

definition pg_trust_write :: "'e forge_env_scheme \<Rightarrow> TrustBundle \<Rightarrow> unit pgop" where
  "pg_trust_write env b = execute env (\<lambda>d. Inr (pg_upsert_trust b d))"

definition pg_SaveTrustBundle :: "'e forge_env_scheme \<Rightarrow> TrustBundle \<Rightarrow> unit pgop" where
  "pg_SaveTrustBundle env bundle0 = bindE (pg_trust_checked env bundle0) (pg_trust_write env)"

text \<open>\<^verbatim>\<open>WHERE key_id = $3 AND status = 'active'\<close>; no row affected is an error.\<close>

definition pg_demote :: "TrustBundle \<Rightarrow> string \<Rightarrow> postgres \<Rightarrow> postgres result" where
  "pg_demote current keyID d =
     (if \<exists>r \<in> set (pg_trust_bundles d). pb_key_id r = keyID \<and> pb_status r = ''active''
      then Inr (d\<lparr>pg_trust_bundles := update_rows (\<lambda>r. pb_key_id r = keyID \<and> pb_status r = ''active'')
             (\<lambda>r. r\<lparr>pb_status := tb_Status current, pb_trust_bundle_json := current\<rparr>) (pg_trust_bundles d)\<rparr>)
      else Inl (Errorf ''trust bundle %q must be active to rotate'' [keyID]))"

definition pg_insert_trust :: "TrustBundle \<Rightarrow> postgres \<Rightarrow> postgres result" where
  "pg_insert_trust b d =
     (if \<exists>r \<in> set (pg_trust_bundles d). pb_key_id r = tb_KeyID b then Inl (violates ''trust_bundles_pkey'')
      else Inr (d\<lparr>pg_trust_bundles := pg_trust_bundles d @ [trust_row b]\<rparr>))"

definition pg_rotation ::
  "'e forge_env_scheme \<Rightarrow> audit_context \<Rightarrow> string \<Rightarrow> TrustBundle \<Rightarrow> TrustBundle \<Rightarrow> string \<Rightarrow> gotime \<Rightarrow> unit pgop" where
  "pg_rotation env ctx currentKeyID current nxt reason rotatedAt0 =
     bindE (if IsZero rotatedAt0 then read_clock env else ret rotatedAt0) (\<lambda>rotatedAt.
     let demoted = current\<lparr>tb_Status := ''previous''\<rparr> in
     bindE (transaction env
       (bindE (execute env (pg_demote demoted currentKeyID)) (\<lambda>_. execute env (pg_insert_trust nxt)))) (\<lambda>_.
     pg_SaveAuditEvent env ctx (auditEvent ctx ''trust_bundle_rotated'' ''trust_key'' currentKeyID [] [] [] [] rotatedAt
       [(''previous_key_id'', JString currentKeyID), (''active_key_id'', JString (tb_KeyID nxt)),
        (''purpose'', JString (tb_Purpose nxt)), (''reason'', JString reason)])))"

definition pg_RotateTrustBundle ::
  "'e forge_env_scheme \<Rightarrow> audit_context \<Rightarrow> string \<Rightarrow> TrustBundle \<Rightarrow> string \<Rightarrow> gotime \<Rightarrow> unit pgop" where
  "pg_RotateTrustBundle env ctx currentKeyID0 next0 reason rotatedAt =
     (let currentKeyID = TrimSpace currentKeyID0; nxt = default_status next0 in
      guardE (currentKeyID = []) (Errorf ''current trust bundle key_id is required'' [])
     (bindE (pg_TrustBundle env currentKeyID) (\<lambda>current.
      guardE (tb_Status current \<noteq> ''active'') (Errorf ''trust bundle %q must be active to rotate'' [currentKeyID])
     (bindE (lift (validateNewTrustBundle nxt)) (\<lambda>_.
      guardE (tb_KeyID nxt = currentKeyID) (Errorf ''rotation requires a new trust bundle key_id'' [])
     (guardE (tb_Purpose current \<noteq> [] \<and> tb_Purpose nxt \<noteq> tb_Purpose current)
        (Errorf ''trust bundle rotation purpose mismatch: %q to %q'' [tb_Purpose current, tb_Purpose nxt])
     (guardE (tb_Status nxt \<noteq> ''active'') (Errorf ''new trust bundle %q must be active'' [tb_KeyID nxt])
     (tryE (pg_TrustBundle env (tb_KeyID nxt)) (\<lambda>r. case r of
        Inr _ \<Rightarrow> raise (Errorf ''trust bundle %q already exists'' [tb_KeyID nxt])
      | Inl err \<Rightarrow>
        guardE (\<not> errors_Is err ErrManagementNotFound) err
       (pg_rotation env ctx currentKeyID current nxt reason rotatedAt))))))))))"

definition pg_RevokeTrustBundle :: "'e forge_env_scheme \<Rightarrow> audit_context \<Rightarrow> string \<Rightarrow> string \<Rightarrow> gotime \<Rightarrow> unit pgop" where
  "pg_RevokeTrustBundle env ctx keyID reason revokedAt =
     bindE (pg_TrustBundle env keyID) (\<lambda>b.
     bindE (pg_SaveTrustBundle env (b\<lparr>tb_Status := ''revoked''\<rparr>)) (\<lambda>_.
     saveRevocation env ctx ''trust_key'' keyID reason revokedAt []))"

section \<open>Assignments\<close>

definition versions_of :: "string \<Rightarrow> postgres \<Rightarrow> int list" where
  "versions_of kliqID d = map pa_assignment_version (filter (\<lambda>r. pa_kliq_id r = kliqID) (pg_assignments d))"

definition pg_NextAssignmentVersion :: "'e forge_env_scheme \<Rightarrow> string \<Rightarrow> int pgop" where
  "pg_NextAssignmentVersion env kliqID =
     query env (\<lambda>d. Inr (case versions_of kliqID d of [] \<Rightarrow> 1 | v # vs \<Rightarrow> int64_add (fold max vs v) 1))"

definition assignmentEnvelope :: "'e forge_env_scheme \<Rightarrow> string \<Rightarrow> int \<Rightarrow> SignedEnvelope pgop" where
  "assignmentEnvelope env kliqID version =
     bindE (query_row env pg_assignments (\<lambda>r. pa_kliq_id r = kliqID \<and> pa_assignment_version r = version)) (\<lambda>r.
     ret (pa_envelope_json r))"

definition pg_insert_assignment :: "string \<Rightarrow> int \<Rightarrow> SignedEnvelope \<Rightarrow> postgres \<Rightarrow> postgres result" where
  "pg_insert_assignment kliqID version envelope d =
     (if \<exists>r \<in> set (pg_assignments d). pa_kliq_id r = kliqID \<and> pa_assignment_version r = version
      then Inl (violates ''kliq_assignments_pkey'')
      else if \<not> registered kliqID d then Inl (violates ''kliq_assignments_kliq_id_fkey'')
      else Inr (d\<lparr>pg_assignments := pg_assignments d @
        [\<lparr>pa_kliq_id = kliqID, pa_assignment_version = version, pa_revoked_at = None, pa_revoked_reason = [],
          pa_envelope_json = envelope\<rparr>]\<rparr>))"

definition pg_insert_artifact :: "string \<Rightarrow> int \<Rightarrow> KLIQAssignedArtifact \<Rightarrow> postgres \<Rightarrow> postgres result" where
  "pg_insert_artifact kliqID version a d =
     (if \<exists>r \<in> set (pg_artifacts d). pf_kliq_id r = kliqID \<and> pf_assignment_version r = version \<and>
           aa_ArtifactType (pf_artifact_json r) = aa_ArtifactType a \<and> aa_ArtifactID (pf_artifact_json r) = aa_ArtifactID a
      then Inl (violates ''kliq_assignment_artifacts_pkey'')
      else Inr (d\<lparr>pg_artifacts := pg_artifacts d @
        [\<lparr>pf_kliq_id = kliqID, pf_assignment_version = version, pf_artifact_json = a\<rparr>]\<rparr>))"

definition pg_publish :: "'e forge_env_scheme \<Rightarrow> audit_context \<Rightarrow> string \<Rightarrow> int \<Rightarrow> SignedEnvelope \<Rightarrow> KLIQAssignment \<Rightarrow> unit pgop" where
  "pg_publish env ctx kliqID version envelope a =
     bindE (transaction env
       (bindE (execute env (pg_insert_assignment kliqID version envelope)) (\<lambda>_.
        for_eachE (\<lambda>art. execute env (pg_insert_artifact kliqID version art)) (as_Artifacts a)))) (\<lambda>_.
     bindE (read_clock env) (\<lambda>now.
     pg_SaveAuditEvent env ctx (auditEvent ctx ''assignment_published'' ''kliq_assignment'' (assignment_target kliqID version)
       kliqID (as_Environment a) (as_Stage a) (as_Scope a) now [(''digest'', JString (assignmentDigest env envelope))])))"

definition pg_SaveAssignment :: "'e forge_env_scheme \<Rightarrow> audit_context \<Rightarrow> string \<Rightarrow> int \<Rightarrow> SignedEnvelope \<Rightarrow> unit pgop" where
  "pg_SaveAssignment env ctx kliqID version envelope =
     guardE (kliqID = [] \<or> version \<le> 0) (Errorf ''assignment requires kliq_id and positive assignment_version'' [])
    (tryE (assignmentEnvelope env kliqID version) (\<lambda>r. case r of
       Inr existing \<Rightarrow>
         if assignmentDigest env existing = assignmentDigest env envelope then ret ()
         else raise (Errorf ''assignment version %d already exists with different digest'' [int_digits version])
     | Inl err \<Rightarrow>
       guardE (\<not> errors_Is err ErrManagementNotFound) err
      (bindE (pg_NextAssignmentVersion env kliqID) (\<lambda>nxt.
       guardE (version < nxt)
         (Errorf ''assignment version %d is older than existing version %d'' [int_digits version, int_digits (int64_add nxt (- 1))])
      (bindE (lift (fe_decAssignment env (env_Payload envelope))) (\<lambda>a.
       pg_publish env ctx kliqID version envelope a))))))"

text \<open>\<^verbatim>\<open>ORDER BY assignment_version DESC LIMIT 1\<close>.\<close>

fun latest_row :: "pg_assignment list \<Rightarrow> pg_assignment option" where
  "latest_row [] = None"
| "latest_row (r # rs) =
     (case latest_row rs of None \<Rightarrow> Some r
      | Some s \<Rightarrow> if pa_assignment_version r < pa_assignment_version s then Some s else Some r)"

definition pg_latest :: "string \<Rightarrow> postgres \<Rightarrow> pg_assignment option" where
  "pg_latest kliqID d = latest_row (filter (\<lambda>r. pa_kliq_id r = kliqID) (pg_assignments d))"

definition pg_LatestAssignment :: "'e forge_env_scheme \<Rightarrow> audit_context \<Rightarrow> string \<Rightarrow> SignedEnvelope pgop" where
  "pg_LatestAssignment env ctx kliqID =
     bindE (query env (\<lambda>d. case pg_latest kliqID d of None \<Rightarrow> Inl ErrManagementNotFound | Some r \<Rightarrow> Inr r)) (\<lambda>r.
     guardE (pa_revoked_at r \<noteq> None) ErrManagementNotFound
    (let envelope = pa_envelope_json r in
     bindE (read_clock env) (\<lambda>now.
     bindE (pg_SaveAuditEvent env ctx (auditEvent ctx ''assignment_pulled'' ''kliq_assignment''
              (kliqID @ '':'' @ env_PayloadSHA256 envelope) kliqID [] [] [] now
              [(''digest'', JString (assignmentDigest env envelope))])) (\<lambda>_.
     ret envelope))))"

definition pg_revoke_assignment :: "string \<Rightarrow> int \<Rightarrow> string \<Rightarrow> gotime \<Rightarrow> postgres \<Rightarrow> postgres result" where
  "pg_revoke_assignment kliqID version reason revokedAt d =
     (if \<exists>r \<in> set (pg_assignments d). pa_kliq_id r = kliqID \<and> pa_assignment_version r = version
      then Inr (d\<lparr>pg_assignments := update_rows (\<lambda>r. pa_kliq_id r = kliqID \<and> pa_assignment_version r = version)
             (\<lambda>r. r\<lparr>pa_revoked_at := Some revokedAt, pa_revoked_reason := reason\<rparr>) (pg_assignments d)\<rparr>)
      else Inl ErrManagementNotFound)"

definition pg_RevokeAssignment ::
  "'e forge_env_scheme \<Rightarrow> audit_context \<Rightarrow> string \<Rightarrow> int \<Rightarrow> string \<Rightarrow> gotime \<Rightarrow> unit pgop" where
  "pg_RevokeAssignment env ctx kliqID version reason revokedAt =
     bindE (execute env (pg_revoke_assignment kliqID version reason revokedAt)) (\<lambda>_.
     saveRevocation env ctx ''kliq_assignment'' (assignment_target kliqID version) reason revokedAt kliqID)"

section \<open>Reports\<close>

definition pg_SaveHeartbeat :: "'e forge_env_scheme \<Rightarrow> KLIQHeartbeat \<Rightarrow> unit pgop" where
  "pg_SaveHeartbeat env h =
     execute env (\<lambda>d. if \<not> registered (hb_KLIQID h) d then Inl (violates ''kliq_heartbeats_kliq_id_fkey'')
       else Inr (d\<lparr>pg_heartbeats := upsert_row hb_KLIQID h (pg_heartbeats d)\<rparr>))"

definition pg_SaveStatusReport :: "'e forge_env_scheme \<Rightarrow> KLIQStatusReport \<Rightarrow> unit pgop" where
  "pg_SaveStatusReport env r =
     execute env (\<lambda>d. if \<not> registered (sr_KLIQID r) d then Inl (violates ''kliq_status_reports_kliq_id_fkey'')
       else Inr (d\<lparr>pg_status_reports := upsert_row sr_KLIQID r (pg_status_reports d)\<rparr>))"

definition pg_StatusReport :: "'e forge_env_scheme \<Rightarrow> string \<Rightarrow> KLIQStatusReport pgop" where
  "pg_StatusReport env kliqID = query_row env pg_status_reports (\<lambda>r. sr_KLIQID r = kliqID)"

end
