(* ===== verification/Forge_Ledger.thy ===== *)
theory Forge_Ledger
  imports Forge_Postgres
begin

text \<open>
  What a management store promises, whichever of the two it is. Three views of a store are
  ledgers with a step relation each: the trust bundles by key, the latest assignment by KLIQ,
  and the enrollment secrets that are spent. The locale \<open>management_store\<close> states that every
  operation moves each ledger by one of its steps; what follows for whole histories of
  operations is proved once, in the locale. The in-memory store and the PostgreSQL store are
  both interpretations, the second for every pattern of database faults.
\<close>

section \<open>Operations\<close>

datatype mgmt_op =
    OpCreateToken audit_context KLIQEnrollmentToken string
  | OpUseToken audit_context string string string string gotime
  | OpRevokeToken audit_context string string gotime
  | OpRegister audit_context KLIQRegistration
  | OpRevokeKLIQ audit_context string string gotime
  | OpSaveTrust TrustBundle
  | OpRotateTrust audit_context string TrustBundle string gotime
  | OpRevokeTrust audit_context string string gotime
  | OpSaveAssignment audit_context string int SignedEnvelope
  | OpLatestAssignment audit_context string
  | OpRevokeAssignment audit_context string int string gotime
  | OpHeartbeat KLIQHeartbeat
  | OpStatusReport KLIQStatusReport
  | OpAuditEvent audit_context ManagementAuditEvent

fun mem_op :: "'e forge_env_scheme \<Rightarrow> mgmt_op \<Rightarrow> unit mem" where
  "mem_op env (OpCreateToken ctx t secret) = mem_CreateEnrollmentToken env ctx t secret"
| "mem_op env (OpUseToken ctx secret environment stage scope t) = finish (mem_UseEnrollmentToken env ctx secret environment stage scope t)"
| "mem_op env (OpRevokeToken ctx tokenID reason t) = mem_RevokeEnrollmentToken env ctx tokenID reason t"
| "mem_op env (OpRegister ctx r) = mem_Register env ctx r"
| "mem_op env (OpRevokeKLIQ ctx kliqID reason t) = mem_RevokeKLIQ env ctx kliqID reason t"
| "mem_op env (OpSaveTrust b) = mem_SaveTrustBundle b"
| "mem_op env (OpRotateTrust ctx key b reason t) = mem_RotateTrustBundle env ctx key b reason t"
| "mem_op env (OpRevokeTrust ctx key reason t) = mem_RevokeTrustBundle env ctx key reason t"
| "mem_op env (OpSaveAssignment ctx kliqID v e) = mem_SaveAssignment env ctx kliqID v e"
| "mem_op env (OpLatestAssignment ctx kliqID) = finish (mem_LatestAssignment env ctx kliqID)"
| "mem_op env (OpRevokeAssignment ctx kliqID v reason t) = mem_RevokeAssignment env ctx kliqID v reason t"
| "mem_op env (OpHeartbeat h) = mem_SaveHeartbeat h"
| "mem_op env (OpStatusReport r) = mem_SaveStatusReport r"
| "mem_op env (OpAuditEvent ctx e) = mem_SaveAuditEvent env ctx e"

fun pg_op :: "'e forge_env_scheme \<Rightarrow> mgmt_op \<Rightarrow> unit pgop" where
  "pg_op env (OpCreateToken ctx t secret) = pg_CreateEnrollmentToken env ctx t secret"
| "pg_op env (OpUseToken ctx secret environment stage scope t) = finish (pg_UseEnrollmentToken env ctx secret environment stage scope t)"
| "pg_op env (OpRevokeToken ctx tokenID reason t) = pg_RevokeEnrollmentToken env ctx tokenID reason t"
| "pg_op env (OpRegister ctx r) = pg_Register env ctx r"
| "pg_op env (OpRevokeKLIQ ctx kliqID reason t) = pg_RevokeKLIQ env ctx kliqID reason t"
| "pg_op env (OpSaveTrust b) = pg_SaveTrustBundle env b"
| "pg_op env (OpRotateTrust ctx key b reason t) = pg_RotateTrustBundle env ctx key b reason t"
| "pg_op env (OpRevokeTrust ctx key reason t) = pg_RevokeTrustBundle env ctx key reason t"
| "pg_op env (OpSaveAssignment ctx kliqID v e) = pg_SaveAssignment env ctx kliqID v e"
| "pg_op env (OpLatestAssignment ctx kliqID) = finish (pg_LatestAssignment env ctx kliqID)"
| "pg_op env (OpRevokeAssignment ctx kliqID v reason t) = pg_RevokeAssignment env ctx kliqID v reason t"
| "pg_op env (OpHeartbeat h) = pg_SaveHeartbeat env h"
| "pg_op env (OpStatusReport r) = pg_SaveStatusReport env r"
| "pg_op env (OpAuditEvent ctx e) = pg_SaveAuditEvent env ctx e"

text \<open>The API passes the current time, which is never the zero time, where a time marks a use or a revocation.\<close>

fun timed :: "mgmt_op \<Rightarrow> bool" where
  "timed (OpUseToken ctx secret environment stage scope t) = (\<not> IsZero t)"
| "timed (OpRevokeToken ctx tokenID reason t) = (\<not> IsZero t)"
| "timed (OpRevokeAssignment ctx kliqID v reason t) = (\<not> IsZero t)"
| "timed op = True"

text \<open>The hash of the secret an operation creates a token for.\<close>

fun creates :: "'e forge_env_scheme \<Rightarrow> mgmt_op \<Rightarrow> string option" where
  "creates env (OpCreateToken ctx t secret) = Some (TokenSHA256 env secret)"
| "creates env op = None"

section \<open>The three ledgers\<close>

inductive trust_step :: "(string \<rightharpoonup> TrustBundle) \<Rightarrow> (string \<rightharpoonup> TrustBundle) \<Rightarrow> bool" where
  trust_same: "trust_step T T"
| trust_save: "validateNewTrustBundle b = Inr () \<Longrightarrow> tb_Status b \<noteq> [] \<Longrightarrow>
    (\<And>e. T (tb_KeyID b) = Some e \<Longrightarrow> validateTrustBundleUpdate e b = Inr ()) \<Longrightarrow> trust_step T (T(tb_KeyID b \<mapsto> b))"
| trust_rotate: "T k = Some c \<Longrightarrow> tb_Status c = ''active'' \<Longrightarrow> T (tb_KeyID n) = None \<Longrightarrow> validateNewTrustBundle n = Inr () \<Longrightarrow>
    tb_Status n = ''active'' \<Longrightarrow> (tb_Purpose c \<noteq> [] \<Longrightarrow> tb_Purpose n = tb_Purpose c) \<Longrightarrow>
    trust_step T (T(k \<mapsto> c\<lparr>tb_Status := ''previous''\<rparr>, tb_KeyID n \<mapsto> n))"
| trust_revoke: "T k = Some b \<Longrightarrow> trust_step T (T(k \<mapsto> b\<lparr>tb_Status := ''revoked''\<rparr>))"

text \<open>The latest assignment of a KLIQ: its version, its envelope, and whether it is revoked.\<close>

type_synonym latest_view = "string \<rightharpoonup> int \<times> SignedEnvelope \<times> bool"

inductive latest_step :: "latest_view \<Rightarrow> latest_view \<Rightarrow> bool" where
  latest_same: "latest_step A A"
| latest_publish: "(\<And>v' e' r. A k = Some (v', e', r) \<Longrightarrow> v' < v) \<Longrightarrow> latest_step A (A(k \<mapsto> (v, e, False)))"
| latest_revoke: "A k = Some (v, e, r) \<Longrightarrow> latest_step A (A(k \<mapsto> (v, e, True)))"

text \<open>What the steps of the trust ledger keep: keys are pinned, revoked is final.\<close>

definition trust_ok :: "(string \<rightharpoonup> TrustBundle) \<Rightarrow> bool" where
  "trust_ok T \<longleftrightarrow> (\<forall>k b. T k = Some b \<longrightarrow> tb_KeyID b = k \<and> tb_PublicKey b \<noteq> [])"

definition pinned :: "(string \<rightharpoonup> TrustBundle) \<Rightarrow> (string \<rightharpoonup> TrustBundle) \<Rightarrow> bool" where
  "pinned T T' \<longleftrightarrow> (\<forall>k b. T k = Some b \<longrightarrow> (\<exists>b'. T' k = Some b' \<and> tb_PublicKey b' = tb_PublicKey b \<and>
     status_moves (tb_Status b) (tb_Status b')))"

lemma pinned_refl: "pinned T T"
  by (simp add: pinned_def)

lemma pinnedD:
  "pinned T T' \<Longrightarrow> T k = Some b \<Longrightarrow>
     \<exists>b'. T' k = Some b' \<and> tb_PublicKey b' = tb_PublicKey b \<and> status_moves (tb_Status b) (tb_Status b')"
  by (simp add: pinned_def)

lemma pinnedI:
  "(\<And>k b. T k = Some b \<Longrightarrow> \<exists>b'. T' k = Some b' \<and> tb_PublicKey b' = tb_PublicKey b \<and> status_moves (tb_Status b) (tb_Status b')) \<Longrightarrow>
     pinned T T'"
  by (simp add: pinned_def)

lemma pinned_trans:
  assumes "pinned T U" and "pinned U V"
  shows "pinned T V"
proof (rule pinnedI)
  fix k b
  assume "T k = Some b"
  from pinnedD [OF assms(1) this] obtain b1 where b1: "U k = Some b1" "tb_PublicKey b1 = tb_PublicKey b"
    "status_moves (tb_Status b) (tb_Status b1)" by blast
  from pinnedD [OF assms(2) b1(1)] obtain b2 where "V k = Some b2" "tb_PublicKey b2 = tb_PublicKey b1"
    "status_moves (tb_Status b1) (tb_Status b2)" by blast
  with b1 show "\<exists>b'. V k = Some b' \<and> tb_PublicKey b' = tb_PublicKey b \<and> status_moves (tb_Status b) (tb_Status b')"
    using status_moves_trans by (intro exI [of _ b2]) simp
qed

lemma trust_okD: "trust_ok T \<Longrightarrow> T k = Some b \<Longrightarrow> tb_KeyID b = k \<and> tb_PublicKey b \<noteq> []"
  by (simp add: trust_ok_def)

lemma trust_ok_upd: "trust_ok T \<Longrightarrow> tb_KeyID b = k \<Longrightarrow> tb_PublicKey b \<noteq> [] \<Longrightarrow> trust_ok (T(k \<mapsto> b))"
  by (simp add: trust_ok_def)

lemma new_bundle_has_key: "validateNewTrustBundle b = Inr () \<Longrightarrow> tb_PublicKey b \<noteq> []"
  by (auto simp: validateNewTrustBundle_iff blank_iff)

lemma trust_step_pinned:
  assumes "trust_step T T'" and ok: "trust_ok T"
  shows "trust_ok T' \<and> pinned T T'"
  using assms(1)
proof cases
  case trust_same
  with ok show ?thesis by (simp add: pinned_refl)
next
  case (trust_save b)
  have b: "tb_PublicKey b \<noteq> []" by (rule new_bundle_has_key) (fact trust_save)
  have "pinned T T'"
  proof (rule pinnedI)
    fix k e
    assume e: "T k = Some e"
    show "\<exists>b'. T' k = Some b' \<and> tb_PublicKey b' = tb_PublicKey e \<and> status_moves (tb_Status e) (tb_Status b')"
    proof (cases "k = tb_KeyID b")
      case True
      with e have "validateTrustBundleUpdate e b = Inr ()" by (intro trust_save(4)) simp
      from validateTrustBundleUpdate_moves [OF this trust_save(3)] b trust_okD [OF ok e] show ?thesis
        by (simp add: trust_save(1) True)
    qed (simp add: e trust_save(1))
  qed
  with b ok show ?thesis by (simp add: trust_save(1) trust_ok_upd)
next
  case (trust_rotate k c n)
  have n: "tb_PublicKey n \<noteq> []" by (rule new_bundle_has_key) (fact trust_rotate)
  have c: "tb_KeyID c = k" "tb_PublicKey c \<noteq> []" using trust_okD [OF ok trust_rotate(2)] by auto
  have "k \<noteq> tb_KeyID n" using trust_rotate(2,4) by auto
  then have "pinned T T'"
    by (intro pinnedI) (use trust_rotate(2,3,4) in \<open>auto simp: trust_rotate(1)\<close>)
  with n c ok show ?thesis by (simp add: trust_rotate(1) trust_ok_upd)
next
  case (trust_revoke k b)
  have "pinned T T'" by (intro pinnedI) (use trust_revoke(2) in \<open>auto simp: trust_revoke(1)\<close>)
  with trust_okD [OF ok trust_revoke(2)] ok show ?thesis by (simp add: trust_revoke(1) trust_ok_upd)
qed

text \<open>What the steps of the assignment ledger keep: versions grow, a revoked version stays revoked.\<close>

definition advances :: "latest_view \<Rightarrow> latest_view \<Rightarrow> bool" where
  "advances A A' \<longleftrightarrow> (\<forall>k v e r. A k = Some (v, e, r) \<longrightarrow> (\<exists>v' e' r'. A' k = Some (v', e', r') \<and> v \<le> v' \<and>
     (v' = v \<longrightarrow> e' = e \<and> (r \<longrightarrow> r'))))"

lemma advances_refl: "advances A A"
  by (auto simp: advances_def)

lemma advancesI:
  "(\<And>k v e r. A k = Some (v, e, r) \<Longrightarrow> \<exists>v' e' r'. A' k = Some (v', e', r') \<and> v \<le> v' \<and> (v' = v \<longrightarrow> e' = e \<and> (r \<longrightarrow> r'))) \<Longrightarrow>
     advances A A'"
  by (simp add: advances_def)

lemma advancesD:
  "advances A A' \<Longrightarrow> A k = Some (v, e, r) \<Longrightarrow> \<exists>v' e' r'. A' k = Some (v', e', r') \<and> v \<le> v' \<and> (v' = v \<longrightarrow> e' = e \<and> (r \<longrightarrow> r'))"
  by (simp add: advances_def)

lemma advances_trans:
  assumes "advances A B" and "advances B C"
  shows "advances A C"
proof (rule advancesI)
  fix k v e r
  assume "A k = Some (v, e, r)"
  from advancesD [OF assms(1) this] obtain v1 e1 r1 where 1: "B k = Some (v1, e1, r1)" "v \<le> v1" "v1 = v \<longrightarrow> e1 = e \<and> (r \<longrightarrow> r1)" by blast
  from advancesD [OF assms(2) 1(1)] obtain v2 e2 r2 where "C k = Some (v2, e2, r2)" "v1 \<le> v2" "v2 = v1 \<longrightarrow> e2 = e1 \<and> (r1 \<longrightarrow> r2)" by blast
  with 1 show "\<exists>v' e' r'. C k = Some (v', e', r') \<and> v \<le> v' \<and> (v' = v \<longrightarrow> e' = e \<and> (r \<longrightarrow> r'))"
    by (intro exI [of _ v2] exI [of _ e2] exI [of _ r2]) auto
qed

lemma latest_step_advances:
  assumes "latest_step A A'"
  shows "advances A A'"
  using assms
proof cases
  case (latest_publish k v e)
  show ?thesis
    by (rule advancesI) (use latest_publish(2) in \<open>auto simp: latest_publish(1) dest: less_imp_le\<close>)
qed (auto simp: advances_refl intro!: advancesI exI [of _ True])

section \<open>The contract\<close>

locale management_store =
  fixes run :: "mgmt_op \<Rightarrow> ('d, unit, unit) action"
    and hash :: "string \<Rightarrow> string"
    and created :: "mgmt_op \<Rightarrow> string option"
    and inv :: "'d \<Rightarrow> bool"
    and trust :: "'d \<Rightarrow> string \<rightharpoonup> TrustBundle"
    and latest :: "'d \<Rightarrow> latest_view"
    and spent :: "'d \<Rightarrow> string \<Rightarrow> bool"
  assumes keeps_inv: "inv (db w) \<Longrightarrow> run op w = (r, w') \<Longrightarrow> inv (db w')"
    and trust_valid: "inv d \<Longrightarrow> trust_ok (trust d)"
    and trust_law: "inv (db w) \<Longrightarrow> run op w = (r, w') \<Longrightarrow> trust_step (trust (db w)) (trust (db w'))"
    and latest_law: "inv (db w) \<Longrightarrow> timed op \<Longrightarrow> run op w = (r, w') \<Longrightarrow> latest_step (latest (db w)) (latest (db w'))"
    and spent_law: "inv (db w) \<Longrightarrow> timed op \<Longrightarrow> run op w = (r, w') \<Longrightarrow> created op \<noteq> Some h \<Longrightarrow> spent (db w) h \<Longrightarrow> spent (db w') h"
    and use_law: "inv (db w) \<Longrightarrow> \<not> IsZero t \<Longrightarrow> run (OpUseToken ctx secret environment stage scope t) w = (Inr u, w') \<Longrightarrow>
      \<not> spent (db w) (hash secret) \<and> spent (db w') (hash secret)"
begin

lemma after_inv: "inv (db w) \<Longrightarrow> inv (db (after run ops w))"
  by (induction ops arbitrary: w) (auto intro: keeps_inv prod.collapse [symmetric])

lemma history_pinned:
  assumes "inv (db w)"
  shows "pinned (trust (db w)) (trust (db (after run ops w)))"
  using assms
proof (induction ops arbitrary: w)
  case (Cons op ops)
  have step: "run op w = (fst (run op w), snd (run op w))" by simp
  have "pinned (trust (db w)) (trust (db (snd (run op w))))"
    using trust_step_pinned [OF trust_law [OF Cons.prems step] trust_valid [OF Cons.prems]] by simp
  moreover have "pinned (trust (db (snd (run op w)))) (trust (db (after run ops (snd (run op w)))))"
    by (rule Cons.IH) (rule keeps_inv [OF Cons.prems step])
  ultimately show ?case using pinned_trans by simp
qed (simp add: pinned_refl)

lemma history_advances:
  assumes "inv (db w)" and "list_all timed ops"
  shows "advances (latest (db w)) (latest (db (after run ops w)))"
  using assms
proof (induction ops arbitrary: w)
  case (Cons op ops)
  have step: "run op w = (fst (run op w), snd (run op w))" by simp
  have "advances (latest (db w)) (latest (db (snd (run op w))))"
    by (rule latest_step_advances, rule latest_law [OF Cons.prems(1) _ step]) (use Cons.prems(2) in simp)
  moreover have "advances (latest (db (snd (run op w)))) (latest (db (after run ops (snd (run op w)))))"
    by (rule Cons.IH) (use keeps_inv [OF Cons.prems(1) step] Cons.prems(2) in auto)
  ultimately show ?case using advances_trans by simp
qed (simp add: advances_refl)

lemma spent_forever:
  assumes "inv (db w)" and "list_all timed ops" and "list_all (\<lambda>op. created op \<noteq> Some h) ops" and "spent (db w) h"
  shows "spent (db (after run ops w)) h"
  using assms
proof (induction ops arbitrary: w)
  case (Cons op ops)
  have step: "run op w = (fst (run op w), snd (run op w))" by simp
  have "spent (db (snd (run op w))) h" by (rule spent_law [OF _ _ step]) (use Cons.prems in auto)
  with Cons keeps_inv [OF Cons.prems(1) step] show ?case by simp
qed simp

lemma single_use:
  assumes "inv (db w)" and "\<not> IsZero t" and "run (OpUseToken ctx secret environment stage scope t) w = (Inr u, w1)"
    and "list_all timed ops" and "list_all (\<lambda>op. created op \<noteq> Some (hash secret)) ops" and "\<not> IsZero t'"
  shows "run (OpUseToken ctx' secret environment' stage' scope' t') (after run ops w1) \<noteq> (Inr u', w2)"
proof
  assume again: "run (OpUseToken ctx' secret environment' stage' scope' t') (after run ops w1) = (Inr u', w2)"
  have w1: "inv (db w1)" by (rule keeps_inv [OF assms(1,3)])
  have "spent (db w1) (hash secret)" using use_law [OF assms(1-3)] by simp
  from spent_forever [OF w1 assms(4,5) this] have "spent (db (after run ops w1)) (hash secret)" .
  with use_law [OF after_inv [OF w1] assms(6) again] show False by simp
qed

end

end
