(* ===== verification/Forge_Stores.thy ===== *)
theory Forge_Stores
  imports Forge_Ledger
begin

text \<open>
  Both management stores satisfy the contract. For each, a first group of lemmas says which
  operations leave a ledger alone; the remaining operations are taken apart one by one.
\<close>

section \<open>Invariants of a store\<close>

lemma keeps_gets: "keeps_inv I (gets f)"
  by (simp add: keeps_inv_def gets_def)

lemma keeps_puts: "(\<And>w. I w \<Longrightarrow> I (w\<lparr>db := f (db w)\<rparr>)) \<Longrightarrow> keeps_inv I (puts f)"
  by (simp add: keeps_inv_def puts_def)

lemma keeps_entry: "keeps_inv I (entry f k)"
  unfolding entry_def by (intro keeps keeps_gets)

section \<open>The in-memory store\<close>

text \<open>
  An invariant that does not look at the audit trail, the revocations, the registrations and
  the reports. Each group of operations keeps it as soon as writing its own maps does.
\<close>

locale mem_frame = world_invariant I for I :: "(MemoryStore, unit) world \<Rightarrow> bool" +
  assumes trail: "I w \<Longrightarrow> I (w\<lparr>db := (db w)\<lparr>mem_auditEvents := es\<rparr>\<rparr>)"
    and revs: "I w \<Longrightarrow> I (w\<lparr>db := (db w)\<lparr>mem_revocations := rs\<rparr>\<rparr>)"
    and regs: "I w \<Longrightarrow> I (w\<lparr>db := (db w)\<lparr>mem_registrations := gs, mem_identities := js\<rparr>\<rparr>)"
    and beats: "I w \<Longrightarrow> I (w\<lparr>db := (db w)\<lparr>mem_heartbeats := hs\<rparr>\<rparr>)"
    and stats: "I w \<Longrightarrow> I (w\<lparr>db := (db w)\<lparr>mem_statusReports := ss\<rparr>\<rparr>)"
begin

lemma keeps_appendAuditLocked: "keeps_inv I (appendAuditLocked env e)"
  unfolding appendAuditLocked_def Let_def by (intro keeps keeps_puts keeps_read_clock trail)

lemma keeps_record_revocation: "keeps_inv I (record_revocation env ctx tt tid h reason t k)"
  unfolding record_revocation_def by (intro keeps keeps_puts keeps_appendAuditLocked revs)

lemmas keeps_mem = keeps keeps_gets keeps_entry keeps_finish keeps_read_clock keeps_appendAuditLocked keeps_record_revocation

lemma keeps_registrations: "keeps_inv I (mem_Register env ctx r)" "keeps_inv I (mem_RevokeKLIQ env ctx kliqID reason t)"
  unfolding mem_Register_def mem_RevokeKLIQ_def revoke_kliq_def Let_def by (intro keeps_mem keeps_puts regs; assumption)+

lemma keeps_reports: "keeps_inv I (mem_SaveHeartbeat h)" "keeps_inv I (mem_SaveStatusReport r)"
    "keeps_inv I (mem_SaveAuditEvent env ctx e)" "keeps_inv I (mem_LatestAssignment env ctx kliqID)"
  unfolding mem_SaveHeartbeat_def mem_SaveStatusReport_def mem_SaveAuditEvent_def mem_LatestAssignment_def
  by (intro keeps_mem keeps_puts beats stats; assumption)+

lemma keeps_tokens:
  assumes "\<And>w a b. I w \<Longrightarrow> I (w\<lparr>db := (db w)\<lparr>mem_tokensByHash := a, mem_tokensByID := b\<rparr>\<rparr>)"
  shows "keeps_inv I (mem_CreateEnrollmentToken env ctx token secret)"
    "keeps_inv I (mem_UseEnrollmentToken env ctx secret environment stage scope t)"
    "keeps_inv I (mem_RevokeEnrollmentToken env ctx tokenID reason t)"
  unfolding mem_CreateEnrollmentToken_def mem_UseEnrollmentToken_def mem_RevokeEnrollmentToken_def save_token_def Let_def
  by (intro keeps_mem keeps_puts assms; assumption)+

lemma keeps_trust:
  assumes "\<And>w a. I w \<Longrightarrow> I (w\<lparr>db := (db w)\<lparr>mem_trustBundles := a\<rparr>\<rparr>)"
  shows "keeps_inv I (mem_SaveTrustBundle b)" "keeps_inv I (mem_RotateTrustBundle env ctx key b reason t)"
    "keeps_inv I (mem_RevokeTrustBundle env ctx key reason t)"
  unfolding mem_SaveTrustBundle_def mem_RotateTrustBundle_def mem_RevokeTrustBundle_def put_trust_def Let_def
  by (intro keeps_mem keeps_puts assms; assumption)+

lemma keeps_assignments:
  assumes "\<And>w a. I w \<Longrightarrow> I (w\<lparr>db := (db w)\<lparr>mem_assignments := a\<rparr>\<rparr>)"
  shows "keeps_inv I (mem_SaveAssignment env ctx kliqID v e)" "keeps_inv I (mem_RevokeAssignment env ctx kliqID v reason t)"
  unfolding mem_SaveAssignment_def mem_RevokeAssignment_def publish_assignment_def
  by (intro keeps_mem keeps_puts assms; assumption)+

end

interpretation mem_hashes: mem_frame "\<lambda>w. mem_tokensByHash (db w) = a" for a by unfold_locales simp_all
interpretation mem_bundles: mem_frame "\<lambda>w. mem_trustBundles (db w) = a" for a by unfold_locales simp_all
interpretation mem_versions: mem_frame "\<lambda>w. mem_assignments (db w) = a" for a by unfold_locales simp_all

fun about_tokens :: "mgmt_op \<Rightarrow> bool" where
  "about_tokens (OpCreateToken ctx t secret) = True"
| "about_tokens (OpUseToken ctx secret environment stage scope t) = True"
| "about_tokens (OpRevokeToken ctx tokenID reason t) = True"
| "about_tokens op = False"

fun about_trust :: "mgmt_op \<Rightarrow> bool" where
  "about_trust (OpSaveTrust b) = True"
| "about_trust (OpRotateTrust ctx key b reason t) = True"
| "about_trust (OpRevokeTrust ctx key reason t) = True"
| "about_trust op = False"

fun about_assignments :: "mgmt_op \<Rightarrow> bool" where
  "about_assignments (OpSaveAssignment ctx kliqID v e) = True"
| "about_assignments (OpRevokeAssignment ctx kliqID v reason t) = True"
| "about_assignments op = False"

lemma mem_tokens_frame: "\<not> about_tokens op \<Longrightarrow> keeps_inv (\<lambda>w. mem_tokensByHash (db w) = a) (mem_op env op)"
  by (cases op) (auto intro!: mem_hashes.keeps_registrations mem_hashes.keeps_reports mem_hashes.keeps_trust
      mem_hashes.keeps_assignments keeps_finish)

lemma mem_trust_frame: "\<not> about_trust op \<Longrightarrow> keeps_inv (\<lambda>w. mem_trustBundles (db w) = a) (mem_op env op)"
  by (cases op) (auto intro!: mem_bundles.keeps_registrations mem_bundles.keeps_reports mem_bundles.keeps_tokens
      mem_bundles.keeps_assignments keeps_finish)

lemma mem_assignments_frame: "\<not> about_assignments op \<Longrightarrow> keeps_inv (\<lambda>w. mem_assignments (db w) = a) (mem_op env op)"
  by (cases op) (auto intro!: mem_versions.keeps_registrations mem_versions.keeps_reports mem_versions.keeps_tokens
      mem_versions.keeps_trust keeps_finish)

text \<open>The ledgers of the in-memory store.\<close>

definition spent_token :: "KLIQEnrollmentToken \<Rightarrow> bool" where
  "spent_token t \<longleftrightarrow> \<not> IsZero (et_UsedAt t) \<or> \<not> IsZero (et_RevokedAt t)"

definition mem_inv :: "MemoryStore \<Rightarrow> bool" where
  "mem_inv d \<longleftrightarrow> trust_ok (mem_trustBundles d) \<and> (\<forall>h t. mem_tokensByHash d h = Some t \<longrightarrow> et_TokenSHA256 t = h)"

definition mem_latest :: "MemoryStore \<Rightarrow> latest_view" where
  "mem_latest d k = map_option (\<lambda>r. (ag_Version r, ag_Envelope r, \<not> IsZero (ag_RevokedAt r))) (mem_assignments d k)"

definition mem_spent :: "MemoryStore \<Rightarrow> string \<Rightarrow> bool" where
  "mem_spent d h \<longleftrightarrow> (\<exists>t. mem_tokensByHash d h = Some t \<and> spent_token t)"

lemma appendAuditLocked_run:
  "\<exists>w'. appendAuditLocked env e w = (Inr (), w') \<and> mem_tokensByHash (db w') = mem_tokensByHash (db w) \<and>
     mem_trustBundles (db w') = mem_trustBundles (db w) \<and> mem_assignments (db w') = mem_assignments (db w)"
  by (auto simp: appendAuditLocked_def Let_def bindE_def read_clock_def ret_def puts_def)

lemma record_revocation_run:
  "\<exists>w'. record_revocation env ctx tt tid h reason t k w = (Inr (), w') \<and> mem_tokensByHash (db w') = mem_tokensByHash (db w) \<and>
     mem_trustBundles (db w') = mem_trustBundles (db w) \<and> mem_assignments (db w') = mem_assignments (db w)"
proof -
  obtain w1 where w1: "record_revocation env ctx tt tid h reason t k w = appendAuditLocked env
      ((new_event ctx ''revocation'' tt tid t)\<lparr>ev_KLIQID := k, ev_Metadata := [(''reason'', JString reason)]\<rparr>) w1"
    "mem_tokensByHash (db w1) = mem_tokensByHash (db w)" "mem_trustBundles (db w1) = mem_trustBundles (db w)"
    "mem_assignments (db w1) = mem_assignments (db w)"
    by (auto simp: record_revocation_def bindE_def puts_def)
  with appendAuditLocked_run [of env "(new_event ctx ''revocation'' tt tid t)\<lparr>ev_KLIQID := k, ev_Metadata := [(''reason'', JString reason)]\<rparr>" w1]
  show ?thesis by auto
qed

lemmas eval = bindE_def lift_def ret_def raise_def gets_def puts_def entry_def guardE_def

lemma mem_SaveTrustBundle_step:
  assumes "mem_SaveTrustBundle b w = (r, w')"
  shows "trust_step (mem_trustBundles (db w)) (mem_trustBundles (db w'))"
proof (cases "validateNewTrustBundle (default_status b) = Inr () \<and>
    (\<forall>e. mem_trustBundles (db w) (tb_KeyID b) = Some e \<longrightarrow> validateTrustBundleUpdate e (default_status b) = Inr ())")
  case True
  with assms have "mem_trustBundles (db w') = (mem_trustBundles (db w))(tb_KeyID (default_status b) \<mapsto> default_status b)"
    by (cases "mem_trustBundles (db w) (tb_KeyID b)") (auto simp: mem_SaveTrustBundle_def Let_def eval put_trust_def)
  with True trust_save [of "default_status b" "mem_trustBundles (db w)"] show ?thesis by simp
next
  case False
  with assms have "w' = w"
    by (auto simp: mem_SaveTrustBundle_def Let_def eval put_trust_def split: sum.splits option.splits)
  then show ?thesis by (simp add: trust_same)
qed

lemma mem_RevokeTrustBundle_step:
  assumes "mem_RevokeTrustBundle env ctx key reason t w = (r, w')"
  shows "trust_step (mem_trustBundles (db w)) (mem_trustBundles (db w'))"
proof (cases "mem_trustBundles (db w) key")
  case None
  with assms show ?thesis by (auto simp: mem_RevokeTrustBundle_def eval trust_same)
next
  case (Some b)
  let ?w = "w\<lparr>db := put_trust (b\<lparr>tb_Status := ''revoked''\<rparr>) key (db w)\<rparr>"
  from Some assms have "record_revocation env ctx ''trust_key'' key (''trust_key:'' @ key @ fe_timeString env t) reason t [] ?w = (r, w')"
    by (simp add: mem_RevokeTrustBundle_def eval)
  with record_revocation_run [of env ctx "''trust_key''" key "''trust_key:'' @ key @ fe_timeString env t" reason t "[]" ?w]
  have "mem_trustBundles (db w') = (mem_trustBundles (db w))(key \<mapsto> b\<lparr>tb_Status := ''revoked''\<rparr>)" by (auto simp: put_trust_def)
  with trust_revoke [of "mem_trustBundles (db w)" key b] Some show ?thesis by simp
qed

lemma mem_RotateTrustBundle_step:
  assumes "mem_RotateTrustBundle env ctx key0 next0 reason t w = (r, w')"
  shows "trust_step (mem_trustBundles (db w)) (mem_trustBundles (db w'))"
proof -
  define key where "key = TrimSpace key0"
  define n where "n = default_status next0"
  let ?T = "mem_trustBundles (db w)"
  show ?thesis
  proof (cases "\<exists>c. key \<noteq> [] \<and> ?T key = Some c \<and> tb_Status c = ''active'' \<and> validateNewTrustBundle n = Inr () \<and> tb_KeyID n \<noteq> key \<and>
      ?T (tb_KeyID n) = None \<and> \<not> (tb_Purpose c \<noteq> [] \<and> tb_Purpose n \<noteq> tb_Purpose c) \<and> tb_Status n = ''active''")
    case True
    then obtain c where c: "key \<noteq> []" "?T key = Some c" "tb_Status c = ''active''" "validateNewTrustBundle n = Inr ()" "tb_KeyID n \<noteq> key"
      "?T (tb_KeyID n) = None" "\<not> (tb_Purpose c \<noteq> [] \<and> tb_Purpose n \<noteq> tb_Purpose c)" "tb_Status n = ''active''" by blast
    with assms obtain v e where "appendAuditLocked env e v = (r, w')"
      and v: "mem_trustBundles (db v) = ?T(key \<mapsto> c\<lparr>tb_Status := ''previous''\<rparr>, tb_KeyID n \<mapsto> n)"
      by (cases "t = 0") (auto simp: mem_RotateTrustBundle_def Let_def eval read_clock_def put_trust_def
          key_def [symmetric] n_def [symmetric])
    with appendAuditLocked_run [of env e v] have "mem_trustBundles (db w') = mem_trustBundles (db v)" by auto
    with v trust_rotate [of ?T key c n] c show ?thesis by auto
  next
    case False
    with assms have "w' = w"
      by (auto simp: mem_RotateTrustBundle_def Let_def eval key_def [symmetric] n_def [symmetric] split: option.splits sum.splits if_splits)
    then show ?thesis by (simp add: trust_same)
  qed
qed

lemma mem_trust_law:
  assumes "mem_op env op w = (r, w')"
  shows "trust_step (mem_trustBundles (db w)) (mem_trustBundles (db w'))"
proof (cases "about_trust op")
  case True
  with assms show ?thesis
    by (cases op) (auto intro: mem_SaveTrustBundle_step mem_RotateTrustBundle_step mem_RevokeTrustBundle_step)
next
  case False
  from keeps_invD [OF mem_trust_frame [OF False] refl assms] show ?thesis by (simp add: trust_same)
qed

lemma mem_latest_upd:
  "mem_assignments d' = (mem_assignments d)(k \<mapsto> r) \<Longrightarrow>
     mem_latest d' = (mem_latest d)(k \<mapsto> (ag_Version r, ag_Envelope r, \<not> IsZero (ag_RevokedAt r)))"
  by (auto simp: mem_latest_def fun_eq_iff)

lemma publish_assignment_run:
  assumes "publish_assignment env ctx kliqID v e w = (r, w')"
  shows "mem_latest (db w') = (mem_latest (db w))(kliqID \<mapsto> (v, e, False))"
proof -
  from assms obtain w1 x where "appendAuditLocked env x w1 = (r, w')" and
    w1: "mem_assignments (db w1) = (mem_assignments (db w))(kliqID \<mapsto> \<lparr>ag_Version = v, ag_Envelope = e, ag_RevokedAt = 0, ag_RevokedReason = []\<rparr>)"
    by (auto simp: publish_assignment_def eval read_clock_def)
  with appendAuditLocked_run [of env x w1] have "mem_assignments (db w') = mem_assignments (db w1)" by auto
  from mem_latest_upd [of "db w'" "db w", OF this [unfolded w1]] show ?thesis by simp
qed

lemma mem_SaveAssignment_step:
  assumes "mem_SaveAssignment env ctx kliqID v e w = (r, w')"
  shows "latest_step (mem_latest (db w)) (mem_latest (db w'))"
proof (cases "kliqID \<noteq> [] \<and> 0 < v \<and> (\<forall>a. mem_assignments (db w) kliqID = Some a \<longrightarrow> ag_Version a < v)")
  case True
  with assms have "publish_assignment env ctx kliqID v e w = (r, w')"
    by (auto simp: mem_SaveAssignment_def eval split: option.splits)
  from publish_assignment_run [OF this] True show ?thesis
    by (auto intro!: latest_publish simp: mem_latest_def)
next
  case False
  with assms have "w' = w" by (auto simp: mem_SaveAssignment_def eval split: option.splits if_splits)
  then show ?thesis by (simp add: latest_same)
qed

lemma mem_RevokeAssignment_step:
  assumes "mem_RevokeAssignment env ctx kliqID v reason t w = (r, w')" and "\<not> IsZero t"
  shows "latest_step (mem_latest (db w)) (mem_latest (db w'))"
proof (cases "\<exists>a. mem_assignments (db w) kliqID = Some a \<and> ag_Version a = v")
  case True
  then obtain a where a: "mem_assignments (db w) kliqID = Some a" "ag_Version a = v" by blast
  let ?a = "a\<lparr>ag_RevokedAt := t, ag_RevokedReason := reason\<rparr>"
  let ?w = "w\<lparr>db := (db w)\<lparr>mem_assignments := (mem_assignments (db w))(kliqID \<mapsto> ?a)\<rparr>\<rparr>"
  let ?h = "''kliq_assignment:'' @ assignment_target kliqID v @ '':'' @ fe_timeString env t"
  from a assms have "record_revocation env ctx ''kliq_assignment'' (assignment_target kliqID v) ?h reason t kliqID ?w = (r, w')"
    by (simp add: mem_RevokeAssignment_def eval)
  with record_revocation_run [of env ctx "''kliq_assignment''" "assignment_target kliqID v" ?h reason t kliqID ?w]
  have "mem_assignments (db w') = (mem_assignments (db w))(kliqID \<mapsto> ?a)" by auto
  from mem_latest_upd [OF this] have "mem_latest (db w') = (mem_latest (db w))(kliqID \<mapsto> (v, ag_Envelope a, True))"
    using a assms(2) by simp
  moreover have "mem_latest (db w) kliqID = Some (v, ag_Envelope a, \<not> IsZero (ag_RevokedAt a))" using a by (simp add: mem_latest_def)
  ultimately show ?thesis using latest_revoke by metis
next
  case False
  with assms have "w' = w" by (auto simp: mem_RevokeAssignment_def eval split: option.splits if_splits)
  then show ?thesis by (simp add: latest_same)
qed

lemma mem_latest_law:
  assumes "timed op" and "mem_op env op w = (r, w')"
  shows "latest_step (mem_latest (db w)) (mem_latest (db w'))"
proof (cases "about_assignments op")
  case True
  with assms show ?thesis by (cases op) (auto intro: mem_SaveAssignment_step mem_RevokeAssignment_step)
next
  case False
  from keeps_invD [OF mem_assignments_frame [OF False] refl assms(2)] have "mem_latest (db w') = mem_latest (db w)"
    by (simp add: mem_latest_def fun_eq_iff)
  then show ?thesis by (simp add: latest_same)
qed

text \<open>Every operation writes at most one token, under its own hash; all but a creation leave it spent.\<close>

definition token_written :: "(KLIQEnrollmentToken \<Rightarrow> bool) \<Rightarrow> MemoryStore \<Rightarrow> MemoryStore \<Rightarrow> bool" where
  "token_written P d d' \<longleftrightarrow>
     mem_tokensByHash d' = mem_tokensByHash d \<or>
     (\<exists>t. mem_tokensByHash d' = (mem_tokensByHash d)(et_TokenSHA256 t \<mapsto> t) \<and> P t)"

lemma token_writtenI: "mem_tokensByHash d' = (mem_tokensByHash d)(et_TokenSHA256 t \<mapsto> t) \<Longrightarrow> P t \<Longrightarrow> token_written P d d'"
  unfolding token_written_def by blast

lemma token_unwritten: "mem_tokensByHash d' = mem_tokensByHash d \<Longrightarrow> token_written P d d'"
  by (simp add: token_written_def)

lemma mem_CreateEnrollmentToken_written:
  assumes "mem_CreateEnrollmentToken env ctx token secret w = (r, w')"
  shows "token_written (\<lambda>t. et_TokenSHA256 t = TokenSHA256 env secret) (db w) (db w')"
proof (cases "et_TokenID token = [] \<or> secret = []")
  case True
  with assms show ?thesis by (auto simp: mem_CreateEnrollmentToken_def eval intro: token_unwritten)
next
  case False
  with assms obtain v x t where "appendAuditLocked env x v = (r, w')"
    "mem_tokensByHash (db v) = (mem_tokensByHash (db w))(et_TokenSHA256 t \<mapsto> t)" "et_TokenSHA256 t = TokenSHA256 env secret"
    by (cases "et_CreatedAt token = 0") (auto simp: mem_CreateEnrollmentToken_def eval read_clock_def Let_def save_token_def)
  with appendAuditLocked_run [of env x v] show ?thesis by (intro token_writtenI [of _ _ t]) auto
qed

lemma mem_UseEnrollmentToken_written:
  assumes "mem_UseEnrollmentToken env ctx secret environment stage scope t w = (r, w')"
  shows "(w' = w \<and> (\<exists>e. r = Inl e)) \<or> (\<exists>token. mem_tokensByHash (db w) (TokenSHA256 env secret) = Some token \<and>
    token_usable token environment stage scope t = Inr () \<and>
    mem_tokensByHash (db w') = (mem_tokensByHash (db w))(et_TokenSHA256 token \<mapsto> token\<lparr>et_UsedAt := t\<rparr>))"
proof (cases "\<exists>token. mem_tokensByHash (db w) (TokenSHA256 env secret) = Some token \<and> token_usable token environment stage scope t = Inr ()")
  case True
  then obtain token where token: "mem_tokensByHash (db w) (TokenSHA256 env secret) = Some token"
    "token_usable token environment stage scope t = Inr ()" by blast
  let ?t = "token\<lparr>et_UsedAt := t\<rparr>"
  from token assms appendAuditLocked_run [of env "token_event ctx ''enrollment_token_used'' ?t (et_UsedAt ?t)" "w\<lparr>db := save_token ?t (db w)\<rparr>"]
  have "mem_tokensByHash (db w') = (mem_tokensByHash (db w))(et_TokenSHA256 token \<mapsto> ?t)"
    by (auto simp: mem_UseEnrollmentToken_def eval Let_def save_token_def)
  with token show ?thesis by blast
next
  case False
  with assms show ?thesis by (auto simp: mem_UseEnrollmentToken_def eval Let_def split: option.splits sum.splits)
qed

lemma mem_RevokeEnrollmentToken_written:
  assumes "mem_RevokeEnrollmentToken env ctx tokenID reason t w = (r, w')"
  shows "token_written (\<lambda>x. et_RevokedAt x = t) (db w) (db w')"
proof (cases "mem_tokensByID (db w) tokenID")
  case None
  with assms show ?thesis by (auto simp: mem_RevokeEnrollmentToken_def eval intro: token_unwritten)
next
  case (Some token)
  let ?t = "token\<lparr>et_RevokedAt := t, et_RevokedReason := reason\<rparr>"
  from Some assms record_revocation_run [of env ctx "''kliq_enrollment_token''" tokenID
      "''kliq_enrollment_token:'' @ tokenID @ fe_timeString env t" reason t "[]" "w\<lparr>db := save_token ?t (db w)\<rparr>"]
  show ?thesis by (intro token_writtenI [of _ _ ?t]) (auto simp: mem_RevokeEnrollmentToken_def eval save_token_def)
qed

lemma mem_token_written:
  assumes "mem_op env op w = (r, w')"
  shows "token_written (\<lambda>t. timed op \<longrightarrow> creates env op = Some (et_TokenSHA256 t) \<or> spent_token t) (db w) (db w')"
proof (cases "about_tokens op")
  case True
  then show ?thesis
  proof (cases op)
    case (OpCreateToken ctx token secret)
    with assms mem_CreateEnrollmentToken_written [of env ctx token secret w r w'] show ?thesis
      by (auto simp: token_written_def)
  next
    case (OpUseToken ctx secret environment stage scope t)
    with assms obtain x where "mem_UseEnrollmentToken env ctx secret environment stage scope t w = (x, w')"
      by (auto simp: finish_def bindE_def ret_def split: prod.splits sum.splits)
    from mem_UseEnrollmentToken_written [OF this] show ?thesis
    proof (elim disjE exE conjE)
      fix token
      assume "mem_tokensByHash (db w') = (mem_tokensByHash (db w))(et_TokenSHA256 token \<mapsto> token\<lparr>et_UsedAt := t\<rparr>)"
      with OpUseToken show ?thesis
        by (intro token_writtenI [of _ _ "token\<lparr>et_UsedAt := t\<rparr>"]) (simp_all add: spent_token_def)
    qed (simp add: token_unwritten)
  next
    case (OpRevokeToken ctx tokenID reason t)
    with assms mem_RevokeEnrollmentToken_written [of env ctx tokenID reason t w r w'] show ?thesis
      by (auto simp: token_written_def spent_token_def)
  qed simp_all
next
  case False
  from keeps_invD [OF mem_tokens_frame [OF False] refl assms(1)] show ?thesis by (rule token_unwritten)
qed

lemma mem_inv_step:
  assumes "mem_inv (db w)" and "mem_op env op w = (r, w')"
  shows "mem_inv (db w')"
proof -
  have "trust_ok (mem_trustBundles (db w'))"
    using trust_step_pinned [OF mem_trust_law [OF assms(2)]] assms(1) by (simp add: mem_inv_def)
  with mem_token_written [OF assms(2)] assms(1) show ?thesis
    by (auto simp: mem_inv_def token_written_def split: if_splits)
qed

lemma mem_spent_law:
  assumes "timed op" and "mem_op env op w = (r, w')" and "creates env op \<noteq> Some h" and "mem_spent (db w) h"
  shows "mem_spent (db w') h"
  using mem_token_written [OF assms(2)] assms(1,3,4) by (auto simp: mem_spent_def token_written_def)

lemma mem_use_law:
  assumes "mem_inv (db w)" and "\<not> IsZero t" and "mem_op env (OpUseToken ctx secret environment stage scope t) w = (Inr u, w')"
  shows "\<not> mem_spent (db w) (TokenSHA256 env secret) \<and> mem_spent (db w') (TokenSHA256 env secret)"
proof -
  from assms(3) obtain x where "mem_UseEnrollmentToken env ctx secret environment stage scope t w = (Inr x, w')"
    by (auto simp: finish_def bindE_def ret_def split: prod.splits sum.splits)
  from mem_UseEnrollmentToken_written [OF this] obtain token where
    token: "mem_tokensByHash (db w) (TokenSHA256 env secret) = Some token" "token_usable token environment stage scope t = Inr ()"
      "mem_tokensByHash (db w') = (mem_tokensByHash (db w))(et_TokenSHA256 token \<mapsto> token\<lparr>et_UsedAt := t\<rparr>)" by auto
  have "et_TokenSHA256 token = TokenSHA256 env secret" using assms(1) token(1) by (simp add: mem_inv_def)
  with token assms(2) show ?thesis by (simp add: mem_spent_def spent_token_def token_usable_iff)
qed

interpretation memory: management_store "mem_op env" "TokenSHA256 env" "creates env" mem_inv mem_trustBundles mem_latest mem_spent
  for env :: "'e forge_env_scheme"
proof (unfold_locales, goal_cases)
  case (1 w op r w')
  then show ?case by (rule mem_inv_step)
next
  case (2 d)
  then show ?case by (simp add: mem_inv_def)
next
  case (3 w op r w')
  then show ?case by (simp add: mem_trust_law)
next
  case (4 w op r w')
  then show ?case by (simp add: mem_latest_law)
next
  case (5 w op r w' h)
  then show ?case by (simp add: mem_spent_law)
next
  case (6 w t ctx secret environment stage scope u w')
  then show ?case by (rule mem_use_law)
qed

lemma mem_inv_new: "mem_inv NewMemoryStore"
  by (simp add: mem_inv_def trust_ok_def NewMemoryStore_def)

end
