(* ===== verification/Forge_Stores_PG.thy ===== *)
theory Forge_Stores_PG
  imports Forge_Stores
begin

text \<open>
  The PostgreSQL store satisfies the contract of a management store for every pattern of
  faults: whatever statement fails, the ledgers have moved by one step of theirs or not at
  all.
\<close>

text \<open>
  An invariant of the tables that does not look at the audit events, the revocations, the
  artifacts, the identities and the reports.
\<close>

locale pg_frame =
  fixes J :: "postgres \<Rightarrow> bool"
  assumes events: "J d \<Longrightarrow> J (d\<lparr>pg_events := es\<rparr>)"
    and revs: "J d \<Longrightarrow> J (d\<lparr>pg_revocations := rs\<rparr>)"
    and arts: "J d \<Longrightarrow> J (d\<lparr>pg_artifacts := as\<rparr>)"
    and ids: "J d \<Longrightarrow> J (d\<lparr>pg_identities := is\<rparr>)"
    and beats: "J d \<Longrightarrow> J (d\<lparr>pg_heartbeats := hs\<rparr>)"
    and stats: "J d \<Longrightarrow> J (d\<lparr>pg_status_reports := ss\<rparr>)"
begin

lemma keeps_insert_event: "keeps_inv (\<lambda>w. J (db w)) (execute env (pg_insert_event e))"
  by (rule keeps_table_execute) (auto simp: pg_insert_event_def split: if_splits intro: events)

lemma keeps_SaveAuditEvent: "keeps_inv (\<lambda>w. J (db w)) (pg_SaveAuditEvent env ctx e)"
  unfolding pg_SaveAuditEvent_def Let_def by (intro keeps tables.keeps_read_clock keeps_insert_event)

lemma keeps_saveRevocation: "keeps_inv (\<lambda>w. J (db w)) (saveRevocation env ctx tt tid reason t k)"
  unfolding saveRevocation_def Let_def
  by (intro keeps keeps_table_execute keeps_SaveAuditEvent) (auto simp: pg_insert_revocation_def split: if_splits intro: revs)

lemmas keeps_pg = keeps keeps_finish tables.keeps_read_clock tables.keeps_query keeps_SaveAuditEvent keeps_saveRevocation
  keeps_table_transaction

lemma keeps_query_row: "keeps_inv (\<lambda>w. J (db w)) (query_row env table P)"
  unfolding query_row_def by (rule tables.keeps_query)

lemma keeps_pg_reads:
  "keeps_inv (\<lambda>w. J (db w)) (pg_EnrollmentToken env k)" "keeps_inv (\<lambda>w. J (db w)) (pg_Registration env k)"
  "keeps_inv (\<lambda>w. J (db w)) (pg_TrustBundle env k)" "keeps_inv (\<lambda>w. J (db w)) (assignmentEnvelope env k v)"
  "keeps_inv (\<lambda>w. J (db w)) (pg_NextAssignmentVersion env k)"
  unfolding pg_EnrollmentToken_def pg_Registration_def pg_TrustBundle_def assignmentEnvelope_def pg_NextAssignmentVersion_def
  by (intro keeps keeps_query_row tables.keeps_query)+

lemma keeps_registrations:
  assumes regs: "\<And>d gs. J d \<Longrightarrow> J (d\<lparr>pg_registrations := gs\<rparr>)"
  shows "keeps_inv (\<lambda>w. J (db w)) (pg_Register env ctx r)" "keeps_inv (\<lambda>w. J (db w)) (pg_RevokeKLIQ env ctx kliqID reason t)"
proof -
  have "keeps_inv (\<lambda>w. J (db w)) (execute env (pg_insert_registration r'))" for r'
    by (rule keeps_table_execute) (auto simp: pg_insert_registration_def split: if_splits intro: regs)
  moreover have "keeps_inv (\<lambda>w. J (db w)) (execute env (pg_insert_identity k i))" for k i
    by (rule keeps_table_execute) (auto simp: pg_insert_identity_def split: if_splits intro: ids)
  ultimately show "keeps_inv (\<lambda>w. J (db w)) (pg_Register env ctx r)"
    unfolding pg_Register_def Let_def by (intro keeps_pg)
  show "keeps_inv (\<lambda>w. J (db w)) (pg_RevokeKLIQ env ctx kliqID reason t)"
    unfolding pg_RevokeKLIQ_def Let_def
    by (intro keeps_pg keeps_pg_reads keeps_table_execute) (auto intro: regs ids)
qed

lemma keeps_reports:
  "keeps_inv (\<lambda>w. J (db w)) (pg_SaveHeartbeat env h)" "keeps_inv (\<lambda>w. J (db w)) (pg_SaveStatusReport env s)"
  "keeps_inv (\<lambda>w. J (db w)) (pg_LatestAssignment env ctx kliqID)"
  unfolding pg_SaveHeartbeat_def pg_SaveStatusReport_def pg_LatestAssignment_def Let_def
  by (intro keeps_pg keeps_table_execute; auto split: if_splits intro: beats stats)+

lemma keeps_tokens:
  assumes "\<And>d ts. J d \<Longrightarrow> J (d\<lparr>pg_tokens := ts\<rparr>)"
  shows "keeps_inv (\<lambda>w. J (db w)) (pg_CreateEnrollmentToken env ctx token secret)"
    "keeps_inv (\<lambda>w. J (db w)) (pg_UseEnrollmentToken env ctx secret environment stage scope t)"
    "keeps_inv (\<lambda>w. J (db w)) (pg_RevokeEnrollmentToken env ctx tokenID reason t)"
  unfolding pg_CreateEnrollmentToken_def pg_UseEnrollmentToken_def pg_RevokeEnrollmentToken_def Let_def
  by (intro keeps_pg keeps_pg_reads keeps_query_row keeps_table_execute;
      auto simp: pg_insert_token_def pg_use_token_def split: if_splits intro: assms)+

lemma keeps_trust:
  assumes "\<And>d ts. J d \<Longrightarrow> J (d\<lparr>pg_trust_bundles := ts\<rparr>)"
  shows "keeps_inv (\<lambda>w. J (db w)) (pg_SaveTrustBundle env b)"
    "keeps_inv (\<lambda>w. J (db w)) (pg_RotateTrustBundle env ctx key b reason t)"
    "keeps_inv (\<lambda>w. J (db w)) (pg_RevokeTrustBundle env ctx key reason t)"
proof -
  show save: "keeps_inv (\<lambda>w. J (db w)) (pg_SaveTrustBundle env b)" for b
    unfolding pg_SaveTrustBundle_def pg_trust_checked_def pg_trust_write_def Let_def
    by (intro keeps_pg keeps_pg_reads keeps_table_execute) (auto simp: pg_upsert_trust_def intro: assms)
  show "keeps_inv (\<lambda>w. J (db w)) (pg_RotateTrustBundle env ctx key b reason t)"
    unfolding pg_RotateTrustBundle_def pg_rotation_def Let_def
    by (intro keeps_pg keeps_pg_reads keeps_table_execute)
      (auto simp: pg_demote_def pg_insert_trust_def split: if_splits intro: assms)
  show "keeps_inv (\<lambda>w. J (db w)) (pg_RevokeTrustBundle env ctx key reason t)"
    unfolding pg_RevokeTrustBundle_def by (intro keeps_pg keeps_pg_reads save)
qed

lemma keeps_assignments:
  assumes "\<And>d as. J d \<Longrightarrow> J (d\<lparr>pg_assignments := as\<rparr>)"
  shows "keeps_inv (\<lambda>w. J (db w)) (pg_SaveAssignment env ctx kliqID v e)"
    "keeps_inv (\<lambda>w. J (db w)) (pg_RevokeAssignment env ctx kliqID v reason t)"
  unfolding pg_SaveAssignment_def pg_RevokeAssignment_def pg_publish_def
  by (intro keeps_pg keeps_pg_reads keeps_table_execute;
      auto simp: pg_insert_assignment_def pg_insert_artifact_def pg_revoke_assignment_def split: if_splits intro: assms arts)+

end

interpretation pg_secrets: pg_frame "\<lambda>d. pg_tokens d = a" for a by unfold_locales simp_all
interpretation pg_bundles: pg_frame "\<lambda>d. pg_trust_bundles d = a" for a by unfold_locales simp_all
interpretation pg_versions: pg_frame "\<lambda>d. pg_assignments d = a" for a by unfold_locales simp_all

lemma pg_tokens_frame: "\<not> about_tokens op \<Longrightarrow> keeps_inv (\<lambda>w. pg_tokens (db w) = a) (pg_op env op)"
  by (cases op) (auto intro!: pg_secrets.keeps_registrations pg_secrets.keeps_reports pg_secrets.keeps_trust
      pg_secrets.keeps_assignments pg_secrets.keeps_SaveAuditEvent keeps_finish)

lemma pg_trust_frame: "\<not> about_trust op \<Longrightarrow> keeps_inv (\<lambda>w. pg_trust_bundles (db w) = a) (pg_op env op)"
  by (cases op) (auto intro!: pg_bundles.keeps_registrations pg_bundles.keeps_reports pg_bundles.keeps_tokens
      pg_bundles.keeps_assignments pg_bundles.keeps_SaveAuditEvent keeps_finish)

lemma pg_assignments_frame: "\<not> about_assignments op \<Longrightarrow> keeps_inv (\<lambda>w. pg_assignments (db w) = a) (pg_op env op)"
  by (cases op) (auto intro!: pg_versions.keeps_registrations pg_versions.keeps_reports pg_versions.keeps_tokens
      pg_versions.keeps_trust pg_versions.keeps_SaveAuditEvent keeps_finish)

section \<open>Trust bundles\<close>

definition pg_trust_view :: "postgres \<Rightarrow> string \<rightharpoonup> TrustBundle" where
  "pg_trust_view d k = map_option pb_trust_bundle_json (find (\<lambda>r. pb_key_id r = k) (pg_trust_bundles d))"

text \<open>The columns of a row agree with its JSON, and its key is not empty.\<close>

definition trust_row_ok :: "pg_trust \<Rightarrow> bool" where
  "trust_row_ok r \<longleftrightarrow> pb_key_id r = tb_KeyID (pb_trust_bundle_json r) \<and> pb_status r = tb_Status (pb_trust_bundle_json r) \<and>
     tb_PublicKey (pb_trust_bundle_json r) \<noteq> []"

definition trust_rows_ok :: "postgres \<Rightarrow> bool" where
  "trust_rows_ok d \<longleftrightarrow> (\<forall>r \<in> set (pg_trust_bundles d). trust_row_ok r)"

lemma pg_trust_ok: "trust_rows_ok d \<Longrightarrow> trust_ok (pg_trust_view d)"
  by (auto simp: trust_ok_def pg_trust_view_def trust_rows_ok_def trust_row_ok_def dest!: find_SomeD)

lemma pg_trust_upsert: "pg_trust_view (pg_upsert_trust b d) = (pg_trust_view d)(tb_KeyID b \<mapsto> b)"
  by (auto simp: pg_trust_view_def pg_upsert_trust_def trust_row_def find_upsert_row fun_eq_iff)

lemma pg_trust_upsert_ok: "trust_rows_ok d \<Longrightarrow> tb_PublicKey b \<noteq> [] \<Longrightarrow> trust_rows_ok (pg_upsert_trust b d)"
  by (auto simp: trust_rows_ok_def trust_row_ok_def pg_upsert_trust_def upsert_row_def trust_row_def set_update_rows split: if_splits)

lemma pg_TrustBundle_run:
  assumes "pg_TrustBundle env k w = (r, w')"
  shows "db w' = db w \<and> (case r of Inr b \<Rightarrow> pg_trust_view (db w) k = Some b
    | Inl e \<Rightarrow> errors_Is e ErrManagementNotFound \<longrightarrow> pg_trust_view (db w) k = None)"
proof -
  have driver: "\<not> errors_Is (driver_error msg) ErrManagementNotFound" for msg
    by (simp add: driver_error_def ErrManagementNotFound_def)
  from assms show ?thesis
    by (cases "fault env (tick w)"; cases "find (\<lambda>r. pb_key_id r = k) (pg_trust_bundles (db w))")
      (auto simp: pg_TrustBundle_def query_row_def bindE_def query_def statement_def ret_def pg_trust_view_def driver)
qed

lemma pg_trust_checked_run:
  assumes "pg_trust_checked env b0 w = (r, w')"
  shows "db w' = db w \<and> (\<forall>b. r = Inr b \<longrightarrow> b = default_status b0 \<and> validateNewTrustBundle b = Inr () \<and>
    (\<forall>e. pg_trust_view (db w) (tb_KeyID b) = Some e \<longrightarrow> validateTrustBundleUpdate e b = Inr ()))"
proof (cases "validateNewTrustBundle (default_status b0)")
  case (Inl e)
  with assms show ?thesis by (auto simp: pg_trust_checked_def Let_def eval)
next
  case (Inr u)
  obtain s v where run: "pg_TrustBundle env (tb_KeyID b0) w = (s, v)" by (cases "pg_TrustBundle env (tb_KeyID b0) w")
  note t = pg_TrustBundle_run [OF run]
  show ?thesis
  proof (cases s)
    case (Inl e)
    with assms Inr run t show ?thesis by (auto simp: pg_trust_checked_def Let_def eval tryE_def split: if_splits)
  next
    case (Inr old)
    with assms \<open>validateNewTrustBundle (default_status b0) = Inr u\<close> run t show ?thesis
      by (cases "validateTrustBundleUpdate old (default_status b0)") (auto simp: pg_trust_checked_def Let_def eval tryE_def)
  qed
qed

lemma pg_SaveTrustBundle_step:
  assumes "pg_SaveTrustBundle env b0 w = (r, w')" and "trust_rows_ok (db w)"
  shows "trust_step (pg_trust_view (db w)) (pg_trust_view (db w')) \<and> trust_rows_ok (db w')"
proof -
  obtain s v where run: "pg_trust_checked env b0 w = (s, v)" by (cases "pg_trust_checked env b0 w")
  note c = pg_trust_checked_run [OF run]
  show ?thesis
  proof (cases s)
    case (Inl e)
    with assms run c show ?thesis by (auto simp: pg_SaveTrustBundle_def bindE_def trust_same)
  next
    case (Inr b)
    with c have b: "b = default_status b0" "validateNewTrustBundle b = Inr ()"
      "\<And>e. pg_trust_view (db w) (tb_KeyID b) = Some e \<Longrightarrow> validateTrustBundleUpdate e b = Inr ()" by auto
    from assms(1) run Inr have "pg_trust_write env b v = (r, w')" by (simp add: pg_SaveTrustBundle_def bindE_def)
    then have "db w' = db w \<or> db w' = pg_upsert_trust b (db w)"
      using c by (cases r) (auto simp: pg_trust_write_def execute_Inr execute_Inl)
    then show ?thesis
      using trust_save [OF b(2) _ b(3)] b(1) assms(2) new_bundle_has_key [OF b(2)]
      by (auto simp: trust_same pg_trust_upsert pg_trust_upsert_ok)
  qed
qed

lemma pg_RevokeTrustBundle_step:
  assumes "pg_RevokeTrustBundle env ctx key reason t w = (r, w')" and "trust_rows_ok (db w)"
  shows "trust_step (pg_trust_view (db w)) (pg_trust_view (db w')) \<and> trust_rows_ok (db w')"
proof -
  obtain s v where run: "pg_TrustBundle env key w = (s, v)" by (cases "pg_TrustBundle env key w")
  note v = pg_TrustBundle_run [OF run, THEN conjunct1]
  show ?thesis
  proof (cases s)
    case (Inl e)
    with assms run v show ?thesis by (auto simp: pg_RevokeTrustBundle_def bindE_def trust_same)
  next
    case (Inr b)
    obtain s1 v1 where save: "pg_SaveTrustBundle env (b\<lparr>tb_Status := ''revoked''\<rparr>) v = (s1, v1)"
      by (cases "pg_SaveTrustBundle env (b\<lparr>tb_Status := ''revoked''\<rparr>) v")
    from pg_SaveTrustBundle_step [OF save] v assms(2)
    have step: "trust_step (pg_trust_view (db w)) (pg_trust_view (db v1))" "trust_rows_ok (db v1)" by auto
    from assms(1) run Inr save consider "w' = v1" |
        "saveRevocation env ctx ''trust_key'' key reason t [] v1 = (r, w')"
      by (cases s1) (auto simp: pg_RevokeTrustBundle_def bindE_def)
    then have "pg_trust_bundles (db w') = pg_trust_bundles (db v1)"
      by cases (auto dest: keeps_invD [OF pg_bundles.keeps_saveRevocation refl])
    with step show ?thesis by (simp add: pg_trust_view_def [abs_def] trust_rows_ok_def)
  qed
qed

lemma pg_trust_None: "pg_trust_view d k = None \<longleftrightarrow> (\<forall>r \<in> set (pg_trust_bundles d). pb_key_id r \<noteq> k)"
  by (auto simp: pg_trust_view_def find_None_iff)

lemma pg_demote_view:
  assumes "pg_demote (c\<lparr>tb_Status := s\<rparr>) k d = Inr d1" and "pg_trust_view d k = Some c" and "tb_Status c = ''active''" and "trust_rows_ok d"
  shows "pg_trust_view d1 = (pg_trust_view d)(k \<mapsto> c\<lparr>tb_Status := s\<rparr>) \<and> trust_rows_ok d1"
proof -
  let ?p = "\<lambda>r. pb_key_id r = k \<and> pb_status r = ''active''"
  let ?f = "\<lambda>r. r\<lparr>pb_status := s, pb_trust_bundle_json := c\<lparr>tb_Status := s\<rparr>\<rparr>"
  from assms(1) have d1: "pg_trust_bundles d1 = update_rows ?p ?f (pg_trust_bundles d)"
    by (auto simp: pg_demote_def split: if_splits)
  from assms(2) obtain r where r: "find (\<lambda>r. pb_key_id r = k) (pg_trust_bundles d) = Some r" "pb_trust_bundle_json r = c"
    by (auto simp: pg_trust_view_def)
  then have "r \<in> set (pg_trust_bundles d)" "pb_key_id r = k" by (auto dest: find_SomeD)
  with assms(4) r(2) have row: "pb_status r = tb_Status c" "tb_KeyID c = k" "tb_PublicKey c \<noteq> []"
    by (auto simp: trust_rows_ok_def trust_row_ok_def)
  have "pg_trust_view d1 x = ((pg_trust_view d)(k \<mapsto> c\<lparr>tb_Status := s\<rparr>)) x" for x
    by (cases "x = k", insert r row assms(3))
      (auto simp: pg_trust_view_def d1 find_update_rows [of pb_key_id ?f] option.map_comp o_def dest!: find_SomeD
         intro!: option.map_cong)
  moreover have "trust_rows_ok d1"
    using assms(4) row by (auto simp: trust_rows_ok_def trust_row_ok_def d1 set_update_rows)
  ultimately show ?thesis by blast
qed

lemma pg_insert_trust_view:
  assumes "pg_insert_trust n d = Inr d'" and "tb_PublicKey n \<noteq> []" and "trust_rows_ok d"
  shows "pg_trust_view d (tb_KeyID n) = None \<and> pg_trust_view d' = (pg_trust_view d)(tb_KeyID n \<mapsto> n) \<and> trust_rows_ok d'"
proof -
  from assms(1) have d': "pg_trust_bundles d' = pg_trust_bundles d @ [trust_row n]" and
    new: "pg_trust_view d (tb_KeyID n) = None" by (auto simp: pg_insert_trust_def pg_trust_None split: if_splits)
  have "pg_trust_view d' x = ((pg_trust_view d)(tb_KeyID n \<mapsto> n)) x" for x
    using new by (auto simp: pg_trust_view_def d' find_append_row trust_row_def split: option.splits)
  moreover have "trust_rows_ok d'"
    using assms(2,3) by (auto simp: trust_rows_ok_def trust_row_ok_def d' trust_row_def)
  ultimately show ?thesis using new by blast
qed

lemma pg_rotate_write:
  assumes "transaction env (bindE (execute env f) (\<lambda>_. execute env g)) w = (r, w')"
  shows "db w' = db w \<or> (\<exists>d1. f (db w) = Inr d1 \<and> g d1 = Inr (db w'))"
proof (cases r)
  case (Inl e)
  with assms transaction_Inl show ?thesis by blast
next
  case (Inr u)
  from transaction_Inr [OF assms [unfolded Inr]] show ?thesis by (auto elim!: step_elims simp: steps)
qed

lemma pg_rotate_view:
  assumes "pg_demote (c\<lparr>tb_Status := ''previous''\<rparr>) k d = Inr d1" and "pg_insert_trust n d1 = Inr d2"
    and "trust_rows_ok d" and "pg_trust_view d k = Some c" and "tb_Status c = ''active''" and "tb_KeyID n \<noteq> k"
    and "validateNewTrustBundle n = Inr ()" and "tb_Status n = ''active''" and "tb_Purpose c \<noteq> [] \<Longrightarrow> tb_Purpose n = tb_Purpose c"
  shows "trust_step (pg_trust_view d) (pg_trust_view d2) \<and> trust_rows_ok d2"
proof -
  note one = pg_demote_view [OF assms(1,4,5,3)]
  note two = pg_insert_trust_view [OF assms(2) new_bundle_has_key [OF assms(7)] one [THEN conjunct2]]
  have "pg_trust_view d (tb_KeyID n) = None" using one two assms(6) by auto
  from trust_rotate [OF assms(4,5) this assms(7-9)] one two show ?thesis by simp
qed

lemma pg_rotation_step:
  assumes run: "pg_rotation env ctx k c n reason t w = (r, w')" and ok: "trust_rows_ok (db w)"
    and c: "pg_trust_view (db w) k = Some c" "tb_Status c = ''active''" "tb_KeyID n \<noteq> k" "validateNewTrustBundle n = Inr ()"
      "tb_Status n = ''active''" "tb_Purpose c \<noteq> [] \<Longrightarrow> tb_Purpose n = tb_Purpose c"
  shows "trust_step (pg_trust_view (db w)) (pg_trust_view (db w')) \<and> trust_rows_ok (db w')"
proof -
  let ?tx = "transaction env (bindE (execute env (pg_demote (c\<lparr>tb_Status := ''previous''\<rparr>) k)) (\<lambda>_. execute env (pg_insert_trust n)))"
  define v where "v = (if IsZero t then w\<lparr>tick := Suc (tick w)\<rparr> else w)"
  have v: "db v = db w" by (simp add: v_def)
  from run obtain e where "bindE ?tx (\<lambda>_. pg_SaveAuditEvent env ctx e) v = (r, w')"
    unfolding pg_rotation_def Let_def
    by (cases "t = 0") (simp_all add: bindE_def [of "ret t"] bindE_def [of "read_clock env"] ret_def read_clock_def v_def)
  then obtain s v1 where tx: "?tx v = (s, v1)" and rest: "w' = v1 \<or> (\<exists>e. pg_SaveAuditEvent env ctx e v1 = (r, w'))"
    by (elim bindE_E) blast+
  from rest have "pg_trust_bundles (db w') = pg_trust_bundles (db v1)"
    by (auto dest: keeps_invD [OF pg_bundles.keeps_SaveAuditEvent refl])
  then have w': "pg_trust_view (db w') = pg_trust_view (db v1)" "trust_rows_ok (db w') = trust_rows_ok (db v1)"
    by (simp_all add: pg_trust_view_def fun_eq_iff trust_rows_ok_def)
  from pg_rotate_write [OF tx] v consider "db v1 = db w" |
      d1 where "pg_demote (c\<lparr>tb_Status := ''previous''\<rparr>) k (db w) = Inr d1" "pg_insert_trust n d1 = Inr (db v1)" by auto
  then show ?thesis
  proof cases
    case 2
    from pg_rotate_view [OF this ok c] w' show ?thesis by simp
  qed (use ok w' in \<open>simp add: trust_same\<close>)
qed

lemma pg_RotateTrustBundle_reaches:
  assumes "pg_RotateTrustBundle env ctx key0 next0 reason t w = (r, w')"
  obtains "db w' = db w" |
    c v where "pg_rotation env ctx (TrimSpace key0) c (default_status next0) reason t v = (r, w')" "db v = db w"
      "pg_trust_view (db w) (TrimSpace key0) = Some c" "tb_Status c = ''active''" "tb_KeyID (default_status next0) \<noteq> TrimSpace key0"
      "validateNewTrustBundle (default_status next0) = Inr ()" "tb_Status (default_status next0) = ''active''"
      "tb_Purpose c \<noteq> [] \<Longrightarrow> tb_Purpose (default_status next0) = tb_Purpose c"
proof -
  have reads: "db v' = db v \<and> (\<forall>b. x = Inr b \<longrightarrow> pg_trust_view (db v) k = Some b)" if "pg_TrustBundle env k v = (x, v')" for k v x v'
    using pg_TrustBundle_run [OF that] by (auto split: sum.splits)
  from assms show thesis unfolding pg_RotateTrustBundle_def Let_def
    by (elim lift_E bindE_E guardE_E tryE_E)
      (auto dest!: reads split: sum.splits elim!: guardE_E intro: that simp: raise_def)
qed

lemma pg_RotateTrustBundle_step:
  assumes "pg_RotateTrustBundle env ctx key0 next0 reason t w = (r, w')" and ok: "trust_rows_ok (db w)"
  shows "trust_step (pg_trust_view (db w)) (pg_trust_view (db w')) \<and> trust_rows_ok (db w')"
  using assms(1)
proof (cases rule: pg_RotateTrustBundle_reaches)
  case 1
  with ok show ?thesis by (simp add: trust_same)
next
  case (2 c v)
  have "trust_rows_ok (db v)" "pg_trust_view (db v) (TrimSpace key0) = Some c" using 2(2,3) ok by simp_all
  from pg_rotation_step [OF 2(1) this 2(4-8)] 2(2) show ?thesis by simp
qed

lemma pg_trust_law:
  assumes "pg_op env op w = (r, w')" and "trust_rows_ok (db w)"
  shows "trust_step (pg_trust_view (db w)) (pg_trust_view (db w')) \<and> trust_rows_ok (db w')"
proof (cases "about_trust op")
  case True
  with assms show ?thesis
    by (cases op) (auto dest: pg_SaveTrustBundle_step pg_RotateTrustBundle_step pg_RevokeTrustBundle_step)
next
  case False
  from keeps_invD [OF pg_trust_frame [OF False] refl assms(1)] assms(2) show ?thesis
    by (simp add: trust_same pg_trust_view_def [abs_def] trust_rows_ok_def)
qed

section \<open>Enrollment tokens\<close>

definition pg_spent :: "postgres \<Rightarrow> string \<Rightarrow> bool" where
  "pg_spent d h \<longleftrightarrow> (\<exists>r \<in> set (pg_tokens d). pt_token_sha256 r = h \<and> spent_token (pt_token_json r))"

definition token_rows_ok :: "postgres \<Rightarrow> bool" where
  "token_rows_ok d \<longleftrightarrow> distinct (map pt_token_sha256 (pg_tokens d)) \<and> (\<forall>r \<in> set (pg_tokens d). pt_token_id r = et_TokenID (pt_token_json r))"

text \<open>The rows are well formed, and a hash that is spent under the assumption \<open>S\<close> still is.\<close>

definition tokens_good :: "bool \<Rightarrow> string \<Rightarrow> postgres \<Rightarrow> bool" where
  "tokens_good S h d \<longleftrightarrow> token_rows_ok d \<and> (S \<longrightarrow> pg_spent d h)"

interpretation pg_good: pg_frame "tokens_good S h" for S h
  by unfold_locales (simp_all add: tokens_good_def token_rows_ok_def pg_spent_def)

lemma tokens_good_insert:
  assumes "tokens_good S h d" and "pg_insert_token t d = Inr d'"
  shows "tokens_good S h d'"
proof -
  from assms(2) obtain row where "pg_tokens d' = pg_tokens d @ [row]" "pt_token_id row = et_TokenID t" "pt_token_json row = t"
    "\<forall>r \<in> set (pg_tokens d). pt_token_sha256 r \<noteq> pt_token_sha256 row"
    by (auto simp: pg_insert_token_def split: if_splits)
  moreover from this(4) have "pt_token_sha256 row \<notin> pt_token_sha256 ` set (pg_tokens d)" by (auto simp: image_iff)
  ultimately show ?thesis using assms(1) by (simp add: tokens_good_def token_rows_ok_def pg_spent_def)
qed

lemma tokens_good_update:
  assumes good: "tokens_good S h d" and t: "S \<longrightarrow> spent_token t"
    and d': "pg_tokens d' = update_rows (\<lambda>r. pt_token_id r = et_TokenID t) f (pg_tokens d)"
    and f: "\<And>r. pt_token_json (f r) = t" "\<And>r. pt_token_sha256 (f r) = pt_token_sha256 r" "\<And>r. pt_token_id (f r) = pt_token_id r"
  shows "tokens_good S h d'"
proof -
  have "map pt_token_sha256 (pg_tokens d') = map pt_token_sha256 (pg_tokens d)"
    unfolding d' by (rule map_update_rows) (simp add: f)
  moreover have "pg_spent d' h" if "pg_spent d h" "S"
  proof -
    from that(1) obtain r where r: "r \<in> set (pg_tokens d)" "pt_token_sha256 r = h" "spent_token (pt_token_json r)"
      by (auto simp: pg_spent_def)
    let ?s = "if pt_token_id r = et_TokenID t then f r else r"
    have "?s \<in> set (pg_tokens d')" "pt_token_sha256 ?s = h" "spent_token (pt_token_json ?s)"
      using r t that(2) by (auto simp: d' update_rows_def f)
    then show ?thesis unfolding pg_spent_def by blast
  qed
  ultimately show ?thesis
    using good by (auto simp: tokens_good_def token_rows_ok_def d' set_update_rows f)
qed

lemma tokens_good_use: "tokens_good S h d \<Longrightarrow> S \<longrightarrow> spent_token t \<Longrightarrow> tokens_good S h (pg_use_token t d)"
  by (erule tokens_good_update [where f = "\<lambda>r. r\<lparr>pt_used_at := Some (et_UsedAt t), pt_token_json := t\<rparr>"])
    (simp_all add: pg_use_token_def)

lemma pg_row_found:
  assumes "query_row env table P w = (Inr x, w')"
  shows "x \<in> set (table (db w)) \<and> P x \<and> db w' = db w"
  using assms by (auto simp: query_row_def steps split: option.splits dest!: find_SomeD)

lemma keeps_tokens_good:
  assumes "about_tokens op" and "S \<longrightarrow> timed op"
  shows "keeps_inv (\<lambda>w. tokens_good S h (db w)) (pg_op env op)"
  using assms(1)
proof (cases op)
  case (OpCreateToken ctx token secret)
  show ?thesis unfolding OpCreateToken pg_op.simps pg_CreateEnrollmentToken_def Let_def
    by (intro pg_good.keeps_pg keeps_table_execute) (rule tokens_good_insert)
next
  case (OpUseToken ctx secret environment stage scope t)
  then have spent: "S \<longrightarrow> spent_token (x\<lparr>et_UsedAt := t\<rparr>)" for x using assms(2) by (simp add: spent_token_def)
  show ?thesis unfolding OpUseToken pg_op.simps pg_UseEnrollmentToken_def Let_def
    by (intro pg_good.keeps_pg pg_good.keeps_query_row keeps_table_execute)
      (auto intro!: tokens_good_use simp: spent)
next
  case (OpRevokeToken ctx tokenID reason t)
  let ?t = "\<lambda>x. x\<lparr>et_RevokedAt := t, et_RevokedReason := reason\<rparr>"
  have spent: "S \<longrightarrow> spent_token (?t x)" for x using assms(2) OpRevokeToken by (simp add: spent_token_def)
  have read: "et_TokenID x = tokenID" if "tokens_good S h (db w)" "pg_EnrollmentToken env tokenID w = (Inr x, w')" for w x w'
    using that by (auto simp: pg_EnrollmentToken_def tokens_good_def token_rows_ok_def ret_def elim!: step_elims dest!: pg_row_found)
  show ?thesis unfolding OpRevokeToken pg_op.simps pg_RevokeEnrollmentToken_def Let_def
  proof (rule keeps_bindE_read [where P = "\<lambda>x. et_TokenID x = tokenID"], goal_cases)
    case 1
    show ?case by (rule pg_good.keeps_pg_reads)
  next
    case (2 w x w')
    then show ?case by (rule read)
  next
    case (3 x)
    show ?case
      by (intro pg_good.keeps_pg keeps_table_execute) (erule tokens_good_update [OF _ spent [of x], where
        f = "\<lambda>r. r\<lparr>pt_revoked_at := Some t, pt_revoked_reason := reason, pt_token_json := ?t x\<rparr>"], auto simp: 3)
  qed
qed simp_all

lemma tokens_good_step:
  assumes "S \<longrightarrow> timed op" and "pg_op env op w = (r, w')" and "tokens_good S h (db w)"
  shows "tokens_good S h (db w')"
proof (cases "about_tokens op")
  case True
  from keeps_invD [OF keeps_tokens_good [OF this assms(1)] assms(3,2)] show ?thesis .
next
  case False
  from keeps_invD [OF pg_tokens_frame [OF False] refl assms(2)] assms(3) show ?thesis
    by (simp add: tokens_good_def token_rows_ok_def pg_spent_def)
qed

lemma pg_use_law:
  assumes ok: "token_rows_ok (db w)" and t: "\<not> IsZero t"
    and run: "pg_op env (OpUseToken ctx secret environment stage scope t) w = (Inr u, w')"
  shows "\<not> pg_spent (db w) (TokenSHA256 env secret) \<and> pg_spent (db w') (TokenSHA256 env secret)"
proof -
  let ?h = "TokenSHA256 env secret"
  from run obtain x w1 e where tx: "transaction env
       (bindE (query_row env pg_tokens (\<lambda>r. pt_token_sha256 r = ?h)) (\<lambda>row.
        let token = pt_token_json row; t = token\<lparr>et_UsedAt := t\<rparr> in
        bindE (lift (token_usable token environment stage scope (et_UsedAt t))) (\<lambda>_.
        bindE (execute env (\<lambda>d. Inr (pg_use_token t d))) (\<lambda>_. ret t)))) w = (Inr x, w1)"
    and save: "pg_SaveAuditEvent env ctx e w1 = (Inr (), w')"
    by (auto simp: pg_UseEnrollmentToken_def finish_def ret_def elim!: step_elims)
  from transaction_Inr [OF tx] obtain row where row: "row \<in> set (pg_tokens (db w))" "pt_token_sha256 row = ?h"
    "token_usable (pt_token_json row) environment stage scope t = Inr ()"
    and w1: "db w1 = pg_use_token ((pt_token_json row)\<lparr>et_UsedAt := t\<rparr>) (db w)"
    by (auto simp: Let_def steps ret_def lift_def elim!: step_elims dest!: pg_row_found)
  have w': "pg_tokens (db w') = pg_tokens (db w1)" using keeps_invD [OF pg_secrets.keeps_SaveAuditEvent refl save] .
  have "\<not> spent_token (pt_token_json row)" using row(3) by (simp add: token_usable_iff spent_token_def)
  moreover have "r = row" if "r \<in> set (pg_tokens (db w))" "pt_token_sha256 r = ?h" for r
    using that row ok by (auto simp: token_rows_ok_def dest: distinct_map_inj)
  ultimately have "\<not> pg_spent (db w) ?h" by (auto simp: pg_spent_def)
  moreover have "pt_token_id row = et_TokenID (pt_token_json row)" using ok row(1) by (simp add: token_rows_ok_def)
  with row(1) have "row\<lparr>pt_used_at := Some t, pt_token_json := (pt_token_json row)\<lparr>et_UsedAt := t\<rparr>\<rparr> \<in> set (pg_tokens (db w1))"
    by (auto simp: w1 pg_use_token_def set_update_rows)
  then have "pg_spent (db w1) ?h" unfolding pg_spent_def by (rule bexI [rotated]) (simp add: row(2) t spent_token_def)
  ultimately show ?thesis by (simp add: pg_spent_def w')
qed

section \<open>Assignments\<close>

definition pg_latest_view :: "postgres \<Rightarrow> latest_view" where
  "pg_latest_view d k = map_option (\<lambda>r. (pa_assignment_version r, pa_envelope_json r, pa_revoked_at r \<noteq> None)) (pg_latest k d)"

lemma latest_row_map:
  assumes "\<And>r. pa_assignment_version (f r) = pa_assignment_version r"
  shows "latest_row (map f rows) = map_option f (latest_row rows)"
  by (induction rows) (auto simp: assms split: option.splits)

lemma latest_row_in: "latest_row rows = Some s \<Longrightarrow> s \<in> set rows"
  by (induction rows arbitrary: s) (auto split: option.splits if_splits)

lemma latest_row_append:
  "latest_row (rows @ [r]) = (case latest_row rows of None \<Rightarrow> Some r
     | Some s \<Rightarrow> if pa_assignment_version s < pa_assignment_version r then Some r else Some s)"
  by (induction rows) (auto split: option.splits)

lemma pg_latest_revoked:
  assumes "pg_assignments d' = update_rows (\<lambda>r. pa_kliq_id r = k \<and> pa_assignment_version r = v)
     (\<lambda>r. r\<lparr>pa_revoked_at := Some t, pa_revoked_reason := reason\<rparr>) (pg_assignments d)"
  shows "latest_step (pg_latest_view d) (pg_latest_view d')"
proof -
  let ?p = "\<lambda>r. pa_kliq_id r = k \<and> pa_assignment_version r = v" and ?f = "\<lambda>r. r\<lparr>pa_revoked_at := Some t, pa_revoked_reason := reason\<rparr>"
  have latest: "pg_latest x d' = map_option (\<lambda>r. if ?p r then ?f r else r) (pg_latest x d)" for x
  proof -
    have "filter (\<lambda>r. pa_kliq_id r = x) (pg_assignments d') = update_rows ?p ?f (filter (\<lambda>r. pa_kliq_id r = x) (pg_assignments d))"
      unfolding assms by (rule filter_update_rows) simp
    then show ?thesis unfolding pg_latest_def by (simp add: update_rows_def latest_row_map)
  qed
  have kliq: "pa_kliq_id r = x" if "pg_latest x d = Some r" for x r
    using that by (auto simp: pg_latest_def dest!: latest_row_in)
  show ?thesis
  proof (cases "\<exists>r. pg_latest k d = Some r \<and> pa_assignment_version r = v")
    case True
    then obtain r where r: "pg_latest k d = Some r" "pa_assignment_version r = v" by blast
    have "pg_latest_view d' x = ((pg_latest_view d)(k \<mapsto> (v, pa_envelope_json r, True))) x" for x
      using r by (cases "pg_latest x d") (auto simp: pg_latest_view_def latest kliq)
    then have "pg_latest_view d' = (pg_latest_view d)(k \<mapsto> (v, pa_envelope_json r, True))" ..
    moreover have "pg_latest_view d k = Some (v, pa_envelope_json r, pa_revoked_at r \<noteq> None)" using r by (simp add: pg_latest_view_def)
    ultimately show ?thesis using latest_revoke by simp
  next
    case False
    have "pg_latest_view d' x = pg_latest_view d x" for x
      using False by (cases "pg_latest x d") (auto simp: pg_latest_view_def latest dest: kliq)
    then have "pg_latest_view d' = pg_latest_view d" ..
    then show ?thesis by (simp add: latest_same)
  qed
qed

lemma pg_latest_inserted:
  assumes "pg_assignments d' = pg_assignments d @ [r]" and "pa_revoked_at r = None"
    and "\<forall>s \<in> set (pg_assignments d). \<not> (pa_kliq_id s = pa_kliq_id r \<and> pa_assignment_version s = pa_assignment_version r)"
  shows "latest_step (pg_latest_view d) (pg_latest_view d')"
proof -
  let ?k = "pa_kliq_id r" and ?v = "pa_assignment_version r"
  have other: "pg_latest x d' = pg_latest x d" if "x \<noteq> ?k" for x using that by (simp add: pg_latest_def assms(1))
  have own: "pg_latest ?k d' = (case pg_latest ?k d of None \<Rightarrow> Some r
      | Some s \<Rightarrow> if pa_assignment_version s < ?v then Some r else Some s)"
    by (simp add: pg_latest_def assms(1) latest_row_append)
  show ?thesis
  proof (cases "\<exists>s. pg_latest ?k d = Some s \<and> ?v \<le> pa_assignment_version s")
    case True
    then have "pg_latest_view d' x = pg_latest_view d x" for x
      using other own by (cases "x = ?k") (auto simp: pg_latest_view_def)
    then have "pg_latest_view d' = pg_latest_view d" ..
    then show ?thesis by (simp add: latest_same)
  next
    case False
    then have "pg_latest ?k d' = Some r" using own by (auto split: option.splits)
    then have "pg_latest_view d' x = ((pg_latest_view d)(?k \<mapsto> (?v, pa_envelope_json r, False))) x" for x
      using other assms(2) by (cases "x = ?k") (auto simp: pg_latest_view_def)
    then have "pg_latest_view d' = (pg_latest_view d)(?k \<mapsto> (?v, pa_envelope_json r, False))" ..
    moreover have "v' < ?v" if "pg_latest_view d ?k = Some (v', e', b)" for v' e' b
      using that False by (auto simp: pg_latest_view_def)
    ultimately show ?thesis using latest_publish [of "pg_latest_view d" ?k ?v "pa_envelope_json r"] by simp
  qed
qed

text \<open>While an assignment is saved, the table is the old one, or the old one and a row of a new version.\<close>

definition saving :: "string \<Rightarrow> int \<Rightarrow> pg_assignment list \<Rightarrow> postgres \<Rightarrow> bool" where
  "saving kliqID v rows d \<longleftrightarrow> pg_assignments d = rows \<or>
     (\<exists>r. pg_assignments d = rows @ [r] \<and> pa_kliq_id r = kliqID \<and> pa_assignment_version r = v \<and> pa_revoked_at r = None \<and>
       (\<forall>s \<in> set rows. \<not> (pa_kliq_id s = kliqID \<and> pa_assignment_version s = v)))"

interpretation pg_saving: pg_frame "saving kliqID v rows" for kliqID v rows
  by unfold_locales (simp_all add: saving_def)

lemma saving_insert: "saving kliqID v rows d \<Longrightarrow> pg_insert_assignment kliqID v e d = Inr d' \<Longrightarrow> saving kliqID v rows d'"
  by (auto simp: saving_def pg_insert_assignment_def split: if_splits)

lemma keeps_saving: "keeps_inv (\<lambda>w. saving kliqID v rows (db w)) (pg_SaveAssignment env ctx kliqID v e)"
  unfolding pg_SaveAssignment_def pg_publish_def
  by (intro pg_saving.keeps_pg pg_saving.keeps_pg_reads keeps_table_execute)
    (auto simp: pg_insert_artifact_def split: if_splits intro: saving_insert pg_saving.arts)

lemma pg_latest_view_cong: "pg_assignments d' = pg_assignments d \<Longrightarrow> pg_latest_view d' = pg_latest_view d"
  by (simp add: pg_latest_view_def pg_latest_def fun_eq_iff)

lemma pg_SaveAssignment_step:
  assumes "pg_SaveAssignment env ctx kliqID v e w = (r, w')"
  shows "latest_step (pg_latest_view (db w)) (pg_latest_view (db w'))"
proof -
  have "saving kliqID v (pg_assignments (db w)) (db w')"
    by (rule keeps_invD [OF keeps_saving _ assms]) (simp add: saving_def)
  then show ?thesis
    by (auto simp: saving_def latest_same dest: pg_latest_view_cong intro: pg_latest_inserted)
qed

lemma pg_RevokeAssignment_step:
  assumes "pg_RevokeAssignment env ctx kliqID v reason t w = (r, w')"
  shows "latest_step (pg_latest_view (db w)) (pg_latest_view (db w'))"
  using assms unfolding pg_RevokeAssignment_def
proof (cases rule: bindE_E)
  case (1 e)
  then show ?thesis by (simp add: execute_Inl latest_same)
next
  case (2 x v1)
  have "pg_assignments (db w') = pg_assignments (db v1)"
    using keeps_invD [OF pg_versions.keeps_saveRevocation refl 2(2)] .
  with 2(1) show ?thesis
    by (intro pg_latest_revoked [where k = kliqID and v = v and t = t and reason = reason]) (auto simp: steps pg_revoke_assignment_def split: if_splits)
qed

lemma pg_latest_law:
  assumes "pg_op env op w = (r, w')"
  shows "latest_step (pg_latest_view (db w)) (pg_latest_view (db w'))"
proof (cases "about_assignments op")
  case True
  with assms show ?thesis by (cases op) (auto dest: pg_SaveAssignment_step pg_RevokeAssignment_step)
next
  case False
  from pg_latest_view_cong [OF keeps_invD [OF pg_assignments_frame [OF False] refl assms]] show ?thesis
    by (simp add: latest_same)
qed

section \<open>The contract\<close>

definition pg_inv :: "postgres \<Rightarrow> bool" where
  "pg_inv d \<longleftrightarrow> trust_rows_ok d \<and> token_rows_ok d"

lemma pg_inv_step:
  assumes "pg_inv (db w)" and "pg_op env op w = (r, w')"
  shows "pg_inv (db w')"
  using pg_trust_law [OF assms(2)] tokens_good_step [OF _ assms(2), of False] assms(1)
  by (simp add: pg_inv_def tokens_good_def)

lemma pg_spent_law:
  assumes "pg_inv (db w)" and "timed op" and "pg_op env op w = (r, w')" and "pg_spent (db w) h"
  shows "pg_spent (db w') h"
  using tokens_good_step [OF _ assms(3), of True h] assms by (simp add: pg_inv_def tokens_good_def)

interpretation postgres: management_store "pg_op env" "TokenSHA256 env" "\<lambda>_. None" pg_inv pg_trust_view pg_latest_view pg_spent
  for env :: "'e forge_env_scheme"
proof (unfold_locales, goal_cases)
  case (1 w op r w')
  then show ?case by (rule pg_inv_step)
next
  case (2 d)
  then show ?case by (simp add: pg_inv_def pg_trust_ok)
next
  case (3 w op r w')
  then show ?case by (simp add: pg_inv_def pg_trust_law)
next
  case (4 w op r w')
  then show ?case by (simp add: pg_latest_law)
next
  case (5 w op r w' h)
  then show ?case by (simp add: pg_spent_law)
next
  case (6 w t ctx secret environment stage scope u w')
  show ?case by (rule pg_use_law [OF _ 6(2,3)]) (use 6(1) in \<open>simp add: pg_inv_def\<close>)
qed

lemma pg_inv_empty: "pg_inv empty_postgres"
  by (simp add: pg_inv_def trust_rows_ok_def token_rows_ok_def empty_postgres_def)

end
