(* ===== verification/Properties_Forge.thy ===== *)
theory Properties_Forge
  imports Forge_Stores_PG Examples
begin

text \<open>
  Properties of the management stores of Forge, stated over the operations of the two
  implementations and derived from the contract they share.
\<close>

section \<open>Concrete stores\<close>

definition toy_forge :: forge_env where
  "toy_forge =
     \<lparr>clock = (\<lambda>n. 7 + int n), fault = (\<lambda>_. None), fe_sha = rev, fe_timeString = int_digits,
      fe_decAssignment = (\<lambda>_. Inr toy_assignment)\<rparr>"

definition toy_ctx :: audit_context where
  "toy_ctx = \<lparr>cx_actor = ''admin'', cx_metadata = []\<rparr>"

definition toy_token :: KLIQEnrollmentToken where
  "toy_token =
     \<lparr>et_TokenID = ''t-1'', et_TokenSHA256 = ''sha256:yrt'', et_Environment = ''lab'', et_Stage = [], et_Scope = [],
      et_ExpiresAt = 0, et_CreatedAt = 1, et_UsedAt = 0, et_RevokedAt = 0, et_RevokedReason = []\<rparr>"

definition toy_row :: pg_assignment where
  "toy_row = \<lparr>pa_kliq_id = ''kliq-1'', pa_assignment_version = 4, pa_revoked_at = Some 3, pa_revoked_reason = ''leak'',
     pa_envelope_json = toy_envelope\<rparr>"

definition toy_profile :: KLIQManagementProfile where
  "toy_profile =
     \<lparr>mp_Kind = ''ManagementProfile'', mp_ProfileID = ''mp'', mp_Mode = ''pull'', mp_PollInterval = ''1m'',
      mp_HeartbeatInterval = ''30s'', mp_StatusInterval = ''1m'', mp_DecisionInterval = ''1s'', mp_ReconcileInterval = ''1m'',
      mp_AuditFlushInterval = ''10s'', mp_StatusEndpoint = [], mp_AssignmentSource = []\<rparr>"

definition toy_registration :: KLIQRegistration where
  "toy_registration =
     \<lparr>kr_RegistrationID = ''reg-1'', kr_KLIQID = ''kliq-1'', kr_NodeID = ''n'', kr_Environment = ''lab'', kr_Stage = ''dev'',
      kr_Scope = ''local'', kr_Version = ''v1'', kr_AdapterInventory = [], kr_Capabilities = [], kr_AttestationState = [],
      kr_Identity = zero_KLIQIdentity, kr_ManagementProfile = toy_profile, kr_Status = [],
      kr_RegisteredAt = 1, kr_RevokedAt = 0, kr_RevokedReason = []\<rparr>"

definition toy_tables :: postgres where
  "toy_tables = empty_postgres\<lparr>pg_trust_bundles := [trust_row toy_trust], pg_assignments := [toy_row],
     pg_registrations := [\<lparr>pr_kliq_id = ''kliq-1'', pr_registration_id = ''reg-1'', pr_status = ''revoked'', pr_revoked_at = Some 2,
       pr_revoked_reason = [], pr_registration_json = pg_revoked_registration toy_registration [] 2\<rparr>],
     pg_tokens := [\<lparr>pt_token_id = ''t-1'', pt_token_sha256 = ''sha256:yrt'', pt_used_at = None, pt_revoked_at = None,
       pt_revoked_reason = [], pt_token_json = toy_token\<rparr>]\<rparr>"

definition world_of :: "'d \<Rightarrow> ('d, unit) world" where
  "world_of d = \<lparr>db = d, calls = [], tick = 0\<rparr>"

lemma toy_tables_inv: "pg_inv (db (world_of toy_tables))"
  by (simp add: pg_inv_def trust_rows_ok_def trust_row_ok_def token_rows_ok_def toy_tables_def world_of_def trust_row_def
      toy_trust_def toy_token_def)

section \<open>Properties\<close>

text \<open>
  C12. Over any sequence of operations of the PostgreSQL store, whatever statements fail, a
  stored trust bundle is never dropped, keeps its public key, and moves only forward: revoked
  stays revoked, and previous does not become active again.
\<close>

theorem trust_keys_stay_pinned:
  assumes "pg_inv (db w)" and "pg_trust_view (db w) k = Some b"
  shows "\<exists>b'. pg_trust_view (db (after (pg_op env) ops w)) k = Some b' \<and> tb_PublicKey b' = tb_PublicKey b \<and>
    (tb_Status b = ''revoked'' \<longrightarrow> tb_Status b' = ''revoked'') \<and>
    (tb_Status b = ''previous'' \<longrightarrow> tb_Status b' = ''previous'' \<or> tb_Status b' = ''revoked'')"
  using pinnedD [OF postgres.history_pinned [OF assms(1)] assms(2)] unfolding status_moves_def .

theorem trust_keys_stay_pinned_witness:
  "\<exists>b'. pg_trust_view (db (after (pg_op toy_forge) [OpRevokeTrust toy_ctx ''key-1'' ''leak'' 5] (world_of toy_tables))) ''key-1'' = Some b' \<and>
     tb_PublicKey b' = ''pk''"
proof -
  have "pg_trust_view (db (world_of toy_tables)) ''key-1'' = Some toy_trust"
    by (simp add: pg_trust_view_def toy_tables_def world_of_def trust_row_def toy_trust_def)
  from trust_keys_stay_pinned [OF toy_tables_inv this, of toy_forge "[OpRevokeTrust toy_ctx ''key-1'' ''leak'' 5]"]
  show ?thesis by (auto simp: toy_trust_def)
qed

text \<open>
  C11. Every operation of either management store, whatever it returns and whatever statement
  of it fails, moves the trust bundles and the latest assignments by at most one step of their
  ledgers: a checked save, a rotation of an active key or a revocation, and a publication of a
  greater version or a revocation of the latest one. Both stores keep their invariants.
\<close>

theorem store_operations_are_ledger_steps:
  assumes "timed op" and "mem_inv (db m)" and "mem_op env op m = (r, m')" and "pg_inv (db w)" and "pg_op env op w = (s, w')"
  shows "trust_step (mem_trustBundles (db m)) (mem_trustBundles (db m')) \<and> latest_step (mem_latest (db m)) (mem_latest (db m')) \<and>
    mem_inv (db m') \<and>
    trust_step (pg_trust_view (db w)) (pg_trust_view (db w')) \<and> latest_step (pg_latest_view (db w)) (pg_latest_view (db w')) \<and>
    pg_inv (db w')"
  using memory.trust_law [OF assms(2,3)] memory.latest_law [OF assms(2,1,3)] memory.keeps_inv [OF assms(2,3)]
    postgres.trust_law [OF assms(4,5)] postgres.latest_law [OF assms(4,1,5)] postgres.keeps_inv [OF assms(4,5)]
  by blast

theorem store_operations_are_ledger_steps_witness:
  "let op = OpSaveTrust toy_trust; m = world_of NewMemoryStore; w = world_of empty_postgres in
     trust_step (mem_trustBundles (db m)) (mem_trustBundles (db (snd (mem_op toy_forge op m)))) \<and>
     trust_step (pg_trust_view (db w)) (pg_trust_view (db (snd (pg_op toy_forge op w))))"
  using store_operations_are_ledger_steps [of "OpSaveTrust toy_trust" "world_of NewMemoryStore" toy_forge _ _ "world_of empty_postgres",
      OF _ _ prod.collapse [symmetric] _ prod.collapse [symmetric]]
  by (simp add: Let_def world_of_def mem_inv_new pg_inv_empty)

text \<open>
  C13. An enrollment secret that the PostgreSQL store has accepted once is never accepted
  again, whatever operations run in between and whatever faults they meet: not after a
  revocation, and not after an attempt to create a token with the same secret.
\<close>

theorem enrollment_secret_is_single_use:
  assumes "pg_inv (db w)" and "\<not> IsZero t" and "\<not> IsZero t'" and "list_all timed ops"
    and "pg_op env (OpUseToken ctx secret environment stage scope t) w = (Inr (), w1)"
  shows "\<exists>e. fst (pg_op env (OpUseToken ctx' secret environment' stage' scope' t') (after (pg_op env) ops w1)) = Inl e"
proof (cases "fst (pg_op env (OpUseToken ctx' secret environment' stage' scope' t') (after (pg_op env) ops w1))")
  case (Inr u)
  then have "pg_op env (OpUseToken ctx' secret environment' stage' scope' t') (after (pg_op env) ops w1) =
      (Inr u, snd (pg_op env (OpUseToken ctx' secret environment' stage' scope' t') (after (pg_op env) ops w1)))"
    by (simp add: prod_eq_iff)
  moreover have "list_all (\<lambda>op. None \<noteq> Some (TokenSHA256 env secret)) ops" by (simp add: list_all_iff)
  ultimately show ?thesis using postgres.single_use [OF assms(1,2,5,4) _ assms(3)] by blast
qed simp

theorem enrollment_secret_is_single_use_witness:
  "let first = pg_op toy_forge (OpUseToken toy_ctx ''try'' ''lab'' ''dev'' ''local'' 5) (world_of toy_tables) in
     fst first = Inr () \<and>
     (\<exists>e. fst (pg_op toy_forge (OpUseToken toy_ctx ''try'' ''lab'' ''dev'' ''local'' 6)
        (after (pg_op toy_forge) [OpCreateToken toy_ctx toy_token ''try''] (snd first))) = Inl e)"
proof -
  let ?first = "pg_op toy_forge (OpUseToken toy_ctx ''try'' ''lab'' ''dev'' ''local'' 5) (world_of toy_tables)"
  have ok: "fst ?first = Inr ()" by code_simp
  then have "?first = (Inr (), snd ?first)" by (simp add: prod_eq_iff)
  from enrollment_secret_is_single_use [OF toy_tables_inv _ _ _ this, of 6 "[OpCreateToken toy_ctx toy_token ''try'']"] ok
  show ?thesis by (simp add: Let_def)
qed

text \<open>
  C14. Once the latest assignment of a KLIQ is revoked, the PostgreSQL store answers a pull
  only with an assignment of a greater version that is not revoked, after any operations.
\<close>

theorem revoked_assignment_is_not_served:
  assumes "pg_inv (db w)" and "list_all timed ops" and "pg_latest_view (db w) k = Some (v, e, True)"
    and "pg_LatestAssignment env ctx k (after (pg_op env) ops w) = (Inr e', w')"
  shows "\<exists>v'. v < v' \<and> pg_latest_view (db (after (pg_op env) ops w)) k = Some (v', e', False)"
proof -
  from assms(4) obtain r where r: "pg_latest k (db (after (pg_op env) ops w)) = Some r" "pa_revoked_at r = None" "pa_envelope_json r = e'"
    by (auto simp: pg_LatestAssignment_def Let_def steps ret_def elim!: step_elims split: option.splits)
  from advancesD [OF postgres.history_advances [OF assms(1,2), of env] assms(3)] r show ?thesis
    by (auto simp: pg_latest_view_def)
qed

theorem revoked_assignment_is_not_served_witness:
  "let w = after (pg_op toy_forge) [OpSaveAssignment toy_ctx ''kliq-1'' 5 toy_envelope] (world_of toy_tables) in
     \<exists>v'. 4 < v' \<and> pg_latest_view (db w) ''kliq-1'' = Some (v', toy_envelope, False)"
proof -
  let ?ops = "[OpSaveAssignment toy_ctx ''kliq-1'' 5 toy_envelope]"
  let ?w = "after (pg_op toy_forge) ?ops (world_of toy_tables)"
  have "fst (pg_LatestAssignment toy_forge toy_ctx ''kliq-1'' ?w) = Inr toy_envelope" by code_simp
  then have "pg_LatestAssignment toy_forge toy_ctx ''kliq-1'' ?w =
      (Inr toy_envelope, snd (pg_LatestAssignment toy_forge toy_ctx ''kliq-1'' ?w))" by (simp add: prod_eq_iff)
  moreover have "pg_latest_view (db (world_of toy_tables)) ''kliq-1'' = Some (4, toy_envelope, True)"
    by (simp add: pg_latest_view_def pg_latest_def toy_tables_def world_of_def toy_row_def)
  ultimately show ?thesis
    using revoked_assignment_is_not_served [OF toy_tables_inv, of ?ops "''kliq-1''" 4 toy_envelope toy_forge] by simp
qed

text \<open>
  As long as no statement fails, the two stores decide about saving a trust bundle alike:
  from the same bundles they return the same result and end with the same bundles.
\<close>

theorem trust_saves_agree:
  assumes "\<And>n. fault env n = None" and "pg_trust_view (db w) = mem_trustBundles (db m)"
  shows "fst (pg_SaveTrustBundle env b w) = fst (mem_SaveTrustBundle b m) \<and>
    pg_trust_view (db (snd (pg_SaveTrustBundle env b w))) = mem_trustBundles (db (snd (mem_SaveTrustBundle b m)))"
proof -
  let ?b = "default_status b"
  have read: "pg_TrustBundle env (tb_KeyID b) w =
      (case mem_trustBundles (db m) (tb_KeyID b) of None \<Rightarrow> Inl ErrManagementNotFound | Some e \<Rightarrow> Inr e, w\<lparr>tick := Suc (tick w)\<rparr>)"
    unfolding assms(2) [symmetric] using assms(1)
    by (auto simp: pg_TrustBundle_def query_row_def bindE_def query_def statement_def ret_def pg_trust_view_def split: option.splits)
  have wrote: "pg_trust_write env c v = (Inr (), v\<lparr>db := pg_upsert_trust c (db v), tick := Suc (tick v)\<rparr>)" for c v
    using assms(1) by (simp add: pg_trust_write_def execute_def statement_def)
  have found: "errors_Is ErrManagementNotFound ErrManagementNotFound" by (simp add: ErrManagementNotFound_def)
  show ?thesis
    by (cases "validateNewTrustBundle ?b"; cases "mem_trustBundles (db m) (tb_KeyID b)")
      (auto simp: pg_SaveTrustBundle_def pg_trust_checked_def mem_SaveTrustBundle_def Let_def eval tryE_def read wrote found
        pg_trust_upsert put_trust_def assms(2) split: sum.splits)
qed

text \<open>
  C32. Saving a trust bundle checks the stored bundle and writes in two statements with no
  transaction around them. A revocation of the key that completes in between, successfully,
  is undone by the write: the bundle is stored again with the status it was to be saved with.
\<close>

theorem concurrent_save_undoes_revocation:
  assumes "trust_rows_ok (db w)" and "pg_trust_checked env b w = (Inr b', w1)"
    and "pg_RevokeTrustBundle env ctx (tb_KeyID b) reason t w1 = (Inr (), w2)"
    and "pg_trust_write env b' w2 = (Inr (), w3)" and "tb_Status b \<noteq> ''revoked''"
  shows "map_option tb_Status (pg_trust_view (db w2) (tb_KeyID b)) = Some ''revoked'' \<and>
    pg_trust_view (db w3) (tb_KeyID b) = Some b' \<and> tb_Status b' \<noteq> ''revoked''"
proof -
  have b': "b' = default_status b" "db w1 = db w" using pg_trust_checked_run [OF assms(2)] by auto
  from assms(3) obtain c v v1 where c: "pg_TrustBundle env (tb_KeyID b) w1 = (Inr c, v)"
    and save: "pg_SaveTrustBundle env (c\<lparr>tb_Status := ''revoked''\<rparr>) v = (Inr (), v1)"
    and rest: "saveRevocation env ctx ''trust_key'' (tb_KeyID b) reason t [] v1 = (Inr (), w2)"
    by (auto simp: pg_RevokeTrustBundle_def elim!: step_elims)
  have key: "tb_KeyID c = tb_KeyID b"
    using pg_TrustBundle_run [OF c] trust_okD [OF pg_trust_ok [OF assms(1)]] b'(2) by auto
  from save have "pg_trust_view (db v1) = (pg_trust_view (db v))(tb_KeyID c \<mapsto> c\<lparr>tb_Status := ''revoked''\<rparr>)"
    by (auto simp: pg_SaveTrustBundle_def pg_trust_write_def default_status_def steps pg_trust_upsert
        elim!: step_elims dest!: pg_trust_checked_run)
  moreover have "pg_trust_view (db w2) = pg_trust_view (db v1)"
    using keeps_invD [OF pg_bundles.keeps_saveRevocation refl rest] by (simp add: pg_trust_view_def fun_eq_iff)
  moreover have "pg_trust_view (db w3) = (pg_trust_view (db w2))(tb_KeyID b' \<mapsto> b')"
    using assms(4) by (auto simp: pg_trust_write_def steps pg_trust_upsert)
  ultimately show ?thesis using key assms(5) by (simp add: b'(1)) (simp add: default_status_def)
qed

theorem concurrent_save_undoes_revocation_witness:
  "let w1 = snd (pg_trust_checked toy_forge toy_trust (world_of toy_tables));
       w2 = snd (pg_RevokeTrustBundle toy_forge toy_ctx ''key-1'' ''leak'' 5 w1);
       w3 = snd (pg_trust_write toy_forge toy_trust w2) in
     map_option tb_Status (pg_trust_view (db w2) ''key-1'') = Some ''revoked'' \<and> pg_trust_view (db w3) ''key-1'' = Some toy_trust"
proof -
  let ?a = "pg_trust_checked toy_forge toy_trust (world_of toy_tables)"
  let ?r = "pg_RevokeTrustBundle toy_forge toy_ctx (tb_KeyID toy_trust) ''leak'' 5 (snd ?a)"
  let ?s = "pg_trust_write toy_forge toy_trust (snd ?r)"
  have "fst ?a = Inr toy_trust" by code_simp
  then have a: "?a = (Inr toy_trust, snd ?a)" by (simp add: prod_eq_iff)
  have "fst ?r = Inr ()" by code_simp
  then have r: "?r = (Inr (), snd ?r)" by (simp add: prod_eq_iff)
  have "fst ?s = Inr ()" by code_simp
  then have s: "?s = (Inr (), snd ?s)" by (simp add: prod_eq_iff)
  have ok: "trust_rows_ok (db (world_of toy_tables))" using toy_tables_inv by (simp add: pg_inv_def)
  have key: "tb_KeyID toy_trust = ''key-1''" "tb_Status toy_trust \<noteq> ''revoked''" by (simp_all add: toy_trust_def)
  show ?thesis unfolding Let_def key(1) [symmetric] using concurrent_save_undoes_revocation [OF ok a r s key(2)] by simp
qed

text \<open>
  A stored trust bundle whose status is none of the four words exactly - a save accepts
  the words with space around them too - cannot be revoked in the PostgreSQL store: the
  revocation returns an error and leaves the bundles as they are, whatever the faults.
\<close>

theorem padded_status_cannot_be_revoked:
  assumes "trust_rows_ok (db w)" and "pg_trust_view (db w) k = Some b" and "tb_Status b \<notin> {[], ''active'', ''previous'', ''revoked''}"
    and "pg_RevokeTrustBundle env ctx k reason t w = (r, w')"
  shows "(\<exists>e. r = Inl e) \<and> pg_trust_view (db w') = pg_trust_view (db w)"
proof -
  have key: "tb_KeyID b = k" using trust_okD [OF pg_trust_ok [OF assms(1)] assms(2)] by simp
  have bad: "\<exists>e. validateTrustBundleUpdate b (b\<lparr>tb_Status := ''revoked''\<rparr>) = Inl e"
    using assms(3) by (simp add: validateTrustBundleUpdate_def trust_status_update_def fail_if_def)
  have save: "(\<exists>e. x = Inl e) \<and> db v' = db v" if "pg_SaveTrustBundle env (b\<lparr>tb_Status := ''revoked''\<rparr>) v = (x, v')" "db v = db w" for x v v'
    using that(1) unfolding pg_SaveTrustBundle_def
  proof (cases rule: bindE_E)
    case (1 e)
    with pg_trust_checked_run [OF 1(1)] show ?thesis by simp
  next
    case (2 y v1)
    with pg_trust_checked_run [OF 2(1)] bad assms(2) that(2) key show ?thesis by (auto simp: default_status_def)
  qed
  from assms(4) show ?thesis unfolding pg_RevokeTrustBundle_def
  proof (cases rule: bindE_E)
    case (1 e)
    with pg_TrustBundle_run [OF 1(1)] show ?thesis by simp
  next
    case (2 y v1)
    then have "y = b" "db v1 = db w" using pg_TrustBundle_run [OF 2(1)] assms(2) by auto
    with 2(2) save show ?thesis by (auto elim!: bindE_E)
  qed
qed

end
