(* ===== verification/Baseline.thy ===== *)
theory Baseline
  imports Core_Risk SQLite_Store
begin

text \<open>
  Learned baselines of KLIQ: samples, the estimator and the learning engine
  (\<^verbatim>\<open>internal/kliq/baseline/baseline.go\<close>), the projection of adapter signals
  (\<^verbatim>\<open>internal/kliq/signals/projector/klshield.go\<close>), and the tables of versions, statistics and
  promotion decisions (the baseline part of \<^verbatim>\<open>internal/kliq/actionstate/sqlite.go\<close>). A \<^verbatim>\<open>float64\<close> is
  the rational number it denotes and its arithmetic is exact; infinities and NaN do not occur.
\<close>

section \<open>Records\<close>

record Key =
  bk_View :: string
  bk_Entity :: string

record Sample =
  sa_Key :: Key
  sa_Metric :: string
  sa_Value :: rat
  sa_ObservedAt :: gotime

text \<open>The entries of a Go map come in the order in which one iteration visits them.\<close>

record AdapterSignal =
  sg_SignalID :: string
  sg_AdapterID :: string
  sg_SignalType :: string
  sg_Labels :: "(string \<times> string) list"
  sg_Metrics :: "(string \<times> rat) list"
  sg_ObservedAt :: gotime

record VersionRef =
  ve_VersionID :: string
  ve_View :: string
  ve_Entity :: string
  ve_CreatedAt :: gotime
  ve_PromotedAt :: gotime

record PromotionDecision =
  pd_DecisionID :: string
  pd_VersionID :: string
  pd_PreviousVersionID :: string
  pd_Action :: string
  pd_ApprovedBy :: string
  pd_ApprovedAt :: gotime
  pd_Reason :: string

record Stats =
  st_VersionID :: string
  st_Key :: Key
  st_Metric :: string
  st_Center :: rat
  st_Spread :: rat
  st_SampleCount :: int
  st_FrozenAt :: gotime

record Window =
  wi_WindowID :: string
  wi_Key :: Key
  wi_Metric :: string
  wi_StartedAt :: gotime
  wi_EndedAt :: gotime
  wi_SampleCount :: int
  wi_Confidence :: rat
  wi_Clean :: bool
  wi_AnomalyFraction :: rat

record DeviationEvent =
  dv_EventID :: string
  dv_VersionID :: string
  dv_Key :: Key
  dv_Metric :: string
  dv_Value :: rat
  dv_Center :: rat
  dv_Spread :: rat
  dv_Score :: rat
  dv_ObservedAt :: gotime
  dv_EmittedAt :: gotime
  dv_Reason :: string
  dv_Confidence :: rat
  dv_RiskRecipe :: string
  dv_PolicyScope :: string

definition ViewEntity :: string where "ViewEntity = ''entity''"
definition PromotionActionPromote :: string where "PromotionActionPromote = ''promote''"
definition PromotionActionReject :: string where "PromotionActionReject = ''reject''"
definition PromotionActionRollback :: string where "PromotionActionRollback = ''rollback''"

text \<open>SHA-256 as hexadecimal text and the verb \<^verbatim>\<open>%f\<close> are parameters.\<close>

record baseline_env = sysenv +
  be_sha :: "bytes \<Rightarrow> string"
  be_fmtf :: "rat \<Rightarrow> string"

definition baseline_shortHash :: "'e baseline_env_scheme \<Rightarrow> string \<Rightarrow> string" where
  "baseline_shortHash env value = take 16 (be_sha env value)"

section \<open>The estimator\<close>

definition median :: "rat list \<Rightarrow> rat" where
  "median values =
     (if values = [] then 0
      else let mid = length values div 2 in
        if odd (length values) then values ! mid else (values ! (mid - 1) + values ! mid) / 2)"

definition MedianMADEstimator :: "int \<Rightarrow> rat list \<Rightarrow> (rat \<times> rat) option" where
  "MedianMADEstimator minSamples0 samples =
     (let minSamples = (if minSamples0 = 0 then 5 else minSamples0) in
      if int (length samples) < minSamples then None
      else
        let values = sort samples;
            center = median values;
            deviations = map (\<lambda>value. \<bar>value - center\<bar>) values;
            spread = median deviations
        in Some (center, if spread = 0 then 1 else spread))"

section \<open>Deviations\<close>

definition deviation_score :: "Sample \<Rightarrow> Stats \<Rightarrow> rat" where
  "deviation_score s st = \<bar>sa_Value s - st_Center st\<bar> / (if st_Spread st \<le> 0 then 1 else st_Spread st)"

definition deviation_event :: "'e baseline_env_scheme \<Rightarrow> Sample \<Rightarrow> Stats \<Rightarrow> gotime \<Rightarrow> DeviationEvent" where
  "deviation_event env s st now =
     \<lparr>dv_EventID = ''baseline_deviation.'' @ baseline_shortHash env (st_VersionID st @ NUL @ sa_Metric s @ NUL @ formatTime (sa_ObservedAt s)),
      dv_VersionID = st_VersionID st, dv_Key = sa_Key s, dv_Metric = sa_Metric s, dv_Value = sa_Value s,
      dv_Center = st_Center st, dv_Spread = st_Spread st, dv_Score = deviation_score s st,
      dv_ObservedAt = sa_ObservedAt s, dv_EmittedAt = now,
      dv_Reason = ''sample exceeds frozen baseline by Median+MAD threshold'', dv_Confidence = 80 / 100,
      dv_RiskRecipe = [], dv_PolicyScope = []\<rparr>"

definition EvaluateSample ::
  "'e baseline_env_scheme \<Rightarrow> Sample \<Rightarrow> Stats \<Rightarrow> gotime \<Rightarrow> ('d, 'c, DeviationEvent option) action" where
  "EvaluateSample env s st now0 =
     bindE (if IsZero now0 then read_clock env else ret now0) (\<lambda>now.
     ret (if deviation_score s st < 3 then None else Some (deviation_event env s st now)))"

section \<open>Projection of adapter signals\<close>

definition KLShieldAdapterID :: string where "KLShieldAdapterID = ''kernloom.adapter.klshield''"

definition label :: "(string \<times> string) list \<Rightarrow> string \<Rightarrow> string" where
  "label labels k = (case map_of labels k of None \<Rightarrow> [] | Some v \<Rightarrow> TrimSpace v)"

definition projected_samples :: "string \<Rightarrow> gotime \<Rightarrow> (string \<times> rat) list \<Rightarrow> Sample list" where
  "projected_samples entity observedAt metrics =
     map (\<lambda>(metric, v). \<lparr>sa_Key = \<lparr>bk_View = ViewEntity, bk_Entity = ''klshield:'' @ entity\<rparr>, sa_Metric = TrimSpace metric,
                          sa_Value = v, sa_ObservedAt = observedAt\<rparr>)
       (filter (\<lambda>(metric, v). \<not> blank metric) metrics)"

definition Project :: "'e sysenv_scheme \<Rightarrow> AdapterSignal \<Rightarrow> ('d, 'c, Sample list) action" where
  "Project env raw =
     guardE (TrimSpace (sg_AdapterID raw) \<noteq> KLShieldAdapterID)
       (Errorf ''klshield projector received adapter_id %q'' [sg_AdapterID raw])
    (let entity = (if label (sg_Labels raw) ''entity'' = [] then label (sg_Labels raw) ''source'' else label (sg_Labels raw) ''entity'') in
     guardE (entity = []) (Errorf ''klshield signal requires entity label'' [])
    (bindE (if IsZero (sg_ObservedAt raw) then read_clock env else ret (sg_ObservedAt raw)) (\<lambda>observedAt.
     let samples = projected_samples entity observedAt (sg_Metrics raw) in
     guardE (samples = []) (Errorf ''klshield signal requires at least one metric'' []) (ret samples))))"

section \<open>Promotion decisions\<close>

definition validate_decision :: "PromotionDecision \<Rightarrow> unit result" where
  "validate_decision d =
     fail_if (blank (pd_DecisionID d)) (Errorf ''baseline promotion decision requires decision_id'' [])
    (fail_if (blank (pd_VersionID d)) (Errorf ''baseline promotion decision requires version_id'' [])
    (fail_if (TrimSpace (pd_Action d) \<notin> {PromotionActionPromote, PromotionActionReject, PromotionActionRollback})
       (Errorf ''baseline promotion decision action %q is unsupported'' [pd_Action d])
    (fail_if (blank (pd_ApprovedBy d)) (Errorf ''baseline promotion decision requires approved_by'' [])
    (fail_if (IsZero (pd_ApprovedAt d)) (Errorf ''baseline promotion decision requires approved_at'' [])
    (fail_if (blank (pd_Reason d)) (Errorf ''baseline promotion decision requires reason'' [])
    (Inr ()))))))"

section \<open>Tables\<close>

text \<open>
  A row of \<^verbatim>\<open>baseline_versions\<close> keeps the columns that statements filter on; \<^verbatim>\<open>promoted_at\<close> is
  \<^verbatim>\<open>''\<close> (\<open>None\<close>) unless the version is promoted. The other tables keep the struct of their JSON column, whose fields
  their keys repeat.
\<close>

record version_row =
  vr_version_id :: string
  vr_view :: string
  vr_entity :: string
  vr_promoted_at :: "gotime option"
  vr_version_json :: VersionRef

record baseline_db =
  bl_windows :: "Window list"
  bl_versions :: "version_row list"
  bl_stats :: "Stats list"
  bl_decisions :: "PromotionDecision list"
  bl_deviations :: "DeviationEvent list"

definition empty_baselines :: baseline_db where
  "empty_baselines = \<lparr>bl_windows = [], bl_versions = [], bl_stats = [], bl_decisions = [], bl_deviations = []\<rparr>"

type_synonym ('c, 'a) baseline_action = "(baseline_db, 'c, 'a) action"

definition SaveBaselineWindow :: "'e sysenv_scheme \<Rightarrow> Window \<Rightarrow> ('c, unit) baseline_action" where
  "SaveBaselineWindow env win =
     guardE (wi_WindowID win = [] \<or> bk_View (wi_Key win) = [] \<or> bk_Entity (wi_Key win) = [] \<or> wi_Metric win = [])
       (Errorf ''baseline window requires id, key and metric'' [])
    (execute env (\<lambda>d. Inr (d\<lparr>bl_windows := upsert_row wi_WindowID win (bl_windows d)\<rparr>)))"

definition sql_upsert_version :: "VersionRef \<Rightarrow> baseline_db \<Rightarrow> baseline_db" where
  "sql_upsert_version v d =
     d\<lparr>bl_versions :=
        (if \<exists>r \<in> set (bl_versions d). vr_version_id r = ve_VersionID v
         then update_rows (\<lambda>r. vr_version_id r = ve_VersionID v) (\<lambda>r. r\<lparr>vr_promoted_at := None, vr_version_json := v\<rparr>) (bl_versions d)
         else bl_versions d @ [\<lparr>vr_version_id = ve_VersionID v, vr_view = ve_View v, vr_entity = ve_Entity v,
                                vr_promoted_at = None, vr_version_json = v\<rparr>])\<rparr>"

definition stats_defaults :: "VersionRef \<Rightarrow> Stats \<Rightarrow> Stats" where
  "stats_defaults v st =
     (let k = st_Key st in
      st\<lparr>st_VersionID := (if st_VersionID st = [] then ve_VersionID v else st_VersionID st),
         st_Key := \<lparr>bk_View = (if bk_View k = [] then ve_View v else bk_View k),
                    bk_Entity = (if bk_Entity k = [] then ve_Entity v else bk_Entity k)\<rparr>,
         st_FrozenAt := (if IsZero (st_FrozenAt st) then ve_CreatedAt v else st_FrozenAt st)\<rparr>)"

definition sql_upsert_stats :: "Stats \<Rightarrow> baseline_db \<Rightarrow> baseline_db" where
  "sql_upsert_stats st d = d\<lparr>bl_stats := upsert_row (\<lambda>s. (st_VersionID s, st_Metric s)) st (bl_stats d)\<rparr>"

definition save_stats :: "'e sysenv_scheme \<Rightarrow> VersionRef \<Rightarrow> Stats \<Rightarrow> ('c, unit) baseline_action" where
  "save_stats env v st =
     guardE (st_Metric st = []) (Errorf ''baseline stats require metric'' [])
    (execute env (\<lambda>d. Inr (sql_upsert_stats (stats_defaults v st) d)))"

definition SaveBaselineVersion :: "'e sysenv_scheme \<Rightarrow> VersionRef \<Rightarrow> Stats list \<Rightarrow> ('c, unit) baseline_action" where
  "SaveBaselineVersion env version stats =
     guardE (ve_VersionID version = [] \<or> ve_View version = [] \<or> ve_Entity version = [])
       (Errorf ''baseline version requires id, view and entity'' [])
    (guardE (\<not> IsZero (ve_PromotedAt version))
       (Errorf ''baseline version cannot be saved as promoted; use explicit promotion decision'' [])
    (bindE (if IsZero (ve_CreatedAt version) then read_clock env else ret (ve_CreatedAt version)) (\<lambda>created.
     let v = version\<lparr>ve_CreatedAt := created\<rparr> in
     transaction env
       (bindE (execute env (\<lambda>d. Inr (sql_upsert_version v d))) (\<lambda>_.
        for_eachE (save_stats env v) stats)))))"

definition baselineVersionByIDTx :: "'e sysenv_scheme \<Rightarrow> string \<Rightarrow> ('c, VersionRef) baseline_action" where
  "baselineVersionByIDTx env versionID =
     query env (\<lambda>d. case find (\<lambda>r. vr_version_id r = versionID) (bl_versions d) of
       None \<Rightarrow> Inl ErrNotFound | Some r \<Rightarrow> Inr (vr_version_json r))"

text \<open>\<^verbatim>\<open>promoted_at != '' ORDER BY promoted_at DESC LIMIT 1\<close>.\<close>

definition promoted_text :: "version_row \<Rightarrow> string" where
  "promoted_text r = (case vr_promoted_at r of None \<Rightarrow> [] | Some t \<Rightarrow> formatTime t)"

definition active_rows_of :: "string \<Rightarrow> string \<Rightarrow> baseline_db \<Rightarrow> version_row list" where
  "active_rows_of view entity d =
     filter (\<lambda>r. vr_view r = view \<and> vr_entity r = entity \<and> vr_promoted_at r \<noteq> None) (bl_versions d)"

definition activeBaselineVersionTx :: "'e sysenv_scheme \<Rightarrow> string \<Rightarrow> string \<Rightarrow> ('c, VersionRef option) baseline_action" where
  "activeBaselineVersionTx env view entity =
     query env (\<lambda>d. Inr (case rev (sort_key promoted_text (active_rows_of view entity d)) of
       [] \<Rightarrow> None | r # _ \<Rightarrow> Some (vr_version_json r)))"

text \<open>The partial unique index on \<^verbatim>\<open>(view, entity) WHERE promoted_at != ''\<close>.\<close>

definition active_index_ok :: "version_row list \<Rightarrow> bool" where
  "active_index_ok rows \<longleftrightarrow> distinct (map (\<lambda>r. (vr_view r, vr_entity r)) (filter (\<lambda>r. vr_promoted_at r \<noteq> None) rows))"

definition sql_demote_versions :: "string \<Rightarrow> string \<Rightarrow> baseline_db \<Rightarrow> baseline_db" where
  "sql_demote_versions view entity d =
     d\<lparr>bl_versions := update_rows (\<lambda>r. vr_view r = view \<and> vr_entity r = entity) (\<lambda>r. r\<lparr>vr_promoted_at := None\<rparr>) (bl_versions d)\<rparr>"

definition sql_promote_version :: "VersionRef \<Rightarrow> baseline_db \<Rightarrow> baseline_db result" where
  "sql_promote_version v d =
     (let rows = update_rows (\<lambda>r. vr_version_id r = ve_VersionID v)
                   (\<lambda>r. r\<lparr>vr_promoted_at := Some (ve_PromotedAt v), vr_version_json := v\<rparr>) (bl_versions d) in
      if active_index_ok rows then Inr (d\<lparr>bl_versions := rows\<rparr>) else Inl (constraint_failed ''baseline_versions_active''))"

definition insertBaselinePromotionDecisionTx :: "'e sysenv_scheme \<Rightarrow> PromotionDecision \<Rightarrow> ('c, unit) baseline_action" where
  "insertBaselinePromotionDecisionTx env decision =
     execute env (\<lambda>d.
       if \<exists>r \<in> set (bl_decisions d). pd_DecisionID r = pd_DecisionID decision
       then Inl (constraint_failed ''baseline_promotion_decisions.decision_id'')
       else Inr (d\<lparr>bl_decisions := bl_decisions d @ [decision]\<rparr>))"

definition promotion_action :: "PromotionDecision \<Rightarrow> PromotionDecision" where
  "promotion_action d = (if pd_Action d = [] then d\<lparr>pd_Action := PromotionActionPromote\<rparr> else d)"

definition previous_version :: "'e sysenv_scheme \<Rightarrow> PromotionDecision \<Rightarrow> VersionRef \<Rightarrow> ('c, PromotionDecision) baseline_action" where
  "previous_version env d v =
     (if pd_PreviousVersionID d = [] then
        bindE (activeBaselineVersionTx env (ve_View v) (ve_Entity v)) (\<lambda>active.
        ret (case active of None \<Rightarrow> d | Some a \<Rightarrow> d\<lparr>pd_PreviousVersionID := ve_VersionID a\<rparr>))
      else ret d)"

definition PromoteBaselineVersion :: "'e sysenv_scheme \<Rightarrow> PromotionDecision \<Rightarrow> ('c, VersionRef) baseline_action" where
  "PromoteBaselineVersion env decision0 =
     (let decision = promotion_action decision0 in
      guardE (pd_Action decision \<noteq> PromotionActionPromote \<and> pd_Action decision \<noteq> PromotionActionRollback)
        (Errorf ''baseline promotion requires promote or rollback action'' [])
     (bindE (lift (validate_decision decision)) (\<lambda>_.
      transaction env
        (bindE (baselineVersionByIDTx env (pd_VersionID decision)) (\<lambda>version.
         bindE (previous_version env decision version) (\<lambda>d2.
         bindE (execute env (\<lambda>d. Inr (sql_demote_versions (ve_View version) (ve_Entity version) d))) (\<lambda>_.
         let v = version\<lparr>ve_PromotedAt := pd_ApprovedAt decision\<rparr> in
         bindE (execute env (sql_promote_version v)) (\<lambda>_.
         bindE (insertBaselinePromotionDecisionTx env d2) (\<lambda>_.
         ret v)))))))))"

definition RejectBaselineVersion :: "'e sysenv_scheme \<Rightarrow> PromotionDecision \<Rightarrow> ('c, unit) baseline_action" where
  "RejectBaselineVersion env decision0 =
     (let decision = decision0\<lparr>pd_Action := PromotionActionReject\<rparr> in
      bindE (lift (validate_decision decision)) (\<lambda>_.
      transaction env
        (bindE (baselineVersionByIDTx env (pd_VersionID decision)) (\<lambda>_.
         insertBaselinePromotionDecisionTx env decision))))"

definition BaselinePromotionDecisions :: "'e sysenv_scheme \<Rightarrow> ('c, PromotionDecision list) baseline_action" where
  "BaselinePromotionDecisions env =
     query env (\<lambda>d. Inr (sort_key (\<lambda>x. formatTime (pd_ApprovedAt x)) (sort_key pd_DecisionID (bl_decisions d))))"

definition ActiveBaselineVersion :: "'e sysenv_scheme \<Rightarrow> string \<Rightarrow> string \<Rightarrow> ('c, VersionRef option) baseline_action" where
  "ActiveBaselineVersion env view entity = activeBaselineVersionTx env view entity"

definition BaselineStats :: "'e sysenv_scheme \<Rightarrow> string \<Rightarrow> string \<Rightarrow> ('c, Stats) baseline_action" where
  "BaselineStats env versionID metric =
     query env (\<lambda>d. case find (\<lambda>s. (st_VersionID s, st_Metric s) = (versionID, metric)) (bl_stats d) of
       None \<Rightarrow> Inl ErrNotFound | Some s \<Rightarrow> Inr s)"

definition SaveBaselineDeviation :: "'e sysenv_scheme \<Rightarrow> DeviationEvent \<Rightarrow> ('c, unit) baseline_action" where
  "SaveBaselineDeviation env event =
     guardE (dv_EventID event = [] \<or> dv_VersionID event = [] \<or> bk_View (dv_Key event) = [] \<or> bk_Entity (dv_Key event) = [] \<or>
             dv_Metric event = [])
       (Errorf ''baseline deviation requires id, version, key and metric'' [])
    (bindE (if IsZero (dv_EmittedAt event) then read_clock env else ret (dv_EmittedAt event)) (\<lambda>emitted.
     execute env (\<lambda>d. Inr (d\<lparr>bl_deviations := upsert_row dv_EventID (event\<lparr>dv_EmittedAt := emitted\<rparr>) (bl_deviations d)\<rparr>))))"

section \<open>The engine\<close>

record Engine =
  en_Store :: bool
  en_Estimator :: "(rat list \<Rightarrow> (rat \<times> rat) option) option"
  en_MinSamples :: int
  en_MinConfidence :: rat
  en_MaxCleanAnomalyFraction :: rat

definition engine_estimator :: "Engine \<Rightarrow> rat list \<Rightarrow> (rat \<times> rat) option" where
  "engine_estimator e = (case en_Estimator e of None \<Rightarrow> MedianMADEstimator 0 | Some f \<Rightarrow> f)"

definition engine_minSamples :: "Engine \<Rightarrow> int" where
  "engine_minSamples e = (if en_MinSamples e = 0 then 5 else en_MinSamples e)"

definition engine_minConfidence :: "Engine \<Rightarrow> rat" where
  "engine_minConfidence e = (if en_MinConfidence e = 0 then 70 / 100 else en_MinConfidence e)"

definition engine_maxAnomaly :: "Engine \<Rightarrow> rat" where
  "engine_maxAnomaly e = (if en_MaxCleanAnomalyFraction e = 0 then 10 / 100 else en_MaxCleanAnomalyFraction e)"

definition windowIdentity :: "'e baseline_env_scheme \<Rightarrow> Sample list \<Rightarrow> gotime \<Rightarrow> string" where
  "windowIdentity env samples now =
     concat (map (\<lambda>s. bk_View (sa_Key s) @ NUL @ bk_Entity (sa_Key s) @ NUL @ sa_Metric s @ NUL @ be_fmtf env (sa_Value s) @ NUL @
       formatTime (sa_ObservedAt s) @ [CHR 0x0A]) samples) @ formatTime now"

definition learned_window :: "'e baseline_env_scheme \<Rightarrow> Sample list \<Rightarrow> rat \<Rightarrow> rat \<Rightarrow> bool \<Rightarrow> gotime \<Rightarrow> Window" where
  "learned_window env samples confidence anomalyFraction clean now =
     \<lparr>wi_WindowID = ''baseline_window.'' @ baseline_shortHash env (windowIdentity env samples now),
      wi_Key = sa_Key (hd samples), wi_Metric = sa_Metric (hd samples), wi_StartedAt = sa_ObservedAt (hd samples),
      wi_EndedAt = sa_ObservedAt (last samples), wi_SampleCount = int (length samples), wi_Confidence = confidence,
      wi_Clean = clean, wi_AnomalyFraction = anomalyFraction\<rparr>"

definition learned_version :: "'e baseline_env_scheme \<Rightarrow> Key \<Rightarrow> string \<Rightarrow> gotime \<Rightarrow> VersionRef" where
  "learned_version env key metric now =
     \<lparr>ve_VersionID = ''baseline_version.'' @ baseline_shortHash env (bk_View key @ NUL @ bk_Entity key @ NUL @ metric @ NUL @ formatTime now),
      ve_View = bk_View key, ve_Entity = bk_Entity key, ve_CreatedAt = now, ve_PromotedAt = 0\<rparr>"

definition window_usable :: "Engine \<Rightarrow> Sample list \<Rightarrow> rat \<Rightarrow> rat \<Rightarrow> bool \<Rightarrow> bool" where
  "window_usable e samples confidence anomalyFraction clean \<longleftrightarrow>
     clean \<and> engine_minSamples e \<le> int (length samples) \<and> engine_minConfidence e \<le> confidence \<and>
     anomalyFraction \<le> engine_maxAnomaly e"

text \<open>\<open>None\<close> where the code returns \<^verbatim>\<open>false\<close> without an error.\<close>

definition learn_version ::
  "'e baseline_env_scheme \<Rightarrow> Engine \<Rightarrow> Sample list \<Rightarrow> gotime \<Rightarrow> ('c, (VersionRef \<times> Stats list) option) baseline_action" where
  "learn_version env e samples now =
     (let key = sa_Key (hd samples); metric = sa_Metric (hd samples); version = learned_version env key metric now in
      guardE (\<exists>s \<in> set samples. sa_Key s \<noteq> key \<or> sa_Metric s \<noteq> metric)
        (Errorf ''baseline window must contain one key and metric'' [])
     (case engine_estimator e (map sa_Value samples) of
        None \<Rightarrow> ret None
      | Some (center, spread) \<Rightarrow>
          let stats = [\<lparr>st_VersionID = ve_VersionID version, st_Key = key, st_Metric = metric, st_Center = center,
                       st_Spread = spread, st_SampleCount = int (length samples), st_FrozenAt = now\<rparr>] in
          bindE (SaveBaselineVersion env version stats) (\<lambda>_.
          ret (Some (version, stats)))))"

definition LearnWindow ::
  "'e baseline_env_scheme \<Rightarrow> Engine \<Rightarrow> Sample list \<Rightarrow> rat \<Rightarrow> rat \<Rightarrow> bool \<Rightarrow> bool \<Rightarrow>
     ('c, (VersionRef \<times> Stats list) option) baseline_action" where
  "LearnWindow env e samples confidence anomalyFraction clean promote =
     guardE promote (Errorf ''inline baseline promotion requires an explicit approved promotion decision'' [])
    (if samples = [] then ret None
     else
       guardE (\<not> en_Store e) (Errorf ''baseline engine requires store'' [])
      (bindE (read_clock env) (\<lambda>now.
       bindE (SaveBaselineWindow env (learned_window env samples confidence anomalyFraction clean now)) (\<lambda>_.
       if \<not> window_usable e samples confidence anomalyFraction clean then ret None
       else learn_version env e samples now))))"

end
