(* ===== verification/Local_Risk.thy ===== *)
theory Local_Risk
  imports Baseline SQLite_Managed
begin

text \<open>
  Local risk evaluation (\<^verbatim>\<open>internal/kliq/localrisk/localrisk.go\<close>): a deviation from a baseline becomes a
  risk context in the risk cache. \<^verbatim>\<open>strconv.ParseFloat\<close> on the text of a recipe is a parameter; on
  the digits that the threshold expression captures it is written out.
\<close>

section \<open>Risk recipes\<close>

record RiskRecipe =
  rr_ID :: string
  rr_Output :: "(string \<times> string) list"
  rr_Scoring :: "(string \<times> string) list"
  rr_Thresholds :: "(string \<times> string) list"
  rr_Confidence :: "(string \<times> string) list"
  rr_Freshness :: "(string \<times> string) list"

text \<open>Indexing a Go map of strings: a missing key reads as the empty string.\<close>

definition at_key :: "(string \<times> string) list \<Rightarrow> string \<Rightarrow> string" where
  "at_key m k = (case map_of m k of None \<Rightarrow> [] | Some v \<Rightarrow> v)"

section \<open>Thresholds\<close>

text \<open>The class \<^verbatim>\<open>\s\<close> of a Go regular expression.\<close>

definition re_space :: "char \<Rightarrow> bool" where
  "re_space c \<longleftrightarrow> c = CHR 0x20 \<or> c = CHR 0x09 \<or> c = CHR 0x0A \<or> c = CHR 0x0C \<or> c = CHR 0x0D"

text \<open>\<^verbatim>\<open>[0-9]+(?:\.[0-9]+)?\<close> at the start of a string: the integer part and the digits after the point.\<close>

definition re_number :: "string \<Rightarrow> (string \<times> string) option" where
  "re_number s =
     (let i = takeWhile is_digit s; r = dropWhile is_digit s in
      if i = [] then None
      else case r of
        [] \<Rightarrow> Some (i, [])
      | c # r' \<Rightarrow> Some (i, if c = CHR ''.'' then takeWhile is_digit r' else []))"

text \<open>\<^verbatim>\<open>score\s*>=\s*([0-9]+(?:\.[0-9]+)?)\<close> at the start of a string.\<close>

definition re_bound_here :: "string \<Rightarrow> (string \<times> string) option" where
  "re_bound_here s =
     (if \<not> HasPrefix s ''score'' then None
      else let r = dropWhile re_space (drop 5 s) in
        if \<not> HasPrefix r ''>='' then None
        else re_number (dropWhile re_space (drop 2 r)))"

text \<open>\<^verbatim>\<open>FindStringSubmatch\<close>: the leftmost match.\<close>

fun re_bound :: "string \<Rightarrow> (string \<times> string) option" where
  "re_bound [] = None"
| "re_bound (c # cs) = (case re_bound_here (c # cs) of Some m \<Rightarrow> Some m | None \<Rightarrow> re_bound cs)"

definition digits_value :: "string \<Rightarrow> int" where
  "digits_value s = fold (\<lambda>c n. n * 10 + digit_value c) s 0"

definition decimal_value :: "string \<times> string \<Rightarrow> rat" where
  "decimal_value p = of_int (digits_value (fst p)) + of_int (digits_value (snd p)) / 10 ^ length (snd p)"

text \<open>The least value that \<^verbatim>\<open>ParseFloat\<close> rounds to infinity and reports as out of range.\<close>

definition float64_overflow :: rat where
  "float64_overflow = 2 ^ 1024 - 2 ^ 970"

fun contains :: "string \<Rightarrow> string \<Rightarrow> bool" where
  "contains [] p = (p = [])"
| "contains (c # cs) p = (HasPrefix (c # cs) p \<or> contains cs p)"

definition lowerBound :: "string \<Rightarrow> rat option" where
  "lowerBound expression =
     (case re_bound expression of
        None \<Rightarrow> if contains expression ''score <'' then Some 0 else None
      | Some m \<Rightarrow> if decimal_value m < float64_overflow then Some (decimal_value m) else None)"

text \<open>\<^verbatim>\<open>sort.Slice\<close> leaves the order of equal bounds open, as the iteration over the map does.\<close>

definition recipe_thresholds :: "RiskRecipe \<Rightarrow> (string \<times> rat) list" where
  "recipe_thresholds recipe =
     sort_key (\<lambda>t. - snd t)
       (List.map_filter (\<lambda>(tier, expression). map_option (\<lambda>m. (NormalizeTier tier, m)) (lowerBound expression)) (rr_Thresholds recipe))"

definition tierForScore :: "RiskRecipe \<Rightarrow> rat \<Rightarrow> string" where
  "tierForScore recipe score =
     (case find (\<lambda>t. snd t \<le> score) (recipe_thresholds recipe) of None \<Rightarrow> TierUnknown | Some t \<Rightarrow> fst t)"

section \<open>The evaluation\<close>

definition deviationScore :: "DeviationEvent \<Rightarrow> rat" where
  "deviationScore event =
     (let score = dv_Score event * 25 in if 100 < score then 100 else if score < 0 then 0 else score)"

definition maxAge :: "RiskRecipe \<Rightarrow> duration" where
  "maxAge recipe =
     (let v = TrimSpace (at_key (rr_Freshness recipe) ''max_age'') in
      if v = [] then 120000000000
      else case ParseDuration v of Inr d \<Rightarrow> d | Inl e \<Rightarrow> 120000000000)"

definition minimumConfidence :: "(string \<Rightarrow> rat result) \<Rightarrow> RiskRecipe \<Rightarrow> rat" where
  "minimumConfidence parseFloat recipe =
     (let v = TrimSpace (at_key (rr_Confidence recipe) ''minimum_for_enforcement'') in
      if v = [] then 70 / 100
      else case parseFloat v of Inr x \<Rightarrow> x | Inl e \<Rightarrow> 70 / 100)"

definition recipe_risk_type :: "RiskRecipe \<Rightarrow> string" where
  "recipe_risk_type recipe =
     (let t = NormalizeType (at_key (rr_Output recipe) ''risk_type'') in if t = [] then ''runtime_anomaly'' else t)"

definition deviation_context :: "RiskRecipe \<Rightarrow> DeviationEvent \<Rightarrow> gotime \<Rightarrow> RiskContext" where
  "deviation_context recipe event now =
     (let riskType = recipe_risk_type recipe; score = deviationScore event; tier = tierForScore recipe score;
          validUntil = now + maxAge recipe;
          signal = \<lparr>rs_Type = riskType, rs_Tier = tier, rs_Score = Some score, rs_Reasons = [dv_Reason event],
                    rs_Confidence = dv_Confidence event, rs_ObservedAt = dv_ObservedAt event, rs_EvaluatedAt = now,
                    rs_ValidUntil = validUntil, rs_Source = ''baseline.local'', rs_Scope = ScopeLocal\<rparr> in
      \<lparr>rc_RiskType = riskType, rc_Tier = tier, rc_Score = Some score, rc_Confidence = dv_Confidence event,
       rc_Reasons = [dv_Reason event], rc_Signals = [signal], rc_Source = ''baseline.local'', rc_Scope = ScopeLocal,
       rc_EvaluatedAt = now, rc_ValidUntil = validUntil\<rparr>)"

text \<open>\<open>store\<close> is \<^verbatim>\<open>e.Store != nil\<close>.\<close>

definition EvaluateDeviation ::
  "'e sysenv_scheme \<Rightarrow> (string \<Rightarrow> rat result) \<Rightarrow> bool \<Rightarrow> RiskRecipe \<Rightarrow> DeviationEvent \<Rightarrow> (sqlite, 'c, RiskContext) action" where
  "EvaluateDeviation env parseFloat store recipe event =
     guardE (\<not> store) (Errorf ''local risk evaluator requires store'' [])
    (bindE (read_clock env) (\<lambda>now.
     let riskType = recipe_risk_type recipe in
     bindE (if dv_Confidence event < minimumConfidence parseFloat recipe
            then bindE (if IsZero now then read_clock env else ret now) (\<lambda>wall.
                 ret (UnknownContext riskType ScopeLocal ''baseline.local'' now [''risk confidence below recipe minimum''] wall))
            else ret (deviation_context recipe event now)) (\<lambda>ctx.
     bindE (SaveRiskContext env \<lparr>rk_RiskType = riskType, rk_Scope = ScopeLocal\<rparr> ctx) (\<lambda>_.
     ret ctx))))"

end
