(* ===== verification/Properties_Baseline.thy ===== *)
theory Properties_Baseline
  imports Local_Risk
begin

text \<open>
  Properties of the learned baselines and of local risk: what the estimator returns, when a
  version is learned, which version is active, and which tier a deviation gets.
\<close>

section \<open>Active versions\<close>

lemma filter_update_off:
  assumes "\<And>r. p r \<Longrightarrow> \<not> P (f r)"
  shows "filter P (update_rows p f rows) = filter (\<lambda>r. P r \<and> \<not> p r) rows"
  using assms by (induction rows) (auto simp: update_rows_def)

lemma distinct_map_filter_conj: "distinct (map k (filter P rows)) \<Longrightarrow> distinct (map k (filter (\<lambda>r. P r \<and> Q r) rows))"
  by (induction rows) (auto split: if_splits)

lemma distinct_at_most_one: "distinct (map k rows) \<Longrightarrow> length (filter (\<lambda>r. k r = x) rows) \<le> 1"
  by (induction rows) (auto simp: filter_empty_conv image_iff)

lemma active_index_update_off:
  "active_index_ok rows \<Longrightarrow> (\<And>r. vr_promoted_at (f r) = None) \<Longrightarrow> active_index_ok (update_rows p f rows)"
  by (simp add: active_index_ok_def filter_update_off distinct_map_filter_conj)

lemma active_index_upsert: "active_index_ok (bl_versions d) \<Longrightarrow> active_index_ok (bl_versions (sql_upsert_version v d))"
  unfolding sql_upsert_version_def by (simp add: active_index_update_off) (simp add: active_index_ok_def)

lemma active_index_demote: "active_index_ok (bl_versions d) \<Longrightarrow> active_index_ok (bl_versions (sql_demote_versions view entity d))"
  unfolding sql_demote_versions_def by (simp add: active_index_update_off)

text \<open>
  An invariant of the versions that saving, demoting and promoting a row keep; the other
  tables do not matter.
\<close>

locale baseline_frame =
  fixes J :: "version_row list \<Rightarrow> bool"
  assumes upsert: "J (bl_versions d) \<Longrightarrow> J (bl_versions (sql_upsert_version v d))"
begin

abbreviation inv_of :: "(baseline_db, 'c) world \<Rightarrow> bool" where
  "inv_of w \<equiv> J (bl_versions (db w))"

lemma keeps_versions_execute:
  "(\<And>d d'. J (bl_versions d) \<Longrightarrow> f d = Inr d' \<Longrightarrow> J (bl_versions d')) \<Longrightarrow> keeps_inv inv_of (execute env f)"
  by (rule keeps_table_execute)

lemmas keeps_versions_transaction = keeps_table_transaction [where J = "\<lambda>d. J (bl_versions d)"]
lemmas keeps_baseline = keeps keeps_finish tables.keeps_read_clock tables.keeps_query keeps_versions_transaction

lemma keeps_SaveBaselineWindow: "keeps_inv inv_of (SaveBaselineWindow env win)"
  unfolding SaveBaselineWindow_def by (intro keeps_baseline keeps_versions_execute) auto

lemma keeps_SaveBaselineVersion: "keeps_inv inv_of (SaveBaselineVersion env v stats)"
  unfolding SaveBaselineVersion_def save_stats_def Let_def
  by (intro keeps_baseline keeps_versions_execute) (auto simp: sql_upsert_stats_def upsert)

lemma keeps_decision: "keeps_inv inv_of (insertBaselinePromotionDecisionTx env d)"
  unfolding insertBaselinePromotionDecisionTx_def by (intro keeps_versions_execute) (auto split: if_splits)

lemma keeps_reads:
  "keeps_inv inv_of (baselineVersionByIDTx env versionID)" "keeps_inv inv_of (previous_version env decision version)"
  unfolding baselineVersionByIDTx_def previous_version_def activeBaselineVersionTx_def by (intro keeps_baseline)+

lemma keeps_RejectBaselineVersion: "keeps_inv inv_of (RejectBaselineVersion env d)"
  unfolding RejectBaselineVersion_def Let_def by (intro keeps_baseline keeps_reads keeps_decision)

lemma keeps_SaveBaselineDeviation: "keeps_inv inv_of (SaveBaselineDeviation env event)"
  unfolding SaveBaselineDeviation_def by (intro keeps_baseline keeps_versions_execute) auto

lemma keeps_LearnWindow: "keeps_inv inv_of (LearnWindow env e samples confidence anomaly clean promote)"
  unfolding LearnWindow_def learn_version_def Let_def by (intro keeps_baseline keeps_SaveBaselineWindow keeps_SaveBaselineVersion)

lemma keeps_PromoteBaselineVersion:
  assumes "\<And>d view entity. J (bl_versions d) \<Longrightarrow> J (bl_versions (sql_demote_versions view entity d))"
    and "\<And>d v d'. J (bl_versions d) \<Longrightarrow> sql_promote_version v d = Inr d' \<Longrightarrow> J (bl_versions d')"
  shows "keeps_inv inv_of (PromoteBaselineVersion env decision)"
  unfolding PromoteBaselineVersion_def Let_def
  by (intro keeps_baseline keeps_reads keeps_decision keeps_versions_execute) (auto intro: assms)

end

interpretation active_index: baseline_frame active_index_ok
  by unfold_locales (rule active_index_upsert)

datatype baseline_op =
    OpWindow Window
  | OpVersion VersionRef "Stats list"
  | OpPromote PromotionDecision
  | OpReject PromotionDecision
  | OpDeviation DeviationEvent
  | OpLearn Engine "Sample list" rat rat bool bool

fun baseline_run :: "'e baseline_env_scheme \<Rightarrow> baseline_op \<Rightarrow> ('c, unit) baseline_action" where
  "baseline_run env (OpWindow win) = SaveBaselineWindow env win"
| "baseline_run env (OpVersion v stats) = SaveBaselineVersion env v stats"
| "baseline_run env (OpPromote d) = finish (PromoteBaselineVersion env d)"
| "baseline_run env (OpReject d) = RejectBaselineVersion env d"
| "baseline_run env (OpDeviation e) = SaveBaselineDeviation env e"
| "baseline_run env (OpLearn e samples c a clean promote) = finish (LearnWindow env e samples c a clean promote)"

lemma active_index_promote: "sql_promote_version v d = Inr d' \<Longrightarrow> active_index_ok (bl_versions d')"
  by (auto simp: sql_promote_version_def Let_def split: if_splits)

lemma keeps_active_index: "keeps_inv (\<lambda>w. active_index_ok (bl_versions (db w))) (baseline_run env op)"
  by (cases op)
    (auto intro!: keeps_finish active_index.keeps_SaveBaselineWindow active_index.keeps_SaveBaselineVersion
      active_index.keeps_RejectBaselineVersion active_index.keeps_SaveBaselineDeviation active_index.keeps_LearnWindow
      active_index.keeps_PromoteBaselineVersion intro: active_index_demote dest: active_index_promote)

lemma active_index_after: "active_index_ok (bl_versions (db w)) \<Longrightarrow> active_index_ok (bl_versions (db (after (baseline_run env) ops w)))"
  by (induction ops arbitrary: w) (auto intro: keeps_invD [OF keeps_active_index _ prod.collapse [symmetric]])

text \<open>
  C33. Whatever sequence of baseline operations runs from empty tables, and whatever
  statements fail, at most one version is promoted for each view and entity.
\<close>

theorem one_active_baseline:
  assumes "db w = empty_baselines"
  shows "length (active_rows_of view entity (db (after (baseline_run env) ops w))) \<le> 1"
proof -
  let ?rows = "bl_versions (db (after (baseline_run env) ops w))"
  let ?act = "filter (\<lambda>r. vr_promoted_at r \<noteq> None) ?rows"
  have "active_index_ok (bl_versions (db w))" by (simp add: assms empty_baselines_def active_index_ok_def)
  then have "distinct (map (\<lambda>r. (vr_view r, vr_entity r)) ?act)"
    using active_index_after unfolding active_index_ok_def by blast
  then have "length (filter (\<lambda>r. (vr_view r, vr_entity r) = (view, entity)) ?act) \<le> 1"
    by (rule distinct_at_most_one)
  moreover have "filter (\<lambda>r. (vr_view r, vr_entity r) = (view, entity)) ?act = active_rows_of view entity (db (after (baseline_run env) ops w))"
    unfolding active_rows_of_def by (auto intro: filter_cong)
  ultimately show ?thesis by simp
qed

text \<open>Concrete values.\<close>

definition toy_baseline_env :: baseline_env where
  "toy_baseline_env = \<lparr>clock = (\<lambda>n. 1000 + int n), fault = (\<lambda>_. None), be_sha = rev, be_fmtf = (\<lambda>_. ''0.0'')\<rparr>"

definition toy_version :: VersionRef where
  "toy_version = \<lparr>ve_VersionID = ''v-1'', ve_View = ''entity'', ve_Entity = ''host'', ve_CreatedAt = 5, ve_PromotedAt = 0\<rparr>"

definition toy_decision :: PromotionDecision where
  "toy_decision = \<lparr>pd_DecisionID = ''d-1'', pd_VersionID = ''v-1'', pd_PreviousVersionID = [], pd_Action = [],
     pd_ApprovedBy = ''ops'', pd_ApprovedAt = 9, pd_Reason = ''steady''\<rparr>"

definition toy_baselines :: "(baseline_db, unit) world" where
  "toy_baselines = \<lparr>db = empty_baselines, calls = [], tick = 0\<rparr>"

definition saved_baselines :: "(baseline_db, unit) world" where
  "saved_baselines = snd (baseline_run toy_baseline_env (OpVersion toy_version []) toy_baselines)"

theorem one_active_baseline_witness:
  "length (active_rows_of ''entity'' ''host''
     (db (after (baseline_run toy_baseline_env) [OpVersion toy_version [], OpPromote toy_decision] toy_baselines))) \<le> 1"
  by (rule one_active_baseline) (simp add: toy_baselines_def)

definition versions_ok :: "baseline_db \<Rightarrow> bool" where
  "versions_ok d \<longleftrightarrow> distinct (map vr_version_id (bl_versions d)) \<and>
     (\<forall>r \<in> set (bl_versions d). vr_version_id r = ve_VersionID (vr_version_json r) \<and>
        vr_view r = ve_View (vr_version_json r) \<and> vr_entity r = ve_Entity (vr_version_json r))"

lemma promoted_rows:
  assumes "versions_ok d" and "find (\<lambda>r. vr_version_id r = n) (bl_versions d) = Some row"
    and "sql_promote_version (vr_version_json row\<lparr>ve_PromotedAt := t\<rparr>) (sql_demote_versions (vr_view row) (vr_entity row) d) = Inr d'"
  shows "active_rows_of (vr_view row) (vr_entity row) d' =
    [row\<lparr>vr_promoted_at := Some t, vr_version_json := vr_version_json row\<lparr>ve_PromotedAt := t\<rparr>\<rparr>]"
proof -
  have row: "row \<in> set (bl_versions d)" "vr_version_id row = n" using find_SomeD [OF assms(2)] by auto
  have id: "ve_VersionID (vr_version_json row) = n" using assms(1) row by (auto simp: versions_ok_def)
  from row(1) obtain xs ys where split: "bl_versions d = xs @ row # ys" by (auto dest: split_list)
  have others: "vr_version_id r \<noteq> n" if "r \<in> set xs \<union> set ys" for r
    using assms(1) that row(2) by (auto simp: versions_ok_def split image_iff)
  let ?off = "update_rows (\<lambda>r. vr_view r = vr_view row \<and> vr_entity r = vr_entity row) (\<lambda>r. r\<lparr>vr_promoted_at := None\<rparr>)"
  let ?on = "update_rows (\<lambda>r. vr_version_id r = n) (\<lambda>r. r\<lparr>vr_promoted_at := Some t, vr_version_json := vr_version_json row\<lparr>ve_PromotedAt := t\<rparr>\<rparr>)"
  have none: "filter (\<lambda>r. vr_view r = vr_view row \<and> vr_entity r = vr_entity row \<and> vr_promoted_at r \<noteq> None) (?on (?off zs)) = []"
    if "set zs \<subseteq> set xs \<union> set ys" for zs
    using that others by (auto simp: filter_empty_conv update_rows_def split: if_splits)
  from assms(3) have "bl_versions d' = ?on (?off (bl_versions d))"
    by (auto simp: sql_promote_version_def sql_demote_versions_def Let_def id split: if_splits)
  then have "bl_versions d' = ?on (?off xs) @ ?on (?off [row]) @ ?on (?off ys)"
    by (simp add: split update_rows_def)
  then show ?thesis unfolding active_rows_of_def using none [of xs] none [of ys] row(2)
    by (simp add: update_rows_def)
qed

lemma previous_version_run:
  assumes "previous_version env d v w = (Inr d2, w')"
  shows "db w' = db w \<and> (\<exists>p. d2 = d\<lparr>pd_PreviousVersionID := p\<rparr> \<and>
    (\<forall>a. pd_PreviousVersionID d = [] \<longrightarrow> active_rows_of (ve_View v) (ve_Entity v) (db w) = [a] \<longrightarrow> p = ve_VersionID (vr_version_json a)))"
proof (cases "pd_PreviousVersionID d = []")
  case True
  let ?active = "rev (sort_key promoted_text (active_rows_of (ve_View v) (ve_Entity v) (db w)))"
  let ?p = "case ?active of [] \<Rightarrow> [] | r # rs \<Rightarrow> ve_VersionID (vr_version_json r)"
  have "db w' = db w \<and> d2 = d\<lparr>pd_PreviousVersionID := ?p\<rparr>"
    using assms True
    by (auto simp: previous_version_def activeBaselineVersionTx_def steps elim!: step_elims split: option.splits list.splits)
  then show ?thesis by auto
next
  case False
  with assms show ?thesis by (auto simp: previous_version_def intro!: exI [of _ "pd_PreviousVersionID d"])
qed

text \<open>
  A promotion that succeeds leaves exactly one active version of its view and entity,
  the one the decision names, promoted at the time of the approval, and appends the decision
  with the version that was active before, if the decision did not name one.
\<close>

theorem promotion_activates_exactly_one:
  assumes "versions_ok (db w)" and "PromoteBaselineVersion env decision w = (Inr v, w')"
  shows "ve_VersionID v = pd_VersionID decision \<and> ve_PromotedAt v = pd_ApprovedAt decision \<and>
    map vr_version_json (active_rows_of (ve_View v) (ve_Entity v) (db w')) = [v] \<and>
    (\<exists>prev. bl_decisions (db w') = bl_decisions (db w) @ [promotion_action decision\<lparr>pd_PreviousVersionID := prev\<rparr>] \<and>
      (\<forall>a. pd_PreviousVersionID decision = [] \<longrightarrow> active_rows_of (ve_View v) (ve_Entity v) (db w) = [a] \<longrightarrow>
        prev = ve_VersionID (vr_version_json a)))"
proof -
  let ?d = "promotion_action decision"
  have d: "pd_VersionID ?d = pd_VersionID decision" "pd_ApprovedAt ?d = pd_ApprovedAt decision"
    "pd_PreviousVersionID ?d = pd_PreviousVersionID decision" by (simp_all add: promotion_action_def)
  let ?w = "w\<lparr>tick := Suc (Suc (tick w))\<rparr>"
  obtain row d2 d1 v2 where row: "find (\<lambda>r. vr_version_id r = pd_VersionID decision) (bl_versions (db w)) = Some row"
    and prev: "previous_version env ?d (vr_version_json row) ?w = (Inr d2, v2)"
    and prom: "sql_promote_version (vr_version_json row\<lparr>ve_PromotedAt := pd_ApprovedAt decision\<rparr>)
        (sql_demote_versions (ve_View (vr_version_json row)) (ve_Entity (vr_version_json row)) (db v2)) = Inr d1"
    and v: "v = vr_version_json row\<lparr>ve_PromotedAt := pd_ApprovedAt decision\<rparr>"
    and w': "db w' = d1\<lparr>bl_decisions := bl_decisions d1 @ [d2]\<rparr>"
    using assms(2) unfolding PromoteBaselineVersion_def Let_def
    by (auto simp: steps d lift_def baselineVersionByIDTx_def insertBaselinePromotionDecisionTx_def
        elim!: step_elims dest!: transaction_Inr split: option.splits if_splits)
  have in_rows: "row \<in> set (bl_versions (db w))" "vr_version_id row = pd_VersionID decision" using find_SomeD [OF row] by auto
  have json: "ve_VersionID (vr_version_json row) = pd_VersionID decision" "ve_View (vr_version_json row) = vr_view row"
    "ve_Entity (vr_version_json row) = vr_entity row" using assms(1) in_rows by (auto simp: versions_ok_def)
  from previous_version_run [OF prev] obtain p where v2: "db v2 = db w" and p: "d2 = ?d\<lparr>pd_PreviousVersionID := p\<rparr>"
    "\<And>a. pd_PreviousVersionID decision = [] \<Longrightarrow> active_rows_of (ve_View v) (ve_Entity v) (db w) = [a] \<Longrightarrow> p = ve_VersionID (vr_version_json a)"
    by (auto simp: d v)
  have rows: "active_rows_of (vr_view row) (vr_entity row) (db w') = active_rows_of (vr_view row) (vr_entity row) d1"
    by (simp add: w' active_rows_of_def)
  have decisions: "bl_decisions d1 = bl_decisions (db w)"
    using prom by (auto simp: sql_promote_version_def sql_demote_versions_def v2 Let_def split: if_splits)
  have "map vr_version_json (active_rows_of (ve_View v) (ve_Entity v) (db w')) = [v]"
    using promoted_rows [OF assms(1) row] prom by (simp add: v json v2 rows)
  moreover have "bl_decisions (db w') = bl_decisions (db w) @ [?d\<lparr>pd_PreviousVersionID := p\<rparr>]"
    by (simp add: w' decisions p(1))
  ultimately show ?thesis using p(2) json(1) by (auto simp: v)
qed

section \<open>Learning\<close>






section \<open>The estimator\<close>

text \<open>
  C35. On an odd number of samples the estimator returns their median as the center and always
  1 as the spread. The absolute deviations are taken from the sorted samples and their median
  is read without sorting them again, so the middle one is the deviation of the median from
  itself, which is 0 and is replaced by 1.
\<close>

theorem odd_windows_have_spread_one:
  assumes "odd (length samples)" and "(if minSamples = 0 then 5 else minSamples) \<le> int (length samples)"
  shows "MedianMADEstimator minSamples samples = Some (sort samples ! (length samples div 2), 1)"
proof -
  have ne: "sort samples \<noteq> []" using assms(1) by (cases samples) auto
  have len: "length samples div 2 < length samples" using assms(1) by (cases samples) auto
  have "median (sort samples) = sort samples ! (length samples div 2)"
    using assms(1) ne by (simp add: median_def Let_def)
  moreover from this have "median (map (\<lambda>v. \<bar>v - median (sort samples)\<bar>) (sort samples)) = 0"
    using assms(1) len ne by (simp add: median_def [of "map f xs" for f xs] Let_def)
  ultimately show ?thesis using assms(2) by (simp add: MedianMADEstimator_def Let_def)
qed

theorem odd_windows_have_spread_one_witness:
  "MedianMADEstimator 0 [10, 400, 20, 300, 0] = Some (20, 1)"
proof -
  have "sort [10, 400, 20, 300, 0 :: rat] = [0, 10, 20, 300, 400]" by code_simp
  with odd_windows_have_spread_one [of "[10, 400, 20, 300, 0]" 0] show ?thesis by simp
qed

section \<open>Local risk\<close>





text \<open>
  An evaluated deviation is in the risk cache when the evaluation returns. Below the
  confidence of the recipe it is the unknown context; otherwise its score lies between 0 and
  100, its tier is the one of the score, and it is valid for the maximal age of the recipe.
\<close>

theorem evaluated_risk_is_cached:
  assumes "EvaluateDeviation env parseFloat store recipe event w = (Inr ctx, w')"
  shows "find (\<lambda>r. fst r = risk_save_key \<lparr>rk_RiskType = recipe_risk_type recipe, rk_Scope = ScopeLocal\<rparr> ctx) (risk_rows (db w')) =
      Some (risk_save_key \<lparr>rk_RiskType = recipe_risk_type recipe, rk_Scope = ScopeLocal\<rparr> ctx, ctx) \<and>
    (if dv_Confidence event < minimumConfidence parseFloat recipe then rc_Tier ctx = TierUnknown \<and> rc_Score ctx = None
     else (\<exists>score. rc_Score ctx = Some score \<and> 0 \<le> score \<and> score \<le> 100 \<and> rc_Tier ctx = tierForScore recipe score) \<and>
       rc_ValidUntil ctx = rc_EvaluatedAt ctx + maxAge recipe)"
proof -
  let ?key = "\<lparr>rk_RiskType = recipe_risk_type recipe, rk_Scope = ScopeLocal\<rparr>"
  from assms obtain now v v1 where
    ctx: "ctx = (if dv_Confidence event < minimumConfidence parseFloat recipe
        then UnknownContext (recipe_risk_type recipe) ScopeLocal ''baseline.local'' now [''risk confidence below recipe minimum''] v
        else deviation_context recipe event now)"
    and save: "SaveRiskContext env ?key ctx v1 = (Inr (), w')"
    unfolding EvaluateDeviation_def Let_def
    by (cases "dv_Confidence event < minimumConfidence parseFloat recipe") (auto simp: steps elim!: step_elims)
  from save have "risk_rows (db w') = upsert_row fst (risk_save_key ?key ctx, ctx) (risk_rows (db v1))"
    unfolding SaveRiskContext_def by (elim bindE_InrE) (auto simp: steps sql_upsert_risk_def split: sum.splits if_splits)
  then have "find (\<lambda>r. fst r = risk_save_key ?key ctx) (risk_rows (db w')) = Some (risk_save_key ?key ctx, ctx)"
    by (simp add: find_upsert_row)
  moreover have "0 \<le> deviationScore event \<and> deviationScore event \<le> 100" by (simp add: deviationScore_def Let_def)
  ultimately show ?thesis using ctx by (simp add: UnknownContext_def deviation_context_def Let_def)
qed

definition toy_recipe :: RiskRecipe where
  "toy_recipe = \<lparr>rr_ID = ''r'', rr_Output = [(''risk_type'', ''risk_type.scan'')], rr_Scoring = [],
     rr_Thresholds = [(''low'', ''score < 40''), (''high'', ''score >= 70.5''), (''medium'', ''score >= 40 && score < 70'')],
     rr_Confidence = [], rr_Freshness = [(''max_age'', ''1m'')]\<rparr>"

definition toy_event :: DeviationEvent where
  "toy_event = \<lparr>dv_EventID = ''e'', dv_VersionID = ''v-1'', dv_Key = \<lparr>bk_View = ''entity'', bk_Entity = ''host''\<rparr>, dv_Metric = ''pps'',
     dv_Value = 100, dv_Center = 10, dv_Spread = 1, dv_Score = 90, dv_ObservedAt = 5, dv_EmittedAt = 6,
     dv_Reason = ''spike'', dv_Confidence = 8 / 10, dv_RiskRecipe = [], dv_PolicyScope = []\<rparr>"

lemma toy_bounds:
  "lowerBound ''score < 40'' = Some 0" "lowerBound ''score >= 70.5'' = Some (141 / 2)" "lowerBound ''score >= 40 && score < 70'' = Some 40"
proof -
  have "re_bound ''score < 40'' = None" "contains ''score < 40'' ''score <''" "re_bound ''score >= 70.5'' = Some (''70'', ''5'')"
    "re_bound ''score >= 40 && score < 70'' = Some (''40'', [])" "digits_value ''70'' = 70" "digits_value ''5'' = 5" "digits_value ''40'' = 40"
    "digits_value [] = 0" by code_simp+
  then show "lowerBound ''score < 40'' = Some 0" "lowerBound ''score >= 70.5'' = Some (141 / 2)"
    "lowerBound ''score >= 40 && score < 70'' = Some 40"
    by (simp_all add: lowerBound_def decimal_value_def float64_overflow_def)
qed

lemma toy_tier: "tierForScore toy_recipe 100 = TierHigh"
proof -
  have "NormalizeTier ''low'' = TierLow" "NormalizeTier ''medium'' = TierMedium" "NormalizeTier ''high'' = TierHigh" by code_simp+
  then show ?thesis by (simp add: tierForScore_def recipe_thresholds_def toy_recipe_def toy_bounds)
qed

theorem evaluated_risk_is_cached_witness:
  "\<exists>ctx w'. EvaluateDeviation toy_baseline_env (\<lambda>_. Inr 0) True toy_recipe toy_event \<lparr>db = empty_store, calls = [] :: unit list, tick = 0\<rparr> = (Inr ctx, w') \<and>
     rc_Tier ctx = TierHigh \<and> rc_ValidUntil ctx = rc_EvaluatedAt ctx + 60000000000"
proof -
  let ?r = "EvaluateDeviation toy_baseline_env (\<lambda>_. Inr 0) True toy_recipe toy_event \<lparr>db = empty_store, calls = [] :: unit list, tick = 0\<rparr>"
  let ?c = "deviation_context toy_recipe toy_event 1000"
  have type: "recipe_risk_type toy_recipe = ''scan''" and age: "maxAge toy_recipe = 60000000000" by code_simp+
  have conf: "\<not> dv_Confidence toy_event < minimumConfidence (\<lambda>_. Inr 0) toy_recipe"
    by (simp add: toy_event_def toy_recipe_def minimumConfidence_def at_key_def)
  have tier: "rc_Tier ?c = TierHigh" using toy_tier by (simp add: deviation_context_def Let_def deviationScore_def toy_event_def)
  have "\<not> blank ''scan''" "\<not> blank ScopeLocal" by code_simp+
  then have "ValidateContext ?c 0 (1000 + 1) = Inr ()"
    using type age tier NormalizeTier_tiers(3) by (simp add: ValidateContext_iff) (simp add: deviation_context_def Let_def)
  then have "fst ?r = Inr ?c"
    using conf by (simp add: EvaluateDeviation_def Let_def guardE_def bindE_def read_clock_def ret_def SaveRiskContext_def execute_def statement_def
        toy_baseline_env_def)
  then have r: "?r = (Inr ?c, snd ?r)" by (simp add: prod_eq_iff)
  from evaluated_risk_is_cached [OF r] r conf tier age show ?thesis by auto
qed

end
