(* ===== verification/Authn.thy ===== *)
theory Authn
  imports Forge_Domain GoStrings
begin

text \<open>
  Who may do what at the API of Forge: principals and scopes
  (\<^verbatim>\<open>internal/api/authn/principal.go\<close>), the role and scope check
  (\<^verbatim>\<open>internal/api/authz/authorizer.go\<close>), and the tokens and certificates a KLIQ identifies itself with
  (\<^verbatim>\<open>internal/api/authn/service_token.go\<close>). HMAC, Ed25519, base64, PEM and X.509, and the JSON codec of the
  claims are parameters.
\<close>

section \<open>Principals\<close>

record Scope =
  sc_Org :: string
  sc_Environment :: string
  sc_Stage :: string
  sc_PolicyType :: string
  sc_Resource :: string
  sc_Adapter :: string
  sc_Repo :: string

definition zero_Scope :: Scope where
  "zero_Scope = \<lparr>sc_Org = [], sc_Environment = [], sc_Stage = [], sc_PolicyType = [], sc_Resource = [], sc_Adapter = [], sc_Repo = []\<rparr>"

record Principal =
  pr_Subject :: string
  pr_Roles :: "string list"
  pr_Scope :: Scope
  pr_Claims :: metadata

definition HasRole :: "Principal \<Rightarrow> string \<Rightarrow> bool" where
  "HasRole p role \<longleftrightarrow> role \<in> set (pr_Roles p)"

text \<open>\<^verbatim>\<open>value, ok := claims[key].(string)\<close>.\<close>

definition claim_string :: "metadata \<Rightarrow> string \<Rightarrow> string option" where
  "claim_string claims key = (case map_of claims key of Some (JString s) \<Rightarrow> Some s | _ \<Rightarrow> None)"

section \<open>Authorization\<close>

definition ErrForbidden :: error where "ErrForbidden = Sentinel ''forbidden''"

definition RolePolicyAuthor :: string where "RolePolicyAuthor = ''policy-author''"
definition RolePolicyReviewer :: string where "RolePolicyReviewer = ''policy-reviewer''"
definition RoleSecurityOwner :: string where "RoleSecurityOwner = ''security-owner''"
definition RolePlatformOwner :: string where "RolePlatformOwner = ''platform-owner''"
definition RoleAdapterOwner :: string where "RoleAdapterOwner = ''adapter-owner''"
definition RoleRiskOwner :: string where "RoleRiskOwner = ''risk-owner''"
definition RoleConformanceReviewer :: string where "RoleConformanceReviewer = ''conformance-reviewer''"
definition RoleOperator :: string where "RoleOperator = ''operator''"
definition RoleReadOnlyViewer :: string where "RoleReadOnlyViewer = ''read-only-viewer''"
definition RoleBreakGlassApprover :: string where "RoleBreakGlassApprover = ''break-glass-approver''"
definition RoleKLIQService :: string where "RoleKLIQService = ''kliq-service''"

lemmas role_defs =
  RolePolicyAuthor_def RolePolicyReviewer_def RoleSecurityOwner_def RolePlatformOwner_def RoleAdapterOwner_def
  RoleRiskOwner_def RoleConformanceReviewer_def RoleOperator_def RoleReadOnlyViewer_def RoleBreakGlassApprover_def
  RoleKLIQService_def

record authz_Request =
  az_Action :: string
  az_AllowedRoles :: "string list"
  az_Scope :: Scope

definition hasAnyRole :: "Principal \<Rightarrow> string list \<Rightarrow> bool" where
  "hasAnyRole p roles \<longleftrightarrow> list_ex (HasRole p) roles"

definition fieldAllows :: "string \<Rightarrow> string \<Rightarrow> bool" where
  "fieldAllows principalValue requestedValue \<longleftrightarrow>
     (if requestedValue = [] \<or> principalValue = [] \<or> principalValue = ''*'' then True else principalValue = requestedValue)"

definition scopeAllows :: "Scope \<Rightarrow> Scope \<Rightarrow> bool" where
  "scopeAllows p r \<longleftrightarrow>
     fieldAllows (sc_Org p) (sc_Org r) \<and> fieldAllows (sc_Environment p) (sc_Environment r) \<and>
     fieldAllows (sc_Stage p) (sc_Stage r) \<and> fieldAllows (sc_PolicyType p) (sc_PolicyType r) \<and>
     fieldAllows (sc_Resource p) (sc_Resource r) \<and> fieldAllows (sc_Adapter p) (sc_Adapter r) \<and>
     fieldAllows (sc_Repo p) (sc_Repo r)"

definition Authorize :: "Principal \<Rightarrow> authz_Request \<Rightarrow> unit result" where
  "Authorize p req =
     fail_if (pr_Subject p = []) ErrForbidden
    (fail_if (az_AllowedRoles req \<noteq> [] \<and> \<not> hasAnyRole p (az_AllowedRoles req))
       (Wrapf ''%w: role does not allow %s'' [az_Action req] ErrForbidden)
    (fail_if (\<not> scopeAllows (pr_Scope p) (az_Scope req))
       (Wrapf ''%w: scope does not allow %s'' [az_Action req] ErrForbidden)
    (Inr ())))"

definition SimulationSubmitRoles :: "string list" where
  "SimulationSubmitRoles = [RolePolicyAuthor, RolePolicyReviewer, RoleSecurityOwner, RolePlatformOwner, RoleOperator]"

definition JobReadRoles :: "string list" where
  "JobReadRoles =
     [RolePolicyAuthor, RolePolicyReviewer, RoleSecurityOwner, RolePlatformOwner, RoleAdapterOwner, RoleRiskOwner,
      RoleConformanceReviewer, RoleOperator, RoleReadOnlyViewer, RoleBreakGlassApprover]"

definition KLIQManageRoles :: "string list" where
  "KLIQManageRoles = [RoleSecurityOwner, RolePlatformOwner, RoleOperator]"

definition KLIQReadRoles :: "string list" where
  "KLIQReadRoles = [RoleSecurityOwner, RolePlatformOwner, RoleOperator, RoleReadOnlyViewer]"

definition PolicyBuildApproveRoles :: "string list" where
  "PolicyBuildApproveRoles = [RolePolicyReviewer, RoleSecurityOwner, RolePlatformOwner, RoleBreakGlassApprover]"

definition ValidationSubmitRoles :: "string list" where
  "ValidationSubmitRoles = [RolePolicyAuthor, RolePolicyReviewer, RoleSecurityOwner, RolePlatformOwner, RoleOperator]"

section \<open>Service tokens of a KLIQ\<close>

definition KLIQServiceRole :: string where "KLIQServiceRole = ''kliq-service''"
definition DevLocalSignedToken :: string where "DevLocalSignedToken = ''dev-local-signed-token''"
definition SPIFFEReady :: string where "SPIFFEReady = ''spiffe-ready''"

definition ErrUnauthenticated :: error where "ErrUnauthenticated = Sentinel ''unauthenticated''"

record KLIQServiceClaims =
  cl_Subject :: string
  cl_KLIQID :: string
  cl_Environment :: string
  cl_Stage :: string
  cl_Scope :: string
  cl_ServiceIdentityProvider :: string
  cl_SPIFFEID :: string
  cl_IdentityMaterialSHA256 :: string
  cl_ExpiresAt :: int
  cl_IssuedAt :: int

text \<open>
  The environment of the API: the digests of the management store, the wire formats, and the codecs of a token.
  \<open>ae_hmac key message\<close> is HMAC-SHA256 and \<open>ae_b64\<close> is base64 with the URL alphabet and no padding.
\<close>

record authn_env = forge_env +
  ae_wire :: wire
  ae_hmac :: "bytes \<Rightarrow> bytes \<Rightarrow> bytes"
  ae_b64 :: "bytes \<Rightarrow> string"
  ae_unb64 :: "string \<Rightarrow> bytes result"
  ae_encClaims :: "KLIQServiceClaims \<Rightarrow> bytes result"
  ae_decClaims :: "bytes \<Rightarrow> KLIQServiceClaims result"
  ae_parsePKCS8 :: "bytes \<Rightarrow> bytes option result"

text \<open>\<^verbatim>\<open>t.Unix()\<close>: whole seconds since 1 January 1970.\<close>

definition Unix :: "gotime \<Rightarrow> int" where
  "Unix t = t div 1000000000 - 62135596800"

definition DefaultKLIQSPIFFEID :: "string \<Rightarrow> string \<Rightarrow> string \<Rightarrow> string \<Rightarrow> string" where
  "DefaultKLIQSPIFFEID kliqID environment stage scope =
     (if kliqID = [] then []
      else ''spiffe://kernloom.local/'' @
        Join ''/'' (map (\<lambda>p. ReplaceByte (CHR ''/'') ''_'' (TrimSpace p))
          [''environment'', environment, ''stage'', stage, ''scope'', scope, ''kliq'', kliqID]))"

fun after_kliq :: "string list \<Rightarrow> string" where
  "after_kliq (p # q # ps) = (if p = ''kliq'' then q else after_kliq (q # ps))"
| "after_kliq _ = []"

definition kliqIDFromSPIFFEID :: "string \<Rightarrow> string" where
  "kliqIDFromSPIFFEID spiffeID = after_kliq (Split (CHR ''/'') (TrimSpace spiffeID))"

definition IdentityMaterialSHA256 :: "'e authn_env_scheme \<Rightarrow> KLIQIdentity \<Rightarrow> string" where
  "IdentityMaterialSHA256 env identity =
     (let material = (if blank (ki_PublicKeyPEM identity) then TrimSpace (ki_CSRPEM identity) else TrimSpace (ki_PublicKeyPEM identity)) in
      if material = [] then [] else SHA256JSON (fe_sha env) material)"

definition serviceTokenSignature :: "'e authn_env_scheme \<Rightarrow> bytes \<Rightarrow> string \<Rightarrow> string" where
  "serviceTokenSignature env secret encodedPayload = ae_b64 env (ae_hmac env secret encodedPayload)"

text \<open>The claims both kinds of token carry.\<close>

definition service_claims ::
  "string \<Rightarrow> string \<Rightarrow> string \<Rightarrow> string \<Rightarrow> string \<Rightarrow> string \<Rightarrow> string \<Rightarrow> gotime \<Rightarrow> duration \<Rightarrow> KLIQServiceClaims" where
  "service_claims kliqID environment stage scope provider spiffeID material issuedAt ttl =
     \<lparr>cl_Subject = ''kliq:'' @ kliqID, cl_KLIQID = kliqID, cl_Environment = environment, cl_Stage = stage, cl_Scope = scope,
      cl_ServiceIdentityProvider = provider, cl_SPIFFEID = spiffeID, cl_IdentityMaterialSHA256 = material,
      cl_ExpiresAt = Unix (issuedAt + ttl), cl_IssuedAt = Unix issuedAt\<rparr>"

definition issue ::
  "'e authn_env_scheme \<Rightarrow> bytes \<Rightarrow> string \<Rightarrow> string \<Rightarrow> string \<Rightarrow> string \<Rightarrow> string \<Rightarrow> string \<Rightarrow> string \<Rightarrow> duration \<Rightarrow> ('d, 'c, string) action" where
  "issue env secret kliqID environment stage scope provider0 spiffeID material ttl =
     guardE (secret = []) (Errorf ''kliq service token issuer requires secret'' [])
    (guardE (kliqID = []) (Errorf ''kliq service token requires kliq_id'' [])
    (let provider = (if provider0 = [] then DevLocalSignedToken else provider0) in
     bindE (read_clock env) (\<lambda>issuedAt.
     bindE (lift (ae_encClaims env (service_claims kliqID environment stage scope provider spiffeID material issuedAt ttl))) (\<lambda>payload.
     let encodedPayload = ae_b64 env payload in
     ret (''kliqsvc.'' @ encodedPayload @ ''.'' @ serviceTokenSignature env secret encodedPayload)))))"

definition Issue ::
  "'e authn_env_scheme \<Rightarrow> bytes \<Rightarrow> string \<Rightarrow> string \<Rightarrow> string \<Rightarrow> string \<Rightarrow> duration \<Rightarrow> ('d, 'c, string) action" where
  "Issue env secret kliqID environment stage scope ttl =
     issue env secret kliqID environment stage scope DevLocalSignedToken (DefaultKLIQSPIFFEID kliqID environment stage scope) [] ttl"

definition identity_provider :: "KLIQIdentity \<Rightarrow> string" where
  "identity_provider identity =
     (let provider = TrimSpace (ki_ServiceIdentityProvider identity) in if provider = [] then SPIFFEReady else provider)"

definition IssueForIdentity :: "'e authn_env_scheme \<Rightarrow> bytes \<Rightarrow> KLIQIdentity \<Rightarrow> duration \<Rightarrow> ('d, 'c, string) action" where
  "IssueForIdentity env secret identity ttl =
     issue env secret (ki_KLIQID identity) (ki_Environment identity) (ki_Stage identity) (ki_Scope identity)
       (identity_provider identity) (ki_SPIFFEID identity) (IdentityMaterialSHA256 env identity) ttl"

text \<open>The principal that the claims of a token or the identity of a certificate give.\<close>

definition service_principal :: "string \<Rightarrow> KLIQServiceClaims \<Rightarrow> Principal" where
  "service_principal provider c =
     \<lparr>pr_Subject = cl_Subject c, pr_Roles = [KLIQServiceRole],
      pr_Scope = zero_Scope\<lparr>sc_Environment := cl_Environment c, sc_Stage := cl_Stage c\<rparr>,
      pr_Claims =
        [(''provider'', JString provider), (''kliq_id'', JString (cl_KLIQID c)), (''kliq_scope'', JString (cl_Scope c)),
         (''environment'', JString (cl_Environment c)), (''stage'', JString (cl_Stage c)),
         (''service_identity_provider'', JString (cl_ServiceIdentityProvider c)), (''spiffe_id'', JString (cl_SPIFFEID c)),
         (''identity_material_sha256'', JString (cl_IdentityMaterialSHA256 c))]\<rparr>"

definition VerifyServiceToken :: "'e authn_env_scheme \<Rightarrow> bytes \<Rightarrow> string \<Rightarrow> ('d, 'c, Principal) action" where
  "VerifyServiceToken env secret token =
     guardE (secret = [] \<or> \<not> HasPrefix token ''kliqsvc.'') ErrUnauthenticated
    (case Split (CHR ''.'') token of
       [_, p1, p2] \<Rightarrow>
         guardE (serviceTokenSignature env secret p1 \<noteq> p2) ErrUnauthenticated
        (bindE (lift (ae_unb64 env p1)) (\<lambda>payload.
         bindE (lift (ae_decClaims env payload)) (\<lambda>claims.
         guardE (cl_Subject claims = [] \<or> cl_KLIQID claims = []) (Errorf ''kliq service token missing subject or kliq_id'' [])
        (bindE (read_clock env) (\<lambda>now.
         guardE (cl_ExpiresAt claims \<le> Unix now) (Errorf ''kliq service token expired'' [])
        (ret (service_principal ''kliq-service-token'' claims)))))))
     | _ \<Rightarrow> raise ErrUnauthenticated)"

section \<open>Tokens signed with the key of an identity\<close>

text \<open>\<^verbatim>\<open>parse_PKIX\<close> and \<^verbatim>\<open>ae_parsePKCS8\<close> return \<open>None\<close> for a key that is not Ed25519.\<close>

definition parseEd25519PublicKeyPEM :: "wire \<Rightarrow> string \<Rightarrow> bytes result" where
  "parseEd25519PublicKeyPEM cx value =
     (case pem_Decode cx (TrimSpace value) of
        None \<Rightarrow> Inl (Errorf ''missing public key PEM'' [])
      | Some der \<Rightarrow>
          check_then (parse_PKIX cx der) (\<lambda>key.
            case key of
              Some k \<Rightarrow> fail_if (length k \<noteq> 32) (Errorf ''public key is not Ed25519'' []) (Inr k)
            | None \<Rightarrow> Inl (Errorf ''public key is not Ed25519'' [])))"

definition parseEd25519PrivateKeyPEM :: "'e authn_env_scheme \<Rightarrow> string \<Rightarrow> bytes result" where
  "parseEd25519PrivateKeyPEM env value =
     (case pem_Decode (ae_wire env) (TrimSpace value) of
        None \<Rightarrow> Inl (Errorf ''missing private key PEM'' [])
      | Some der \<Rightarrow>
          check_then (ae_parsePKCS8 env der) (\<lambda>key.
            case key of
              Some k \<Rightarrow> fail_if (length k \<noteq> 64) (Errorf ''private key is not Ed25519'' []) (Inr k)
            | None \<Rightarrow> Inl (Errorf ''private key is not Ed25519'' [])))"

definition IssueKLIQIdentitySignedToken ::
  "'e authn_env_scheme \<Rightarrow> KLIQIdentity \<Rightarrow> string \<Rightarrow> duration \<Rightarrow> ('d, 'c, string) action" where
  "IssueKLIQIdentitySignedToken env identity privateKeyPEM ttl =
     bindE (lift (parseEd25519PrivateKeyPEM env privateKeyPEM)) (\<lambda>privateKey.
     guardE (ki_KLIQID identity = []) (Errorf ''kliq identity signed token requires kliq_id'' [])
    (bindE (read_clock env) (\<lambda>issuedAt.
     bindE (lift (ae_encClaims env
       (service_claims (ki_KLIQID identity) (ki_Environment identity) (ki_Stage identity) (ki_Scope identity)
          (identity_provider identity) (ki_SPIFFEID identity) (IdentityMaterialSHA256 env identity) issuedAt ttl))) (\<lambda>payload.
     let encodedPayload = ae_b64 env payload in
     ret (''kliqsig.'' @ encodedPayload @ ''.'' @ ae_b64 env (ed25519_sign (w_crypto (ae_wire env)) privateKey encodedPayload))))))"

text \<open>
  The verifiers read identities through the interface \<^verbatim>\<open>KLIQIdentityStore\<close>; \<open>None\<close> is a nil store.
\<close>

type_synonym ('d, 'c) identity_reader = "string \<Rightarrow> ('d, 'c, KLIQIdentity) action"

definition claims_match :: "'e authn_env_scheme \<Rightarrow> KLIQServiceClaims \<Rightarrow> KLIQIdentity \<Rightarrow> unit result" where
  "claims_match env claims identity =
     fail_if (cl_Environment claims \<noteq> ki_Environment identity \<or> cl_Stage claims \<noteq> ki_Stage identity \<or>
              cl_Scope claims \<noteq> ki_Scope identity \<or> cl_IdentityMaterialSHA256 claims \<noteq> IdentityMaterialSHA256 env identity)
       (Errorf ''kliq identity token claims do not match registered identity'' [])
    (fail_if (cl_ServiceIdentityProvider claims \<noteq> [] \<and> ki_ServiceIdentityProvider identity \<noteq> [] \<and>
              cl_ServiceIdentityProvider claims \<noteq> ki_ServiceIdentityProvider identity)
       (Errorf ''kliq identity token provider does not match registered identity'' [])
    (fail_if (cl_SPIFFEID claims \<noteq> [] \<and> ki_SPIFFEID identity \<noteq> [] \<and> cl_SPIFFEID claims \<noteq> ki_SPIFFEID identity)
       (Errorf ''kliq identity token spiffe id does not match registered identity'' [])
    (Inr ())))"

definition VerifyIdentityToken ::
  "'e authn_env_scheme \<Rightarrow> ('d, 'c) identity_reader option \<Rightarrow> string \<Rightarrow> ('d, 'c, Principal) action" where
  "VerifyIdentityToken env store token =
     guardE (Option.is_none store \<or> \<not> HasPrefix token ''kliqsig.'') ErrUnauthenticated
    (case Split (CHR ''.'') token of
       [_, p1, p2] \<Rightarrow>
         bindE (lift (ae_unb64 env p1)) (\<lambda>payload.
         bindE (lift (ae_unb64 env p2)) (\<lambda>signature.
         bindE (lift (ae_decClaims env payload)) (\<lambda>claims.
         guardE (cl_Subject claims = [] \<or> cl_KLIQID claims = []) (Errorf ''kliq identity token missing subject or kliq_id'' [])
        (bindE (read_clock env) (\<lambda>now.
         guardE (cl_ExpiresAt claims \<le> Unix now) (Errorf ''kliq identity token expired'' [])
        (tryE (the store (cl_KLIQID claims)) (\<lambda>r. case r of
           Inl e \<Rightarrow> raise ErrUnauthenticated
         | Inr identity \<Rightarrow>
             bindE (lift (parseEd25519PublicKeyPEM (ae_wire env) (ki_PublicKeyPEM identity))) (\<lambda>publicKey.
             guardE (\<not> ed25519_verify (w_crypto (ae_wire env)) publicKey p1 signature) ErrUnauthenticated
            (bindE (lift (claims_match env claims identity)) (\<lambda>_.
             ret (service_principal ''kliq-identity-signed-token'' claims)))))))))))
     | _ \<Rightarrow> raise ErrUnauthenticated)"

section \<open>Certificates with a SPIFFE id\<close>

text \<open>
  What the verifier reads of a request with TLS: the URIs of the first peer certificate, a scheme and a text each;
  \<open>None\<close> without TLS or a certificate.
\<close>

type_synonym peer = "(string \<times> string) list option"

definition spiffe_of :: "(string \<times> string) list \<Rightarrow> string" where
  "spiffe_of uris = (case find (\<lambda>u. fst u = ''spiffe'') uris of None \<Rightarrow> [] | Some u \<Rightarrow> snd u)"

definition identity_revoked :: "KLIQIdentity \<Rightarrow> bool" where
  "identity_revoked i \<longleftrightarrow> ki_Status i = ''revoked'' \<or> ki_CredentialStatus i = ''revoked'' \<or> \<not> IsZero (ki_RevokedAt i)"

definition mtls_claims :: "'e authn_env_scheme \<Rightarrow> KLIQIdentity \<Rightarrow> string \<Rightarrow> KLIQServiceClaims" where
  "mtls_claims env i spiffeID =
     \<lparr>cl_Subject = ''kliq:'' @ ki_KLIQID i, cl_KLIQID = ki_KLIQID i, cl_Environment = ki_Environment i, cl_Stage = ki_Stage i,
      cl_Scope = ki_Scope i, cl_ServiceIdentityProvider = SPIFFEReady, cl_SPIFFEID = spiffeID,
      cl_IdentityMaterialSHA256 = IdentityMaterialSHA256 env i, cl_ExpiresAt = 0, cl_IssuedAt = 0\<rparr>"

definition VerifyMTLSRequest ::
  "'e authn_env_scheme \<Rightarrow> ('d, 'c) identity_reader option \<Rightarrow> peer \<Rightarrow> ('d, 'c, Principal) action" where
  "VerifyMTLSRequest env store peer =
     (case (store, peer) of
        (Some read, Some uris) \<Rightarrow>
          let spiffeID = spiffe_of uris; kliqID = kliqIDFromSPIFFEID spiffeID in
          guardE (spiffeID = []) ErrUnauthenticated
         (guardE (kliqID = []) (Errorf ''spiffe id does not contain kliq id'' [])
         (tryE (read kliqID) (\<lambda>r. case r of
            Inl e \<Rightarrow> raise ErrUnauthenticated
          | Inr identity \<Rightarrow>
              guardE (identity_revoked identity) ErrUnauthenticated
             (bindE (if IsZero (ki_CredentialExpiresAt identity) then ret 0 else read_clock env) (\<lambda>now.
              guardE (\<not> IsZero (ki_CredentialExpiresAt identity) \<and> \<not> Before now (ki_CredentialExpiresAt identity))
                (Errorf ''kliq mTLS identity credential expired'' [])
             (guardE (ki_SPIFFEID identity \<noteq> [] \<and> ki_SPIFFEID identity \<noteq> spiffeID)
                (Errorf ''spiffe id does not match registered identity'' [])
             (ret (service_principal ''kliq-mtls-spiffe'' (mtls_claims env identity spiffeID)))))))))
      | _ \<Rightarrow> raise ErrUnauthenticated)"

section \<open>What a principal says about its KLIQ\<close>

definition PrincipalKLIQID :: "Principal \<Rightarrow> string" where
  "PrincipalKLIQID p =
     (case claim_string (pr_Claims p) ''kliq_id'' of Some v \<Rightarrow> v | None \<Rightarrow> TrimPrefix (pr_Subject p) ''kliq:'')"

definition claim_or_empty :: "Principal \<Rightarrow> string \<Rightarrow> string" where
  "claim_or_empty p key = (case claim_string (pr_Claims p) key of Some v \<Rightarrow> v | None \<Rightarrow> [])"

definition PrincipalKLIQScope :: "Principal \<Rightarrow> string" where
  "PrincipalKLIQScope p = claim_or_empty p ''kliq_scope''"

definition PrincipalServiceIdentityProvider :: "Principal \<Rightarrow> string" where
  "PrincipalServiceIdentityProvider p = claim_or_empty p ''service_identity_provider''"

definition PrincipalSPIFFEID :: "Principal \<Rightarrow> string" where
  "PrincipalSPIFFEID p = claim_or_empty p ''spiffe_id''"

definition PrincipalIdentityMaterialSHA256 :: "Principal \<Rightarrow> string" where
  "PrincipalIdentityMaterialSHA256 p = claim_or_empty p ''identity_material_sha256''"

section \<open>Facts\<close>

lemma Authorize_iff [guards]:
  "Authorize p req = Inr u \<longleftrightarrow>
     pr_Subject p \<noteq> [] \<and> (az_AllowedRoles req = [] \<or> (\<exists>r \<in> set (az_AllowedRoles req). HasRole p r)) \<and>
     scopeAllows (pr_Scope p) (az_Scope req)"
  by (auto simp: Authorize_def hasAnyRole_def list_ex_iff)

lemma service_principal_claims [simp]:
  "PrincipalKLIQID (service_principal s c) = cl_KLIQID c"
  "PrincipalKLIQScope (service_principal s c) = cl_Scope c"
  "PrincipalServiceIdentityProvider (service_principal s c) = cl_ServiceIdentityProvider c"
  "PrincipalSPIFFEID (service_principal s c) = cl_SPIFFEID c"
  "PrincipalIdentityMaterialSHA256 (service_principal s c) = cl_IdentityMaterialSHA256 c"
  by (simp_all add: service_principal_def PrincipalKLIQID_def PrincipalKLIQScope_def PrincipalServiceIdentityProvider_def
      PrincipalSPIFFEID_def PrincipalIdentityMaterialSHA256_def claim_or_empty_def claim_string_def)

end
