(* ===== verification/Authn_Verifiers.thy ===== *)
theory Authn_Verifiers
  imports Authn
begin

text \<open>
  The verifiers of bearer tokens (\<^verbatim>\<open>internal/api/authn/verifier.go\<close>): chains, development tokens and JSON Web
  Tokens; the cache of RSA keys a token is checked with (\<^verbatim>\<open>internal/api/authn/jwks.go\<close>); and the bindings that
  map claims to roles and scopes (\<^verbatim>\<open>internal/api/authn/context_bindings.go\<close>). RSA, the JSON decoders, the
  text of a JSON value (\<^verbatim>\<open>fmt.Sprint\<close>), the conversion of an out-of-range number to \<^verbatim>\<open>int64\<close> and the HTTP
  answers are parameters. A claim is what \<^verbatim>\<open>encoding/json\<close> decodes, so a list of strings is a \<open>JArray\<close>.
\<close>

section \<open>Chains of verifiers\<close>

text \<open>
  A \<^verbatim>\<open>Verifier\<close>, and the \<^verbatim>\<open>RequestVerifier\<close> it also is, if any. A request is given by the certificate of its peer.
\<close>

record ('d, 'c) Verifier =
  vf_Verify :: "string \<Rightarrow> ('d, 'c, Principal) action"
  vf_VerifyRequest :: "(peer \<Rightarrow> ('d, 'c, Principal) action) option"

text \<open>The loop of both methods: the first success, else the last error.\<close>

fun first_success :: "('d, 'c, 'a) action list \<Rightarrow> error \<Rightarrow> ('d, 'c, 'a) action" where
  "first_success [] lastErr = raise lastErr"
| "first_success (m # ms) lastErr = tryE m (\<lambda>r. case r of Inr p \<Rightarrow> ret p | Inl e \<Rightarrow> first_success ms e)"

definition Chain :: "('d, 'c) Verifier list \<Rightarrow> ('d, 'c) Verifier" where
  "Chain vs =
     \<lparr>vf_Verify = (\<lambda>token. first_success (map (\<lambda>v. vf_Verify v token) vs) ErrUnauthenticated),
      vf_VerifyRequest = Some (\<lambda>peer. first_success (List.map_filter (\<lambda>v. map_option (\<lambda>f. f peer) (vf_VerifyRequest v)) vs) ErrUnauthenticated)\<rparr>"

definition BearerToken :: "string \<Rightarrow> string result" where
  "BearerToken header =
     fail_if (\<not> HasPrefix header ''Bearer '') ErrUnauthenticated
    (let token = TrimSpace (TrimPrefix header ''Bearer '') in
     fail_if (token = []) ErrUnauthenticated (Inr token))"

definition splitCSV :: "string \<Rightarrow> string list" where
  "splitCSV value = filter (\<lambda>p. p \<noteq> []) (map TrimSpace (Split (CHR '','') value))"

definition VerifyDevToken :: "string \<Rightarrow> Principal result" where
  "VerifyDevToken token =
     fail_if (\<not> HasPrefix token ''dev:'') ErrUnauthenticated
    (case Split (CHR '':'') token of
       [_, subject, roles0, org, environment, stage] \<Rightarrow>
         let roles = splitCSV roles0 in
         fail_if (subject = [] \<or> roles = []) (Errorf ''invalid dev token subject or roles'' [])
        (Inr \<lparr>pr_Subject = subject, pr_Roles = roles,
              pr_Scope = zero_Scope\<lparr>sc_Org := org, sc_Environment := environment, sc_Stage := stage\<rparr>,
              pr_Claims = [(''provider'', JString ''dev-token'')]\<rparr>)
     | _ \<Rightarrow> Inl (Errorf ''invalid dev token shape'' []))"

section \<open>JSON Web Tokens\<close>

type_synonym rsa_key = "int \<times> int"

record jwt_header =
  jh_Alg :: string
  jh_Typ :: string
  jh_Kid :: string

record jwkKey =
  jk_Kty :: string
  jk_Kid :: string
  jk_Use :: string
  jk_Alg :: string
  jk_N :: string
  jk_E :: string

record verifier_env = authn_env +
  ve_decHeader :: "bytes \<Rightarrow> jwt_header result"
  ve_decObject :: "bytes \<Rightarrow> metadata result"
  ve_decJWKS :: "bytes \<Rightarrow> jwkKey list result"
  ve_verifyPKCS1v15 :: "rsa_key \<Rightarrow> bytes \<Rightarrow> bytes \<Rightarrow> bool"
  ve_sprint :: "json \<Rightarrow> string"
  ve_int64 :: "rat \<Rightarrow> int"

record ('d, 'c) JWTVerifier =
  jv_Issuer :: string
  jv_Audience :: string
  jv_HMACSecret :: bytes
  jv_RSAPublicKey :: "rsa_key option"
  jv_RSAPublicKeys :: "(string \<times> rsa_key option) list"
  jv_RSAPublicKeySource :: "(string \<Rightarrow> ('d, 'c, rsa_key) action) option"
  jv_AllowMissingRoles :: bool

text \<open>A key of a map of keys: by its id, or the only one when the token names none.\<close>

definition key_of :: "(string \<times> rsa_key option) list \<Rightarrow> string \<Rightarrow> rsa_key result" where
  "key_of keys kid =
     (if kid \<noteq> [] then
        (case map_of keys kid of
           Some (Some key) \<Rightarrow> Inr key
         | _ \<Rightarrow> Inl (Errorf ''jwt kid %q is not trusted'' [kid]))
      else case keys of
        [(_, Some key)] \<Rightarrow> Inr key
      | _ \<Rightarrow> Inl (Errorf ''jwt kid is required when multiple JWKS keys are configured'' []))"

definition configured_key :: "('d, 'c) JWTVerifier \<Rightarrow> string \<Rightarrow> rsa_key result" where
  "configured_key v kid =
     (if jv_RSAPublicKeys v = [] then
        (case jv_RSAPublicKey v of None \<Rightarrow> Inl ErrUnauthenticated | Some key \<Rightarrow> Inr key)
      else key_of (jv_RSAPublicKeys v) kid)"

definition rsaPublicKey :: "('d, 'c) JWTVerifier \<Rightarrow> string \<Rightarrow> ('d, 'c, rsa_key) action" where
  "rsaPublicKey v kid0 =
     (let kid = TrimSpace kid0 in
      case jv_RSAPublicKeySource v of
        None \<Rightarrow> lift (configured_key v kid)
      | Some source \<Rightarrow>
          tryE (source kid) (\<lambda>r. case r of
            Inr key \<Rightarrow> ret key
          | Inl e \<Rightarrow>
              guardE (kid \<noteq> [] \<or> (jv_RSAPublicKey v = None \<and> jv_RSAPublicKeys v = [])) e
                (lift (configured_key v kid))))"

definition truncate :: "rat \<Rightarrow> int" where
  "truncate x = (if x < 0 then \<lceil>x\<rceil> else \<lfloor>x\<rfloor>)"

definition numericClaim :: "'e verifier_env_scheme \<Rightarrow> json option \<Rightarrow> int option" where
  "numericClaim env raw =
     (case raw of
        Some (JNumber x) \<Rightarrow>
          Some (if - (2 ^ 63) \<le> truncate x \<and> truncate x \<le> 2 ^ 63 - 1 then truncate x else ve_int64 env x)
      | _ \<Rightarrow> None)"

definition audienceContains :: "json option \<Rightarrow> string \<Rightarrow> bool" where
  "audienceContains raw expected \<longleftrightarrow>
     (case raw of
        Some (JString s) \<Rightarrow> s = expected
      | Some (JArray items) \<Rightarrow> JString expected \<in> set items
      | _ \<Rightarrow> False)"

definition stringSliceClaim :: "json option \<Rightarrow> string list" where
  "stringSliceClaim raw =
     (case raw of
        Some (JArray items) \<Rightarrow> List.map_filter (\<lambda>i. case i of JString s \<Rightarrow> if s = [] then None else Some s | _ \<Rightarrow> None) items
      | Some (JString s) \<Rightarrow> splitCSV s
      | _ \<Rightarrow> [])"

definition rolesFromClaims :: "metadata \<Rightarrow> string list" where
  "rolesFromClaims claims =
     (if stringSliceClaim (map_of claims ''roles'') \<noteq> [] then stringSliceClaim (map_of claims ''roles'')
      else if stringSliceClaim (map_of claims ''groups'') \<noteq> [] then stringSliceClaim (map_of claims ''groups'')
      else case map_of claims ''realm_access'' of
        Some (JObject access) \<Rightarrow> stringSliceClaim (map_of access ''roles'')
      | _ \<Rightarrow> (case claim_string claims ''scope'' of Some s \<Rightarrow> Fields s | None \<Rightarrow> []))"

definition string_of_claim :: "metadata \<Rightarrow> string \<Rightarrow> string" where
  "string_of_claim claims key = (case claim_string claims key of Some v \<Rightarrow> v | None \<Rightarrow> [])"

definition claimed_scope :: "metadata \<Rightarrow> Scope" where
  "claimed_scope claims =
     (case map_of claims ''kernloom_scope'' of
        Some (JObject raw) \<Rightarrow>
          \<lparr>sc_Org = string_of_claim raw ''org'', sc_Environment = string_of_claim raw ''environment'', sc_Stage = string_of_claim raw ''stage'',
           sc_PolicyType = string_of_claim raw ''policy_type'', sc_Resource = string_of_claim raw ''resource'',
           sc_Adapter = string_of_claim raw ''adapter'', sc_Repo = string_of_claim raw ''repo''\<rparr>
      | _ \<Rightarrow> zero_Scope)"

definition default_to :: "string \<Rightarrow> string \<Rightarrow> string" where
  "default_to value fallback = (if value = [] then fallback else value)"

definition scopeFromClaims :: "metadata \<Rightarrow> Scope" where
  "scopeFromClaims claims =
     (let scope = claimed_scope claims in
      scope\<lparr>sc_Org := default_to (sc_Org scope) (string_of_claim claims ''org''),
            sc_Environment := default_to (sc_Environment scope) (string_of_claim claims ''environment''),
            sc_Stage := default_to (sc_Stage scope) (string_of_claim claims ''stage'')\<rparr>)"

definition validateClaims :: "'e verifier_env_scheme \<Rightarrow> ('d, 'c) JWTVerifier \<Rightarrow> metadata \<Rightarrow> ('d, 'c, unit) action" where
  "validateClaims env v claims =
     guardE (jv_Issuer v \<noteq> [] \<and> string_of_claim claims ''iss'' \<noteq> jv_Issuer v)
       (Errorf ''jwt issuer %q does not match configured issuer'' [string_of_claim claims ''iss''])
    (guardE (jv_Audience v \<noteq> [] \<and> \<not> audienceContains (map_of claims ''aud'') (jv_Audience v))
       (Errorf ''jwt audience does not include configured audience'' [])
    (bindE (read_clock env) (\<lambda>now.
     guardE (case numericClaim env (map_of claims ''exp'') of Some e \<Rightarrow> e \<le> Unix now | None \<Rightarrow> False) (Errorf ''jwt expired'' [])
    (guardE (case numericClaim env (map_of claims ''nbf'') of Some n \<Rightarrow> Unix now < n | None \<Rightarrow> False) (Errorf ''jwt not valid yet'' [])
    (ret ())))))"

definition check_signature ::
  "'e verifier_env_scheme \<Rightarrow> ('d, 'c) JWTVerifier \<Rightarrow> jwt_header \<Rightarrow> bytes \<Rightarrow> bytes \<Rightarrow> ('d, 'c, unit) action" where
  "check_signature env v header signed actual =
     (if jh_Alg header = ''HS256'' then
        guardE (jv_HMACSecret v = [] \<or> actual \<noteq> ae_hmac env (jv_HMACSecret v) signed) ErrUnauthenticated (ret ())
      else if jh_Alg header = ''RS256'' then
        tryE (rsaPublicKey v (jh_Kid header)) (\<lambda>r. case r of
          Inl e \<Rightarrow> raise ErrUnauthenticated
        | Inr key \<Rightarrow> guardE (\<not> ve_verifyPKCS1v15 env key signed actual) ErrUnauthenticated (ret ()))
      else raise (Errorf ''unsupported jwt alg %q'' [jh_Alg header]))"

definition VerifyJWT :: "'e verifier_env_scheme \<Rightarrow> ('d, 'c) JWTVerifier \<Rightarrow> string \<Rightarrow> ('d, 'c, Principal) action" where
  "VerifyJWT env v token =
     guardE (jv_HMACSecret v = [] \<and> jv_RSAPublicKey v = None \<and> jv_RSAPublicKeys v = [] \<and> Option.is_none (jv_RSAPublicKeySource v))
       ErrUnauthenticated
    (case Split (CHR ''.'') token of
       [p0, p1, p2] \<Rightarrow>
         bindE (lift (ae_unb64 env p0)) (\<lambda>headerBytes.
         bindE (lift (ve_decHeader env headerBytes)) (\<lambda>header.
         bindE (lift (ae_unb64 env p2)) (\<lambda>actual.
         bindE (check_signature env v header (p0 @ ''.'' @ p1) actual) (\<lambda>_.
         bindE (lift (ae_unb64 env p1)) (\<lambda>payloadBytes.
         bindE (lift (ve_decObject env payloadBytes)) (\<lambda>claims.
         bindE (validateClaims env v claims) (\<lambda>_.
         guardE (string_of_claim claims ''sub'' = []) (Errorf ''jwt missing subject'' [])
        (guardE (rolesFromClaims claims = [] \<and> \<not> jv_AllowMissingRoles v) (Errorf ''jwt missing roles'' [])
        (ret \<lparr>pr_Subject = string_of_claim claims ''sub'', pr_Roles = rolesFromClaims claims,
              pr_Scope = scopeFromClaims claims, pr_Claims = claims\<rparr>)))))))))
     | _ \<Rightarrow> raise ErrUnauthenticated)"

section \<open>The cache of RSA keys\<close>

text \<open>
  A key set is the map that \<^verbatim>\<open>ParseJWKS\<close> builds, as its entries; a JWKS key is never nil, so the entries hold \<open>Some\<close> key.
\<close>

definition big_endian :: "bytes \<Rightarrow> int" where
  "big_endian bs = fold (\<lambda>c n. n * 256 + of_char c) bs 0"

text \<open>\<^verbatim>\<open>(*big.Int).Int64\<close>: the low 64 bits, as a signed number.\<close>

definition int64_of :: "int \<Rightarrow> int" where
  "int64_of n = (n + 2 ^ 63) mod 2 ^ 64 - 2 ^ 63"

definition parseJWKRSAKey :: "'e verifier_env_scheme \<Rightarrow> jwkKey \<Rightarrow> rsa_key result" where
  "parseJWKRSAKey env key =
     fail_if (blank (jk_N key) \<or> blank (jk_E key)) (Errorf ''missing modulus or exponent'' [])
    (check_then (ae_unb64 env (jk_N key)) (\<lambda>nBytes.
     check_then (ae_unb64 env (jk_E key)) (\<lambda>eBytes.
     let exponent = int64_of (big_endian eBytes) in
     fail_if (exponent < 3) (Errorf ''invalid rsa exponent'' []) (Inr (big_endian nBytes, exponent)))))"

definition usable_jwk :: "jwkKey \<Rightarrow> bool" where
  "usable_jwk key \<longleftrightarrow>
     ToUpper (TrimSpace (jk_Kty key)) = ''RSA'' \<and> TrimSpace (jk_Use key) \<in> {[], ''sig''} \<and> TrimSpace (jk_Alg key) \<in> {[], ''RS256''}"

fun collect_keys ::
  "'e verifier_env_scheme \<Rightarrow> nat \<Rightarrow> jwkKey list \<Rightarrow> (string \<times> rsa_key option) list \<Rightarrow> (string \<times> rsa_key option) list result" where
  "collect_keys env index [] keys = Inr keys"
| "collect_keys env index (key # rest) keys =
     (if \<not> usable_jwk key then collect_keys env (Suc index) rest keys
      else case parseJWKRSAKey env key of
        Inl e \<Rightarrow> Inl (Wrapf ''jwks key %q invalid: %w'' [jk_Kid key] e)
      | Inr publicKey \<Rightarrow>
          let kid = (if blank (jk_Kid key) then ''jwks.key.'' @ nat_digits (int index) else TrimSpace (jk_Kid key)) in
          if kid \<in> fst ` set keys then Inl (Errorf ''duplicate jwks kid %q'' [kid])
          else collect_keys env (Suc index) rest (keys @ [(kid, Some publicKey)]))"

definition ParseJWKS :: "'e verifier_env_scheme \<Rightarrow> bytes \<Rightarrow> (string \<times> rsa_key option) list result" where
  "ParseJWKS env data =
     check_then (ve_decJWKS env data) (\<lambda>doc.
     check_then (collect_keys env 0 doc []) (\<lambda>keys.
     fail_if (keys = []) (Errorf ''jwks contains no usable RS256 signing keys'' []) (Inr keys)))"

record jwks_cache =
  jc_refreshInterval :: duration
  jc_minRefreshInterval :: duration
  jc_keys :: "(string \<times> rsa_key option) list"
  jc_etag :: string
  jc_modified :: string
  jc_lastFetch :: gotime
  jc_lastOK :: gotime
  jc_lastErr :: "error option"

text \<open>
  An answer to a fetch: the code and text of the status, the headers the cache reads, and the body. The request sends the
  stored \<^verbatim>\<open>ETag\<close> and \<^verbatim>\<open>Last-Modified\<close>; the server is a function of them and of the moment it is asked.
\<close>

record jwks_answer =
  ja_StatusCode :: int
  ja_Status :: string
  ja_ETag :: string
  ja_LastModified :: string
  ja_CacheControl :: string
  ja_Body :: "bytes result"

type_synonym jwks_server = "string \<Rightarrow> string \<Rightarrow> nat \<Rightarrow> jwks_answer result"

definition max_age_seconds :: "string \<Rightarrow> int option" where
  "max_age_seconds part0 =
     (let part = TrimSpace part0 in
      if \<not> HasPrefix part ''max-age='' then None
      else case ParseInt64 (TrimPrefix part ''max-age='') of
        Some s \<Rightarrow> if s \<le> 0 then None else Some s
      | None \<Rightarrow> None)"

text \<open>\<^verbatim>\<open>time.Duration(seconds) * time.Second\<close> wraps around.\<close>

definition refreshIntervalFromHeaders :: "string \<Rightarrow> duration \<Rightarrow> duration" where
  "refreshIntervalFromHeaders cacheControl fallback =
     (case List.map_filter max_age_seconds (Split (CHR '','') cacheControl) of
        [] \<Rightarrow> fallback
      | s # _ \<Rightarrow> int64_of (s * 1000000000))"

type_synonym ('c, 'a) jwks_action = "(jwks_cache, 'c, 'a) action"

definition get_cache :: "('c, jwks_cache) jwks_action" where
  "get_cache w = (Inr (db w), w)"

definition set_cache :: "(jwks_cache \<Rightarrow> jwks_cache) \<Rightarrow> ('c, unit) jwks_action" where
  "set_cache f w = (Inr (), w\<lparr>db := f (db w)\<rparr>)"

definition recordFetchError :: "'e verifier_env_scheme \<Rightarrow> error \<Rightarrow> ('c, unit) jwks_action" where
  "recordFetchError env err =
     bindE (read_clock env) (\<lambda>now. set_cache (\<lambda>j. j\<lparr>jc_lastFetch := now, jc_lastErr := Some err\<rparr>))"

definition fetch_failed :: "'e verifier_env_scheme \<Rightarrow> error \<Rightarrow> ('c, unit) jwks_action" where
  "fetch_failed env err = bindE (recordFetchError env err) (\<lambda>_. raise err)"

definition store_answer :: "'e verifier_env_scheme \<Rightarrow> jwks_answer \<Rightarrow> gotime \<Rightarrow> ('c, unit) jwks_action" where
  "store_answer env resp now =
     (case check_then (ja_Body resp) (\<lambda>body. ParseJWKS env (take 1048576 body)) of
        Inl err \<Rightarrow> fetch_failed env err
      | Inr keys \<Rightarrow>
          set_cache (\<lambda>j. j\<lparr>jc_keys := keys, jc_etag := TrimSpace (ja_ETag resp), jc_modified := TrimSpace (ja_LastModified resp),
            jc_refreshInterval := refreshIntervalFromHeaders (ja_CacheControl resp) (jc_refreshInterval j),
            jc_lastFetch := now, jc_lastOK := now, jc_lastErr := None\<rparr>))"

definition jwks_Refresh :: "'e verifier_env_scheme \<Rightarrow> jwks_server \<Rightarrow> ('c, unit) jwks_action" where
  "jwks_Refresh env server =
     bindE get_cache (\<lambda>j.
     tryE (ask (server (jc_etag j) (jc_modified j))) (\<lambda>r. case r of
       Inl err \<Rightarrow> fetch_failed env err
     | Inr resp \<Rightarrow>
         bindE (read_clock env) (\<lambda>now.
         if ja_StatusCode resp = 304 then set_cache (\<lambda>j. j\<lparr>jc_lastFetch := now, jc_lastOK := now, jc_lastErr := None\<rparr>)
         else if ja_StatusCode resp < 200 \<or> 299 < ja_StatusCode resp then
           fetch_failed env (Errorf ''jwks fetch failed: %s'' [ja_Status resp])
         else store_answer env resp now)))"

definition cachedKey :: "string \<Rightarrow> jwks_cache \<Rightarrow> rsa_key result" where
  "cachedKey kid0 j =
     (if jc_keys j = [] then
        (case jc_lastErr j of Some e \<Rightarrow> Inl e | None \<Rightarrow> Inl ErrUnauthenticated)
      else key_of (jc_keys j) (TrimSpace kid0))"

definition canRefreshForKeyMiss :: "'e verifier_env_scheme \<Rightarrow> ('c, bool) jwks_action" where
  "canRefreshForKeyMiss env =
     bindE get_cache (\<lambda>j.
     if jc_keys j = [] then ret True
     else bindE (read_clock env) (\<lambda>now. ret (jc_minRefreshInterval j \<le> now - jc_lastFetch j)))"

definition cached_key :: "string \<Rightarrow> ('c, rsa_key) jwks_action" where
  "cached_key kid = bindE get_cache (\<lambda>j. lift (cachedKey kid j))"

definition jwks_Key :: "'e verifier_env_scheme \<Rightarrow> jwks_server \<Rightarrow> string \<Rightarrow> ('c, rsa_key) jwks_action" where
  "jwks_Key env server kid =
     tryE (cached_key kid) (\<lambda>r. case r of
       Inr key \<Rightarrow> ret key
     | Inl err \<Rightarrow>
         bindE (canRefreshForKeyMiss env) (\<lambda>can.
         if can then
           tryE (jwks_Refresh env server) (\<lambda>refreshed. case refreshed of
             Inl refreshErr \<Rightarrow> raise (Wrapf ''%w; jwks refresh failed: %v'' [Error refreshErr] err)
           | Inr _ \<Rightarrow> cached_key kid)
         else cached_key kid))"

definition new_jwks_cache :: "duration \<Rightarrow> duration \<Rightarrow> jwks_cache" where
  "new_jwks_cache refreshInterval minRefreshInterval =
     \<lparr>jc_refreshInterval = (if refreshInterval \<le> 0 then 600000000000 else refreshInterval),
      jc_minRefreshInterval = (if minRefreshInterval \<le> 0 then 30000000000 else minRefreshInterval),
      jc_keys = [], jc_etag = [], jc_modified = [], jc_lastFetch = 0, jc_lastOK = 0, jc_lastErr = None\<rparr>"

definition NewRefreshingJWKS :: "'e verifier_env_scheme \<Rightarrow> jwks_server \<Rightarrow> string \<Rightarrow> duration \<Rightarrow> duration \<Rightarrow> ('c, unit) jwks_action" where
  "NewRefreshingJWKS env server url refreshInterval minRefreshInterval =
     guardE (blank url) (Errorf ''jwks url is required'' [])
    (bindE (set_cache (\<lambda>_. new_jwks_cache refreshInterval minRefreshInterval)) (\<lambda>_.
     jwks_Refresh env server))"

text \<open>A single fetch without conditions or a cache.\<close>

definition LoadJWKS :: "'e verifier_env_scheme \<Rightarrow> jwks_server \<Rightarrow> string \<Rightarrow> ('d, 'c, (string \<times> rsa_key option) list) action" where
  "LoadJWKS env server url =
     (if blank url then ret []
      else bindE (ask (server [] [])) (\<lambda>resp.
        guardE (ja_StatusCode resp < 200 \<or> 299 < ja_StatusCode resp) (Errorf ''jwks fetch failed: %s'' [ja_Status resp])
       (bindE (lift (ja_Body resp)) (\<lambda>body.
        lift (ParseJWKS env (take 1048576 body))))))"

definition currentRefreshInterval :: "jwks_cache \<Rightarrow> duration" where
  "currentRefreshInterval j = (if jc_refreshInterval j \<le> 0 then 600000000000 else jc_refreshInterval j)"

section \<open>Context bindings\<close>

text \<open>\<^verbatim>\<open>contains\<close> and \<^verbatim>\<open>equals\<close> are \<open>JNull\<close> when they are not given.\<close>

record ContextBinding =
  cb_ID :: string
  cb_Source :: string
  cb_Issuer :: string
  cb_Audience :: string
  cb_Claim :: string
  cb_Contains :: json
  cb_Equals :: json
  cb_MapsTo :: metadata

definition validateContextBinding :: "ContextBinding \<Rightarrow> unit result" where
  "validateContextBinding b =
     fail_if (blank (cb_ID b)) (Errorf ''context binding requires id'' [])
    (fail_if (blank (cb_Source b)) (Errorf ''context binding %q requires source'' [cb_ID b])
    (fail_if (blank (cb_Claim b)) (Errorf ''context binding %q requires claim'' [cb_ID b])
    (fail_if (cb_Contains b = JNull \<and> cb_Equals b = JNull) (Errorf ''context binding %q requires contains or equals'' [cb_ID b])
    (fail_if (cb_MapsTo b = []) (Errorf ''context binding %q requires maps_to'' [cb_ID b])
    (Inr ())))))"

fun stringValue :: "'e verifier_env_scheme \<Rightarrow> json \<Rightarrow> string" where
  "stringValue env (JString s) = TrimSpace s"
| "stringValue env v = TrimSpace (ve_sprint env v)"

fun nested :: "json \<Rightarrow> string list \<Rightarrow> json option" where
  "nested current [] = Some current"
| "nested current (part # parts) =
     (if blank part then None
      else case current of
        JObject obj \<Rightarrow> (case map_of obj (TrimSpace part) of Some v \<Rightarrow> nested v parts | None \<Rightarrow> None)
      | _ \<Rightarrow> None)"

definition nestedClaim :: "metadata \<Rightarrow> string \<Rightarrow> json option" where
  "nestedClaim claims path = nested (JObject claims) (Split (CHR ''.'') (TrimSpace path))"

definition claimContains :: "'e verifier_env_scheme \<Rightarrow> json \<Rightarrow> json \<Rightarrow> bool" where
  "claimContains env raw expected =
     (let expectedText = stringValue env expected in
      case raw of
        JString value \<Rightarrow> value = expectedText \<or> expectedText \<in> set (Fields value)
      | JArray items \<Rightarrow> expectedText \<in> set (map (stringValue env) items)
      | _ \<Rightarrow> False)"

definition claimEquals :: "'e verifier_env_scheme \<Rightarrow> json \<Rightarrow> json \<Rightarrow> bool" where
  "claimEquals env raw expected \<longleftrightarrow> stringValue env raw = stringValue env expected"

definition contextBindingMatches :: "'e verifier_env_scheme \<Rightarrow> metadata \<Rightarrow> ContextBinding \<Rightarrow> bool" where
  "contextBindingMatches env claims b \<longleftrightarrow>
     claims \<noteq> [] \<and> (cb_Issuer b = [] \<or> string_of_claim claims ''iss'' = cb_Issuer b) \<and>
     (cb_Audience b = [] \<or> audienceContains (map_of claims ''aud'') (cb_Audience b)) \<and>
     (case nestedClaim claims (cb_Claim b) of
        None \<Rightarrow> False
      | Some raw \<Rightarrow>
          (cb_Contains b = JNull \<or> claimContains env raw (cb_Contains b)) \<and>
          (cb_Equals b = JNull \<or> claimEquals env raw (cb_Equals b)))"

text \<open>
  The map \<^verbatim>\<open>kernloom_context\<close> of the claims, which the loop below extends in place: an absent or differently typed
  entry is replaced by an empty map first.
\<close>

definition context_claims :: "metadata \<Rightarrow> metadata" where
  "context_claims claims = (case map_of claims ''kernloom_context'' of Some (JObject m) \<Rightarrow> m | _ \<Rightarrow> [])"

definition put_context :: "string \<Rightarrow> json \<Rightarrow> metadata \<Rightarrow> metadata" where
  "put_context key v claims = put_entry ''kernloom_context'' (JObject (put_entry key v (context_claims claims))) claims"

definition apply_entry :: "'e verifier_env_scheme \<Rightarrow> string \<times> json \<Rightarrow> Principal \<Rightarrow> Principal" where
  "apply_entry env e p =
     (let k = TrimSpace (fst e); s = stringValue env (snd e) in
      if k = ''subject.role'' then
        (case snd e of
           JString role \<Rightarrow> if role \<noteq> [] \<and> role \<notin> set (pr_Roles p) then p\<lparr>pr_Roles := pr_Roles p @ [role]\<rparr> else p
         | _ \<Rightarrow> p)
      else if k \<in> {''scope.org'', ''kernloom_scope.org''} then p\<lparr>pr_Scope := (pr_Scope p)\<lparr>sc_Org := s\<rparr>\<rparr>
      else if k \<in> {''scope.environment'', ''kernloom_scope.environment''} then p\<lparr>pr_Scope := (pr_Scope p)\<lparr>sc_Environment := s\<rparr>\<rparr>
      else if k \<in> {''scope.stage'', ''kernloom_scope.stage''} then p\<lparr>pr_Scope := (pr_Scope p)\<lparr>sc_Stage := s\<rparr>\<rparr>
      else if k \<in> {''scope.policy_type'', ''kernloom_scope.policy_type''} then p\<lparr>pr_Scope := (pr_Scope p)\<lparr>sc_PolicyType := s\<rparr>\<rparr>
      else if k \<in> {''scope.resource'', ''kernloom_scope.resource''} then p\<lparr>pr_Scope := (pr_Scope p)\<lparr>sc_Resource := s\<rparr>\<rparr>
      else if k \<in> {''scope.adapter'', ''kernloom_scope.adapter''} then p\<lparr>pr_Scope := (pr_Scope p)\<lparr>sc_Adapter := s\<rparr>\<rparr>
      else if k \<in> {''scope.repo'', ''kernloom_scope.repo''} then p\<lparr>pr_Scope := (pr_Scope p)\<lparr>sc_Repo := s\<rparr>\<rparr>
      else p\<lparr>pr_Claims := put_context (fst e) (snd e) (pr_Claims p)\<rparr>)"

definition applyContextMapping :: "'e verifier_env_scheme \<Rightarrow> ContextBinding \<Rightarrow> Principal \<Rightarrow> Principal" where
  "applyContextMapping env b p =
     fold (apply_entry env) (cb_MapsTo b)
       (p\<lparr>pr_Claims := put_entry ''kernloom_context'' (JObject (context_claims (pr_Claims p))) (pr_Claims p)\<rparr>)"

text \<open>Each binding is matched against the claims as the bindings before it left them.\<close>

fun apply_bindings :: "'e verifier_env_scheme \<Rightarrow> ContextBinding list \<Rightarrow> Principal \<Rightarrow> bool \<Rightarrow> Principal \<times> bool" where
  "apply_bindings env [] p matched = (p, matched)"
| "apply_bindings env (b # bs) p matched =
     (if contextBindingMatches env (pr_Claims p) b then apply_bindings env bs (applyContextMapping env b p) True
      else apply_bindings env bs p matched)"

definition VerifyWithBindings ::
  "'e verifier_env_scheme \<Rightarrow> ('d, 'c) Verifier option \<Rightarrow> ContextBinding list \<Rightarrow> bool \<Rightarrow> string \<Rightarrow> ('d, 'c, Principal) action" where
  "VerifyWithBindings env inner bindings requireMatch token =
     (case inner of
        None \<Rightarrow> raise ErrUnauthenticated
      | Some v \<Rightarrow>
          bindE (vf_Verify v token) (\<lambda>p0.
          case apply_bindings env bindings p0 False of (p, matched) \<Rightarrow>
            guardE (requireMatch \<and> \<not> matched) (Errorf ''missing_context_binding'' []) (ret p)))"

definition LoadContextBindings :: "(string \<Rightarrow> ContextBinding list result) \<Rightarrow> string \<Rightarrow> ContextBinding list result" where
  "LoadContextBindings load path0 =
     (let path = TrimSpace path0 in
      if path = [] then Inr []
      else check_then (load path) (\<lambda>bindings.
        fail_if (bindings = []) (Errorf ''%s: context_bindings must contain at least one binding'' [path])
       (case for_each validateContextBinding bindings of
          Inl e \<Rightarrow> Inl (Wrapf ''%s: %w'' [path] e)
        | Inr _ \<Rightarrow> Inr bindings)))"

end
