(* ===== verification/Artifact_Store.thy ===== *)
theory Artifact_Store
  imports Wire Effects GoStrings
begin

text \<open>
  The content-addressed artifact stores (\<^verbatim>\<open>internal/storage/artifactstore\<close>): in memory (\<^verbatim>\<open>memory.go\<close>) and in the
  file system (\<^verbatim>\<open>fs.go\<close>). The file system is a map from absolute paths to contents; a call on it may fail, and a write
  that fails leaves a part of the data. The contract of a store is a locale, interpreted on both.
\<close>

section \<open>References and artifacts\<close>

record Ref =
  rf_URI :: string
  rf_SHA256 :: string

record Artifact =
  art_Metadata :: ArtifactMetadata
  art_Payload :: bytes

definition sha256Bytes :: "(bytes \<Rightarrow> string) \<Rightarrow> bytes \<Rightarrow> string" where
  "sha256Bytes sha256 data = ''sha256:'' @ sha256 data"

section \<open>The store in memory\<close>

type_synonym objects = "string \<rightharpoonup> bytes"

definition memory_uri :: "(bytes \<Rightarrow> string) \<Rightarrow> Artifact \<Rightarrow> string" where
  "memory_uri sha256 a =
     ''memory://'' @ md_ArtifactType (art_Metadata a) @ ''/'' @ md_ID (art_Metadata a) @ ''-'' @
     drop 7 (sha256Bytes sha256 (art_Payload a)) @ ''.json''"

definition objects_Put :: "(bytes \<Rightarrow> string) \<Rightarrow> Artifact \<Rightarrow> (objects, 'c, Ref) action" where
  "objects_Put sha256 a w =
     (let uri = memory_uri sha256 a; ref = \<lparr>rf_URI = uri, rf_SHA256 = sha256Bytes sha256 (art_Payload a)\<rparr> in
      case db w uri of
        Some data \<Rightarrow>
          if data = art_Payload a then (Inr ref, w)
          else (Inl (Errorf ''artifact already exists with different content: %s'' [uri]), w)
      | None \<Rightarrow> (Inr ref, w\<lparr>db := (db w)(uri \<mapsto> art_Payload a)\<rparr>))"

definition objects_Get :: "(bytes \<Rightarrow> string) \<Rightarrow> Ref \<Rightarrow> (objects, 'c, bytes) action" where
  "objects_Get sha256 ref w =
     (case db w (rf_URI ref) of
        None \<Rightarrow> (Inl (Errorf ''artifact not found: %s'' [rf_URI ref]), w)
      | Some data \<Rightarrow>
          if sha256Bytes sha256 data \<noteq> rf_SHA256 ref then (Inl (Errorf ''artifact hash mismatch for %s'' [rf_URI ref]), w)
          else (Inr data, w))"

definition objects_Verify :: "(bytes \<Rightarrow> string) \<Rightarrow> Ref \<Rightarrow> (objects, 'c, unit) action" where
  "objects_Verify sha256 ref = finish (objects_Get sha256 ref)"

section \<open>Paths\<close>

text \<open>\<^verbatim>\<open>filepath.Clean\<close> of a rooted path: empty elements and \<^verbatim>\<open>.\<close> vanish, \<^verbatim>\<open>..\<close> removes the element before it.\<close>

fun clean_parts :: "string list \<Rightarrow> string list \<Rightarrow> string list" where
  "clean_parts [] st = rev st"
| "clean_parts (p # ps) st =
     (if p = [] \<or> p = ''.'' then clean_parts ps st
      else if p = ''..'' then clean_parts ps (tl st)
      else clean_parts ps (p # st))"

definition clean_rooted :: "string \<Rightarrow> string" where
  "clean_rooted path = ''/'' @ Join ''/'' (clean_parts (Split (CHR ''/'') path) [])"

definition path_Abs :: "string result \<Rightarrow> string \<Rightarrow> string result" where
  "path_Abs cwd path =
     (if HasPrefix path ''/'' then Inr (clean_rooted path)
      else check_then cwd (\<lambda>d. Inr (clean_rooted (d @ ''/'' @ path))))"

definition valueOrDefault :: "string \<Rightarrow> string \<Rightarrow> string" where
  "valueOrDefault value fallback = (if value = [] then fallback else value)"

text \<open>\<^verbatim>\<open>strings.ReplaceAll(value, "..", "_")\<close>.\<close>

fun replace_dots :: "string \<Rightarrow> string" where
  "replace_dots (a # b # s) = (if a = CHR ''.'' \<and> b = CHR ''.'' then CHR ''_'' # replace_dots s else a # replace_dots (b # s))"
| "replace_dots s = s"

definition sanitize :: "string \<Rightarrow> string" where
  "sanitize value =
     (let v = replace_dots (ReplaceByte (CHR ''/'') ''_'' (ReplaceByte (CHR 0x5C) ''_'' (TrimSpace value))) in
      if v = [] then ''unknown'' else v)"

section \<open>The store in the file system\<close>

record fs_env = sysenv +
  fs_sha :: "bytes \<Rightarrow> string"
  fs_cwd :: "string result"
  fs_written :: "nat \<Rightarrow> nat"

record FSStore =
  fs_Root :: string
  fs_Org :: string
  fs_Environment :: string

type_synonym files = "string \<rightharpoonup> bytes"

definition ErrExist :: error where "ErrExist = Sentinel ''file already exists''"
definition ErrNotExist :: error where "ErrNotExist = Sentinel ''file does not exist''"

definition fs_elements :: "(bytes \<Rightarrow> string) \<Rightarrow> FSStore \<Rightarrow> Artifact \<Rightarrow> string list" where
  "fs_elements sha256 s a =
     [sanitize (valueOrDefault (fs_Org s) ''default-org''), sanitize (valueOrDefault (fs_Environment s) ''dev''),
      sanitize (md_ArtifactType (art_Metadata a)), sanitize (valueOrDefault (md_SourceCommit (art_Metadata a)) ''uncommitted''),
      sanitize (md_ID (art_Metadata a)) @ ''-'' @ drop 7 (sha256Bytes sha256 (art_Payload a)) @ ''.json'']"

text \<open>
  \<^verbatim>\<open>filepath.Join(root, filepath.Join(...))\<close>: no element is empty or \<^verbatim>\<open>..\<close>, so cleaning twice is cleaning once.
\<close>

definition fs_path :: "(bytes \<Rightarrow> string) \<Rightarrow> FSStore \<Rightarrow> string \<Rightarrow> Artifact \<Rightarrow> string" where
  "fs_path sha256 s base a = clean_rooted (base @ ''/'' @ Join ''/'' (fs_elements sha256 s a))"

text \<open>\<^verbatim>\<open>os.OpenFile(path, O_WRONLY|O_CREATE|O_EXCL)\<close> and \<^verbatim>\<open>os.ReadFile\<close>.\<close>

definition create_exclusive :: "'e fs_env_scheme \<Rightarrow> string \<Rightarrow> (files, 'c, unit) action" where
  "create_exclusive env path = execute env (\<lambda>fs. if fs path = None then Inr (fs(path \<mapsto> [])) else Inl ErrExist)"

definition read_file :: "'e fs_env_scheme \<Rightarrow> string \<Rightarrow> (files, 'c, bytes) action" where
  "read_file env path = query env (\<lambda>fs. case fs path of None \<Rightarrow> Inl ErrNotExist | Some data \<Rightarrow> Inr data)"

definition write_file :: "'e fs_env_scheme \<Rightarrow> string \<Rightarrow> bytes \<Rightarrow> (files, 'c, unit) action" where
  "write_file env path data w =
     (case fault env (tick w) of
        Some msg \<Rightarrow>
          (Inl (driver_error msg), w\<lparr>db := (db w)(path \<mapsto> take (fs_written env (tick w)) data), tick := Suc (tick w)\<rparr>)
      | None \<Rightarrow> (Inr (), w\<lparr>db := (db w)(path \<mapsto> data), tick := Suc (tick w)\<rparr>))"

text \<open>The part of \<^verbatim>\<open>Put\<close> after the directories are made.\<close>

definition fs_store :: "'e fs_env_scheme \<Rightarrow> string \<Rightarrow> bytes \<Rightarrow> Ref \<Rightarrow> (files, 'c, Ref) action" where
  "fs_store env path data ref =
     tryE (create_exclusive env path) (\<lambda>r. case r of
       Inr _ \<Rightarrow> bindE (write_file env path data) (\<lambda>_. ret ref)
     | Inl e \<Rightarrow>
         if errors_Is e ErrExist then
           bindE (read_file env path) (\<lambda>existing.
           guardE (sha256Bytes (fs_sha env) existing \<noteq> sha256Bytes (fs_sha env) data)
             (Errorf ''artifact path exists with different content: %s'' [path]) (ret ref))
         else raise e)"

definition fs_Put :: "'e fs_env_scheme \<Rightarrow> FSStore \<Rightarrow> Artifact \<Rightarrow> (files, 'c, Ref) action" where
  "fs_Put env s a =
     bindE (lift (path_Abs (fs_cwd env) (valueOrDefault (fs_Root s) ''/var/lib/kernloom/artifacts''))) (\<lambda>base.
     let hash = sha256Bytes (fs_sha env) (art_Payload a); path = fs_path (fs_sha env) s base a;
         ref = \<lparr>rf_URI = ''fs://'' @ path, rf_SHA256 = hash\<rparr> in
     bindE (execute env Inr) (\<lambda>_.
     fs_store env path (art_Payload a) ref))"

definition fs_Get :: "'e fs_env_scheme \<Rightarrow> Ref \<Rightarrow> (files, 'c, bytes) action" where
  "fs_Get env ref =
     guardE (\<not> HasPrefix (rf_URI ref) ''fs://'') (Errorf ''unsupported artifact ref %q'' [rf_URI ref])
    (bindE (read_file env (TrimPrefix (rf_URI ref) ''fs://'')) (\<lambda>data.
     guardE (sha256Bytes (fs_sha env) data \<noteq> rf_SHA256 ref) (Errorf ''artifact hash mismatch for %s'' [rf_URI ref])
    (ret data)))"

definition fs_Verify :: "'e fs_env_scheme \<Rightarrow> Ref \<Rightarrow> (files, 'c, unit) action" where
  "fs_Verify env ref = finish (fs_Get env ref)"

section \<open>The contract of a store\<close>

text \<open>
  \<open>content d ref\<close> is what a reader of \<open>ref\<close> gets. Storing makes the artifact readable under its reference, up to a
  collision of the digest, and nothing that is readable ever changes.
\<close>

datatype store_op = OpPut Artifact | OpGet Ref

definition run_store ::
  "(Artifact \<Rightarrow> ('d, 'c, Ref) action) \<Rightarrow> (Ref \<Rightarrow> ('d, 'c, bytes) action) \<Rightarrow> store_op \<Rightarrow> ('d, 'c, unit) action" where
  "run_store put get op = (case op of OpPut a \<Rightarrow> finish (put a) | OpGet ref \<Rightarrow> finish (get ref))"

locale artifact_store =
  fixes put :: "Artifact \<Rightarrow> ('d, 'c, Ref) action"
    and get :: "Ref \<Rightarrow> ('d, 'c, bytes) action"
    and content :: "'d \<Rightarrow> Ref \<Rightarrow> bytes option"
    and digest :: "bytes \<Rightarrow> string"
  assumes put_content: "put a w = (Inr ref, w') \<Longrightarrow>
      rf_SHA256 ref = digest (art_Payload a) \<and> (\<exists>data. content (db w') ref = Some data \<and> digest data = digest (art_Payload a))"
    and put_keeps: "put a w = (r, w') \<Longrightarrow> content (db w) ref = Some data \<Longrightarrow> content (db w') ref = Some data"
    and get_content: "get ref w = (Inr data, w') \<Longrightarrow> content (db w) ref = Some data \<and> rf_SHA256 ref = digest data"
    and get_keeps: "get ref w = (got, w') \<Longrightarrow> db w' = db w"
begin

lemma run_store_keeps:
  assumes "content (db w) ref = Some data"
  shows "content (db (snd (run_store put get op w))) ref = Some data"
proof (cases op)
  case (OpPut a)
  obtain r w' where "put a w = (r, w')" by fastforce
  with put_keeps [OF this assms] OpPut show ?thesis
    by (cases r) (simp_all add: run_store_def finish_def bindE_def ret_def)
next
  case (OpGet x)
  obtain r w' where "get x w = (r, w')" by fastforce
  with get_keeps [OF this] assms OpGet show ?thesis
    by (cases r) (simp_all add: run_store_def finish_def bindE_def ret_def)
qed

lemma after_keeps: "content (db w) ref = Some data \<Longrightarrow> content (db (after (run_store put get) ops w)) ref = Some data"
  by (induction ops arbitrary: w) (simp_all add: run_store_keeps)

text \<open>What was stored is what is read, whatever happens in between.\<close>

lemma put_then_get:
  assumes "put a w = (Inr ref, w1)" and "inj digest" and "get ref (after (run_store put get) ops w1) = (Inr data, w2)"
  shows "data = art_Payload a"
proof -
  from put_content [OF assms(1)] obtain d where d: "content (db w1) ref = Some d" "digest d = digest (art_Payload a)" by blast
  from get_content [OF assms(3)] after_keeps [OF d(1)] have "data = d" by simp
  with d(2) assms(2) show ?thesis by (simp add: inj_eq)
qed

end

section \<open>Both stores keep it\<close>

definition objects_content :: "(bytes \<Rightarrow> string) \<Rightarrow> objects \<Rightarrow> Ref \<Rightarrow> bytes option" where
  "objects_content sha256 d ref =
     (case d (rf_URI ref) of Some data \<Rightarrow> if sha256Bytes sha256 data = rf_SHA256 ref then Some data else None | None \<Rightarrow> None)"

lemma objects_Put_run:
  assumes "objects_Put sha256 a w = (r, w')"
  shows "(db w' = db w \<or> db w (memory_uri sha256 a) = None \<and> db w' = (db w)(memory_uri sha256 a \<mapsto> art_Payload a)) \<and>
    (\<forall>ref. r = Inr ref \<longrightarrow> rf_URI ref = memory_uri sha256 a \<and> rf_SHA256 ref = sha256Bytes sha256 (art_Payload a) \<and>
       db w' (memory_uri sha256 a) = Some (art_Payload a))"
  using assms by (cases "db w (memory_uri sha256 a)") (auto simp: objects_Put_def Let_def split: if_splits)

lemma objects_Get_run:
  "objects_Get sha256 ref w = (r, w') \<Longrightarrow>
     w' = w \<and> (\<forall>data. r = Inr data \<longrightarrow> db w (rf_URI ref) = Some data \<and> sha256Bytes sha256 data = rf_SHA256 ref)"
  by (auto simp: objects_Get_def split: option.splits if_splits)

interpretation objs: artifact_store "objects_Put sha256" "objects_Get sha256" "objects_content sha256" "sha256Bytes sha256" for sha256
proof (unfold_locales, goal_cases)
  case (1 a w ref w')
  from objects_Put_run [OF this] show ?case by (simp add: objects_content_def)
next
  case (2 a w r w' ref data)
  from conjunct1 [OF objects_Put_run [OF 2(1)]] 2(2) show ?case
    by (cases "db w (rf_URI ref)") (auto simp: objects_content_def)
next
  case (3 ref w data w')
  from objects_Get_run [OF this] show ?case by (simp add: objects_content_def)
next
  case (4 ref w got w')
  from objects_Get_run [OF this] show ?case by simp
qed

definition files_content :: "(bytes \<Rightarrow> string) \<Rightarrow> files \<Rightarrow> Ref \<Rightarrow> bytes option" where
  "files_content sha256 fs ref =
     (if HasPrefix (rf_URI ref) ''fs://'' then
        (case fs (TrimPrefix (rf_URI ref) ''fs://'') of
           Some data \<Rightarrow> if sha256Bytes sha256 data = rf_SHA256 ref then Some data else None
         | None \<Rightarrow> None)
      else None)"

lemma read_file_run:
  "read_file env path w = (r, w') \<Longrightarrow> db w' = db w \<and> (\<forall>data. r = Inr data \<longrightarrow> db w path = Some data)"
  by (auto simp: read_file_def query_def statement_def split: option.splits sum.splits)

lemma create_exclusive_run:
  "create_exclusive env path w = (r, w') \<Longrightarrow>
     (case r of Inr _ \<Rightarrow> db w path = None \<and> db w' = (db w)(path \<mapsto> []) | Inl e \<Rightarrow> db w' = db w)"
  by (auto simp: create_exclusive_def execute_def statement_def split: option.splits sum.splits if_splits)

lemma write_file_run:
  "write_file env path data w = (r, w') \<Longrightarrow> (\<exists>part. db w' = (db w)(path \<mapsto> part) \<and> (is_ok r \<longrightarrow> part = data))"
  by (auto simp: write_file_def split: option.splits)

text \<open>A run of \<^verbatim>\<open>Put\<close>: the files are as they were, or a path that was free now has some content.\<close>

definition grown :: "files \<Rightarrow> files \<Rightarrow> bool" where
  "grown fs fs' \<longleftrightarrow> (\<forall>path data. fs path = Some data \<longrightarrow> fs' path = Some data)"

lemma grownI: "fs' = fs \<Longrightarrow> grown fs fs'" "fs path = None \<Longrightarrow> fs' = fs(path \<mapsto> part) \<Longrightarrow> grown fs fs'"
  by (auto simp: grown_def)

lemma fs_store_run:
  assumes "fs_store env path data ref w = (r, w')"
  shows "grown (db w) (db w') \<and>
    (\<forall>x. r = Inr x \<longrightarrow> x = ref \<and> (\<exists>stored. db w' path = Some stored \<and> sha256Bytes (fs_sha env) stored = sha256Bytes (fs_sha env) data))"
  using assms unfolding fs_store_def
proof (rule tryE_E)
  fix s v
  assume open_file: "create_exclusive env path w = (s, v)"
    and rest: "(case s of Inr _ \<Rightarrow> bindE (write_file env path data) (\<lambda>_. ret ref)
      | Inl e \<Rightarrow> if errors_Is e ErrExist then bindE (read_file env path) (\<lambda>existing.
           guardE (sha256Bytes (fs_sha env) existing \<noteq> sha256Bytes (fs_sha env) data)
             (Errorf ''artifact path exists with different content: %s'' [path]) (ret ref))
         else raise e) v = (r, w')"
  show ?thesis
  proof (cases s)
    case (Inr u)
    with create_exclusive_run [OF open_file] have free: "db w path = None" "db v = (db w)(path \<mapsto> [])" by auto
    from rest Inr obtain q where q: "write_file env path data v = (q, w')" "is_ok q \<or> r \<noteq> Inr ref" "\<And>x. r = Inr x \<Longrightarrow> x = ref"
      by (auto simp: bindE_def split: prod.splits sum.splits)
    from write_file_run [OF q(1)] free obtain part where "db w' = (db w)(path \<mapsto> part)" "is_ok q \<longrightarrow> part = data" by auto
    with q(2,3) grownI(2) [of "db w" path "db w'" part] free(1) show ?thesis by auto
  next
    case (Inl e)
    with create_exclusive_run [OF open_file] have same: "db v = db w" by simp
    with rest Inl show ?thesis
      by (auto simp: bindE_def guardE_def raise_def ret_def grown_def dest!: read_file_run split: prod.splits sum.splits if_splits)
  qed
qed

lemma fs_Put_run:
  assumes "fs_Put env s a w = (r, w')"
  shows "grown (db w) (db w') \<and>
    (\<forall>ref. r = Inr ref \<longrightarrow> rf_SHA256 ref = sha256Bytes (fs_sha env) (art_Payload a) \<and>
       (\<exists>path data. rf_URI ref = ''fs://'' @ path \<and> db w' path = Some data \<and>
          sha256Bytes (fs_sha env) data = sha256Bytes (fs_sha env) (art_Payload a)))"
  using assms unfolding fs_Put_def Let_def
proof (elim lift_E bindE_E, goal_cases)
  case 1
  then show ?case by (simp add: grownI)
next
  case (2 base e)
  then have "db w' = db w" by (simp add: execute_Inl)
  with 2 show ?case by (simp add: grownI)
next
  case (3 base u v)
  from 3(2) have "db v = db w" by (auto simp: execute_Inr)
  with fs_store_run [OF 3(3)] show ?case by auto
qed

interpretation fss: artifact_store "fs_Put env s" "fs_Get env" "files_content (fs_sha env)" "sha256Bytes (fs_sha env)" for env s
proof (unfold_locales, goal_cases)
  case (1 a w ref w')
  from fs_Put_run [OF this] show ?case by (auto simp: files_content_def HasPrefix_def TrimPrefix_def)
next
  case (2 a w r w' ref data)
  from conjunct1 [OF fs_Put_run [OF 2(1)]] 2(2) show ?case
    by (auto simp: files_content_def grown_def split: if_splits option.splits)
next
  case (3 ref w data w')
  then show ?case
    by (auto simp: fs_Get_def files_content_def steps elim!: bindE_InrE dest!: read_file_run)
next
  case (4 ref w r w')
  then show ?case unfolding fs_Get_def
    by (elim guardE_E bindE_E) (auto dest!: read_file_run simp: guardE_def raise_def ret_def split: if_splits)
qed

end
