(* ===== verification/Build_Manifest.thy ===== *)
theory Build_Manifest
  imports Forge_Domain Artifact_Store
begin

text \<open>
  The manifest of a policy build (\<^verbatim>\<open>internal/forge/compiler/types.go\<close>) and the checks the API of Forge makes of one
  before it approves it and before it plans an assignment from it (the pure functions of
  \<^verbatim>\<open>internal/forge/api/kliq_management.go\<close>). A Go map is the list of its entries in the order one iteration visits
  them; which of several errors a loop reports depends on that order, whether it reports one does not.
\<close>

section \<open>The manifest\<close>

record SignedOutputRef =
  so_Path :: string
  so_ArtifactRef :: Ref
  so_EnvelopeSHA256 :: string
  so_PayloadSHA256 :: string
  so_KeyID :: string

record ManifestMetadata =
  mm_ID :: string
  mm_CorrelationID :: string
  mm_CreatedBy :: string

record PolicyRepoRef =
  pp_Repo :: string
  pp_Commit :: string
  pp_PolicyFile :: string
  pp_PolicyFileHash :: string
  pp_ContentDigest :: string

record RegistryRef =
  rg_Repo :: string
  rg_Commit :: string
  rg_Version :: string
  rg_ContentDigest :: string

record DigestRef =
  dg_ID :: string
  dg_Digest :: string

record CompilerRef =
  cp_Name :: string
  cp_Version :: string
  cp_SourceCommit :: string
  cp_BinaryDigest :: string
  cp_Digest :: string

record AdapterRef =
  af_AdapterID :: string
  af_AdapterVersion :: string
  af_ManifestDigest :: string
  af_ProtocolVersion :: string
  af_SignedManifest :: SignedOutputRef

record BindingRef =
  bi_BindingID :: string
  bi_Digest :: string
  bi_AdapterID :: string
  bi_CapabilityID :: string

record RuntimeActionRef =
  ra_CapabilityGrantID :: string
  ra_BindingID :: string
  ra_AdapterID :: string
  ra_AdapterManifestDigest :: string
  ra_CapabilityID :: string
  ra_ActionType :: string
  ra_ActionDigest :: string

record ManifestSpec =
  sp_KNIVersion :: string
  sp_ProtocolVersion :: string
  sp_PolicyRepo :: PolicyRepoRef
  sp_EnterpriseRegistry :: RegistryRef
  sp_CoreRegistry :: RegistryRef
  sp_Compiler :: CompilerRef
  sp_Profile :: DigestRef
  sp_RiskRecipe :: DigestRef
  sp_CatalogDigest :: string
  sp_Adapters :: "(string \<times> AdapterRef) list"
  sp_Bindings :: "(string \<times> BindingRef) list"
  sp_RuntimeActions :: "(string \<times> RuntimeActionRef) list"
  sp_FederatedSourceDigests :: "(string \<times> string) list"
  sp_Outputs :: "(string \<times> string) list"
  sp_ArtifactRefs :: "(string \<times> Ref) list"
  sp_SignedOutputs :: "(string \<times> SignedOutputRef) list"

record ManifestApproval =
  apv_Status :: string
  apv_ApprovedBy :: string
  apv_ApprovedAt :: gotime
  apv_AuthorityID :: string
  apv_AuthorityKind :: string
  apv_Environment :: string
  apv_Stage :: string
  apv_Scope :: string

record PolicyBuildManifest =
  bm_Kind :: string
  bm_Metadata :: ManifestMetadata
  bm_Spec :: ManifestSpec
  bm_Approval :: ManifestApproval

text \<open>An error that is only a code, and the value of a map of strings at a key.\<close>

definition code_error :: "string \<Rightarrow> error" where
  "code_error code = Errorf code []"

definition string_at :: "(string \<times> string) list \<Rightarrow> string \<Rightarrow> string" where
  "string_at m k = (case map_of m k of None \<Rightarrow> [] | Some v \<Rightarrow> v)"

section \<open>Signed outputs\<close>

definition completeSignedOutput :: "SignedOutputRef \<Rightarrow> bool" where
  "completeSignedOutput s \<longleftrightarrow>
     \<not> blank (rf_URI (so_ArtifactRef s)) \<and> \<not> blank (rf_SHA256 (so_ArtifactRef s)) \<and> \<not> blank (so_EnvelopeSHA256 s) \<and>
     \<not> blank (so_PayloadSHA256 s) \<and> \<not> blank (so_KeyID s)"

definition signedOutputMatchesRef :: "SignedOutputRef \<Rightarrow> Ref \<Rightarrow> bool" where
  "signedOutputMatchesRef s ref \<longleftrightarrow>
     TrimSpace (rf_URI (so_ArtifactRef s)) = TrimSpace (rf_URI ref) \<and>
     TrimSpace (rf_SHA256 (so_ArtifactRef s)) = TrimSpace (rf_SHA256 ref) \<and>
     TrimSpace (so_EnvelopeSHA256 s) = TrimSpace (rf_SHA256 ref) \<and> \<not> blank (so_KeyID s)"

definition sameSignedOutputRef :: "SignedOutputRef \<Rightarrow> SignedOutputRef \<Rightarrow> bool" where
  "sameSignedOutputRef l r \<longleftrightarrow>
     TrimSpace (rf_URI (so_ArtifactRef l)) = TrimSpace (rf_URI (so_ArtifactRef r)) \<and>
     TrimSpace (rf_SHA256 (so_ArtifactRef l)) = TrimSpace (rf_SHA256 (so_ArtifactRef r)) \<and>
     TrimSpace (so_EnvelopeSHA256 l) = TrimSpace (so_EnvelopeSHA256 r) \<and>
     TrimSpace (so_PayloadSHA256 l) = TrimSpace (so_PayloadSHA256 r) \<and> TrimSpace (so_KeyID l) = TrimSpace (so_KeyID r)"

section \<open>Provenance\<close>

definition validateFederatedSourceDigests :: "PolicyBuildManifest \<Rightarrow> unit result" where
  "validateFederatedSourceDigests m =
     (let sp = bm_Spec m; sources = sp_FederatedSourceDigests sp in
      fail_if (sources = []) (code_error ''approved_build_missing_federated_source_digests'')
     (check_then
        (for_each (\<lambda>(key, expected).
           fail_if (blank expected \<or> blank (string_at sources key)) (code_error ''approved_build_missing_federated_source_digest'')
          (fail_if (TrimSpace (string_at sources key) \<noteq> TrimSpace expected)
             (code_error ''approved_build_federated_source_digest_mismatch'') (Inr ())))
          [(''policy_repo'', pp_ContentDigest (sp_PolicyRepo sp)), (''core_registry'', rg_ContentDigest (sp_CoreRegistry sp)),
           (''enterprise_registry'', rg_ContentDigest (sp_EnterpriseRegistry sp)), (''catalog'', sp_CatalogDigest sp),
           (''profile'', dg_Digest (sp_Profile sp)), (''risk_recipe'', dg_Digest (sp_RiskRecipe sp))]) (\<lambda>_.
      for_each (\<lambda>(i, adapter).
        let source = string_at sources (''adapter:'' @ i) in
        fail_if (blank (af_ManifestDigest adapter) \<or> blank source) (code_error ''approved_build_missing_adapter_source_digest'')
       (fail_if (TrimSpace source \<noteq> TrimSpace (af_ManifestDigest adapter))
          (code_error ''approved_build_adapter_source_digest_mismatch'') (Inr ())))
        (sp_Adapters sp))))"

definition validateApprovedBuildSignedAdapterManifests :: "PolicyBuildManifest \<Rightarrow> unit result" where
  "validateApprovedBuildSignedAdapterManifests m =
     for_each (\<lambda>(i, adapter).
       fail_if (blank (af_ManifestDigest adapter)) (code_error ''approved_build_missing_adapter_manifest_digest'')
      (fail_if (blank (af_ProtocolVersion adapter)) (code_error ''approved_build_missing_adapter_protocol'')
      (fail_if (\<not> completeSignedOutput (af_SignedManifest adapter)) (code_error ''approved_build_missing_signed_adapter_manifest'')
      (case map_of (sp_SignedOutputs (bm_Spec m)) (''adapter_manifest:'' @ i) of
         None \<Rightarrow> Inr ()
       | Some signed \<Rightarrow>
           fail_if (\<not> sameSignedOutputRef (af_SignedManifest adapter) signed)
             (code_error ''approved_build_signed_adapter_manifest_mismatch'') (Inr ())))))
       (sp_Adapters (bm_Spec m))"

definition validateApprovedBuildRuntimeProvenance :: "PolicyBuildManifest \<Rightarrow> unit result" where
  "validateApprovedBuildRuntimeProvenance m =
     check_then
       (for_each (\<lambda>(i, b).
          fail_if (blank (bi_BindingID b) \<or> blank (bi_Digest b) \<or> blank (bi_AdapterID b) \<or> blank (bi_CapabilityID b))
            (code_error ''approved_build_missing_binding_provenance'')
         (fail_if (i \<noteq> bi_BindingID b) (code_error ''approved_build_binding_id_mismatch'') (Inr ())))
          (sp_Bindings (bm_Spec m))) (\<lambda>_.
     for_each (\<lambda>(i, a).
       fail_if (blank (ra_CapabilityGrantID a) \<or> blank (ra_ActionDigest a) \<or> blank (ra_AdapterID a) \<or> blank (ra_CapabilityID a) \<or>
                blank (ra_ActionType a)) (code_error ''approved_build_missing_runtime_action_provenance'')
      (fail_if (i \<noteq> ra_CapabilityGrantID a) (code_error ''approved_build_runtime_action_id_mismatch'')
      (fail_if (blank (ra_BindingID a)) (code_error ''approved_build_missing_runtime_action_binding'')
      (fail_if (map_of (sp_Bindings (bm_Spec m)) (ra_BindingID a) = None)
         (code_error ''approved_build_runtime_action_binding_unknown'') (Inr ())))))
       (sp_RuntimeActions (bm_Spec m)))"

definition missing_provenance :: "PolicyBuildManifest \<Rightarrow> bool" where
  "missing_provenance m \<longleftrightarrow>
     (let sp = bm_Spec m in
      rg_ContentDigest (sp_CoreRegistry sp) = [] \<or> rg_ContentDigest (sp_EnterpriseRegistry sp) = [] \<or> sp_CatalogDigest sp = [] \<or>
      dg_Digest (sp_Profile sp) = [] \<or> dg_Digest (sp_RiskRecipe sp) = [])"

section \<open>Before approval\<close>

definition validateBuildManifestApprovalReadiness :: "PolicyBuildManifest \<Rightarrow> unit result" where
  "validateBuildManifestApprovalReadiness m =
     fail_if (blank (mm_ID (bm_Metadata m))) (code_error ''build_manifest_missing_id'')
    (fail_if (blank (mm_CreatedBy (bm_Metadata m))) (code_error ''build_manifest_missing_created_by'')
    (fail_if (blank (pp_Commit (sp_PolicyRepo (bm_Spec m)))) (code_error ''build_manifest_missing_source_commit'')
    (fail_if (missing_provenance m) (code_error ''build_manifest_missing_provenance'')
    (check_then (validateFederatedSourceDigests m) (\<lambda>_.
     check_then (validateApprovedBuildSignedAdapterManifests m) (\<lambda>_.
     fail_if (sp_SignedOutputs (bm_Spec m) = []) (code_error ''build_manifest_missing_signed_outputs'')
    (for_each (\<lambda>(artifactType, signed).
       fail_if (blank artifactType \<or> \<not> completeSignedOutput signed) (code_error ''build_manifest_incomplete_signed_output'') (Inr ()))
       (sp_SignedOutputs (bm_Spec m)))))))))"

definition samePrincipal :: "string \<Rightarrow> string \<Rightarrow> bool" where
  "samePrincipal l r \<longleftrightarrow> EqualFold (TrimSpace l) (TrimSpace r)"

section \<open>Before an assignment\<close>

definition validateApprovedBuildAuthority :: "PolicyBuildManifest \<Rightarrow> KLIQRegistration \<Rightarrow> unit result" where
  "validateApprovedBuildAuthority m reg =
     (let a = bm_Approval m in
      fail_if (blank (mm_CreatedBy (bm_Metadata m))) (code_error ''approved_build_missing_created_by'')
     (fail_if (blank (apv_ApprovedBy a) \<or> IsZero (apv_ApprovedAt a) \<or> blank (apv_AuthorityID a) \<or> blank (apv_AuthorityKind a))
        (code_error ''approved_build_missing_approval_authority'')
     (fail_if (samePrincipal (mm_CreatedBy (bm_Metadata m)) (apv_ApprovedBy a)) (code_error ''approved_build_self_approval_rejected'')
     (fail_if (blank (apv_Environment a) \<or> blank (apv_Stage a) \<or> blank (apv_Scope a)) (code_error ''approved_build_missing_scope_binding'')
     (fail_if (TrimSpace (apv_Environment a) \<noteq> TrimSpace (kr_Environment reg) \<or> TrimSpace (apv_Stage a) \<noteq> TrimSpace (kr_Stage reg) \<or>
               TrimSpace (apv_Scope a) \<noteq> TrimSpace (kr_Scope reg)) (code_error ''approved_build_scope_mismatch'')
     (Inr ()))))))"

definition requested_ref :: "KLIQAssignedArtifact \<Rightarrow> Ref" where
  "requested_ref a = \<lparr>rf_URI = TrimSpace (aa_ArtifactRef a), rf_SHA256 = TrimSpace (aa_SHA256 a)\<rparr>"

definition validateArtifactInApprovedBuild :: "PolicyBuildManifest \<Rightarrow> KLIQAssignedArtifact \<Rightarrow> unit result" where
  "validateArtifactInApprovedBuild m requested =
     (let artifactType = TrimSpace (aa_ArtifactType requested); ref = requested_ref requested; sp = bm_Spec m;
          absent = Inl (code_error ''artifact_not_in_approved_build'') in
      fail_if (rf_URI ref = [] \<or> rf_SHA256 ref = []) (code_error ''invalid_artifact_ref'')
     (if artifactType = ''adapter_manifest'' then
        (if \<exists>e \<in> set (sp_Adapters sp). signedOutputMatchesRef (af_SignedManifest (snd e)) ref then Inr () else absent)
      else case map_of (sp_SignedOutputs sp) artifactType of
        Some signed \<Rightarrow>
          if so_ArtifactRef signed = ref \<and> so_EnvelopeSHA256 signed = rf_SHA256 ref \<and> \<not> blank (so_KeyID signed) then Inr () else absent
      | None \<Rightarrow>
          (case map_of (sp_ArtifactRefs sp) artifactType of
             Some unsigned \<Rightarrow> if unsigned = ref then Inr () else absent
           | None \<Rightarrow> absent)))"

definition assignmentRequestsArtifactType :: "KLIQAssignedArtifact list \<Rightarrow> string \<Rightarrow> bool" where
  "assignmentRequestsArtifactType artifacts artifactType \<longleftrightarrow> list_ex (\<lambda>a. TrimSpace (aa_ArtifactType a) = artifactType) artifacts"

text \<open>The adapters of the runtime actions, by their trimmed id; an action without one is skipped.\<close>

fun required_adapters ::
  "(string \<times> AdapterRef) list \<Rightarrow> (string \<times> RuntimeActionRef) list \<Rightarrow> (string \<times> AdapterRef) list \<Rightarrow> (string \<times> AdapterRef) list result" where
  "required_adapters adapters [] acc = Inr acc"
| "required_adapters adapters (e # es) acc =
     (let adapterID = TrimSpace (ra_AdapterID (snd e)) in
      if adapterID = [] then required_adapters adapters es acc
      else case map_of adapters adapterID of
        None \<Rightarrow> Inl (code_error ''approved_build_runtime_action_adapter_unknown'')
      | Some adapter \<Rightarrow> required_adapters adapters es (put_entry adapterID adapter acc))"

definition validateRuntimeBundleAdapterManifestPair :: "PolicyBuildManifest \<Rightarrow> KLIQAssignedArtifact list \<Rightarrow> unit result" where
  "validateRuntimeBundleAdapterManifestPair m requested =
     (if \<not> assignmentRequestsArtifactType requested ''runtime_bundle'' \<or> sp_RuntimeActions (bm_Spec m) = [] then Inr ()
      else check_then (required_adapters (sp_Adapters (bm_Spec m)) (sp_RuntimeActions (bm_Spec m)) []) (\<lambda>required.
        for_each (\<lambda>(adapterID, adapter).
          fail_if (\<not> list_ex (\<lambda>a. TrimSpace (aa_ArtifactType a) = ''adapter_manifest'' \<and>
                                 signedOutputMatchesRef (af_SignedManifest adapter) (requested_ref a)) requested)
            (Errorf ''approved_build_missing_adapter_manifest_artifact:%s'' [adapterID]) (Inr ())) required))"

text \<open>The checks of \<^verbatim>\<open>validateApprovedBuild\<close> once the manifest is decoded.\<close>

definition approved_build_checks ::
  "KLIQRegistration \<Rightarrow> string \<Rightarrow> KLIQAssignedArtifact list \<Rightarrow> PolicyBuildManifest \<Rightarrow> unit result" where
  "approved_build_checks reg sourceCommit artifacts m =
     fail_if (bm_Kind m \<noteq> ''PolicyBuildManifest'') (code_error ''approved_build_invalid_kind'')
    (fail_if (apv_Status (bm_Approval m) \<noteq> ''approved'') (code_error ''approved_build_not_approved'')
    (check_then (validateApprovedBuildAuthority m reg) (\<lambda>_.
     fail_if (TrimSpace (pp_Commit (sp_PolicyRepo (bm_Spec m))) \<noteq> TrimSpace sourceCommit) (code_error ''approved_build_source_commit_mismatch'')
    (fail_if (missing_provenance m) (code_error ''approved_build_missing_provenance'')
    (check_then (validateFederatedSourceDigests m) (\<lambda>_.
     check_then (validateApprovedBuildSignedAdapterManifests m) (\<lambda>_.
     check_then (validateApprovedBuildRuntimeProvenance m) (\<lambda>_.
     fail_if (mm_ID (bm_Metadata m) = []) (code_error ''approved_build_missing_id'')
    (fail_if (kr_Environment reg = [] \<or> kr_Stage reg = [] \<or> kr_Scope reg = []) (code_error ''kliq_registration_scope_incomplete'')
    (check_then (for_each (validateArtifactInApprovedBuild m) artifacts) (\<lambda>_.
     validateRuntimeBundleAdapterManifestPair m artifacts)))))))))))"

definition nonblank_digests :: "('v \<Rightarrow> string) \<Rightarrow> (string \<times> 'v) list \<Rightarrow> (string \<times> string) list" where
  "nonblank_digests digest es = map (\<lambda>e. (fst e, digest (snd e))) (filter (\<lambda>e. \<not> blank (digest (snd e))) es)"

definition assignmentProvenanceFromBuild :: "PolicyBuildManifest \<Rightarrow> Ref \<Rightarrow> AssignmentProvenance option" where
  "assignmentProvenanceFromBuild m approvedBuildRef =
     (let p = \<lparr>ap_ApprovedBuildID = mm_ID (bm_Metadata m), ap_ApprovedBuildDigest = TrimSpace (rf_SHA256 approvedBuildRef),
               ap_BindingDigests = nonblank_digests bi_Digest (sp_Bindings (bm_Spec m)),
               ap_RuntimeActionDigests = nonblank_digests ra_ActionDigest (sp_RuntimeActions (bm_Spec m)),
               ap_AdapterManifestDigests = nonblank_digests af_ManifestDigest (sp_Adapters (bm_Spec m))\<rparr> in
      if ap_ApprovedBuildID p = [] \<and> ap_ApprovedBuildDigest p = [] \<and> ap_BindingDigests p = [] \<and> ap_RuntimeActionDigests p = [] \<and>
         ap_AdapterManifestDigests p = [] then None
      else Some p)"

section \<open>Artifacts of an assignment\<close>

definition rejectRawAssignmentArtifactEnvelopes :: "KLIQAssignedArtifact list \<Rightarrow> unit result" where
  "rejectRawAssignmentArtifactEnvelopes artifacts =
     for_each (\<lambda>a. fail_if (aa_Envelope a \<noteq> [] \<and> TrimSpace (aa_Envelope a) \<noteq> ''null'')
       (code_error ''raw_artifact_envelope_not_allowed'') (Inr ())) artifacts"

definition allowedAssignmentArtifactType :: "string \<Rightarrow> bool" where
  "allowedAssignmentArtifactType artifactType = SupportedAssignmentArtifactType (TrimSpace artifactType)"

definition expectedAssignmentArtifactKind :: "string \<Rightarrow> string" where
  "expectedAssignmentArtifactKind artifactType =
     (let t = TrimSpace artifactType in
      if t = ''runtime_bundle'' then ''RuntimeBundle''
      else if t = ''adapter_manifest'' then ''AdapterManifest''
      else if t = ''context_route_pack'' then ''ContextRoutePack''
      else if t = ''conformance_expectation'' then ''ConformanceExpectation''
      else if t = ''adapter_assignment'' then ''AdapterAssignment''
      else [])"

definition validateAssignmentArtifactPayloadType :: "wire \<Rightarrow> string \<Rightarrow> bytes \<Rightarrow> unit result" where
  "validateAssignmentArtifactPayloadType cx artifactType payload =
     (case dec_Header cx payload of
        Inl e \<Rightarrow> Inl (code_error ''artifact_payload_invalid'')
      | Inr header \<Rightarrow>
          fail_if (expectedAssignmentArtifactKind artifactType \<noteq> [] \<and> hd_Kind header \<noteq> expectedAssignmentArtifactKind artifactType)
            (code_error ''artifact_payload_kind_mismatch'')
         (fail_if (hd_ArtifactType header \<noteq> [] \<and> hd_ArtifactType header \<noteq> artifactType)
            (code_error ''artifact_payload_type_mismatch'') (Inr ())))"

definition validateAssignmentRequest :: "KLIQAssignment \<Rightarrow> unit result" where
  "validateAssignmentRequest a =
     fail_if (blank (as_AssignmentID a)) (Errorf ''assignment_id is required'' [])
    (fail_if (as_AssignmentVersion a \<le> 0) (Errorf ''assignment_version must be positive'' [])
    (fail_if (blank (as_KLIQID a)) (Errorf ''kliq_id is required'' [])
    (fail_if (blank (as_Environment a)) (Errorf ''environment is required'' [])
    (fail_if (blank (as_Stage a)) (Errorf ''stage is required'' [])
    (fail_if (blank (as_Scope a)) (Errorf ''scope is required'' [])
    (fail_if (blank (as_SourceCommit a)) (Errorf ''source_commit is required'' [])
    (fail_if (blank (as_TrustKeyID a)) (Errorf ''trust_key_id is required'' [])
    (fail_if (blank (as_TrustBundleRef a)) (Errorf ''trust_bundle_ref is required'' [])
    (fail_if (IsZero (as_ExpiresAt a)) (Errorf ''expires_at is required'' [])
    (fail_if (as_Artifacts a = []) (Errorf ''at least one artifact is required'' [])
    (Inr ())))))))))))"

end
