(* ===== verification/Redis_Client.thy ===== *)
theory Redis_Client
  imports Effects GoStrings
begin

text \<open>
  The client of the Redis protocol of \<^verbatim>\<open>storage/redis/client.go\<close>: commands as bytes, and the reader of a
  reply. The connection is what the server sends until it closes or the deadline passes, so the reader works on a
  finite list of bytes; \<open>EOF\<close> stands for whichever error the end of that list gives (\<^verbatim>\<open>io.EOF\<close>, \<^verbatim>\<open>io.ErrUnexpectedEOF\<close> or
  the timeout), which no caller tells apart. A \<^verbatim>\<open>make\<close> that panics is the error \<open>panic\<close>: the callers end with an error where the
  process or the HTTP request ends with the panic.
  Arrays may nest, so the reader runs on fuel; fuel greater than the number of bytes is enough
  (\<open>readValue_returns\<close>), and that is what \<open>redis_do\<close> gives it.
\<close>

section \<open>Values and commands\<close>

definition ErrNil :: error where
  "ErrNil = Sentinel ''redis nil''"

definition EOF :: error where
  "EOF = Sentinel ''EOF''"

definition panic :: "string \<Rightarrow> error" where
  "panic msg = Errorf ''panic: %s'' [msg]"

datatype Value = Value (rv_Kind: char) (rv_String: string) (rv_Int: int) (rv_Array: "Value list") (rv_Nil: bool)

definition zero_Value :: Value where
  "zero_Value = Value (CHR 0x00) [] 0 [] False"

definition CRLF :: bytes where
  "CRLF = [CHR 0x0D, CHR 0x0A]"

definition encodeCommand :: "string list \<Rightarrow> bytes" where
  "encodeCommand args =
     ''*'' @ int_digits (int (length args)) @ CRLF @
     concat (map (\<lambda>arg. ''$'' @ int_digits (int (length arg)) @ CRLF @ arg @ CRLF) args)"

section \<open>Reading a reply\<close>

text \<open>
  How many bytes and how many values a \<^verbatim>\<open>make\<close> can allocate is up to the runtime. A reader returns the two results of
  the Go function and the bytes that are left.
\<close>

record allocator =
  al_bytes :: "int \<Rightarrow> bool"
  al_values :: "int \<Rightarrow> bool"

type_synonym reply = "(Value \<times> error option) \<times> bytes"

definition failed_read :: "error \<Rightarrow> bytes \<Rightarrow> reply" where
  "failed_read e s = ((zero_Value, Some e), s)"

definition readLine :: "bytes \<Rightarrow> string result \<times> bytes" where
  "readLine s =
     (if CHR 0x0A \<in> set s
      then (Inr (TrimSuffix (takeWhile (\<lambda>c. c \<noteq> CHR 0x0A) s) [CHR 0x0D]), tl (dropWhile (\<lambda>c. c \<noteq> CHR 0x0A) s))
      else (Inl EOF, []))"

text \<open>A line that holds a number, or the error and the bytes that are left.\<close>

definition readNumber :: "bytes \<Rightarrow> int result \<times> bytes" where
  "readNumber s =
     (case readLine s of
        (Inl e, t) \<Rightarrow> (Inl e, t)
      | (Inr line, t) \<Rightarrow>
          (case ParseInt64 line of None \<Rightarrow> (Inl (Errorf ''strconv: parsing %q'' [line]), t) | Some n \<Rightarrow> (Inr n, t)))"

text \<open>The sum \<^verbatim>\<open>length+2\<close> on 64 bits.\<close>

definition wrap64 :: "int \<Rightarrow> int" where
  "wrap64 n = (n + 2 ^ 63) mod 2 ^ 64 - 2 ^ 63"

definition readBulkString :: "allocator \<Rightarrow> bytes \<Rightarrow> reply" where
  "readBulkString al s =
     (case readNumber s of
        (Inl e, t) \<Rightarrow> failed_read e t
      | (Inr len, t) \<Rightarrow>
          let size = wrap64 (len + 2) in
          if len = - 1 then ((Value (CHR ''$'') [] 0 [] True, Some ErrNil), t)
          else if size < 0 \<or> \<not> al_bytes al size then failed_read (panic ''makeslice: len out of range'') t
          else if int (length t) < size then failed_read EOF []
          else let buf = take (nat size) t; rest = drop (nat size) t in
            if \<not> HasSuffix buf CRLF then failed_read (Errorf ''invalid redis bulk string terminator'' []) rest
            else ((Value (CHR ''$'') (take (nat len) buf) 0 [] False, None), rest))"

text \<open>The cases of the switch that do not read other values, for the prefix that was read.\<close>

definition readScalar :: "allocator \<Rightarrow> char \<Rightarrow> bytes \<Rightarrow> reply" where
  "readScalar al p s =
     (if p = CHR ''+'' then
        (case readLine s of
           (Inl e, t) \<Rightarrow> ((Value (CHR ''+'') [] 0 [] False, Some e), t)
         | (Inr line, t) \<Rightarrow> ((Value (CHR ''+'') line 0 [] False, None), t))
      else if p = CHR ''-'' then
        (case readLine s of
           (Inl e, t) \<Rightarrow> failed_read e t
         | (Inr line, t) \<Rightarrow> failed_read (Errorf ''redis error: %s'' [line]) t)
      else if p = CHR '':'' then
        (case readNumber s of
           (Inl e, t) \<Rightarrow> failed_read e t
         | (Inr n, t) \<Rightarrow> ((Value (CHR '':'') [] n [] False, None), t))
      else if p = CHR ''$'' then readBulkString al s
      else failed_read (Errorf ''unsupported redis response prefix %q'' [[p]]) s)"

function (sequential) readValue :: "allocator \<Rightarrow> nat \<Rightarrow> bytes \<Rightarrow> reply option"
  and readArray :: "allocator \<Rightarrow> nat \<Rightarrow> bytes \<Rightarrow> reply option"
  and readValues :: "allocator \<Rightarrow> nat \<Rightarrow> nat \<Rightarrow> Value list \<Rightarrow> bytes \<Rightarrow> reply option" where
  "readValue al 0 s = None"
| "readValue al (Suc fuel) [] = Some (failed_read EOF [])"
| "readValue al (Suc fuel) (p # s) = (if p = CHR ''*'' then readArray al fuel s else Some (readScalar al p s))"
| "readArray al fuel s =
     (case readNumber s of
        (Inl e, t) \<Rightarrow> Some (failed_read e t)
      | (Inr len, t) \<Rightarrow>
          if len = - 1 then Some ((Value (CHR ''*'') [] 0 [] True, Some ErrNil), t)
          else if len < 0 \<or> \<not> al_values al len then Some (failed_read (panic ''makeslice: cap out of range'') t)
          else readValues al fuel (nat len) [] t)"
| "readValues al fuel 0 values s = Some ((Value (CHR ''*'') [] 0 values False, None), s)"
| "readValues al fuel (Suc n) values s =
     (case readValue al fuel s of
        None \<Rightarrow> None
      | Some ((v, err), t) \<Rightarrow>
          (case err of
             Some e \<Rightarrow> if \<not> errors_Is e ErrNil then Some (failed_read e t) else readValues al fuel n (values @ [v]) t
           | None \<Rightarrow> readValues al fuel n (values @ [v]) t))"
  by pat_completeness auto

termination
  by (relation "measures [\<lambda>x. case x of Inl (_, f, _) \<Rightarrow> f | Inr (Inl (_, f, _)) \<Rightarrow> f | Inr (Inr (_, f, _)) \<Rightarrow> f,
       \<lambda>x. case x of Inl _ \<Rightarrow> 0 | Inr (Inl _) \<Rightarrow> 2 | Inr (Inr _) \<Rightarrow> 1,
       \<lambda>x. case x of Inr (Inr (_, _, n, _)) \<Rightarrow> n | _ \<Rightarrow> 0]") auto

declare readArray.simps [simp del]

section \<open>A command\<close>

text \<open>
  The server is a parameter: what it answers to the bytes of a command, and its state afterwards. So is the network:
  the connection may be refused, or break after some bytes of the reply, when the command has been executed.
\<close>

datatype redis_object = RString string | RList "string list"

type_synonym redis_db = "string \<rightharpoonup> redis_object"

datatype redis_link = Refused string | Answers "nat option"

record redis_net =
  rn_link :: "nat \<Rightarrow> redis_link"
  rn_server :: "bytes \<Rightarrow> redis_db \<Rightarrow> bytes \<times> redis_db"
  rn_alloc :: allocator

definition received :: "nat option \<Rightarrow> bytes \<Rightarrow> bytes" where
  "received broken reply = (case broken of None \<Rightarrow> reply | Some n \<Rightarrow> take n reply)"

definition reply_result :: "reply option \<Rightarrow> Value result" where
  "reply_result r =
     (case r of
        None \<Rightarrow> Inl (panic ''reader does not return'')
      | Some ((v, err), _) \<Rightarrow> (case err of None \<Rightarrow> Inr v | Some e \<Rightarrow> Inl e))"

definition redis_do :: "redis_net \<Rightarrow> string list \<Rightarrow> (redis_db, 'c, Value) action" where
  "redis_do net args w =
     (if args = [] then (Inl (Errorf ''redis command requires at least one argument'' []), w)
      else case rn_link net (tick w) of
        Refused msg \<Rightarrow> (Inl (driver_error msg), w\<lparr>tick := Suc (tick w)\<rparr>)
      | Answers broken \<Rightarrow>
          (case rn_server net (encodeCommand args) (db w) of
             (reply, d) \<Rightarrow>
               let stream = received broken reply in
               (reply_result (readValue (rn_alloc net) (Suc (length stream)) stream), w\<lparr>db := d, tick := Suc (tick w)\<rparr>)))"

section \<open>The reader returns\<close>

lemma readLine_shorter: "readLine s = (r, t) \<Longrightarrow> length t \<le> length s"
proof -
  assume "readLine s = (r, t)"
  then show ?thesis using length_dropWhile_le [of "\<lambda>c. c \<noteq> CHR 0x0A" s] by (auto simp: readLine_def split: if_splits)
qed

lemma readNumber_shorter: "readNumber s = (r, t) \<Longrightarrow> length t \<le> length s"
  by (auto simp: readNumber_def split: prod.splits sum.splits option.splits dest: readLine_shorter)

lemma readBulkString_shorter: "readBulkString al s = (r, t) \<Longrightarrow> length t \<le> length s"
  by (auto simp: readBulkString_def failed_read_def Let_def split: prod.splits sum.splits if_splits dest!: readNumber_shorter)

lemma readScalar_shorter: "readScalar al p s = (r, t) \<Longrightarrow> length t \<le> length s"
  by (auto simp: readScalar_def failed_read_def split: if_splits prod.splits sum.splits
      dest!: readLine_shorter readNumber_shorter readBulkString_shorter)

text \<open>A value takes at least its first byte, so nesting and the loops over elements are bounded by the bytes received.\<close>

lemma reader_shorter:
  "readValue al fuel s = Some ((v, err), t) \<Longrightarrow> length t \<le> length s"
  "readArray al fuel s = Some ((v, err), t) \<Longrightarrow> length t \<le> length s"
  "readValues al fuel n vs s = Some ((v, err), t) \<Longrightarrow> length t \<le> length s"
proof (induction al fuel s and al fuel s and al fuel n vs s arbitrary: v err t and v err t and v err t
    rule: readValue_readArray_readValues.induct)
  case (3 al fuel p s)
  then show ?case
    by (auto split: if_splits dest!: readScalar_shorter)
next
  case (4 al fuel s)
  then show ?case
    by (auto simp: readArray.simps failed_read_def split: if_splits prod.splits sum.splits dest!: readNumber_shorter) (meson le_trans)
next
  case (6 al fuel n vs s)
  then show ?case
    by (auto simp: failed_read_def split: if_splits option.splits) (meson le_trans)+
qed (auto simp: failed_read_def)

text \<open>More fuel than bytes is enough, whatever the bytes are.\<close>

lemma readValue_returns:
  "length s < fuel \<Longrightarrow> readValue al fuel s \<noteq> None"
  "length s < fuel \<Longrightarrow> readArray al fuel s \<noteq> None"
  "length s < fuel \<Longrightarrow> readValues al fuel n vs s \<noteq> None"
proof (induction al fuel s and al fuel s and al fuel n vs s rule: readValue_readArray_readValues.induct)
  case (4 al fuel s)
  obtain r t where n: "readNumber s = (r, t)" by force
  with 4 readNumber_shorter [OF n] show ?case by (cases r) (simp_all add: readArray.simps failed_read_def)
next
  case (6 al fuel n vs s)
  obtain v err t where v: "readValue al fuel s = Some ((v, err), t)" using 6 by fastforce
  with 6 show ?case using reader_shorter(1) [OF v] by (auto simp: failed_read_def split: option.splits)
next
  case (3 al fuel p s)
  then show ?case by (cases "readScalar al p s") simp
qed auto

text \<open>Fuel does not change what is read.\<close>

lemma readValue_Suc:
  "readValue al fuel s = Some r \<Longrightarrow> readValue al (Suc fuel) s = Some r"
  "readArray al fuel s = Some r \<Longrightarrow> readArray al (Suc fuel) s = Some r"
  "readValues al fuel n vs s = Some r \<Longrightarrow> readValues al (Suc fuel) n vs s = Some r"
proof (induction al fuel s and al fuel s and al fuel n vs s arbitrary: r and r and r
    rule: readValue_readArray_readValues.induct)
  case (3 al fuel p s)
  then show ?case by (cases "p = CHR ''*''") (simp_all del: readValue.simps add: readValue.simps(3))
next
  case (4 al fuel s)
  obtain x t where n: "readNumber s = (x, t)" by force
  with 4(1) [OF n [symmetric], of _ r] 4(2) show ?case
    by (cases x) (auto simp: readArray.simps split: if_splits)
next
  case (6 al fuel n vs s)
  then obtain v err t where v: "readValue al fuel s = Some ((v, err), t)" by (auto split: option.splits)
  have v': "readValue al (Suc fuel) s = Some ((v, err), t)" by (rule 6(1) [OF v])
  show ?case
  proof (cases err)
    case None
    with 6(2,3) [OF v refl refl] 6(4) v show ?thesis unfolding readValues.simps v' by simp
  next
    case (Some e)
    with 6(2,3) [OF v refl refl] 6(4) v show ?thesis unfolding readValues.simps v' by (auto split: if_splits)
  qed
qed auto

lemma readValue_fuel:
  assumes "readValue al fuel s = Some r" and "fuel \<le> more_fuel"
  shows "readValue al more_fuel s = Some r"
  using assms(2,1) by (induction rule: dec_induct) (auto dest: readValue_Suc(1))

section \<open>Replies that are cut short\<close>

text \<open>What a reader makes of the bytes it got, the end of input apart, is what it makes of any longer reply.\<close>

lemma EOF_distinct [simp]: "Errorf m as \<noteq> EOF" "panic m \<noteq> EOF" "ErrNil \<noteq> EOF"
  by (simp_all add: EOF_def panic_def ErrNil_def)

lemma readLine_Inl: "readLine p = (Inl e, t) \<Longrightarrow> e = EOF"
  by (auto simp: readLine_def split: if_splits)

lemma readLine_prefix:
  assumes "readLine p = (r, t)" and "r \<noteq> Inl EOF"
  shows "readLine (p @ q) = (r, t @ q)"
proof -
  have lf: "CHR 0x0A \<in> set p" using assms by (auto simp: readLine_def split: if_splits)
  then have "dropWhile (\<lambda>c. c \<noteq> CHR 0x0A) p \<noteq> []" by (auto simp: dropWhile_eq_Nil_conv)
  with lf assms show ?thesis
    by (auto simp: readLine_def takeWhile_append1 [where x = "CHR 0x0A"] dropWhile_append1 [where x = "CHR 0x0A"])
qed

lemma readNumber_prefix: "readNumber p = (r, t) \<Longrightarrow> r \<noteq> Inl EOF \<Longrightarrow> readNumber (p @ q) = (r, t @ q)"
  by (cases "readLine p") (auto simp: readNumber_def readLine_prefix split: sum.splits option.splits dest: readLine_Inl)

lemma readBulkString_prefix:
  assumes "readBulkString al p = ((v, err), t)" and "err \<noteq> Some EOF"
  shows "readBulkString al (p @ q) = ((v, err), t @ q)"
proof -
  obtain r u where n: "readNumber p = (r, u)" by force
  with assms have "r \<noteq> Inl EOF" by (auto simp: readBulkString_def failed_read_def)
  from readNumber_prefix [OF n this] n assms show ?thesis
    by (auto simp: readBulkString_def failed_read_def Let_def split: sum.splits if_splits)
qed

lemma readScalar_prefix:
  assumes "readScalar al c p = ((v, err), t)" and "err \<noteq> Some EOF"
  shows "readScalar al c (p @ q) = ((v, err), t @ q)"
proof -
  obtain r t1 where l: "readLine p = (r, t1)" by force
  obtain n t2 where n: "readNumber p = (n, t2)" by force
  have "r = Inl EOF \<or> readLine (p @ q) = (r, t1 @ q)" "n = Inl EOF \<or> readNumber (p @ q) = (n, t2 @ q)"
    using readLine_prefix [OF l] readNumber_prefix [OF n] by auto
  with assms l n readLine_Inl [of p] readBulkString_prefix [of al p v err t q] show ?thesis
    by (cases r; cases n) (auto simp: readScalar_def failed_read_def split: if_splits)
qed

lemma reader_prefix:
  "readValue al fuel p = Some ((v, err), t) \<Longrightarrow> err \<noteq> Some EOF \<Longrightarrow> readValue al fuel (p @ q) = Some ((v, err), t @ q)"
  "readArray al fuel p = Some ((v, err), t) \<Longrightarrow> err \<noteq> Some EOF \<Longrightarrow> readArray al fuel (p @ q) = Some ((v, err), t @ q)"
  "readValues al fuel n vs p = Some ((v, err), t) \<Longrightarrow> err \<noteq> Some EOF \<Longrightarrow> readValues al fuel n vs (p @ q) = Some ((v, err), t @ q)"
proof (induction al fuel p and al fuel p and al fuel n vs p arbitrary: v err t and v err t and v err t
    rule: readValue_readArray_readValues.induct)
  case (2 al fuel)
  then show ?case by (simp add: failed_read_def)
next
  case (3 al fuel p s)
  then show ?case using readScalar_prefix [of al p s v err t q] by (cases "p = CHR ''*''") auto
next
  case (4 al fuel s)
  obtain r u where n: "readNumber s = (r, u)" by force
  with 4(2,3) have "r \<noteq> Inl EOF" by (auto simp: readArray.simps failed_read_def)
  from readNumber_prefix [OF n this] 4 n show ?case
    by (cases r) (auto simp: readArray.simps failed_read_def split: if_splits)
next
  case (6 al fuel n vs s)
  then obtain x e u where x: "readValue al fuel s = Some ((x, e), u)" by (auto split: option.splits)
  have e: "e \<noteq> Some EOF"
  proof
    assume "e = Some EOF"
    with 6(4,5) x show False by (auto simp: failed_read_def EOF_def ErrNil_def)
  qed
  have x': "readValue al fuel (s @ q) = Some ((x, e), u @ q)" by (rule 6(1) [OF x e])
  from 6(2,3) [OF x refl refl] 6(4,5) x show ?case
    unfolding readValues.simps x' by (cases e) (auto simp: failed_read_def split: if_splits)
qed auto

section \<open>What was encoded is read back\<close>

lemma digit_char: "0 \<le> n \<Longrightarrow> n < 10 \<Longrightarrow> is_digit (char_of (48 + n)) \<and> digit_value (char_of (48 + n)) = n"
  by (simp add: is_digit_def digit_value_def of_char_of take_bit_eq_mod)

lemma nat_digits_value:
  "0 \<le> n \<Longrightarrow> nat_digits n \<noteq> [] \<and> (\<forall>c \<in> set (nat_digits n). is_digit c) \<and>
     fold (\<lambda>c a. a * 10 + digit_value c) (nat_digits n) 0 = n"
proof (induction n rule: nat_digits.induct)
  case (1 n)
  show ?case
  proof (cases "n < 10")
    case True
    with 1 show ?thesis by (simp add: nat_digits.simps [of n] digit_char)
  next
    case False
    with 1 have "nat_digits (n div 10) \<noteq> [] \<and> (\<forall>c \<in> set (nat_digits (n div 10)). is_digit c) \<and>
      fold (\<lambda>c a. a * 10 + digit_value c) (nat_digits (n div 10)) 0 = n div 10" by simp
    with False 1 show ?thesis by (simp add: nat_digits.simps [of n] digit_char)
  qed
qed

lemma digit_not_sign: "is_digit c \<Longrightarrow> c \<noteq> CHR ''-'' \<and> c \<noteq> CHR ''+'' \<and> c \<noteq> CHR 0x0A \<and> c \<noteq> CHR 0x0D"
  by (auto simp: is_digit_def)

lemma ParseInt64_digits:
  assumes "0 \<le> n"
  shows "ParseInt64 (int_digits n) = (if n < 2 ^ 63 then Some n else None)"
proof -
  from nat_digits_value [OF assms] obtain c cs where d: "nat_digits n = c # cs" "is_digit c" by (cases "nat_digits n") auto
  from nat_digits_value [OF assms] have "\<forall>c \<in> set (nat_digits n). is_digit c" "fold (\<lambda>c a. a * 10 + digit_value c) (nat_digits n) 0 = n"
    by auto
  with d digit_not_sign [OF d(2)] assms show ?thesis
    by (auto simp: ParseInt64_def int_digits_def Let_def)
qed

lemma readLine_digits:
  assumes "0 \<le> n"
  shows "readLine (int_digits n @ CRLF @ s) = (Inr (int_digits n), s)"
proof -
  have solid: "c \<noteq> CHR 0x0A \<and> c \<noteq> CHR 0x0D" if "c \<in> set (int_digits n)" for c
    using that nat_digits_value [OF assms] assms digit_not_sign by (auto simp: int_digits_def)
  have t: "takeWhile (\<lambda>c. c \<noteq> CHR 0x0A) (int_digits n @ CRLF @ s) = int_digits n @ [CHR 0x0D]"
    and d: "dropWhile (\<lambda>c. c \<noteq> CHR 0x0A) (int_digits n @ CRLF @ s) = CHR 0x0A # s"
    using solid by (simp_all add: CRLF_def takeWhile_append dropWhile_append)
  show ?thesis unfolding readLine_def t d by (simp add: CRLF_def TrimSuffix_def HasSuffix_def)
qed

lemma readNumber_digits: "0 \<le> n \<Longrightarrow> n < 2 ^ 63 \<Longrightarrow> readNumber (int_digits n @ CRLF @ s) = (Inr n, s)"
  by (simp add: readNumber_def readLine_digits ParseInt64_digits)

definition bulk :: "string \<Rightarrow> bytes" where
  "bulk arg = ''$'' @ int_digits (int (length arg)) @ CRLF @ arg @ CRLF"

definition fits :: "allocator \<Rightarrow> string \<Rightarrow> bool" where
  "fits al arg \<longleftrightarrow> int (length arg) + 2 < 2 ^ 63 \<and> al_bytes al (int (length arg) + 2)"

lemma readBulkString_bulk:
  assumes "fits al arg"
  shows "readBulkString al (int_digits (int (length arg)) @ CRLF @ arg @ CRLF @ s) = ((Value (CHR ''$'') arg 0 [] False, None), s)"
proof -
  let ?n = "int (length arg)"
  have n: "wrap64 (?n + 2) = ?n + 2" using assms by (simp add: wrap64_def fits_def)
  have "nat (?n + 2) = length (arg @ CRLF)" by (simp add: CRLF_def nat_add_distrib)
  then have "take (nat (?n + 2)) (arg @ CRLF @ s) = arg @ CRLF" "drop (nat (?n + 2)) (arg @ CRLF @ s) = s" by simp_all
  moreover have "HasSuffix (arg @ CRLF) CRLF" by (simp add: HasSuffix_def)
  ultimately show ?thesis
    using assms readNumber_digits [of ?n "arg @ CRLF @ s"]
    by (simp add: readBulkString_def n Let_def fits_def CRLF_def)
qed

lemma readValue_bulk:
  assumes "fits al arg" and "0 < fuel"
  shows "readValue al fuel (bulk arg @ s) = Some ((Value (CHR ''$'') arg 0 [] False, None), s)"
  using assms readBulkString_bulk [of al arg s] by (cases fuel) (simp_all add: bulk_def readScalar_def)

lemma readValues_bulks:
  "\<forall>arg \<in> set args. fits al arg \<Longrightarrow> 0 < fuel \<Longrightarrow>
     readValues al fuel (length args) vs (concat (map bulk args) @ s) =
       Some ((Value (CHR ''*'') [] 0 (vs @ map (\<lambda>arg. Value (CHR ''$'') arg 0 [] False) args) False, None), s)"
proof (induction args arbitrary: vs)
  case (Cons arg args)
  have "readValue al fuel (bulk arg @ t) = Some ((Value (CHR ''$'') arg 0 [] False, None), t)" for t
    using Cons.prems readValue_bulk by simp
  with Cons show ?case by simp
qed simp

text \<open>A command is an array of bulk strings, so the reader of replies reads it back.\<close>

lemma encodeCommand_bulk: "encodeCommand args = ''*'' @ int_digits (int (length args)) @ CRLF @ concat (map bulk args)"
  by (simp add: encodeCommand_def bulk_def [abs_def])

lemma readValue_command:
  assumes "\<forall>arg \<in> set args. fits al arg" and "int (length args) < 2 ^ 63" and "al_values al (int (length args))" and "1 < fuel"
  shows "readValue al fuel (encodeCommand args @ s) =
    Some ((Value (CHR ''*'') [] 0 (map (\<lambda>arg. Value (CHR ''$'') arg 0 [] False) args) False, None), s)"
proof -
  obtain f where f: "fuel = Suc f" "0 < f" using assms(4) by (cases fuel) auto
  have "readArray al f (int_digits (int (length args)) @ CRLF @ concat (map bulk args) @ s) =
      readValues al f (length args) [] (concat (map bulk args) @ s)"
    using assms(2,3) readNumber_digits [of "int (length args)" "concat (map bulk args) @ s"] by (simp add: readArray.simps)
  with readValues_bulks [OF assms(1) f(2), of "[]" s] show ?thesis by (simp add: f(1) encodeCommand_bulk)
qed

text \<open>Whatever the runtime can allocate: a reply that holds a bulk string gives that string or an error.\<close>

lemma bulk_value:
  assumes "readValue al fuel (bulk arg) = Some ((v, None), t)"
  shows "v = Value (CHR ''$'') arg 0 [] False"
proof -
  let ?n = "int (length arg)"
  obtain f where fuel: "fuel = Suc f" using assms by (cases fuel) auto
  from assms have read: "readBulkString al (int_digits ?n @ CRLF @ arg @ CRLF) = ((v, None), t)"
    by (simp add: fuel bulk_def readScalar_def)
  have "fits al arg"
  proof (rule ccontr)
    assume no: "\<not> fits al arg"
    show False
    proof (cases "?n < 2 ^ 63")
      case True
      have "wrap64 (?n + 2) < 0" if "\<not> ?n + 2 < 2 ^ 63"
      proof -
        have "?n + 2 + 2 ^ 63 = (?n + 2 - 2 ^ 63) + 2 ^ 64" by simp
        then have "wrap64 (?n + 2) = (?n + 2 - 2 ^ 63) mod 2 ^ 64 - 2 ^ 63" unfolding wrap64_def by (metis mod_add_self2)
        also have "(?n + 2 - 2 ^ 63) mod 2 ^ 64 = ?n + 2 - 2 ^ 63" using that True by (intro mod_pos_pos_trivial) auto
        finally show ?thesis using True by simp
      qed
      moreover have "wrap64 (?n + 2) = ?n + 2" if "?n + 2 < 2 ^ 63" using that by (simp add: wrap64_def)
      ultimately have "wrap64 (?n + 2) < 0 \<or> \<not> al_bytes al (wrap64 (?n + 2))"
        using no unfolding fits_def by (cases "?n + 2 < 2 ^ 63") metis+
      with read readNumber_digits [OF _ True, of "arg @ CRLF"] show False
        by (auto simp: readBulkString_def failed_read_def Let_def split: if_splits)
    next
      case False
      with read show False by (simp add: readBulkString_def readNumber_def readLine_digits ParseInt64_digits failed_read_def)
    qed
  qed
  with readBulkString_bulk [of al arg "[]"] read show ?thesis by simp
qed

end
