(* ===== verification/Jobs.thy ===== *)
theory Jobs
  imports Redis_Client Artifact_Store
begin

text \<open>
  The job queue of Forge (\<^verbatim>\<open>internal/forge/jobs\<close>): jobs and their states (\<^verbatim>\<open>types.go\<close>), the queue in memory
  (\<^verbatim>\<open>memory.go\<close>) and in Redis (\<^verbatim>\<open>redis_store.go\<close>), the runner of a worker (\<^verbatim>\<open>runner.go\<close>) and the command
  \<^verbatim>\<open>forge-worker run-once\<close>. What both queues promise is the locale \<open>job_queue\<close>; the lemmas about the runner are
  proved in it. The JSON codecs, \<^verbatim>\<open>crypto/rand\<close> and the compiler the runner calls are parameters.
\<close>

section \<open>Jobs\<close>

definition TypeSimulation :: string where "TypeSimulation = ''simulation''"
definition StatusPending :: string where "StatusPending = ''pending''"
definition StatusRunning :: string where "StatusRunning = ''running''"
definition StatusSucceeded :: string where "StatusSucceeded = ''succeeded''"
definition StatusFailed :: string where "StatusFailed = ''failed''"

lemmas job_statuses = StatusPending_def StatusRunning_def StatusSucceeded_def StatusFailed_def

definition ErrJobNotFound :: error where "ErrJobNotFound = Sentinel ''job not found''"
definition ErrNoJob :: error where "ErrNoJob = Sentinel ''no job available''"

record Job =
  jb_ID :: string
  jb_Type :: string
  jb_Status :: string
  jb_CreatedAt :: gotime
  jb_UpdatedAt :: gotime
  jb_CreatedBy :: string
  jb_Payload :: bytes
  jb_Result :: bytes
  jb_Error :: string

record SimulationPayload =
  sim_PolicyRepo :: string
  sim_PolicyFile :: string
  sim_CoreRegistry :: string
  sim_EnterpriseRegistry :: string
  sim_OutputDir :: string

record SimulationPolicyResult =
  pol_PolicyID :: string
  pol_ReviewPath :: string
  pol_ResolvedPath :: string
  pol_RuntimeBundlePath :: string
  pol_ContextRoutePackPath :: string
  pol_ConformanceExpectationPath :: string
  pol_ManifestPath :: string
  pol_ManifestSignedPath :: string
  pol_CoveragePath :: string
  pol_SimulationPath :: string
  pol_ValidationPath :: string
  pol_ResolvedSignedPath :: string
  pol_RuntimeBundleSignedPath :: string
  pol_ContextRoutePackSignedPath :: string
  pol_ConformanceExpectationSignedPath :: string
  pol_ResolvedSHA256 :: string
  pol_RuntimeBundleSHA256 :: string
  pol_ContextRoutePackSHA256 :: string
  pol_ConformanceExpectationSHA256 :: string
  pol_ManifestSHA256 :: string
  pol_ManifestSignedSHA256 :: string
  pol_ResolvedSignedSHA256 :: string
  pol_RuntimeBundleSignedSHA256 :: string
  pol_ContextRoutePackSignedSHA256 :: string
  pol_ConformanceExpectationSignedSHA256 :: string

record SimulationResult =
  sim_Kind :: string
  sim_Status :: string
  sim_Policies :: "SimulationPolicyResult list"

text \<open>The time in the fallback of an id: nanoseconds since 1970.\<close>

definition UnixNano :: "gotime \<Rightarrow> int" where
  "UnixNano t = t - 62135596800000000000"

text \<open>The text of eight random bytes, or the failure to read them, and the layout of the time are parameters.\<close>

definition newID :: "'e sysenv_scheme \<Rightarrow> (nat \<Rightarrow> string result) \<Rightarrow> (gotime \<Rightarrow> string) \<Rightarrow> string \<Rightarrow> ('d, 'c, string) action" where
  "newID env random layout p =
     tryE (ask random) (\<lambda>r.
     bindE (read_clock env) (\<lambda>now.
     ret (case r of
            Inl _ \<Rightarrow> p @ ''-'' @ int_digits (UnixNano now)
          | Inr hex \<Rightarrow> p @ ''-'' @ layout now @ ''-'' @ hex)))"

text \<open>\<open>data\<close> is what \<^verbatim>\<open>json.Marshal(payload)\<close> returns.\<close>

definition NewJob ::
  "'e sysenv_scheme \<Rightarrow> (nat \<Rightarrow> string result) \<Rightarrow> (gotime \<Rightarrow> string) \<Rightarrow> string \<Rightarrow> string \<Rightarrow> bytes result \<Rightarrow> ('d, 'c, Job) action" where
  "NewJob env random layout jobType createdBy data =
     bindE (lift data) (\<lambda>payload.
     bindE (read_clock env) (\<lambda>now.
     bindE (newID env random layout ''job'') (\<lambda>i.
     ret \<lparr>jb_ID = i, jb_Type = jobType, jb_Status = StatusPending, jb_CreatedAt = now, jb_UpdatedAt = now,
          jb_CreatedBy = createdBy, jb_Payload = payload, jb_Result = [], jb_Error = []\<rparr>)))"

definition SetStatus :: "'e sysenv_scheme \<Rightarrow> string \<Rightarrow> Job \<Rightarrow> ('d, 'c, Job) action" where
  "SetStatus env status job = bindE (read_clock env) (\<lambda>now. ret (job\<lparr>jb_Status := status, jb_UpdatedAt := now\<rparr>))"

definition SetResult :: "'e sysenv_scheme \<Rightarrow> bytes result \<Rightarrow> Job \<Rightarrow> ('d, 'c, Job) action" where
  "SetResult env data job =
     bindE (lift data) (\<lambda>result. SetStatus env StatusSucceeded (job\<lparr>jb_Result := result, jb_Error := []\<rparr>))"

definition SetError :: "'e sysenv_scheme \<Rightarrow> error \<Rightarrow> Job \<Rightarrow> ('d, 'c, Job) action" where
  "SetError env e job = SetStatus env StatusFailed (job\<lparr>jb_Error := Error e\<rparr>)"

section \<open>The queues\<close>

record ('d, 'c) JobStore =
  js_Create :: "Job \<Rightarrow> ('d, 'c, unit) action"
  js_Enqueue :: "string \<Rightarrow> ('d, 'c, unit) action"
  js_Dequeue :: "('d, 'c, string) action"
  js_Get :: "string \<Rightarrow> ('d, 'c, Job) action"
  js_Update :: "Job \<Rightarrow> ('d, 'c, unit) action"

text \<open>The JSON codec of a job; \<^verbatim>\<open>json.Unmarshal\<close> leaves a value also when it fails.\<close>

record job_codec =
  jc_encode :: "Job \<Rightarrow> bytes result"
  jc_decode :: "bytes \<Rightarrow> Job \<times> error option"

subsection \<open>In memory\<close>

record job_memory =
  jm_jobs :: "string \<rightharpoonup> Job"
  jm_queue :: "string list"

definition new_job_memory :: job_memory where
  "new_job_memory = \<lparr>jm_jobs = Map.empty, jm_queue = []\<rparr>"

definition cloneJob :: "job_codec \<Rightarrow> Job \<Rightarrow> Job" where
  "cloneJob c job = fst (jc_decode c (case jc_encode c job of Inl _ \<Rightarrow> [] | Inr data \<Rightarrow> data))"

definition jm_Create :: "job_codec \<Rightarrow> Job \<Rightarrow> (job_memory, 'c, unit) action" where
  "jm_Create c job w = (Inr (), w\<lparr>db := (db w)\<lparr>jm_jobs := (jm_jobs (db w))(jb_ID job \<mapsto> cloneJob c job)\<rparr>\<rparr>)"

definition jm_Enqueue :: "string \<Rightarrow> (job_memory, 'c, unit) action" where
  "jm_Enqueue jobID w =
     (if jm_jobs (db w) jobID = None then (Inl ErrJobNotFound, w)
      else (Inr (), w\<lparr>db := (db w)\<lparr>jm_queue := jm_queue (db w) @ [jobID]\<rparr>\<rparr>))"

definition jm_Dequeue :: "(job_memory, 'c, string) action" where
  "jm_Dequeue w =
     (case jm_queue (db w) of
        [] \<Rightarrow> (Inl ErrNoJob, w)
      | jobID # rest \<Rightarrow> (Inr jobID, w\<lparr>db := (db w)\<lparr>jm_queue := rest\<rparr>\<rparr>))"

definition jm_Get :: "job_codec \<Rightarrow> string \<Rightarrow> (job_memory, 'c, Job) action" where
  "jm_Get c jobID w =
     (case jm_jobs (db w) jobID of None \<Rightarrow> (Inl ErrJobNotFound, w) | Some job \<Rightarrow> (Inr (cloneJob c job), w))"

definition jm_Update :: "job_codec \<Rightarrow> Job \<Rightarrow> (job_memory, 'c, unit) action" where
  "jm_Update c job w =
     (if jm_jobs (db w) (jb_ID job) = None then (Inl ErrJobNotFound, w) else jm_Create c job w)"

definition memory_Jobs :: "job_codec \<Rightarrow> (job_memory, 'c) JobStore" where
  "memory_Jobs c =
     \<lparr>js_Create = jm_Create c, js_Enqueue = jm_Enqueue, js_Dequeue = jm_Dequeue, js_Get = jm_Get c, js_Update = jm_Update c\<rparr>"

subsection \<open>In Redis\<close>

record RedisStore =
  rs_Prefix :: string
  rs_Queue :: string

definition NewRedisStore :: RedisStore where
  "NewRedisStore = \<lparr>rs_Prefix = ''kernloom'', rs_Queue = ''kernloom:jobs''\<rparr>"

definition redis_prefix :: "RedisStore \<Rightarrow> string" where
  "redis_prefix s = (if rs_Prefix s = [] then ''kernloom'' else rs_Prefix s)"

definition redis_key :: "RedisStore \<Rightarrow> string \<Rightarrow> string" where
  "redis_key s jobID = redis_prefix s @ '':job:'' @ jobID"

definition redis_queue :: "RedisStore \<Rightarrow> string" where
  "redis_queue s = (if rs_Queue s \<noteq> [] then rs_Queue s else redis_prefix s @ '':jobs'')"

definition rj_Create :: "redis_net \<Rightarrow> job_codec \<Rightarrow> RedisStore \<Rightarrow> Job \<Rightarrow> (redis_db, 'c, unit) action" where
  "rj_Create net c s job =
     bindE (lift (jc_encode c job)) (\<lambda>data. finish (redis_do net [''SET'', redis_key s (jb_ID job), data]))"

definition rj_Get :: "redis_net \<Rightarrow> job_codec \<Rightarrow> RedisStore \<Rightarrow> string \<Rightarrow> (redis_db, 'c, Job) action" where
  "rj_Get net c s jobID =
     tryE (redis_do net [''GET'', redis_key s jobID]) (\<lambda>r. case r of
       Inl e \<Rightarrow> raise (if errors_Is e ErrNil then ErrJobNotFound else e)
     | Inr value \<Rightarrow>
         (case jc_decode c (rv_String value) of (job, None) \<Rightarrow> ret job | (_, Some e) \<Rightarrow> raise e))"

definition rj_Enqueue :: "redis_net \<Rightarrow> job_codec \<Rightarrow> RedisStore \<Rightarrow> string \<Rightarrow> (redis_db, 'c, unit) action" where
  "rj_Enqueue net c s jobID =
     bindE (rj_Get net c s jobID) (\<lambda>_. finish (redis_do net [''RPUSH'', redis_queue s, jobID]))"

definition rj_Dequeue :: "redis_net \<Rightarrow> RedisStore \<Rightarrow> (redis_db, 'c, string) action" where
  "rj_Dequeue net s =
     tryE (redis_do net [''LPOP'', redis_queue s]) (\<lambda>r. case r of
       Inl e \<Rightarrow> raise (if errors_Is e ErrNil then ErrNoJob else e)
     | Inr value \<Rightarrow> guardE (rv_String value = []) ErrNoJob (ret (rv_String value)))"

definition rj_Update :: "redis_net \<Rightarrow> job_codec \<Rightarrow> RedisStore \<Rightarrow> Job \<Rightarrow> (redis_db, 'c, unit) action" where
  "rj_Update net c s job =
     bindE (lift (jc_encode c job)) (\<lambda>data. finish (redis_do net [''SET'', redis_key s (jb_ID job), data]))"

definition redis_Jobs :: "redis_net \<Rightarrow> job_codec \<Rightarrow> RedisStore \<Rightarrow> (redis_db, 'c) JobStore" where
  "redis_Jobs net c s =
     \<lparr>js_Create = rj_Create net c s, js_Enqueue = rj_Enqueue net c s, js_Dequeue = rj_Dequeue net s, js_Get = rj_Get net c s,
      js_Update = rj_Update net c s\<rparr>"

section \<open>The worker\<close>

text \<open>The options of the compiler that a job may set; the others keep the zero value of the runner's defaults.\<close>

record Options =
  op_PolicyRepo :: string
  op_PolicyFile :: string
  op_CoreRegistry :: string
  op_EnterpriseRegistry :: string
  op_OutputDir :: string

text \<open>The fields of a \<^verbatim>\<open>compiler.Result\<close> that are copied under the same name, as the record they are copied to.\<close>

record worker_env = sysenv +
  we_decPayload :: "bytes \<Rightarrow> SimulationPayload result"
  we_encResult :: "SimulationResult \<Rightarrow> bytes result"
  we_compile :: "Options \<Rightarrow> nat \<Rightarrow> SimulationPolicyResult list result"
  we_encJob :: "Job \<Rightarrow> bytes result"

definition job_options :: "Options \<Rightarrow> SimulationPayload \<Rightarrow> string \<Rightarrow> Options" where
  "job_options defaults p jobID =
     (let out = valueOrDefault (sim_OutputDir p) (op_OutputDir defaults) in
      \<lparr>op_PolicyRepo = valueOrDefault (sim_PolicyRepo p) (op_PolicyRepo defaults),
       op_PolicyFile = valueOrDefault (sim_PolicyFile p) (op_PolicyFile defaults),
       op_CoreRegistry = valueOrDefault (sim_CoreRegistry p) (op_CoreRegistry defaults),
       op_EnterpriseRegistry = valueOrDefault (sim_EnterpriseRegistry p) (op_EnterpriseRegistry defaults),
       op_OutputDir = valueOrDefault out (clean_rooted (''/tmp/kernloom-simulation-jobs/'' @ jobID))\<rparr>)"

definition runSimulation :: "'e worker_env_scheme \<Rightarrow> Options \<Rightarrow> Job \<Rightarrow> ('d, 'c, Job) action" where
  "runSimulation env defaults job =
     bindE (lift (we_decPayload env (jb_Payload job))) (\<lambda>payload.
     bindE (ask (we_compile env (job_options defaults payload (jb_ID job)))) (\<lambda>policies.
     SetResult env (we_encResult env \<lparr>sim_Kind = ''SimulationJobResult'', sim_Status = ''resolved_only'', sim_Policies = policies\<rparr>) job))"

definition run_job :: "'e worker_env_scheme \<Rightarrow> Options \<Rightarrow> Job \<Rightarrow> ('d, 'c, Job) action" where
  "run_job env defaults job =
     (if jb_Type job = TypeSimulation then runSimulation env defaults job
      else raise (Errorf ''unsupported job type %q'' [jb_Type job]))"

text \<open>The job and the error of the run; an error of the queue is an error of the action.\<close>

definition run_stored :: "'e worker_env_scheme \<Rightarrow> Options \<Rightarrow> ('d, 'c) JobStore \<Rightarrow> Job \<Rightarrow> ('d, 'c, Job \<times> error option) action" where
  "run_stored env defaults s stored =
     bindE (SetStatus env StatusRunning stored) (\<lambda>job.
     bindE (js_Update s job) (\<lambda>_.
     tryE (run_job env defaults job) (\<lambda>r. case r of
       Inl e \<Rightarrow> bindE (SetError env e job) (\<lambda>failed. bindE (ignoreE (js_Update s failed)) (\<lambda>_. ret (failed, Some e)))
     | Inr finished \<Rightarrow> bindE (js_Update s finished) (\<lambda>_. ret (finished, None)))))"

definition RunOnce ::
  "'e worker_env_scheme \<Rightarrow> Options \<Rightarrow> ('d, 'c) JobStore option \<Rightarrow> ('d, 'c, Job \<times> error option) action" where
  "RunOnce env defaults store =
     (case store of
        None \<Rightarrow> raise (Errorf ''job runner requires a store'' [])
      | Some s \<Rightarrow> bindE (js_Dequeue s) (\<lambda>jobID. bindE (js_Get s jobID) (run_stored env defaults s)))"

text \<open>\<^verbatim>\<open>forge-worker run-once\<close>: the exit code.\<close>

definition worker_runOnce :: "'e worker_env_scheme \<Rightarrow> Options \<Rightarrow> ('d, 'c) JobStore \<Rightarrow> ('d, 'c, nat) action" where
  "worker_runOnce env defaults store =
     tryE (RunOnce env defaults (Some store)) (\<lambda>r.
     ret (case r of
            Inl e \<Rightarrow> if errors_Is e ErrNoJob then 0 else 1
          | Inr (job, Some e) \<Rightarrow> if errors_Is e ErrNoJob then 0 else 1
          | Inr (job, None) \<Rightarrow> if is_ok (we_encJob env job) then 0 else 1))"

section \<open>Runs\<close>

lemma SetStatus_run: "SetStatus env status job w = (r, w') \<longleftrightarrow>
    r = Inr (job\<lparr>jb_Status := status, jb_UpdatedAt := clock env (tick w)\<rparr>) \<and> w' = w\<lparr>tick := Suc (tick w)\<rparr>"
  by (auto simp: SetStatus_def bindE_def read_clock_def ret_def)

lemma run_job_silent: "db (snd (run_job env defaults job w)) = db w"
  by (auto simp: run_job_def runSimulation_def SetResult_def SetStatus_def read_clock_def ask_def lift_def ret_def bindE_def
      raise_def split: sum.splits)

lemma run_job_finished:
  "run_job env defaults job w = (Inr j, w') \<Longrightarrow> jb_ID j = jb_ID job \<and> jb_Status j = StatusSucceeded"
  by (auto simp: run_job_def runSimulation_def SetResult_def SetStatus_def read_clock_def ask_def lift_def ret_def bindE_def
      raise_def split: if_splits sum.splits)

lemma worker_runOnce_world: "snd (worker_runOnce env defaults store w) = snd (RunOnce env defaults (Some store) w)"
  by (simp add: worker_runOnce_def tryE_def ret_def split: prod.split)

text \<open>No other job is written and none is deleted.\<close>

definition changes_job :: "string \<Rightarrow> (string \<rightharpoonup> 'r) \<Rightarrow> (string \<rightharpoonup> 'r) \<Rightarrow> bool" where
  "changes_job i js js' \<longleftrightarrow> (\<forall>k. k \<noteq> i \<longrightarrow> js' k = js k) \<and> dom js \<subseteq> dom js'"

lemma changes_job_upd [simp]: "changes_job i js js" "changes_job i js (js(i \<mapsto> x))" "changes_job i js (js(i \<mapsto> x, i \<mapsto> y))"
  by (auto simp: changes_job_def)

text \<open>What a run reports of a job, given the jobs that are stored afterwards.\<close>

definition reported :: "(string \<rightharpoonup> 'r) \<Rightarrow> (Job \<Rightarrow> 'r result) \<Rightarrow> Job \<Rightarrow> (Job \<times> error option) result \<Rightarrow> bool" where
  "reported js stored job r \<longleftrightarrow>
     (case r of
        Inl _ \<Rightarrow> True
      | Inr (j, None) \<Rightarrow> jb_ID j = jb_ID job \<and> jb_Status j = StatusSucceeded \<and> (\<exists>x. stored j = Inr x \<and> js (jb_ID job) = Some x)
      | Inr (j, Some e) \<Rightarrow> jb_ID j = jb_ID job \<and> jb_Status j = StatusFailed \<and> jb_Error j = Error e)"

section \<open>What a queue promises\<close>

text \<open>
  A queue keeps, per id, a representation of a job (\<open>stored\<close> when it is written, \<open>fetched\<close> when it is read), and a list of
  ids. An operation that fails may have taken effect, but only whole: ids are appended at the end and taken from the front.
\<close>

locale job_queue =
  fixes store :: "('d, 'c) JobStore"
    and jobs :: "'d \<Rightarrow> string \<rightharpoonup> 'r"
    and queue :: "'d \<Rightarrow> string list"
    and stored :: "Job \<Rightarrow> 'r result"
    and fetched :: "'r \<Rightarrow> Job result"
  assumes create_law: "js_Create store job w = (r, w') \<Longrightarrow> queue (db w') = queue (db w) \<and>
      (jobs (db w') = jobs (db w) \<and> r \<noteq> Inr () \<or> (\<exists>x. stored job = Inr x \<and> jobs (db w') = (jobs (db w))(jb_ID job \<mapsto> x)))"
    and enqueue_law: "js_Enqueue store i w = (r, w') \<Longrightarrow> jobs (db w') = jobs (db w) \<and>
      (queue (db w') = queue (db w) \<and> r \<noteq> Inr () \<or> jobs (db w) i \<noteq> None \<and> queue (db w') = queue (db w) @ [i])"
    and dequeue_law: "js_Dequeue store w = (r', w') \<Longrightarrow> jobs (db w') = jobs (db w) \<and>
      (queue (db w') = queue (db w) \<and> (\<forall>i. r' \<noteq> Inr i) \<or> (\<exists>i. queue (db w) = i # queue (db w') \<and> (\<forall>j. r' = Inr j \<longrightarrow> j = i)))"
    and get_law: "js_Get store i w = (r'', w') \<Longrightarrow> jobs (db w') = jobs (db w) \<and> queue (db w') = queue (db w) \<and>
      (\<forall>job. r'' = Inr job \<longrightarrow> (\<exists>x. jobs (db w) i = Some x \<and> fetched x = Inr job))"
    and update_law: "js_Update store job w = (r, w') \<Longrightarrow> queue (db w') = queue (db w) \<and>
      (jobs (db w') = jobs (db w) \<and> r \<noteq> Inr () \<or> (\<exists>x. stored job = Inr x \<and> jobs (db w') = (jobs (db w))(jb_ID job \<mapsto> x)))"
begin

text \<open>
  The runner takes at most one id, from the front; what it reports is the job of that id, finished, and it writes no other job.
\<close>

lemma run_stored_run:
  assumes run: "run_stored env defaults store job w = (r, w')"
  shows "queue (db w') = queue (db w) \<and> changes_job (jb_ID job) (jobs (db w)) (jobs (db w')) \<and>
    reported (jobs (db w')) stored job r"
proof -
  obtain now v where start: "SetStatus env StatusRunning job w = (Inr (job\<lparr>jb_Status := StatusRunning, jb_UpdatedAt := now\<rparr>), v)" "db v = db w"
    by (auto simp: SetStatus_run)
  let ?job = "job\<lparr>jb_Status := StatusRunning, jb_UpdatedAt := now\<rparr>"
  show ?thesis
  proof (cases "js_Update store ?job v")
    case (Pair s u)
    note first = update_law [OF Pair]
    show ?thesis
    proof (cases s)
      case (Inl e)
      with run start Pair first show ?thesis by (auto simp: run_stored_def bindE_def reported_def)
    next
      case (Inr _)
      obtain res x where ran: "run_job env defaults ?job u = (res, x)" "db x = db u"
        by (cases "run_job env defaults ?job u") (metis run_job_silent snd_conv)
      show ?thesis
      proof (cases res)
        case (Inl e)
        obtain failed y where failed: "SetError env e ?job x = (Inr failed, y)" "db y = db x" "jb_ID failed = jb_ID job"
          "jb_Status failed = StatusFailed" "jb_Error failed = Error e"
          by (auto simp: SetError_def SetStatus_run)
        obtain s' z where last: "js_Update store failed y = (s', z)" by force
        from run start Pair ran failed last Inl \<open>s = Inr _\<close> have "r = Inr (failed, Some e)" "w' = z"
          by (auto simp: run_stored_def bindE_def tryE_def ignoreE_def ret_def)
        with start ran failed first update_law [OF last] show ?thesis by (auto simp: reported_def)
      next
        case (Inr finished)
        obtain s' z where last: "js_Update store finished x = (s', z)" by force
        note fin = run_job_finished [OF ran(1) [unfolded Inr]]
        from run start Pair ran last Inr \<open>s = Inr _\<close> have "w' = z" "r = (case s' of Inl e \<Rightarrow> Inl e | Inr _ \<Rightarrow> Inr (finished, None))"
          by (auto simp: run_stored_def bindE_def tryE_def ret_def split: sum.splits)
        with start ran fin first update_law [OF last] show ?thesis by (auto simp: reported_def split: sum.splits)
      qed
    qed
  qed
qed

lemma RunOnce_run:
  assumes run: "RunOnce env defaults (Some store) w = (r, w')"
  shows "jobs (db w') = jobs (db w) \<and> (\<exists>e. r = Inl e) \<and> (queue (db w') = queue (db w) \<or> (\<exists>i. queue (db w) = i # queue (db w'))) \<or>
    (\<exists>i x job. queue (db w) = i # queue (db w') \<and> jobs (db w) i = Some x \<and> fetched x = Inr job \<and>
       changes_job (jb_ID job) (jobs (db w)) (jobs (db w')) \<and> reported (jobs (db w')) stored job r)"
  using run unfolding RunOnce_def option.case
proof (cases rule: bindE_E)
  case (1 e)
  with dequeue_law [OF 1(1)] show ?thesis by auto
next
  case (2 i v)
  note taken = dequeue_law [OF 2(1)]
  from 2(2) show ?thesis
  proof (cases rule: bindE_E)
    case (1 e)
    with taken get_law [OF 1(1)] show ?thesis by auto
  next
    case (2 job u)
    from taken have q: "queue (db w) = i # queue (db v)" "jobs (db v) = jobs (db w)" by auto
    obtain x where x: "jobs (db v) i = Some x" "fetched x = Inr job" and u: "jobs (db u) = jobs (db v)" "queue (db u) = queue (db v)"
      using get_law [OF 2(1)] by auto
    have "queue (db w) = i # queue (db w') \<and> jobs (db w) i = Some x \<and> fetched x = Inr job \<and>
       changes_job (jb_ID job) (jobs (db w)) (jobs (db w')) \<and> reported (jobs (db w')) stored job r"
      using run_stored_run [OF 2(2)] q x u by simp
    then show ?thesis by blast
  qed
qed

end

interpretation mem_queue: job_queue "memory_Jobs c :: (job_memory, 'c) JobStore" jm_jobs jm_queue "\<lambda>job. Inr (cloneJob c job)" "\<lambda>job. Inr (cloneJob c job)"
  for c
  by unfold_locales
    (auto simp: memory_Jobs_def jm_Create_def jm_Enqueue_def jm_Dequeue_def jm_Get_def jm_Update_def split: if_splits option.splits list.splits)

section \<open>The queue in Redis keeps the promise\<close>

text \<open>The documented behaviour of the four commands the store sends.\<close>

definition wrong_type :: bytes where
  "wrong_type = ''-WRONGTYPE Operation against a key holding the wrong kind of value'' @ CRLF"

definition nil_reply :: bytes where
  "nil_reply = ''$-1'' @ CRLF"

definition redis_SET :: "string \<Rightarrow> string \<Rightarrow> redis_db \<Rightarrow> bytes \<times> redis_db" where
  "redis_SET k v d = (''+OK'' @ CRLF, d(k \<mapsto> RString v))"

definition redis_GET :: "string \<Rightarrow> redis_db \<Rightarrow> bytes \<times> redis_db" where
  "redis_GET k d = (case d k of None \<Rightarrow> nil_reply | Some (RString v) \<Rightarrow> bulk v | Some (RList l) \<Rightarrow> wrong_type, d)"

definition redis_RPUSH :: "string \<Rightarrow> string \<Rightarrow> redis_db \<Rightarrow> bytes \<times> redis_db" where
  "redis_RPUSH k v d =
     (case d k of
        None \<Rightarrow> ('':1'' @ CRLF, d(k \<mapsto> RList [v]))
      | Some (RList l) \<Rightarrow> ('':'' @ int_digits (int (length l) + 1) @ CRLF, d(k \<mapsto> RList (l @ [v])))
      | Some (RString s) \<Rightarrow> (wrong_type, d))"

definition redis_LPOP :: "string \<Rightarrow> redis_db \<Rightarrow> bytes \<times> redis_db" where
  "redis_LPOP k d =
     (case d k of
        None \<Rightarrow> (nil_reply, d)
      | Some (RList []) \<Rightarrow> (nil_reply, d)
      | Some (RList (v # l)) \<Rightarrow> (bulk v, d(k := if l = [] then None else Some (RList l)))
      | Some (RString s) \<Rightarrow> (wrong_type, d))"

definition redis_documented :: "redis_net \<Rightarrow> bool" where
  "redis_documented net \<longleftrightarrow>
     (\<forall>k v d. rn_server net (encodeCommand [''SET'', k, v]) d = redis_SET k v d \<and>
        rn_server net (encodeCommand [''GET'', k]) d = redis_GET k d \<and>
        rn_server net (encodeCommand [''RPUSH'', k, v]) d = redis_RPUSH k v d \<and>
        rn_server net (encodeCommand [''LPOP'', k]) d = redis_LPOP k d)"

text \<open>The jobs, as the bytes they are stored as, and the queue that a database holds.\<close>

definition redis_jobs :: "RedisStore \<Rightarrow> redis_db \<Rightarrow> string \<rightharpoonup> bytes" where
  "redis_jobs s d i = (case d (redis_key s i) of Some (RString b) \<Rightarrow> Some b | _ \<Rightarrow> None)"

definition redis_list :: "RedisStore \<Rightarrow> redis_db \<Rightarrow> string list" where
  "redis_list s d = (case d (redis_queue s) of Some (RList l) \<Rightarrow> l | _ \<Rightarrow> [])"

definition decoded :: "job_codec \<Rightarrow> bytes \<Rightarrow> Job result" where
  "decoded c b = (case jc_decode c b of (job, None) \<Rightarrow> Inr job | (_, Some e) \<Rightarrow> Inl e)"

lemma decoded_Inr: "decoded c b = Inr job \<longleftrightarrow> jc_decode c b = (job, None)"
  by (auto simp: decoded_def split: prod.splits option.splits)

lemma redis_do_cases:
  assumes "redis_do net args w = (r, w')"
  obtains "db w' = db w" "\<exists>e. r = Inl e"
    | reply d where "rn_server net (encodeCommand args) (db w) = (reply, d)" "db w' = d"
        "\<And>v. r = Inr v \<Longrightarrow> \<exists>fuel t. readValue (rn_alloc net) fuel reply = Some ((v, None), t)"
proof (cases "args = []")
  case True
  with assms that(1) show ?thesis by (auto simp: redis_do_def)
next
  case False
  note assms = assms False
  show ?thesis
  proof (cases "rn_link net (tick w)")
    case (Refused msg)
    with assms that(1) show ?thesis by (auto simp: redis_do_def)
  next
    case (Answers broken)
    obtain reply d where s: "rn_server net (encodeCommand args) (db w) = (reply, d)" by force
    let ?p = "received broken reply"
    have reads: "\<exists>fuel t. readValue (rn_alloc net) fuel reply = Some ((v, None), t)" if "r = Inr v" for v
    proof -
      obtain q where q: "reply = ?p @ q" by (cases broken) (auto simp: received_def intro: append_take_drop_id [symmetric])
      from assms that Answers s obtain t where "readValue (rn_alloc net) (Suc (length ?p)) ?p = Some ((v, None), t)"
        by (auto simp: redis_do_def Let_def reply_result_def split: option.splits)
      from reader_prefix(1) [OF this, of q] q show ?thesis by auto
    qed
    from assms Answers s have "db w' = d" by (auto simp: redis_do_def Let_def)
    with s reads that(2) show ?thesis by blast
  qed
qed

text \<open>What a reply without a value gives.\<close>

lemma no_value:
  "readValue al fuel nil_reply \<noteq> Some ((v, None), t)" "readValue al fuel wrong_type \<noteq> Some ((v, None), t)"
proof -
  have "readLine (''-1'' @ CRLF) = (Inr ''-1'', [])" "ParseInt64 ''-1'' = Some (- 1)" by code_simp+
  then show "readValue al fuel nil_reply \<noteq> Some ((v, None), t)"
    by (cases fuel) (auto simp: nil_reply_def readScalar_def readBulkString_def readNumber_def)
  show "readValue al fuel wrong_type \<noteq> Some ((v, None), t)"
    by (cases fuel) (auto simp: wrong_type_def readScalar_def failed_read_def split: prod.splits sum.splits)
qed

lemma keys_apart [simp]:
  "redis_key NewRedisStore i \<noteq> redis_queue NewRedisStore" "redis_queue NewRedisStore \<noteq> redis_key NewRedisStore i" "redis_key s i = redis_key s k \<longleftrightarrow> i = k"
  by (simp_all add: redis_key_def redis_queue_def redis_prefix_def NewRedisStore_def)

lemma redis_views [simp]:
  "redis_jobs NewRedisStore (d(redis_queue NewRedisStore := x)) = redis_jobs NewRedisStore d"
  "redis_list NewRedisStore (d(redis_key NewRedisStore i := x)) = redis_list NewRedisStore d"
  by (simp_all add: redis_jobs_def [abs_def] redis_list_def)

lemma redis_writes:
  "\<exists>x. snd (redis_LPOP k d) = d(k := x)" "\<exists>x. snd (redis_RPUSH k v d) = d(k := x)"
  by (auto simp: redis_LPOP_def redis_RPUSH_def split: option.splits redis_object.splits list.splits) (metis fun_upd_triv)+

lemma LPOP_view:
  "redis_list s d = x # l \<Longrightarrow> fst (redis_LPOP (redis_queue s) d) = bulk x \<and> redis_list s (snd (redis_LPOP (redis_queue s) d)) = l"
  by (auto simp: redis_LPOP_def redis_list_def split: option.splits redis_object.splits)

lemma RPUSH_view:
  "redis_list s (snd (redis_RPUSH (redis_queue s) i d)) = redis_list s d @ [i] \<or> redis_RPUSH (redis_queue s) i d = (wrong_type, d)"
  by (auto simp: redis_RPUSH_def redis_list_def split: option.splits redis_object.splits)

lemma redis_set_law:
  assumes net: "redis_documented net" and run: "rj_Update net c NewRedisStore job w = (r, w')"
  shows "redis_list NewRedisStore (db w') = redis_list NewRedisStore (db w) \<and>
    (redis_jobs NewRedisStore (db w') = redis_jobs NewRedisStore (db w) \<and> r \<noteq> Inr () \<or>
     (\<exists>x. jc_encode c job = Inr x \<and> redis_jobs NewRedisStore (db w') = (redis_jobs NewRedisStore (db w))(jb_ID job \<mapsto> x)))"
proof (cases "jc_encode c job")
  case (Inl e)
  with run show ?thesis by (auto simp: rj_Update_def bindE_def lift_def)
next
  case (Inr data)
  let ?k = "redis_key NewRedisStore (jb_ID job)"
  obtain r' where do: "redis_do net [''SET'', ?k, data] w = (r', w')" "r = Inr () \<longrightarrow> (\<exists>v. r' = Inr v)"
    using run Inr by (auto simp: rj_Update_def bindE_def lift_def finish_def ret_def split: prod.splits sum.splits)
  from do(1) show ?thesis
  proof (cases rule: redis_do_cases)
    case (2 reply d)
    with net have d: "db w' = (db w)(?k \<mapsto> RString data)" by (auto simp: redis_documented_def redis_SET_def)
    then have "redis_jobs NewRedisStore (db w') = (redis_jobs NewRedisStore (db w))(jb_ID job \<mapsto> data)"
      by (auto simp: redis_jobs_def fun_eq_iff)
    moreover have "redis_list NewRedisStore (db w') = redis_list NewRedisStore (db w)"
      by (simp add: d)
    ultimately show ?thesis using Inr by blast
  qed (use do(2) in auto)
qed

lemma redis_get_law:
  assumes net: "redis_documented net" and run: "rj_Get net c NewRedisStore i w = (r, w')"
  shows "db w' = db w \<and> (\<forall>job. r = Inr job \<longrightarrow> (\<exists>x. redis_jobs NewRedisStore (db w) i = Some x \<and> decoded c x = Inr job))"
proof -
  let ?k = "redis_key NewRedisStore i"
  obtain r' where do: "redis_do net [''GET'', ?k] w = (r', w')"
    and dec: "\<forall>job. r = Inr job \<longrightarrow> (\<exists>v. r' = Inr v \<and> decoded c (rv_String v) = Inr job)"
    using run by (auto simp: rj_Get_def decoded_def split: sum.splits prod.splits option.splits elim!: tryE_E)
  from do show ?thesis
  proof (cases rule: redis_do_cases)
    case (2 reply d)
    with net have get: "reply = fst (redis_GET ?k (db w))" "db w' = db w" by (auto simp: redis_documented_def redis_GET_def)
    have "redis_jobs NewRedisStore (db w) i = Some (rv_String v)" if "r' = Inr v" for v
    proof -
      from 2(3) [OF that] obtain fuel t where "readValue (rn_alloc net) fuel reply = Some ((v, None), t)" by blast
      then show ?thesis
        using no_value bulk_value
        by (auto simp: get(1) redis_GET_def redis_jobs_def split: option.splits redis_object.splits dest!: bulk_value)
    qed
    with get(2) dec show ?thesis by auto
  qed (use dec in auto)
qed

lemma redis_pop_law:
  assumes net: "redis_documented net" and run: "rj_Dequeue net NewRedisStore w = (r, w')"
  shows "redis_jobs NewRedisStore (db w') = redis_jobs NewRedisStore (db w) \<and>
    (redis_list NewRedisStore (db w') = redis_list NewRedisStore (db w) \<and> (\<forall>i. r \<noteq> Inr i) \<or>
     (\<exists>i. redis_list NewRedisStore (db w) = i # redis_list NewRedisStore (db w') \<and> (\<forall>j. r = Inr j \<longrightarrow> j = i)))"
proof -
  let ?q = "redis_queue NewRedisStore"
  obtain r' where do: "redis_do net [''LPOP'', ?q] w = (r', w')" and got: "\<forall>i. r = Inr i \<longrightarrow> (\<exists>v. r' = Inr v \<and> rv_String v = i)"
    using run by (auto simp: rj_Dequeue_def guardE_def split: sum.splits if_splits elim!: tryE_E)
  from do show ?thesis
  proof (cases rule: redis_do_cases)
    case (2 reply d)
    with net have pop: "redis_LPOP ?q (db w) = (reply, db w')" by (auto simp: redis_documented_def)
    have jobs: "redis_jobs NewRedisStore (db w') = redis_jobs NewRedisStore (db w)"
      using redis_writes(1) [of ?q "db w"] pop by auto
    show ?thesis
    proof (cases "redis_list NewRedisStore (db w)")
      case Nil
      with pop have same: "db w' = db w" "reply \<in> {nil_reply, wrong_type}"
        by (auto simp: redis_LPOP_def redis_list_def split: option.splits redis_object.splits list.splits)
      then have "\<forall>v. r' \<noteq> Inr v" using 2(3) no_value by blast
      with same got show ?thesis by auto
    next
      case (Cons x l)
      with LPOP_view [OF Cons] pop have popped: "reply = bulk x" "redis_list NewRedisStore (db w') = l" by simp_all
      have "rv_String v = x" if "r' = Inr v" for v using 2(3) [OF that] bulk_value popped(1) by fastforce
      with Cons popped(2) got jobs show ?thesis by auto
    qed
  qed (use got in auto)
qed

lemma redis_push_law:
  assumes net: "redis_documented net" and run: "rj_Enqueue net c NewRedisStore i w = (r, w')"
  shows "redis_jobs NewRedisStore (db w') = redis_jobs NewRedisStore (db w) \<and>
    (redis_list NewRedisStore (db w') = redis_list NewRedisStore (db w) \<and> r \<noteq> Inr () \<or>
     redis_jobs NewRedisStore (db w) i \<noteq> None \<and> redis_list NewRedisStore (db w') = redis_list NewRedisStore (db w) @ [i])"
  using run unfolding rj_Enqueue_def
proof (cases rule: bindE_E)
  case (1 e)
  with redis_get_law [OF net 1(1)] show ?thesis by simp
next
  case (2 job v)
  let ?q = "redis_queue NewRedisStore"
  have get: "db v = db w" "redis_jobs NewRedisStore (db w) i \<noteq> None" using redis_get_law [OF net 2(1)] by auto
  obtain r' where do: "redis_do net [''RPUSH'', ?q, i] v = (r', w')" "r = Inr () \<longrightarrow> (\<exists>x. r' = Inr x)"
    using 2(2) by (auto simp: bindE_def finish_def ret_def split: prod.splits sum.splits)
  from do(1) show ?thesis
  proof (cases rule: redis_do_cases)
    case (2 reply d)
    with net get have push: "redis_RPUSH ?q i (db w) = (reply, db w')" by (auto simp: redis_documented_def)
    have jobs: "redis_jobs NewRedisStore (db w') = redis_jobs NewRedisStore (db w)"
      using redis_writes(2) [of ?q i "db w"] push by auto
    have "redis_list NewRedisStore (db w') = redis_list NewRedisStore (db w) @ [i] \<or> db w' = db w \<and> reply = wrong_type"
      using RPUSH_view [of NewRedisStore i "db w"] push by auto
    moreover have "r \<noteq> Inr ()" if "reply = wrong_type" using 2(3) no_value(2) that do(2) by blast
    ultimately show ?thesis using jobs get(2) by auto
  qed (use do(2) get in auto)
qed

lemma rj_Create_Update: "rj_Create net c s = rj_Update net c s"
  by (intro ext) (simp add: rj_Create_def rj_Update_def)

lemma redis_job_queue:
  assumes "redis_documented net"
  shows "job_queue (redis_Jobs net c NewRedisStore :: (redis_db, 'c) JobStore) (redis_jobs NewRedisStore) (redis_list NewRedisStore) (jc_encode c) (decoded c)"
proof (rule job_queue.intro, unfold redis_Jobs_def JobStore.select_convs rj_Create_Update)
  show "redis_jobs NewRedisStore (db w') = redis_jobs NewRedisStore (db w) \<and> redis_list NewRedisStore (db w') = redis_list NewRedisStore (db w) \<and>
      (\<forall>job. r = Inr job \<longrightarrow> (\<exists>x. redis_jobs NewRedisStore (db w) i = Some x \<and> decoded c x = Inr job))"
    if "rj_Get net c NewRedisStore i w = (r, w')" for i r and w w' :: "(redis_db, 'c) world"
    using redis_get_law [OF assms that] by simp
qed (fact redis_set_law [OF assms] redis_push_law [OF assms] redis_pop_law [OF assms])+

end
