(* ===== verification/Forge_API.thy ===== *)
theory Forge_API
  imports Authn_Verifiers Build_Manifest Jobs
begin

text \<open>
  The HTTP API of Forge for KLIQ nodes, their operators and simulation jobs (\<^verbatim>\<open>internal/forge/api/server.go\<close> and
  \<^verbatim>\<open>internal/forge/api/kliq_management.go\<close>): one definition per handler, every guard and early return in order, the
  status and the code of every answer. The server's collaborators are interfaces in the code and records of actions here:
  the job queue, the management store, the artifact store, the signer and the authenticator. The JSON codecs of the requests and the
  documents, \<^verbatim>\<open>crypto/rand\<close> and the parsers of X.509 are parameters.
\<close>

section \<open>Requests and answers\<close>

record SimulationJobRequest =
  sjr_PolicyRepo :: string
  sjr_PolicyFile :: string
  sjr_CoreRegistry :: string
  sjr_EnterpriseRegistry :: string
  sjr_OutputDir :: string
  sjr_Scope :: Scope

record enrollmentTokenRequest =
  tr_Environment :: string
  tr_Stage :: string
  tr_Scope :: string
  tr_ExpiresAt :: "gotime option"

record enrollmentRequest =
  er_EnrollmentToken :: string
  er_NodeID :: string
  er_Environment :: string
  er_Stage :: string
  er_Scope :: string
  er_Version :: string
  er_Adapters :: "string list"
  er_Capabilities :: "string list"
  er_Attestation :: string
  er_TrustKeyID :: string
  er_PublicKeyPEM :: string
  er_CSRPEM :: string
  er_SPIFFEID :: string

record buildApprovalRequest =
  bar_BuildRef :: Ref
  bar_Environment :: string
  bar_Stage :: string
  bar_Scope :: string
  bar_AuthorityID :: string
  bar_AuthorityKind :: string
  bar_ExpiresAt :: "gotime option"

record assignmentPlanRequest =
  apr_KLIQID :: string
  apr_SourceCommit :: string
  apr_TrustBundleRef :: string
  apr_ApprovedBuildRef :: Ref
  apr_ExpiresAt :: gotime
  apr_ApprovedRollback :: bool
  apr_Artifacts :: "KLIQAssignedArtifact list"

record trustBundleRotationRequest =
  tq_Next :: TrustBundle
  tq_Reason :: string

text \<open>The values the handlers write.\<close>

datatype body =
    ErrorBody string
  | StatusBody string
  | TokenBody KLIQEnrollmentToken string
  | EnrollmentBody KLIQRegistration string
  | RefreshBody string gotime
  | ApprovalBody Ref PolicyBuildManifest
  | EnvelopeBody SignedEnvelope
  | ReportBody KLIQStatusReport
  | AckBody KLIQAuditUploadAck
  | PrincipalBody Principal
  | JobBody Job

record api_response =
  hr_Status :: int
  hr_Body :: body

record api_request =
  aq_Authorization :: string
  aq_Peer :: peer
  aq_Body :: bytes

text \<open>
  \<open>dq_Revocation\<close> is the reason that is left in the struct after decoding, whose error the code drops. \<open>api_random\<close>
  and \<open>api_layout\<close> are the random bytes and the time in the id of a job.
\<close>

record api_env = verifier_env +
  dq_Token :: "bytes \<Rightarrow> enrollmentTokenRequest result"
  dq_Enrollment :: "bytes \<Rightarrow> enrollmentRequest result"
  dq_Approval :: "bytes \<Rightarrow> buildApprovalRequest result"
  dq_Plan :: "bytes \<Rightarrow> assignmentPlanRequest result"
  dq_Assignment :: "bytes \<Rightarrow> KLIQAssignment result"
  dq_Revocation :: "bytes \<Rightarrow> string"
  dq_Rotation :: "bytes \<Rightarrow> trustBundleRotationRequest result"
  dq_Heartbeat :: "bytes \<Rightarrow> KLIQHeartbeat result"
  dq_Report :: "bytes \<Rightarrow> KLIQStatusReport result"
  dq_Audit :: "bytes \<Rightarrow> KLIQAuditUpload result"
  dq_Simulation :: "bytes \<Rightarrow> SimulationJobRequest result"
  api_decKind :: "bytes \<Rightarrow> string result"
  api_decManifest :: "bytes \<Rightarrow> PolicyBuildManifest result"
  api_encManifest :: "PolicyBuildManifest \<Rightarrow> bytes result"
  api_encEnvelope :: "SignedEnvelope \<Rightarrow> bytes result"
  api_encAssignment :: "KLIQAssignment \<Rightarrow> bytes result"
  api_encAssignmentManifest :: "AssignmentManifest \<Rightarrow> bytes result"
  api_secret :: "nat \<Rightarrow> string result"
  api_parsePKCS1 :: "bytes \<Rightarrow> unit result"
  api_checkCSR :: "bytes \<Rightarrow> unit result"
  api_encPayload :: "SimulationPayload \<Rightarrow> bytes result"
  api_random :: "nat \<Rightarrow> string result"
  api_layout :: "gotime \<Rightarrow> string"

section \<open>The server\<close>

record ('d, 'c) Store =
  ms_SaveAuditEvent :: "audit_context \<Rightarrow> ManagementAuditEvent \<Rightarrow> ('d, 'c, unit) action"
  ms_CreateEnrollmentToken :: "audit_context \<Rightarrow> KLIQEnrollmentToken \<Rightarrow> string \<Rightarrow> ('d, 'c, unit) action"
  ms_EnrollmentToken :: "string \<Rightarrow> ('d, 'c, KLIQEnrollmentToken) action"
  ms_UseEnrollmentToken :: "audit_context \<Rightarrow> string \<Rightarrow> string \<Rightarrow> string \<Rightarrow> string \<Rightarrow> gotime \<Rightarrow> ('d, 'c, KLIQEnrollmentToken) action"
  ms_RevokeEnrollmentToken :: "audit_context \<Rightarrow> string \<Rightarrow> string \<Rightarrow> gotime \<Rightarrow> ('d, 'c, unit) action"
  ms_Register :: "audit_context \<Rightarrow> KLIQRegistration \<Rightarrow> ('d, 'c, unit) action"
  ms_Registration :: "string \<Rightarrow> ('d, 'c, KLIQRegistration) action"
  ms_Identity :: "string \<Rightarrow> ('d, 'c, KLIQIdentity) action"
  ms_RevokeKLIQ :: "audit_context \<Rightarrow> string \<Rightarrow> string \<Rightarrow> gotime \<Rightarrow> ('d, 'c, unit) action"
  ms_SaveTrustBundle :: "TrustBundle \<Rightarrow> ('d, 'c, unit) action"
  ms_TrustBundle :: "string \<Rightarrow> ('d, 'c, TrustBundle) action"
  ms_RotateTrustBundle :: "audit_context \<Rightarrow> string \<Rightarrow> TrustBundle \<Rightarrow> string \<Rightarrow> gotime \<Rightarrow> ('d, 'c, unit) action"
  ms_RevokeTrustBundle :: "audit_context \<Rightarrow> string \<Rightarrow> string \<Rightarrow> gotime \<Rightarrow> ('d, 'c, unit) action"
  ms_NextAssignmentVersion :: "string \<Rightarrow> ('d, 'c, int) action"
  ms_SaveAssignment :: "audit_context \<Rightarrow> string \<Rightarrow> int \<Rightarrow> SignedEnvelope \<Rightarrow> ('d, 'c, unit) action"
  ms_LatestAssignment :: "audit_context \<Rightarrow> string \<Rightarrow> ('d, 'c, SignedEnvelope) action"
  ms_RevokeAssignment :: "audit_context \<Rightarrow> string \<Rightarrow> int \<Rightarrow> string \<Rightarrow> gotime \<Rightarrow> ('d, 'c, unit) action"
  ms_SaveHeartbeat :: "KLIQHeartbeat \<Rightarrow> ('d, 'c, unit) action"
  ms_SaveStatusReport :: "KLIQStatusReport \<Rightarrow> ('d, 'c, unit) action"
  ms_StatusReport :: "string \<Rightarrow> ('d, 'c, KLIQStatusReport) action"

record ('d, 'c) Artifacts =
  afs_Put :: "Artifact \<Rightarrow> ('d, 'c, Ref) action"
  afs_Get :: "Ref \<Rightarrow> ('d, 'c, bytes) action"

record ('d, 'c) Signer =
  sgn_Sign :: "bytes \<Rightarrow> SigningMetadata \<Rightarrow> ('d, 'c, SignedEnvelope) action"
  sgn_Verify :: "(SignedEnvelope \<Rightarrow> ('d, 'c, VerificationResult) action) option"

record ('d, 'c) Server =
  sv_Authenticator :: "('d, 'c) Verifier option"
  sv_Store :: "('d, 'c) JobStore option"
  sv_Management :: "('d, 'c) Store option"
  sv_ManagementSign :: "('d, 'c) Signer option"
  sv_Artifacts :: "('d, 'c) Artifacts option"
  sv_KLIQService :: "bytes option"
  sv_DevManagement :: bool

type_synonym ('d, 'c) handler = "audit_context \<Rightarrow> Principal \<Rightarrow> ('d, 'c, api_response) action"

definition writeJSON :: "int \<Rightarrow> body \<Rightarrow> ('d, 'c, api_response) action" where
  "writeJSON status value = ret \<lparr>hr_Status = status, hr_Body = value\<rparr>"

definition writeError :: "int \<Rightarrow> string \<Rightarrow> ('d, 'c, api_response) action" where
  "writeError status code = writeJSON status (ErrorBody code)"

text \<open>\<^verbatim>\<open>if bad { writeError(w, status, code); return }\<close>, and the same for a call that may fail.\<close>

definition refuse_if :: "bool \<Rightarrow> int \<Rightarrow> string \<Rightarrow> ('d, 'c, api_response) action \<Rightarrow> ('d, 'c, api_response) action" where
  "refuse_if bad status code rest = (if bad then writeError status code else rest)"

definition attempt ::
  "('d, 'c, 'a) action \<Rightarrow> (error \<Rightarrow> ('d, 'c, api_response) action) \<Rightarrow> ('a \<Rightarrow> ('d, 'c, api_response) action) \<Rightarrow> ('d, 'c, api_response) action" where
  "attempt m failed k = tryE m (\<lambda>r. case r of Inl e \<Rightarrow> failed e | Inr x \<Rightarrow> k x)"

definition checked ::
  "'a result \<Rightarrow> int \<Rightarrow> string \<Rightarrow> ('a \<Rightarrow> ('d, 'c, api_response) action) \<Rightarrow> ('d, 'c, api_response) action" where
  "checked r status code k = (case r of Inl e \<Rightarrow> writeError status code | Inr x \<Rightarrow> k x)"

definition needs :: "'a option \<Rightarrow> string \<Rightarrow> ('a \<Rightarrow> ('d, 'c, api_response) action) \<Rightarrow> ('d, 'c, api_response) action" where
  "needs part code k = (case part of None \<Rightarrow> writeError 500 code | Some x \<Rightarrow> k x)"

definition no_context :: audit_context where
  "no_context = \<lparr>cx_actor = [], cx_metadata = []\<rparr>"

definition with_bearer :: "('d, 'c) Verifier \<Rightarrow> api_request \<Rightarrow> ('d, 'c) handler \<Rightarrow> ('d, 'c, api_response) action" where
  "with_bearer v req k =
     checked (BearerToken (aq_Authorization req)) 401 ''missing_bearer_token'' (\<lambda>token.
     attempt (vf_Verify v token) (\<lambda>_. writeError 401 ''invalid_token'') (\<lambda>p.
     k (WithAuditActor no_context (pr_Subject p)) p))"

definition requireAuth :: "('d, 'c) Server \<Rightarrow> api_request \<Rightarrow> ('d, 'c) handler \<Rightarrow> ('d, 'c, api_response) action" where
  "requireAuth s req k =
     needs (sv_Authenticator s) ''authenticator_not_configured'' (\<lambda>v.
     case vf_VerifyRequest v of
       Some verifyRequest \<Rightarrow>
         attempt (verifyRequest (aq_Peer req)) (\<lambda>_. with_bearer v req k) (\<lambda>p. k (WithAuditActor no_context (pr_Subject p)) p)
     | None \<Rightarrow> with_bearer v req k)"

section \<open>Rules the handlers share\<close>

definition kliqRegistrationScope :: "KLIQRegistration \<Rightarrow> Scope" where
  "kliqRegistrationScope r = zero_Scope\<lparr>sc_Environment := kr_Environment r, sc_Stage := kr_Stage r\<rparr>"

definition validateKLIQScope :: "KLIQRegistration \<Rightarrow> string \<Rightarrow> string \<Rightarrow> string \<Rightarrow> unit result" where
  "validateKLIQScope r environment stage scope =
     fail_if (kr_Environment r \<noteq> environment) (Errorf ''environment mismatch'' [])
    (fail_if (kr_Stage r \<noteq> stage) (Errorf ''stage mismatch'' [])
    (fail_if (kr_Scope r \<noteq> scope) (Errorf ''scope mismatch'' []) (Inr ())))"

definition ensureKLIQRegistrationActive :: "KLIQRegistration \<Rightarrow> unit result" where
  "ensureKLIQRegistrationActive r =
     fail_if (kr_Status r = ''revoked'' \<or> \<not> IsZero (kr_RevokedAt r)) (Errorf ''kliq registration revoked'' [])
    (fail_if (ki_Status (kr_Identity r) = ''revoked'' \<or> \<not> IsZero (ki_RevokedAt (kr_Identity r))) (Errorf ''kliq identity revoked'' [])
    (Inr ()))"

text \<open>Two values disagree when both are given and differ.\<close>

definition disagree :: "string \<Rightarrow> string \<Rightarrow> bool" where
  "disagree a b \<longleftrightarrow> a \<noteq> [] \<and> b \<noteq> [] \<and> a \<noteq> b"

definition authorizeKLIQServicePrincipal :: "'e api_env_scheme \<Rightarrow> Principal \<Rightarrow> KLIQRegistration \<Rightarrow> unit result" where
  "authorizeKLIQServicePrincipal env p r =
     fail_if (\<not> HasRole p RoleKLIQService) (Errorf ''kliq service identity required'' [])
    (fail_if (PrincipalKLIQID p \<noteq> kr_KLIQID r) (Errorf ''kliq service identity mismatch'' [])
    (fail_if (sc_Environment (pr_Scope p) \<noteq> [] \<and> sc_Environment (pr_Scope p) \<noteq> kr_Environment r) (Errorf ''kliq service environment mismatch'' [])
    (fail_if (sc_Stage (pr_Scope p) \<noteq> [] \<and> sc_Stage (pr_Scope p) \<noteq> kr_Stage r) (Errorf ''kliq service stage mismatch'' [])
    (fail_if (PrincipalKLIQScope p \<noteq> [] \<and> PrincipalKLIQScope p \<noteq> kr_Scope r) (Errorf ''kliq service scope mismatch'' [])
    (fail_if (disagree (ki_ServiceIdentityProvider (kr_Identity r)) (PrincipalServiceIdentityProvider p))
       (Errorf ''kliq service identity provider mismatch'' [])
    (fail_if (disagree (ki_SPIFFEID (kr_Identity r)) (PrincipalSPIFFEID p)) (Errorf ''kliq service spiffe id mismatch'' [])
    (fail_if (disagree (IdentityMaterialSHA256 env (kr_Identity r)) (PrincipalIdentityMaterialSHA256 p))
       (Errorf ''kliq service identity material mismatch'' [])
    (Inr ()))))))))"

definition authorizeKLIQAssignmentRead :: "'e api_env_scheme \<Rightarrow> Principal \<Rightarrow> KLIQRegistration \<Rightarrow> unit result" where
  "authorizeKLIQAssignmentRead env p r =
     (if HasRole p RoleKLIQService then authorizeKLIQServicePrincipal env p r
      else Authorize p \<lparr>az_Action = ''kliq.assignment.read'', az_AllowedRoles = KLIQReadRoles, az_Scope = kliqRegistrationScope r\<rparr>)"

definition managed :: "string \<Rightarrow> Scope \<Rightarrow> authz_Request" where
  "managed action scope = \<lparr>az_Action = action, az_AllowedRoles = KLIQManageRoles, az_Scope = scope\<rparr>"

definition validateIdentityMaterial :: "'e api_env_scheme \<Rightarrow> string \<Rightarrow> string \<Rightarrow> unit result" where
  "validateIdentityMaterial env publicKeyPEM csrPEM =
     (if \<not> blank publicKeyPEM then
        (case pem_Decode (ae_wire env) (TrimSpace publicKeyPEM) of
           None \<Rightarrow> Inl (Errorf ''public key PEM is invalid'' [])
         | Some der \<Rightarrow>
             if is_ok (parse_PKIX (ae_wire env) der) \<or> is_ok (api_parsePKCS1 env der) then Inr ()
             else Inl (Errorf ''public key PEM is not a parseable public key'' []))
      else case pem_Decode (ae_wire env) (TrimSpace csrPEM) of
        None \<Rightarrow> Inl (Errorf ''csr PEM is invalid'' [])
      | Some der \<Rightarrow> api_checkCSR env der)"

definition decodeRevocationReason :: "'e api_env_scheme \<Rightarrow> api_request \<Rightarrow> string" where
  "decodeRevocationReason env req =
     (let reason = TrimSpace (dq_Revocation env (aq_Body req)) in if reason = [] then ''unspecified'' else reason)"

definition defaultManagementProfile :: "string \<Rightarrow> KLIQManagementProfile" where
  "defaultManagementProfile kliqID =
     \<lparr>mp_Kind = [], mp_ProfileID = ''kliq_management_profile.'' @ kliqID, mp_Mode = ''managed_pull'', mp_PollInterval = ''1m'',
      mp_HeartbeatInterval = ''30s'', mp_StatusInterval = ''1m'', mp_DecisionInterval = ''5s'', mp_ReconcileInterval = ''30s'',
      mp_AuditFlushInterval = ''1m'', mp_StatusEndpoint = [], mp_AssignmentSource = ''forge_assignment_api''\<rparr>"

text \<open>The lines with which most handlers begin: the registration of a KLIQ, and that it is active.\<close>

definition with_registration ::
  "('d, 'c) Store \<Rightarrow> string \<Rightarrow> (KLIQRegistration \<Rightarrow> ('d, 'c, api_response) action) \<Rightarrow> ('d, 'c, api_response) action" where
  "with_registration m kliqID k =
     attempt (ms_Registration m kliqID)
       (\<lambda>e. if errors_Is e ErrManagementNotFound then writeError 404 ''kliq_registration_not_found''
            else writeError 500 ''registration_read_failed'') k"

definition with_active ::
  "('d, 'c) Store \<Rightarrow> string \<Rightarrow> (KLIQRegistration \<Rightarrow> ('d, 'c, api_response) action) \<Rightarrow> ('d, 'c, api_response) action" where
  "with_active m kliqID k =
     with_registration m kliqID (\<lambda>r. checked (ensureKLIQRegistrationActive r) 403 ''kliq_registration_revoked'' (\<lambda>_. k r))"

definition authorized :: "Principal \<Rightarrow> authz_Request \<Rightarrow> ('d, 'c, api_response) action \<Rightarrow> ('d, 'c, api_response) action" where
  "authorized p req k = checked (Authorize p req) 403 ''forbidden'' (\<lambda>_. k)"

section \<open>Enrollment\<close>

definition createEnrollmentToken :: "'e api_env_scheme \<Rightarrow> ('d, 'c) Server \<Rightarrow> api_request \<Rightarrow> ('d, 'c) handler" where
  "createEnrollmentToken env s hreq ctx p =
     needs (sv_Management s) ''kliq_management_store_not_configured'' (\<lambda>m.
     checked (dq_Token env (aq_Body hreq)) 400 ''invalid_json'' (\<lambda>req.
     authorized p (managed ''kliq.enrollment_token.create''
       (zero_Scope\<lparr>sc_Environment := tr_Environment req, sc_Stage := tr_Stage req\<rparr>))
    (attempt (ask (api_secret env)) (\<lambda>_. writeError 500 ''token_generation_failed'') (\<lambda>secret.
     bindE (read_clock env) (\<lambda>now.
     let tokenHash = TokenSHA256 env secret;
         token = \<lparr>et_TokenID = ''kliq_enrollment_token.'' @ take 16 (TrimPrefix tokenHash ''sha256:''), et_TokenSHA256 = tokenHash,
                  et_Environment = TrimSpace (tr_Environment req), et_Stage = TrimSpace (tr_Stage req), et_Scope = TrimSpace (tr_Scope req),
                  et_ExpiresAt = (case tr_ExpiresAt req of None \<Rightarrow> now + 3600000000000 | Some t \<Rightarrow> t), et_CreatedAt = now,
                  et_UsedAt = 0, et_RevokedAt = 0, et_RevokedReason = []\<rparr> in
     attempt (ms_CreateEnrollmentToken m ctx token secret) (\<lambda>_. writeError 400 ''invalid_enrollment_token'') (\<lambda>_.
     writeJSON 201 (TokenBody token secret)))))))"

definition enrolled_identity :: "'e api_env_scheme \<Rightarrow> enrollmentRequest \<Rightarrow> gotime \<Rightarrow> KLIQIdentity" where
  "enrolled_identity env req now =
     (let kliqID = StableKLIQID env (er_NodeID req) (er_Environment req) (er_Stage req) (er_Scope req) in
      \<lparr>ki_IdentityID = ''kliq_identity.'' @ kliqID, ki_KLIQID = kliqID, ki_NodeID = er_NodeID req, ki_Environment = er_Environment req,
       ki_Stage = er_Stage req, ki_Scope = er_Scope req,
       ki_TrustKeyID = (if blank (er_TrustKeyID req) then ''dev-local'' else TrimSpace (er_TrustKeyID req)),
       ki_PublicKeyPEM = TrimSpace (er_PublicKeyPEM req), ki_CSRPEM = TrimSpace (er_CSRPEM req),
       ki_ServiceIdentityProvider = SPIFFEReady,
       ki_SPIFFEID = (if blank (er_SPIFFEID req) then DefaultKLIQSPIFFEID kliqID (er_Environment req) (er_Stage req) (er_Scope req)
                      else TrimSpace (er_SPIFFEID req)),
       ki_CredentialStatus = ''active'', ki_CredentialExpiresAt = now + 86400000000000, ki_Status = ''active'', ki_IssuedAt = now,
       ki_RevokedAt = 0, ki_RevokedReason = []\<rparr>)"

definition enrolled_registration :: "'e api_env_scheme \<Rightarrow> enrollmentRequest \<Rightarrow> gotime \<Rightarrow> KLIQRegistration" where
  "enrolled_registration env req now =
     (let i = enrolled_identity env req now in
      \<lparr>kr_RegistrationID = ''kliq_registration.'' @ ki_KLIQID i, kr_KLIQID = ki_KLIQID i, kr_NodeID = er_NodeID req,
       kr_Environment = er_Environment req, kr_Stage = er_Stage req, kr_Scope = er_Scope req, kr_Version = er_Version req,
       kr_AdapterInventory = er_Adapters req, kr_Capabilities = er_Capabilities req, kr_AttestationState = er_Attestation req,
       kr_Identity = i, kr_ManagementProfile = defaultManagementProfile (ki_KLIQID i), kr_Status = ''active'', kr_RegisteredAt = now,
       kr_RevokedAt = 0, kr_RevokedReason = []\<rparr>)"

text \<open>The service token of a new node; none when the server has no issuer.\<close>

definition issue_for :: "'e api_env_scheme \<Rightarrow> ('d, 'c) Server \<Rightarrow> KLIQIdentity \<Rightarrow> ('d, 'c, string) action" where
  "issue_for env s identity =
     (case sv_KLIQService s of None \<Rightarrow> ret [] | Some secret \<Rightarrow> IssueForIdentity env secret identity 86400000000000)"

definition enrollKLIQ :: "'e api_env_scheme \<Rightarrow> ('d, 'c) Server \<Rightarrow> api_request \<Rightarrow> ('d, 'c, api_response) action" where
  "enrollKLIQ env s hreq =
     needs (sv_Management s) ''kliq_management_store_not_configured'' (\<lambda>m.
     checked (dq_Enrollment env (aq_Body hreq)) 400 ''invalid_json'' (\<lambda>req.
     refuse_if (blank (er_EnrollmentToken req) \<or> blank (er_NodeID req)) 400 ''invalid_enrollment_request''
    (refuse_if (blank (er_PublicKeyPEM req) \<and> blank (er_CSRPEM req)) 400 ''missing_identity_material''
    (checked (validateIdentityMaterial env (er_PublicKeyPEM req) (er_CSRPEM req)) 400 ''invalid_identity_material'' (\<lambda>_.
     bindE (read_clock env) (\<lambda>now.
     attempt (ms_UseEnrollmentToken m no_context (er_EnrollmentToken req) (er_Environment req) (er_Stage req) (er_Scope req) now)
       (\<lambda>_. writeError 403 ''invalid_enrollment_token'') (\<lambda>token.
     let registration = enrolled_registration env req now;
         ctx = WithAuditMetadata no_context
           [(''enrollment_token_id'', JString (et_TokenID token)), (''kliq_id'', JString (kr_KLIQID registration))] in
     attempt (ms_Register m ctx registration) (\<lambda>_. writeError 500 ''registration_failed'') (\<lambda>_.
     attempt (issue_for env s (kr_Identity registration)) (\<lambda>_. writeError 500 ''service_token_issue_failed'') (\<lambda>serviceToken.
     writeJSON 201 (EnrollmentBody registration serviceToken))))))))))"

definition refreshKLIQServiceToken :: "'e api_env_scheme \<Rightarrow> ('d, 'c) Server \<Rightarrow> ('d, 'c) handler" where
  "refreshKLIQServiceToken env s ctx p =
     needs (sv_Management s) ''kliq_service_refresh_not_configured'' (\<lambda>m.
     needs (sv_KLIQService s) ''kliq_service_refresh_not_configured'' (\<lambda>secret.
     with_active m (PrincipalKLIQID p) (\<lambda>r.
     checked (authorizeKLIQServicePrincipal env p r) 403 ''forbidden'' (\<lambda>_.
     attempt (IssueForIdentity env secret (kr_Identity r) 86400000000000) (\<lambda>_. writeError 500 ''service_token_issue_failed'') (\<lambda>token.
     bindE (read_clock env) (\<lambda>now.
     writeJSON 200 (RefreshBody token (now + 86400000000000))))))))"

definition revokeEnrollmentToken :: "'e api_env_scheme \<Rightarrow> ('d, 'c) Server \<Rightarrow> string \<Rightarrow> api_request \<Rightarrow> ('d, 'c) handler" where
  "revokeEnrollmentToken env s tokenID hreq ctx p =
     needs (sv_Management s) ''kliq_management_store_not_configured'' (\<lambda>m.
     attempt (ms_EnrollmentToken m (TrimSpace tokenID))
       (\<lambda>e. if errors_Is e ErrManagementNotFound then writeError 404 ''enrollment_token_not_found''
            else writeError 500 ''enrollment_token_read_failed'') (\<lambda>token.
     authorized p (managed ''kliq.enrollment_token.revoke''
       (zero_Scope\<lparr>sc_Environment := et_Environment token, sc_Stage := et_Stage token\<rparr>))
    (bindE (read_clock env) (\<lambda>now.
     attempt (ms_RevokeEnrollmentToken m ctx (et_TokenID token) (decodeRevocationReason env hreq) now)
       (\<lambda>_. writeError 400 ''enrollment_token_revoke_failed'') (\<lambda>_.
     writeJSON 202 (StatusBody ''revoked''))))))"

end
