(* ===== verification/Forge_Handlers.thy ===== *)
theory Forge_Handlers
  imports Forge_API
begin

text \<open>
  The handlers of \<^verbatim>\<open>internal/forge/api/kliq_management.go\<close> for builds, assignments, revocations and reports, and the
  dispatch of \<^verbatim>\<open>server.go\<close>.
\<close>

section \<open>Approving a build\<close>

definition verify_with :: "('d, 'c) Signer \<Rightarrow> string \<Rightarrow> SignedEnvelope \<Rightarrow> ('d, 'c, unit) action" where
  "verify_with signer label envelope =
     (case sgn_Verify signer of
        None \<Rightarrow> raise (code_error (label @ ''verifier_unavailable''))
      | Some verify \<Rightarrow>
          tryE (verify envelope) (\<lambda>r. case r of
            Inl e \<Rightarrow> raise (code_error (label @ ''signature_verification_failed''))
          | Inr result \<Rightarrow> guardE (\<not> vr_Valid result) (code_error (label @ ''signature_invalid'')) (ret ())))"

definition signed_envelope :: "wire \<Rightarrow> bytes \<Rightarrow> SignedEnvelope result" where
  "signed_envelope cx payload =
     (case dec_Envelope cx payload of
        Inl e \<Rightarrow> Inl (code_error ''approved_build_must_be_signed'')
      | Inr envelope \<Rightarrow>
          fail_if (env_Kind envelope \<noteq> ''SignedEnvelope'' \<or> env_PayloadSHA256 envelope = [] \<or> env_Payload envelope = [])
            (code_error ''approved_build_must_be_signed'') (Inr envelope))"

definition manifest_header :: "'e api_env_scheme \<Rightarrow> bytes \<Rightarrow> unit result" where
  "manifest_header env payload =
     (case api_decKind env payload of
        Inl e \<Rightarrow> Inl (code_error ''approved_build_invalid'')
      | Inr kind \<Rightarrow> fail_if (kind \<noteq> ''PolicyBuildManifest'') (code_error ''approved_build_invalid_kind'') (Inr ()))"

definition verifyApprovedBuildManifestEnvelope ::
  "'e api_env_scheme \<Rightarrow> ('d, 'c) Signer \<Rightarrow> bytes \<Rightarrow> ('d, 'c, bytes) action" where
  "verifyApprovedBuildManifestEnvelope env signer payload =
     bindE (lift (signed_envelope (ae_wire env) payload)) (\<lambda>envelope.
     bindE (verify_with signer ''approved_build_'' envelope) (\<lambda>_.
     bindE (lift (manifest_header env (env_Payload envelope))) (\<lambda>_.
     ret (env_Payload envelope))))"

definition approved_manifest ::
  "buildApprovalRequest \<Rightarrow> Principal \<Rightarrow> gotime \<Rightarrow> PolicyBuildManifest \<Rightarrow> PolicyBuildManifest" where
  "approved_manifest req p now m =
     m\<lparr>bm_Approval :=
        \<lparr>apv_Status = ''approved'', apv_ApprovedBy = pr_Subject p, apv_ApprovedAt = now,
         apv_AuthorityID = (if blank (bar_AuthorityID req) then pr_Subject p else TrimSpace (bar_AuthorityID req)),
         apv_AuthorityKind = (if blank (bar_AuthorityKind req) then ''forge-api-approval'' else TrimSpace (bar_AuthorityKind req)),
         apv_Environment = TrimSpace (bar_Environment req), apv_Stage = TrimSpace (bar_Stage req), apv_Scope = TrimSpace (bar_Scope req)\<rparr>\<rparr>"

definition approved_artifact :: "PolicyBuildManifest \<Rightarrow> gotime \<Rightarrow> bytes \<Rightarrow> Artifact" where
  "approved_artifact m now envelopePayload =
     \<lparr>art_Metadata =
        \<lparr>md_ID = ''approved.'' @ mm_ID (bm_Metadata m), md_PolicyID = TrimPrefix (mm_ID (bm_Metadata m)) ''build.'',
         md_ArtifactType = ''policy_build_manifest_signed_envelope'', md_KNI = [], md_SourcePath = [],
         md_SourceCommit = pp_Commit (sp_PolicyRepo (bm_Spec m)), md_CorrelationID = mm_CorrelationID (bm_Metadata m),
         md_CreatedAt = now, md_Digests = []\<rparr>,
      art_Payload = envelopePayload\<rparr>"

definition approval_event :: "Principal \<Rightarrow> PolicyBuildManifest \<Rightarrow> Ref \<Rightarrow> gotime \<Rightarrow> ManagementAuditEvent" where
  "approval_event p m ref now =
     \<lparr>ev_EventID = [], ev_EventType = ''policy_build_manifest_approved'', ev_Actor = pr_Subject p,
      ev_TargetType = ''policy_build_manifest'', ev_TargetID = mm_ID (bm_Metadata m), ev_KLIQID = [],
      ev_Environment = apv_Environment (bm_Approval m), ev_Stage = apv_Stage (bm_Approval m), ev_Scope = apv_Scope (bm_Approval m),
      ev_Metadata =
        [(''source_commit'', JString (pp_Commit (sp_PolicyRepo (bm_Spec m)))), (''approved_build_ref'', JString (rf_URI ref)),
         (''authority_id'', JString (apv_AuthorityID (bm_Approval m))), (''authority_kind'', JString (apv_AuthorityKind (bm_Approval m)))],
      ev_CreatedAt = now\<rparr>"

text \<open>The second half of the handler: the manifest may be approved.\<close>

definition publish_approval ::
  "'e api_env_scheme \<Rightarrow> ('d, 'c) Server \<Rightarrow> ('d, 'c) Artifacts \<Rightarrow> ('d, 'c) Signer \<Rightarrow> buildApprovalRequest \<Rightarrow> PolicyBuildManifest \<Rightarrow> ('d, 'c) handler" where
  "publish_approval env s store signer req m0 ctx p =
     bindE (read_clock env) (\<lambda>now.
     let m = approved_manifest req p now m0;
         expiresAt = (case bar_ExpiresAt req of None \<Rightarrow> now + 86400000000000 | Some t \<Rightarrow> t);
         meta = \<lparr>sm_KeyID = [], sm_SourceCommit = pp_Commit (sp_PolicyRepo (bm_Spec m)), sm_PolicyID = [], sm_ExpiresAt = Some expiresAt\<rparr> in
     checked (api_encManifest env m) 500 ''build_manifest_marshal_failed'' (\<lambda>approvedPayload.
     attempt (sgn_Sign signer approvedPayload meta) (\<lambda>_. writeError 500 ''build_manifest_signing_failed'') (\<lambda>envelope.
     checked (api_encEnvelope env envelope) 500 ''build_manifest_envelope_marshal_failed'' (\<lambda>envelopePayload.
     attempt (afs_Put store (approved_artifact m now envelopePayload)) (\<lambda>_. writeError 500 ''approved_build_manifest_store_failed'') (\<lambda>ref.
     bindE (case sv_Management s of
              None \<Rightarrow> ret ()
            | Some mgmt \<Rightarrow> ignoreE (ms_SaveAuditEvent mgmt ctx (approval_event p m ref now))) (\<lambda>_.
     writeJSON 201 (ApprovalBody ref m)))))))"

definition approvePolicyBuildManifest :: "'e api_env_scheme \<Rightarrow> ('d, 'c) Server \<Rightarrow> api_request \<Rightarrow> ('d, 'c) handler" where
  "approvePolicyBuildManifest env s hreq ctx p =
     needs (sv_Artifacts s) ''build_approval_not_configured'' (\<lambda>store.
     needs (sv_ManagementSign s) ''build_approval_not_configured'' (\<lambda>signer.
     checked (dq_Approval env (aq_Body hreq)) 400 ''invalid_json'' (\<lambda>req.
     refuse_if (blank (rf_URI (bar_BuildRef req)) \<or> blank (rf_SHA256 (bar_BuildRef req)) \<or> blank (bar_Environment req) \<or>
                blank (bar_Stage req) \<or> blank (bar_Scope req)) 400 ''invalid_build_approval_request''
    (authorized p \<lparr>az_Action = ''policy_build_manifest.approve'', az_AllowedRoles = PolicyBuildApproveRoles,
        az_Scope = zero_Scope\<lparr>sc_Environment := TrimSpace (bar_Environment req), sc_Stage := TrimSpace (bar_Stage req)\<rparr>\<rparr>
    (attempt (afs_Get store (bar_BuildRef req)) (\<lambda>_. writeError 400 ''build_manifest_unavailable'') (\<lambda>stored.
     attempt (verifyApprovedBuildManifestEnvelope env signer stored) (\<lambda>e. writeError 400 (Error e)) (\<lambda>payload.
     checked (api_decManifest env payload) 400 ''build_manifest_invalid'' (\<lambda>m.
     refuse_if (bm_Kind m \<noteq> ''PolicyBuildManifest'') 400 ''build_manifest_invalid_kind''
    (refuse_if (TrimSpace (apv_Status (bm_Approval m)) \<noteq> ''pending_review'') 400 ''build_manifest_not_pending_review''
    (attempt (lift (validateBuildManifestApprovalReadiness m)) (\<lambda>e. writeError 400 (Error e)) (\<lambda>_.
     refuse_if (samePrincipal (mm_CreatedBy (bm_Metadata m)) (pr_Subject p)) 403 ''build_manifest_self_approval_rejected''
    (publish_approval env s store signer req m ctx p))))))))))))"

section \<open>Assignments\<close>

definition validateApprovedBuild ::
  "'e api_env_scheme \<Rightarrow> ('d, 'c) Artifacts \<Rightarrow> ('d, 'c) Signer \<Rightarrow> KLIQRegistration \<Rightarrow> assignmentPlanRequest \<Rightarrow> ('d, 'c, PolicyBuildManifest) action" where
  "validateApprovedBuild env store signer r req =
     guardE (blank (rf_URI (apr_ApprovedBuildRef req)) \<or> blank (rf_SHA256 (apr_ApprovedBuildRef req))) (code_error ''approved_build_required'')
    (tryE (afs_Get store (apr_ApprovedBuildRef req)) (\<lambda>got. case got of
       Inl e \<Rightarrow> raise (code_error ''approved_build_unavailable'')
     | Inr stored \<Rightarrow>
         bindE (verifyApprovedBuildManifestEnvelope env signer stored) (\<lambda>payload.
         case api_decManifest env payload of
           Inl e \<Rightarrow> raise (code_error ''approved_build_invalid'')
         | Inr m \<Rightarrow>
             bindE (lift (approved_build_checks r (apr_SourceCommit req) (apr_Artifacts req) m)) (\<lambda>_.
             ret m))))"

definition artifact_envelope :: "wire \<Rightarrow> bytes \<Rightarrow> SignedEnvelope result" where
  "artifact_envelope cx payload =
     (case dec_Envelope cx payload of
        Inl e \<Rightarrow> Inl (code_error ''artifact_ref_not_signed_envelope'')
      | Inr envelope \<Rightarrow>
          fail_if (env_Kind envelope \<noteq> ''SignedEnvelope'' \<or> env_PayloadSHA256 envelope = [])
            (code_error ''artifact_ref_not_signed_envelope'') (Inr envelope))"

definition verifyAssignmentArtifactEnvelope ::
  "'e api_env_scheme \<Rightarrow> ('d, 'c) Signer \<Rightarrow> string \<Rightarrow> SignedEnvelope \<Rightarrow> ('d, 'c, unit) action" where
  "verifyAssignmentArtifactEnvelope env signer artifactType envelope =
     (case sgn_Verify signer of
        None \<Rightarrow> raise (code_error ''artifact_signature_verifier_unavailable'')
      | Some _ \<Rightarrow>
          bindE (verify_with signer ''artifact_'' envelope) (\<lambda>_.
          lift (validateAssignmentArtifactPayloadType (ae_wire env) artifactType (env_Payload envelope))))"

definition resolve_artifact ::
  "'e api_env_scheme \<Rightarrow> ('d, 'c) Artifacts \<Rightarrow> ('d, 'c) Signer \<Rightarrow> string \<Rightarrow> KLIQAssignedArtifact \<Rightarrow> ('d, 'c, KLIQAssignedArtifact) action" where
  "resolve_artifact env store signer sourceCommit requested =
     guardE (blank (aa_ArtifactType requested) \<or> blank (aa_ArtifactID requested)) (code_error ''invalid_artifact_ref'')
    (guardE (\<not> allowedAssignmentArtifactType (aa_ArtifactType requested)) (code_error ''unsupported_assignment_artifact_type'')
    (let ref = requested_ref requested in
     guardE (rf_URI ref = [] \<or> rf_SHA256 ref = []) (code_error ''invalid_artifact_ref'')
    (tryE (afs_Get store ref) (\<lambda>got. case got of
       Inl e \<Rightarrow> raise (code_error ''artifact_ref_unavailable'')
     | Inr payload \<Rightarrow>
         bindE (lift (artifact_envelope (ae_wire env) payload)) (\<lambda>envelope.
         bindE (verifyAssignmentArtifactEnvelope env signer (aa_ArtifactType requested) envelope) (\<lambda>_.
         guardE (TrimSpace (env_SourceCommit envelope) \<noteq> TrimSpace sourceCommit) (code_error ''artifact_source_commit_mismatch'')
        (ret \<lparr>aa_ArtifactType = TrimSpace (aa_ArtifactType requested), aa_ArtifactID = TrimSpace (aa_ArtifactID requested),
              aa_ArtifactRef = rf_URI ref, aa_SHA256 = SHA256JSON (fe_sha env) payload, aa_Envelope = payload\<rparr>)))))))"

definition resolveAssignmentArtifacts ::
  "'e api_env_scheme \<Rightarrow> ('d, 'c) Artifacts \<Rightarrow> ('d, 'c) Signer \<Rightarrow> assignmentPlanRequest \<Rightarrow> ('d, 'c, KLIQAssignedArtifact list) action" where
  "resolveAssignmentArtifacts env store signer req =
     foldE (\<lambda>requested artifacts.
       bindE (resolve_artifact env store signer (apr_SourceCommit req) requested) (\<lambda>a. ret (artifacts @ [a]))) (apr_Artifacts req) []"

text \<open>The document that is signed: digests filled in, the manifest's digest, and no verdict about signatures.\<close>

definition fill_digests :: "'e api_env_scheme \<Rightarrow> KLIQAssignment \<Rightarrow> KLIQAssignment" where
  "fill_digests env a =
     a\<lparr>as_Artifacts := map (\<lambda>x. if aa_SHA256 x = [] then x\<lparr>aa_SHA256 := SHA256JSON (fe_sha env) (aa_Envelope x)\<rparr> else x) (as_Artifacts a)\<rparr>"

definition signAndStoreAssignment ::
  "'e api_env_scheme \<Rightarrow> ('d, 'c) Store \<Rightarrow> ('d, 'c) Signer \<Rightarrow> audit_context \<Rightarrow> KLIQAssignment \<Rightarrow> ('d, 'c, SignedEnvelope) action" where
  "signAndStoreAssignment env m signer ctx a0 =
     guardE (\<not> is_ok (validateAssignmentRequest a0)) (code_error ''invalid_assignment'')
    (let a1 = fill_digests env a0 in
     guardE (\<not> is_ok (ValidateAssignedArtifactDigests (fe_sha env) a1)) (code_error ''invalid_assignment_artifact'')
    (case api_encAssignmentManifest env (AssignmentManifestFor a1) of
       Inl e \<Rightarrow> raise (code_error ''invalid_assignment_manifest'')
     | Inr manifestData \<Rightarrow>
         let a = a1\<lparr>as_ManifestDigest := SHA256JSON (fe_sha env) manifestData, as_SignatureValid := False, as_ManifestSignatureValid := False\<rparr> in
         (case api_encAssignment env a of
            Inl e \<Rightarrow> raise (code_error ''invalid_assignment_payload'')
          | Inr payload \<Rightarrow>
              tryE (sgn_Sign signer payload \<lparr>sm_KeyID = [], sm_SourceCommit = as_SourceCommit a, sm_PolicyID = [], sm_ExpiresAt = Some (as_ExpiresAt a)\<rparr>) (\<lambda>r.
              case r of
                Inl e \<Rightarrow> raise (code_error ''assignment_signing_failed'')
              | Inr envelope \<Rightarrow>
                  tryE (ms_SaveAssignment m ctx (as_KLIQID a) (as_AssignmentVersion a) envelope) (\<lambda>saved.
                  guardE (\<not> is_ok saved) (code_error ''assignment_store_failed'') (ret envelope))))))"

definition planned_assignment ::
  "assignmentPlanRequest \<Rightarrow> KLIQRegistration \<Rightarrow> PolicyBuildManifest \<Rightarrow> KLIQAssignedArtifact list \<Rightarrow> int \<Rightarrow> gotime \<Rightarrow> KLIQAssignment" where
  "planned_assignment req r build artifacts version now =
     \<lparr>as_AssignmentID = ''kliq_assignment.'' @ kr_KLIQID r @ ''.'' @ apr_SourceCommit req @ ''.v'' @ int_digits version,
      as_AssignmentVersion = version, as_KLIQID = kr_KLIQID r, as_Environment = kr_Environment r, as_Stage = kr_Stage r,
      as_Scope = kr_Scope r, as_SourceCommit = apr_SourceCommit req, as_TrustKeyID = ki_TrustKeyID (kr_Identity r),
      as_TrustBundleRef = (if blank (apr_TrustBundleRef req) then ki_TrustKeyID (kr_Identity r) else TrimSpace (apr_TrustBundleRef req)),
      as_CreatedAt = now, as_ExpiresAt = apr_ExpiresAt req, as_ApprovedRollback = apr_ApprovedRollback req, as_Artifacts = artifacts,
      as_Status = ''active'', as_RevokedAt = 0, as_RevokedReason = [], as_SignatureValid = False, as_ManifestSigned = False,
      as_ManifestDigest = [], as_ManifestSignatureValid = False,
      as_Provenance = assignmentProvenanceFromBuild build (apr_ApprovedBuildRef req)\<rparr>"

definition planned_event :: "Principal \<Rightarrow> KLIQAssignment \<Rightarrow> PolicyBuildManifest \<Rightarrow> Ref \<Rightarrow> gotime \<Rightarrow> ManagementAuditEvent" where
  "planned_event p a build ref now =
     \<lparr>ev_EventID = [], ev_EventType = ''assignment_planned'', ev_Actor = pr_Subject p, ev_TargetType = ''kliq_assignment'',
      ev_TargetID = as_AssignmentID a, ev_KLIQID = as_KLIQID a, ev_Environment = as_Environment a, ev_Stage = as_Stage a,
      ev_Scope = as_Scope a,
      ev_Metadata =
        [(''assignment_version'', JNumber (of_int (as_AssignmentVersion a))), (''source_commit'', JString (as_SourceCommit a)),
         (''approved_build_id'', JString (mm_ID (bm_Metadata build))), (''approved_build_ref'', JString (rf_URI ref))],
      ev_CreatedAt = now\<rparr>"

text \<open>The second half of the handler: the request is authorized and complete.\<close>

definition plan_from_build ::
  "'e api_env_scheme \<Rightarrow> ('d, 'c) Store \<Rightarrow> ('d, 'c) Signer \<Rightarrow> ('d, 'c) Artifacts \<Rightarrow> assignmentPlanRequest \<Rightarrow> KLIQRegistration \<Rightarrow> ('d, 'c) handler" where
  "plan_from_build env m signer store req r ctx p =
     attempt (validateApprovedBuild env store signer r req) (\<lambda>e. writeError 400 (Error e)) (\<lambda>build.
     attempt (resolveAssignmentArtifacts env store signer req) (\<lambda>e. writeError 400 (Error e)) (\<lambda>artifacts.
     attempt (ms_NextAssignmentVersion m (kr_KLIQID r)) (\<lambda>_. writeError 500 ''assignment_version_failed'') (\<lambda>version.
     bindE (read_clock env) (\<lambda>now.
     let a = planned_assignment req r build artifacts version now in
     attempt (signAndStoreAssignment env m signer ctx a) (\<lambda>e. writeError 400 (Error e)) (\<lambda>envelope.
     bindE (ignoreE (ms_SaveAuditEvent m ctx (planned_event p a build (apr_ApprovedBuildRef req) now))) (\<lambda>_.
     writeJSON 201 (EnvelopeBody envelope)))))))"

definition planKLIQAssignment :: "'e api_env_scheme \<Rightarrow> ('d, 'c) Server \<Rightarrow> api_request \<Rightarrow> ('d, 'c) handler" where
  "planKLIQAssignment env s hreq ctx p =
     needs (sv_Management s) ''kliq_management_not_configured'' (\<lambda>m.
     needs (sv_ManagementSign s) ''kliq_management_not_configured'' (\<lambda>signer.
     needs (sv_Artifacts s) ''artifact_store_not_configured'' (\<lambda>store.
     checked (dq_Plan env (aq_Body hreq)) 400 ''invalid_json'' (\<lambda>req.
     with_active m (TrimSpace (apr_KLIQID req)) (\<lambda>r.
     authorized p (managed ''kliq.assignment.plan'' (kliqRegistrationScope r))
    (refuse_if (blank (apr_SourceCommit req) \<or> IsZero (apr_ExpiresAt req) \<or> apr_Artifacts req = []) 400 ''invalid_assignment_plan''
    (attempt (lift (rejectRawAssignmentArtifactEnvelopes (apr_Artifacts req))) (\<lambda>e. writeError 400 (Error e)) (\<lambda>_.
     plan_from_build env m signer store req r ctx p))))))))"

definition dev_defaults :: "gotime \<Rightarrow> KLIQAssignment \<Rightarrow> KLIQAssignment" where
  "dev_defaults now a =
     a\<lparr>as_CreatedAt := (if IsZero (as_CreatedAt a) then now else as_CreatedAt a),
       as_AssignmentID := (if as_AssignmentID a = [] then ''kliq_assignment.'' @ as_KLIQID a @ ''.'' @ as_SourceCommit a else as_AssignmentID a),
       as_TrustBundleRef := (if as_TrustBundleRef a = [] then as_TrustKeyID a else as_TrustBundleRef a),
       as_Status := (if as_Status a = [] then ''active'' else as_Status a)\<rparr>"

definition createDevKLIQAssignment :: "'e api_env_scheme \<Rightarrow> ('d, 'c) Server \<Rightarrow> api_request \<Rightarrow> ('d, 'c) handler" where
  "createDevKLIQAssignment env s hreq ctx p =
     needs (sv_Management s) ''kliq_management_not_configured'' (\<lambda>m.
     needs (sv_ManagementSign s) ''kliq_management_not_configured'' (\<lambda>signer.
     refuse_if (\<not> sv_DevManagement s) 403 ''dev_management_disabled''
    (checked (dq_Assignment env (aq_Body hreq)) 400 ''invalid_json'' (\<lambda>a.
     with_registration m (TrimSpace (as_KLIQID a)) (\<lambda>r.
     checked (validateKLIQScope r (as_Environment a) (as_Stage a) (as_Scope a)) 400 ''assignment_scope_mismatch'' (\<lambda>_.
     authorized p (managed ''kliq.assignment.dev_create'' (kliqRegistrationScope r))
    (bindE (read_clock env) (\<lambda>now.
     attempt (signAndStoreAssignment env m signer ctx (dev_defaults now a)) (\<lambda>e. writeError 400 (Error e)) (\<lambda>envelope.
     writeJSON 201 (EnvelopeBody envelope))))))))))"

definition latestKLIQAssignment :: "'e api_env_scheme \<Rightarrow> ('d, 'c) Server \<Rightarrow> string \<Rightarrow> ('d, 'c) handler" where
  "latestKLIQAssignment env s kliqID0 ctx p =
     needs (sv_Management s) ''kliq_management_store_not_configured'' (\<lambda>m.
     let kliqID = TrimSpace kliqID0 in
     with_active m kliqID (\<lambda>r.
     checked (authorizeKLIQAssignmentRead env p r) 403 ''forbidden'' (\<lambda>_.
     attempt (ms_LatestAssignment m ctx kliqID)
       (\<lambda>e. if errors_Is e ErrManagementNotFound then writeError 404 ''assignment_not_found'' else writeError 500 ''assignment_read_failed'')
       (\<lambda>envelope. writeJSON 200 (EnvelopeBody envelope)))))"

section \<open>Revocations\<close>

definition revokeKLIQAssignment :: "'e api_env_scheme \<Rightarrow> ('d, 'c) Server \<Rightarrow> string \<Rightarrow> string \<Rightarrow> api_request \<Rightarrow> ('d, 'c) handler" where
  "revokeKLIQAssignment env s kliqID0 version0 hreq ctx p =
     needs (sv_Management s) ''kliq_management_store_not_configured'' (\<lambda>m.
     let kliqID = TrimSpace kliqID0; version = (case ParseInt64 (TrimSpace version0) of None \<Rightarrow> 0 | Some v \<Rightarrow> v) in
     refuse_if (version \<le> 0) 400 ''invalid_assignment_version''
    (with_registration m kliqID (\<lambda>r.
     authorized p (managed ''kliq.assignment.revoke'' (kliqRegistrationScope r))
    (bindE (read_clock env) (\<lambda>now.
     attempt (ms_RevokeAssignment m ctx kliqID version (decodeRevocationReason env hreq) now) (\<lambda>_. writeError 400 ''assignment_revoke_failed'') (\<lambda>_.
     writeJSON 202 (StatusBody ''revoked'')))))))"

definition revokeKLIQRegistration :: "'e api_env_scheme \<Rightarrow> ('d, 'c) Server \<Rightarrow> string \<Rightarrow> api_request \<Rightarrow> ('d, 'c) handler" where
  "revokeKLIQRegistration env s kliqID0 hreq ctx p =
     needs (sv_Management s) ''kliq_management_store_not_configured'' (\<lambda>m.
     let kliqID = TrimSpace kliqID0 in
     with_registration m kliqID (\<lambda>r.
     authorized p (managed ''kliq.registration.revoke'' (kliqRegistrationScope r))
    (bindE (read_clock env) (\<lambda>now.
     attempt (ms_RevokeKLIQ m ctx kliqID (decodeRevocationReason env hreq) now) (\<lambda>_. writeError 400 ''kliq_registration_revoke_failed'') (\<lambda>_.
     writeJSON 202 (StatusBody ''revoked''))))))"

definition rotateTrustBundle :: "'e api_env_scheme \<Rightarrow> ('d, 'c) Server \<Rightarrow> string \<Rightarrow> api_request \<Rightarrow> ('d, 'c) handler" where
  "rotateTrustBundle env s keyID hreq ctx p =
     needs (sv_Management s) ''kliq_management_store_not_configured'' (\<lambda>m.
     authorized p (managed ''kliq.trust_bundle.rotate'' zero_Scope)
    (checked (dq_Rotation env (aq_Body hreq)) 400 ''invalid_json'' (\<lambda>req.
     bindE (read_clock env) (\<lambda>now.
     attempt (ms_RotateTrustBundle m ctx (TrimSpace keyID) (tq_Next req) (TrimSpace (tq_Reason req)) now)
       (\<lambda>e. if errors_Is e ErrManagementNotFound then writeError 404 ''trust_bundle_not_found'' else writeError 400 ''trust_bundle_rotate_failed'')
       (\<lambda>_. writeJSON 202 (StatusBody ''rotated''))))))"

definition revokeTrustBundle :: "'e api_env_scheme \<Rightarrow> ('d, 'c) Server \<Rightarrow> string \<Rightarrow> api_request \<Rightarrow> ('d, 'c) handler" where
  "revokeTrustBundle env s keyID hreq ctx p =
     needs (sv_Management s) ''kliq_management_store_not_configured'' (\<lambda>m.
     authorized p (managed ''kliq.trust_bundle.revoke'' zero_Scope)
    (bindE (read_clock env) (\<lambda>now.
     attempt (ms_RevokeTrustBundle m ctx (TrimSpace keyID) (decodeRevocationReason env hreq) now) (\<lambda>_. writeError 400 ''trust_bundle_revoke_failed'') (\<lambda>_.
     writeJSON 202 (StatusBody ''revoked'')))))"

section \<open>Reports of a node\<close>

text \<open>What the three reporting handlers check first: an active registration, the scope, and the node's own identity.\<close>

definition with_reporter ::
  "'e api_env_scheme \<Rightarrow> ('d, 'c) Store \<Rightarrow> Principal \<Rightarrow> string \<Rightarrow> string \<Rightarrow> string \<Rightarrow> string \<Rightarrow> string \<Rightarrow> ('d, 'c, api_response) action \<Rightarrow> ('d, 'c, api_response) action" where
  "with_reporter env m p kliqID environment stage scope mismatch k =
     with_active m (TrimSpace kliqID) (\<lambda>r.
     checked (validateKLIQScope r environment stage scope) 400 mismatch (\<lambda>_.
     checked (authorizeKLIQServicePrincipal env p r) 403 ''forbidden'' (\<lambda>_. k)))"

definition clock_if_zero :: "'e api_env_scheme \<Rightarrow> gotime \<Rightarrow> ('d, 'c, gotime) action" where
  "clock_if_zero env t = (if IsZero t then read_clock env else ret t)"

definition recordKLIQHeartbeat :: "'e api_env_scheme \<Rightarrow> ('d, 'c) Server \<Rightarrow> api_request \<Rightarrow> ('d, 'c) handler" where
  "recordKLIQHeartbeat env s hreq ctx p =
     needs (sv_Management s) ''kliq_management_store_not_configured'' (\<lambda>m.
     checked (dq_Heartbeat env (aq_Body hreq)) 400 ''invalid_json'' (\<lambda>h.
     with_reporter env m p (hb_KLIQID h) (hb_Environment h) (hb_Stage h) (hb_Scope h) ''heartbeat_scope_mismatch''
    (bindE (clock_if_zero env (hb_ReportedAt h)) (\<lambda>t.
     attempt (ms_SaveHeartbeat m (h\<lparr>hb_ReportedAt := t\<rparr>)) (\<lambda>_. writeError 400 ''heartbeat_store_failed'') (\<lambda>_.
     writeJSON 202 (StatusBody ''accepted''))))))"

definition recordKLIQStatusReport :: "'e api_env_scheme \<Rightarrow> ('d, 'c) Server \<Rightarrow> api_request \<Rightarrow> ('d, 'c) handler" where
  "recordKLIQStatusReport env s hreq ctx p =
     needs (sv_Management s) ''kliq_management_store_not_configured'' (\<lambda>m.
     checked (dq_Report env (aq_Body hreq)) 400 ''invalid_json'' (\<lambda>report.
     with_reporter env m p (sr_KLIQID report) (sr_Environment report) (sr_Stage report) (sr_Scope report) ''status_report_scope_mismatch''
    (bindE (clock_if_zero env (sr_ReportedAt report)) (\<lambda>t.
     attempt (ms_SaveStatusReport m (report\<lparr>sr_ReportedAt := t\<rparr>)) (\<lambda>_. writeError 400 ''status_report_store_failed'') (\<lambda>_.
     writeJSON 202 (StatusBody ''accepted''))))))"

definition shortAuditHash :: "'e api_env_scheme \<Rightarrow> string \<Rightarrow> string" where
  "shortAuditHash env value = take 16 (fe_sha env value)"

definition upload_ack :: "'e api_env_scheme \<Rightarrow> KLIQAuditUpload \<Rightarrow> gotime \<Rightarrow> KLIQAuditUploadAck" where
  "upload_ack env u uploadedAt =
     \<lparr>ak_Status = ''accepted'', ak_AuditRecordID = up_AuditRecordID u,
      ak_AckID = ''kliq_audit_ack.'' @ shortAuditHash env (up_KLIQID u @ NUL @ up_AuditRecordID u @ NUL @ up_PayloadSHA256 u),
      ak_AckedAt = uploadedAt\<rparr>"

definition upload_event :: "Principal \<Rightarrow> KLIQAuditUpload \<Rightarrow> KLIQAuditUploadAck \<Rightarrow> gotime \<Rightarrow> ManagementAuditEvent" where
  "upload_event p u ack uploadedAt =
     \<lparr>ev_EventID = [], ev_EventType = ''kliq_audit_uploaded'', ev_Actor = pr_Subject p, ev_TargetType = ''kliq_audit_event'',
      ev_TargetID = up_AuditRecordID u, ev_KLIQID = up_KLIQID u, ev_Environment = up_Environment u, ev_Stage = up_Stage u,
      ev_Scope = up_Scope u,
      ev_Metadata =
        [(''runtime_action_id'', JString (up_RuntimeActionID u)), (''payload_sha256'', JString (up_PayloadSHA256 u)),
         (''ack_id'', JString (ak_AckID ack))],
      ev_CreatedAt = uploadedAt\<rparr>"

definition recordKLIQAuditUpload :: "'e api_env_scheme \<Rightarrow> ('d, 'c) Server \<Rightarrow> api_request \<Rightarrow> ('d, 'c) handler" where
  "recordKLIQAuditUpload env s hreq ctx p =
     needs (sv_Management s) ''kliq_management_store_not_configured'' (\<lambda>m.
     checked (dq_Audit env (aq_Body hreq)) 400 ''invalid_json'' (\<lambda>u.
     with_reporter env m p (up_KLIQID u) (up_Environment u) (up_Stage u) (up_Scope u) ''audit_scope_mismatch''
    (refuse_if (blank (up_AuditRecordID u) \<or> blank (up_PayloadSHA256 u)) 400 ''invalid_audit_upload''
    (refuse_if (up_Payload u \<noteq> [] \<and> SHA256JSON (fe_sha env) (up_Payload u) \<noteq> up_PayloadSHA256 u) 400 ''audit_payload_hash_mismatch''
    (bindE (clock_if_zero env (up_UploadedAt u)) (\<lambda>uploadedAt.
     let ack = upload_ack env u uploadedAt in
     attempt (ms_SaveAuditEvent m ctx (upload_event p u ack uploadedAt)) (\<lambda>_. writeError 400 ''audit_upload_store_failed'') (\<lambda>_.
     writeJSON 202 (AckBody ack))))))))"

definition getKLIQStatusReport :: "('d, 'c) Server \<Rightarrow> string \<Rightarrow> ('d, 'c) handler" where
  "getKLIQStatusReport s kliqID0 ctx p =
     needs (sv_Management s) ''kliq_management_store_not_configured'' (\<lambda>m.
     let kliqID = TrimSpace kliqID0 in
     with_active m kliqID (\<lambda>r.
     authorized p \<lparr>az_Action = ''kliq.status_report.read'', az_AllowedRoles = KLIQReadRoles, az_Scope = kliqRegistrationScope r\<rparr>
    (attempt (ms_StatusReport m kliqID)
       (\<lambda>e. if errors_Is e ErrManagementNotFound then writeError 404 ''status_report_not_found'' else writeError 500 ''status_report_read_failed'')
       (\<lambda>report. writeJSON 200 (ReportBody report)))))"

section \<open>The routes\<close>

text \<open>One constructor per pattern of \<^verbatim>\<open>Server.Handler\<close>, with the values of its path variables.\<close>

text \<open>The two handlers of the job queue. Without a queue \<^verbatim>\<open>getJob\<close> calls a method of a nil interface.\<close>

definition simulation_payload :: "SimulationJobRequest \<Rightarrow> SimulationPayload" where
  "simulation_payload req =
     \<lparr>sim_PolicyRepo = sjr_PolicyRepo req, sim_PolicyFile = sjr_PolicyFile req, sim_CoreRegistry = sjr_CoreRegistry req,
      sim_EnterpriseRegistry = sjr_EnterpriseRegistry req, sim_OutputDir = sjr_OutputDir req\<rparr>"

definition createSimulationJob :: "'e api_env_scheme \<Rightarrow> ('d, 'c) Server \<Rightarrow> api_request \<Rightarrow> ('d, 'c) handler" where
  "createSimulationJob env s hreq ctx p =
     needs (sv_Store s) ''job_store_not_configured'' (\<lambda>store.
     checked (dq_Simulation env (aq_Body hreq)) 400 ''invalid_json'' (\<lambda>req.
     authorized p \<lparr>az_Action = ''simulation.submit'', az_AllowedRoles = SimulationSubmitRoles, az_Scope = sjr_Scope req\<rparr>
    (attempt (NewJob env (api_random env) (api_layout env) TypeSimulation (pr_Subject p) (api_encPayload env (simulation_payload req)))
       (\<lambda>_. writeError 400 ''invalid_job_payload'') (\<lambda>job.
     attempt (js_Create store job) (\<lambda>_. writeError 500 ''job_create_failed'') (\<lambda>_.
     attempt (js_Enqueue store (jb_ID job)) (\<lambda>_. writeError 500 ''job_enqueue_failed'') (\<lambda>_.
     writeJSON 202 (JobBody job)))))))"

definition getJob :: "('d, 'c) Server \<Rightarrow> string \<Rightarrow> ('d, 'c) handler" where
  "getJob s i ctx p =
     authorized p \<lparr>az_Action = ''job.read'', az_AllowedRoles = JobReadRoles, az_Scope = zero_Scope\<rparr>
    (let jobID = TrimSpace i in
     refuse_if (jobID = []) 400 ''missing_job_id''
    (case sv_Store s of
       None \<Rightarrow> raise (panic ''nil pointer dereference'')
     | Some store \<Rightarrow>
         attempt (js_Get store jobID)
           (\<lambda>e. if errors_Is e ErrJobNotFound then writeError 404 ''job_not_found'' else writeError 500 ''job_read_failed'')
           (\<lambda>job. writeJSON 200 (JobBody job))))"

datatype endpoint =
    Healthz
  | Me
  | SimulationJobs
  | GetJob string
  | ApproveBuild
  | CreateToken
  | RevokeToken string
  | Enroll
  | PlanAssignment
  | DevAssignment
  | LatestAssignment string
  | RevokeAssignment string string
  | RevokeRegistration string
  | RotateTrust string
  | RevokeTrust string
  | Heartbeat
  | PostStatusReport
  | GetStatusReport string
  | AuditUpload
  | RefreshToken

definition healthz :: "('d, 'c, api_response) action" where
  "healthz = writeJSON 200 (StatusBody ''ok'')"

definition me :: "('d, 'c) handler" where
  "me ctx p = writeJSON 200 (PrincipalBody p)"

text \<open>The handler of a route that needs a principal; the two that do not are in \<open>serve\<close>.\<close>

fun handle :: "'e api_env_scheme \<Rightarrow> ('d, 'c) Server \<Rightarrow> endpoint \<Rightarrow> api_request \<Rightarrow> ('d, 'c) handler" where
  "handle env s SimulationJobs req = createSimulationJob env s req"
| "handle env s (GetJob i) req = getJob s i"
| "handle env s ApproveBuild req = approvePolicyBuildManifest env s req"
| "handle env s CreateToken req = createEnrollmentToken env s req"
| "handle env s (RevokeToken i) req = revokeEnrollmentToken env s i req"
| "handle env s PlanAssignment req = planKLIQAssignment env s req"
| "handle env s DevAssignment req = createDevKLIQAssignment env s req"
| "handle env s (LatestAssignment i) req = latestKLIQAssignment env s i"
| "handle env s (RevokeAssignment i v) req = revokeKLIQAssignment env s i v req"
| "handle env s (RevokeRegistration i) req = revokeKLIQRegistration env s i req"
| "handle env s (RotateTrust k) req = rotateTrustBundle env s k req"
| "handle env s (RevokeTrust k) req = revokeTrustBundle env s k req"
| "handle env s Heartbeat req = recordKLIQHeartbeat env s req"
| "handle env s PostStatusReport req = recordKLIQStatusReport env s req"
| "handle env s (GetStatusReport i) req = getKLIQStatusReport s i"
| "handle env s AuditUpload req = recordKLIQAuditUpload env s req"
| "handle env s RefreshToken req = refreshKLIQServiceToken env s"
| "handle env s _ req = me"

definition serve :: "'e api_env_scheme \<Rightarrow> ('d, 'c) Server \<Rightarrow> endpoint \<times> api_request \<Rightarrow> ('d, 'c, api_response) action" where
  "serve env s r =
     (case fst r of
        Healthz \<Rightarrow> healthz
      | Enroll \<Rightarrow> enrollKLIQ env s (snd r)
      | e \<Rightarrow> requireAuth s (snd r) (handle env s e (snd r)))"

end
