(* ===== verification/Remote_Signer.thy ===== *)
theory Remote_Signer
  imports Forge_API
begin

text \<open>
  The signers behind the interface \<^verbatim>\<open>signing.Signer\<close>: the local one with its key file
  (\<^verbatim>\<open>internal/core/signing/local_file.go\<close>), the client and the handler of the remote one
  (\<^verbatim>\<open>internal/core/signing/remote.go\<close>), and the start of the signer process (\<^verbatim>\<open>cmd/forge-signer/main.go\<close>). The
  transport, the JSON codecs, URL parsing, certificate parsing and key generation are parameters.
\<close>

section \<open>The local signer as an action\<close>

definition local_signer :: "'e sysenv_scheme \<Rightarrow> crypto \<Rightarrow> DevLocalSigner \<Rightarrow> ('d, 'c) Signer" where
  "local_signer env cr s =
     \<lparr>sgn_Sign = (\<lambda>payload meta. bindE (read_clock env) (\<lambda>now. lift (Sign cr s payload meta now))),
      sgn_Verify = Some (\<lambda>e. bindE (read_clock env) (\<lambda>now1. bindE (read_clock env) (\<lambda>now2. ret (Verify cr s e now1 now2))))\<rparr>"

section \<open>Key files\<close>

record DevLocalKeyFile =
  kf_KeyID :: string
  kf_Algorithm :: string
  kf_PrivateKey :: bytes
  kf_PublicKey :: bytes

text \<open>\<open>ke_generate n\<close> is the pair of a public and a private key that \<^verbatim>\<open>ed25519.GenerateKey\<close> returns.\<close>

record key_env = fs_env +
  ke_encKeyFile :: "DevLocalKeyFile \<Rightarrow> bytes result"
  ke_decKeyFile :: "bytes \<Rightarrow> DevLocalKeyFile result"
  ke_generate :: "nat \<Rightarrow> (bytes \<times> bytes) result"

definition NewDevLocalSigner :: "'e key_env_scheme \<Rightarrow> string \<Rightarrow> ('d, 'c, DevLocalSigner) action" where
  "NewDevLocalSigner env keyID =
     guardE (keyID = []) (Errorf ''dev-local signer requires key id'' [])
    (bindE (ask (ke_generate env)) (\<lambda>pair.
     ret \<lparr>ds_KeyID = keyID, ds_PrivateKey = snd pair, ds_PublicKey = fst pair\<rparr>))"

definition parse_key_file :: "string \<Rightarrow> bool \<Rightarrow> DevLocalKeyFile \<Rightarrow> DevLocalSigner result" where
  "parse_key_file path requirePrivate key =
     fail_if (kf_Algorithm key \<noteq> ''Ed25519'') (Errorf ''%s: unsupported key algorithm %q'' [path, kf_Algorithm key])
    (fail_if (kf_KeyID key = []) (Errorf ''%s: missing key_id'' [path])
    (fail_if (length (kf_PublicKey key) \<noteq> 32) (Errorf ''%s: invalid Ed25519 public key'' [path])
    (fail_if (requirePrivate \<and> length (kf_PrivateKey key) \<noteq> 64) (Errorf ''%s: invalid Ed25519 private key'' [path])
    (Inr \<lparr>ds_KeyID = kf_KeyID key, ds_PrivateKey = kf_PrivateKey key, ds_PublicKey = kf_PublicKey key\<rparr>))))"

definition loadDevLocalSigner :: "'e key_env_scheme \<Rightarrow> string \<Rightarrow> bool \<Rightarrow> (files, 'c, DevLocalSigner) action" where
  "loadDevLocalSigner env path requirePrivate =
     bindE (read_file env path) (\<lambda>data.
     bindE (lift (ke_decKeyFile env data)) (\<lambda>key.
     lift (parse_key_file path requirePrivate key)))"

definition LoadDevLocalVerifier :: "'e key_env_scheme \<Rightarrow> string \<Rightarrow> (files, 'c, DevLocalSigner) action" where
  "LoadDevLocalVerifier env path = loadDevLocalSigner env path False"

definition saveDevLocalKey :: "'e key_env_scheme \<Rightarrow> string \<Rightarrow> DevLocalSigner \<Rightarrow> (files, 'c, unit) action" where
  "saveDevLocalKey env path s =
     bindE (execute env Inr) (\<lambda>_.
     bindE (lift (ke_encKeyFile env
       \<lparr>kf_KeyID = ds_KeyID s, kf_Algorithm = ''Ed25519'', kf_PrivateKey = ds_PrivateKey s, kf_PublicKey = ds_PublicKey s\<rparr>)) (\<lambda>data.
     write_file env path (data @ [CHR 0x0A])))"

text \<open>\<^verbatim>\<open>os.Stat\<close>: whether the file is there.\<close>

definition stat_file :: "'e sysenv_scheme \<Rightarrow> string \<Rightarrow> (files, 'c, bool) action" where
  "stat_file env path = query env (\<lambda>fs. Inr (fs path \<noteq> None))"

definition LoadOrCreateDevLocalSigner :: "'e key_env_scheme \<Rightarrow> string \<Rightarrow> string \<Rightarrow> (files, 'c, DevLocalSigner) action" where
  "LoadOrCreateDevLocalSigner env path keyID =
     guardE (path = []) (Errorf ''dev-local signing key path is required'' [])
    (bindE (stat_file env path) (\<lambda>present.
     if present then loadDevLocalSigner env path True
     else
       bindE (NewDevLocalSigner env (valueOrDefault keyID ''dev-local'')) (\<lambda>s.
       bindE (saveDevLocalKey env path s) (\<lambda>_.
       ret s))))"

section \<open>The remote signer\<close>

record RemoteSigner =
  rs_URL :: string
  rs_HTTPClient :: bool
  rs_AllowDevInsecureHTTP :: bool
  rs_CAPath :: string
  rs_ClientCertPath :: string
  rs_ClientKeyPath :: string
  rs_ServerName :: string
  rs_ServerCertificatePin :: string

text \<open>The TLS configuration of the client; \<open>tls_Pin\<close> is empty when no pin is checked.\<close>

record tls_config =
  tls_ServerName :: string
  tls_RootCAs :: "bytes option"
  tls_Certificate :: "(string \<times> string) option"
  tls_Pin :: string

datatype http_client = GivenClient | OwnClient "tls_config option"

record sign_answer =
  sa_StatusCode :: int
  sa_Status :: string
  sa_Body :: bytes

text \<open>
  \<open>se_parseURL\<close> gives the scheme of a URL, \<open>se_readFile\<close> the contents of a file, \<open>se_certPool\<close> whether a file holds a
  certificate, \<open>se_keyPair\<close> whether a certificate and its key load, and \<open>se_post\<close> the answer of the signer's URL.
\<close>

record signer_env = api_env +
  se_parseURL :: "string \<Rightarrow> string result"
  se_readFile :: "string \<Rightarrow> nat \<Rightarrow> bytes result"
  se_certPool :: "bytes \<Rightarrow> bool"
  se_keyPair :: "string \<Rightarrow> string \<Rightarrow> nat \<Rightarrow> unit result"
  se_post :: "http_client \<Rightarrow> string \<Rightarrow> bytes \<Rightarrow> nat \<Rightarrow> sign_answer result"
  se_encSignRequest :: "bytes \<Rightarrow> SigningMetadata \<Rightarrow> bytes result"
  se_decSignRequest :: "bytes \<Rightarrow> (bytes \<times> SigningMetadata) result"
  se_decSignResponse :: "bytes \<Rightarrow> SignedEnvelope result"

definition signer_endpoint :: "'e signer_env_scheme \<Rightarrow> RemoteSigner \<Rightarrow> string result" where
  "signer_endpoint env s =
     (let rawURL = TrimSpace (rs_URL s) in
      fail_if (rawURL = []) (Errorf ''remote signer url is required'' [])
     (check_then (se_parseURL env rawURL) (\<lambda>scheme.
      if scheme = ''https'' then Inr (TrimRight rawURL (CHR ''/'') @ ''/v1/sign'')
      else if scheme = ''http'' then
        fail_if (\<not> rs_AllowDevInsecureHTTP s)
          (Errorf ''remote signer url %q uses plaintext http; pass explicit dev-insecure signer transport only for local smoke tests'' [rawURL])
          (Inr (TrimRight rawURL (CHR ''/'') @ ''/v1/sign''))
      else Inl (Errorf ''remote signer url %q must use https'' [rawURL]))))"

definition normalizeSHA256Pin :: "string \<Rightarrow> string" where
  "normalizeSHA256Pin pin0 =
     (let pin = ToLower (TrimSpace pin0) in
      if pin = [] then [] else if HasPrefix pin ''sha256:'' then pin else ''sha256:'' @ pin)"

text \<open>The check of the peer's certificates that a pin adds.\<close>

definition pin_check :: "(bytes \<Rightarrow> string) \<Rightarrow> string \<Rightarrow> bytes list \<Rightarrow> unit result" where
  "pin_check sha256 pin rawCerts =
     (case rawCerts of
        [] \<Rightarrow> Inl (Errorf ''remote signer certificate pin requires peer certificate'' [])
      | c # _ \<Rightarrow> fail_if (''sha256:'' @ sha256 c \<noteq> pin) (Errorf ''remote signer certificate pin mismatch'' []) (Inr ()))"

definition ca_pool :: "'e signer_env_scheme \<Rightarrow> string \<Rightarrow> ('d, 'c, bytes option) action" where
  "ca_pool env caPath =
     (if caPath = [] then ret None
      else bindE (ask (se_readFile env caPath)) (\<lambda>caPEM.
        guardE (\<not> se_certPool env caPEM) (Errorf ''remote signer ca %q does not contain a PEM certificate'' [caPath])
       (ret (Some caPEM))))"

definition client_certificate :: "'e signer_env_scheme \<Rightarrow> string \<Rightarrow> string \<Rightarrow> ('d, 'c, (string \<times> string) option) action" where
  "client_certificate env cert key =
     (if cert = [] \<and> key = [] then ret None
      else guardE (cert = [] \<or> key = []) (Errorf ''remote signer client cert and key must be provided together'' [])
       (bindE (ask (se_keyPair env cert key)) (\<lambda>_. ret (Some (cert, key)))))"

definition signer_tlsConfig :: "'e signer_env_scheme \<Rightarrow> RemoteSigner \<Rightarrow> ('d, 'c, tls_config) action" where
  "signer_tlsConfig env s =
     bindE (ca_pool env (TrimSpace (rs_CAPath s))) (\<lambda>pool.
     bindE (client_certificate env (TrimSpace (rs_ClientCertPath s)) (TrimSpace (rs_ClientKeyPath s))) (\<lambda>certificate.
     ret \<lparr>tls_ServerName = TrimSpace (rs_ServerName s), tls_RootCAs = pool, tls_Certificate = certificate,
          tls_Pin = normalizeSHA256Pin (rs_ServerCertificatePin s)\<rparr>))"

definition signer_client :: "'e signer_env_scheme \<Rightarrow> RemoteSigner \<Rightarrow> ('d, 'c, http_client) action" where
  "signer_client env s =
     (if rs_HTTPClient s then ret GivenClient
      else if HasPrefix (TrimSpace (rs_URL s)) ''https://'' then
        bindE (signer_tlsConfig env s) (\<lambda>config. ret (OwnClient (Some config)))
      else ret (OwnClient None))"

definition remote_Sign ::
  "'e signer_env_scheme \<Rightarrow> RemoteSigner \<Rightarrow> bytes \<Rightarrow> SigningMetadata \<Rightarrow> ('d, 'c, SignedEnvelope) action" where
  "remote_Sign env s payload meta =
     bindE (lift (signer_endpoint env s)) (\<lambda>endpoint.
     bindE (lift (se_encSignRequest env payload meta)) (\<lambda>data.
     bindE (signer_client env s) (\<lambda>client.
     bindE (ask (se_post env client endpoint data)) (\<lambda>resp.
     guardE (sa_StatusCode resp \<noteq> 201) (Errorf ''remote signer returned %s'' [sa_Status resp])
    (bindE (lift (se_decSignResponse env (sa_Body resp))) (\<lambda>envelope.
     guardE (env_Kind envelope \<noteq> ''SignedEnvelope'') (Errorf ''remote signer returned invalid envelope'' [])
    (ret envelope)))))))"

text \<open>\<^verbatim>\<open>RemoteSigner\<close> has the method \<^verbatim>\<open>Sign\<close> and no method \<^verbatim>\<open>Verify\<close>.\<close>

definition remote_signer :: "'e signer_env_scheme \<Rightarrow> RemoteSigner \<Rightarrow> ('d, 'c) Signer" where
  "remote_signer env s = \<lparr>sgn_Sign = remote_Sign env s, sgn_Verify = None\<rparr>"

text \<open>The handler of \<^verbatim>\<open>POST /v1/sign\<close>: a status, and an error or the envelope.\<close>

definition sign_handler ::
  "'e signer_env_scheme \<Rightarrow> ('d, 'c) Signer option \<Rightarrow> bytes \<Rightarrow> ('d, 'c, int \<times> (string + SignedEnvelope)) action" where
  "sign_handler env signer data =
     (case signer of
        None \<Rightarrow> ret (500, Inl ''signer_not_configured'')
      | Some s \<Rightarrow>
          (case se_decSignRequest env data of
             Inl e \<Rightarrow> ret (400, Inl ''invalid_json'')
           | Inr req \<Rightarrow>
               tryE (sgn_Sign s (fst req) (snd req)) (\<lambda>r. case r of
                 Inl e \<Rightarrow> ret (400, Inl (Error e))
               | Inr envelope \<Rightarrow> ret (201, Inr envelope))))"

section \<open>Starting the signer\<close>

text \<open>
  The TLS configuration of a listener: \<open>None\<close> for plaintext, else the client CA whose certificates are required, if any.
\<close>

definition listener_tls ::
  "'e signer_env_scheme \<Rightarrow> string \<Rightarrow> string \<Rightarrow> string \<Rightarrow> string \<Rightarrow> bool \<Rightarrow> ('d, 'c, bytes option option) action" where
  "listener_tls env program certPath keyPath clientCAPath allowDevPlaintext =
     (let cert = TrimSpace certPath; key = TrimSpace keyPath; ca = TrimSpace clientCAPath in
      if cert = [] \<and> key = [] then
        guardE (ca \<noteq> []) (Errorf ''--client-ca requires --tls-cert and --tls-key'' [])
       (if allowDevPlaintext then ret None
        else raise (Errorf ''%s requires --tls-cert and --tls-key unless --dev-insecure-http is set'' [program]))
      else
        guardE (cert = [] \<or> key = []) (Errorf ''--tls-cert and --tls-key must be provided together'' [])
       (if ca = [] then ret (Some None)
        else bindE (ask (se_readFile env ca)) (\<lambda>caPEM.
          guardE (\<not> se_certPool env caPEM) (Errorf ''client ca %q does not contain a PEM certificate'' [ca])
         (ret (Some (Some caPEM))))))"

definition signerTLSConfig ::
  "'e signer_env_scheme \<Rightarrow> string \<Rightarrow> string \<Rightarrow> string \<Rightarrow> bool \<Rightarrow> ('d, 'c, bytes option option) action" where
  "signerTLSConfig env certPath keyPath clientCAPath allowDevPlaintext =
     listener_tls env ''forge-signer'' certPath keyPath clientCAPath allowDevPlaintext"

definition str_Contains :: "string \<Rightarrow> string \<Rightarrow> bool" where
  "str_Contains s p \<longleftrightarrow> list_ex (\<lambda>k. take (length p) (drop k s) = p) [0..<Suc (length s)]"

definition validateSignerProductionConfig :: "string \<Rightarrow> string \<Rightarrow> string \<Rightarrow> bool \<Rightarrow> string \<Rightarrow> unit result" where
  "validateSignerProductionConfig certPath keyPath clientCAPath allowDevPlaintext keyID =
     fail_if (blank certPath \<or> blank keyPath) (Errorf ''production forge-signer requires --tls-cert and --tls-key'' [])
    (fail_if (blank clientCAPath) (Errorf ''production forge-signer requires --client-ca for mTLS'' [])
    (fail_if allowDevPlaintext (Errorf ''production forge-signer forbids --dev-insecure-http'' [])
    (let normalizedKeyID = ToLower (TrimSpace keyID) in
     fail_if (normalizedKeyID = [] \<or> str_Contains normalizedKeyID ''dev'' \<or> str_Contains normalizedKeyID ''local'')
       (Errorf ''production forge-signer requires a non-dev signing key id'' [])
    (Inr ()))))"

record signer_flags =
  sf_TLSCert :: string
  sf_TLSKey :: string
  sf_ClientCA :: string
  sf_DevInsecureHTTP :: bool
  sf_Production :: bool
  sf_SigningKey :: string
  sf_SigningKeyID :: string

text \<open>\<^verbatim>\<open>main\<close> up to the listener: the signer it serves and the TLS configuration, or the error it exits with.\<close>

definition signer_main ::
  "'e signer_env_scheme \<Rightarrow> 'k key_env_scheme \<Rightarrow> signer_flags \<Rightarrow> (files, 'c, DevLocalSigner \<times> bytes option option) action" where
  "signer_main env kenv f =
     bindE (lift (if sf_Production f then validateSignerProductionConfig (sf_TLSCert f) (sf_TLSKey f) (sf_ClientCA f) (sf_DevInsecureHTTP f) (sf_SigningKeyID f)
                  else Inr ())) (\<lambda>_.
     bindE (LoadOrCreateDevLocalSigner kenv (sf_SigningKey f) (sf_SigningKeyID f)) (\<lambda>s.
     bindE (signerTLSConfig env (sf_TLSCert f) (sf_TLSKey f) (sf_ClientCA f) (sf_DevInsecureHTTP f)) (\<lambda>tls.
     ret (s, tls))))"

end
