(* ===== verification/Parts.thy ===== *)
theory Parts
  imports Effects
begin

text \<open>
  Processes whose state is a record of the states of their components: an action of a component is an action of the
  process on that part.
\<close>

text \<open>An action on a part of the state.\<close>

definition zoom :: "('d \<Rightarrow> 'p) \<Rightarrow> ('p \<Rightarrow> 'd \<Rightarrow> 'd) \<Rightarrow> ('p, 'c, 'a) action \<Rightarrow> ('d, 'c, 'a) action" where
  "zoom get put m w =
     (case m \<lparr>db = get (db w), calls = calls w, tick = tick w\<rparr> of
        (r, v) \<Rightarrow> (r, \<lparr>db = put (db v) (db w), calls = calls v, tick = tick v\<rparr>))"

lemma zoom_eq:
  "zoom get put m w = (r, w') \<longleftrightarrow>
     (\<exists>v. m \<lparr>db = get (db w), calls = calls w, tick = tick w\<rparr> = (r, v) \<and> w' = \<lparr>db = put (db v) (db w), calls = calls v, tick = tick v\<rparr>)"
  by (auto simp: zoom_def split: prod.splits)

lemma keeps_zoom:
  assumes "keeps_inv (\<lambda>w. J (db w)) m" and "\<And>p d. get (put p d) = p"
  shows "keeps_inv (\<lambda>w. J (get (db w))) (zoom get put m)"
  using assms(1) by (auto simp: keeps_inv_def zoom_def assms(2) split: prod.split) (metis snd_conv world.select_convs(1))

lemma keeps_zoom_other:
  assumes "\<And>p d. J (put p d) = J d"
  shows "keeps_inv (\<lambda>w. J (db w)) (zoom get put m)"
  by (auto simp: keeps_inv_def zoom_def assms split: prod.split)

end
