(* ===== verification/Forge_Server.thy ===== *)
theory Forge_Server
  imports Forge_Handlers Forge_Stores_PG Remote_Signer Parts
begin

text \<open>
  The assembly of the Forge API process (\<^verbatim>\<open>cmd/forge/main.go\<close>, \<^verbatim>\<open>internal/forge/bootstrap/bootstrap.go\<close>): the
  gate of a production start, the choice of the stores, the signer and the verifiers, and the server that the handlers run
  on. The state of the process is the management store (either of the two), the files of the artifact store and of the
  key, the cache of RSA keys and the job queue (in memory or in Redis); each component acts on its own part.
\<close>

section \<open>The state of the process\<close>

record forge_state =
  fst_Memory :: MemoryStore
  fst_Postgres :: postgres
  fst_Files :: files
  fst_JWKS :: jwks_cache
  fst_Jobs :: job_memory
  fst_Redis :: redis_db

abbreviation in_memory :: "(MemoryStore, 'c, 'a) action \<Rightarrow> (forge_state, 'c, 'a) action" where
  "in_memory \<equiv> zoom fst_Memory (\<lambda>p d. d\<lparr>fst_Memory := p\<rparr>)"

abbreviation in_postgres :: "(postgres, 'c, 'a) action \<Rightarrow> (forge_state, 'c, 'a) action" where
  "in_postgres \<equiv> zoom fst_Postgres (\<lambda>p d. d\<lparr>fst_Postgres := p\<rparr>)"

abbreviation in_files :: "(files, 'c, 'a) action \<Rightarrow> (forge_state, 'c, 'a) action" where
  "in_files \<equiv> zoom fst_Files (\<lambda>p d. d\<lparr>fst_Files := p\<rparr>)"

abbreviation in_jwks :: "(jwks_cache, 'c, 'a) action \<Rightarrow> (forge_state, 'c, 'a) action" where
  "in_jwks \<equiv> zoom fst_JWKS (\<lambda>p d. d\<lparr>fst_JWKS := p\<rparr>)"

definition zoom_Jobs :: "('d \<Rightarrow> 'p) \<Rightarrow> ('p \<Rightarrow> 'd \<Rightarrow> 'd) \<Rightarrow> ('p, 'c) JobStore \<Rightarrow> ('d, 'c) JobStore" where
  "zoom_Jobs get put s =
     \<lparr>js_Create = (\<lambda>job. zoom get put (js_Create s job)), js_Enqueue = (\<lambda>i. zoom get put (js_Enqueue s i)),
      js_Dequeue = zoom get put (js_Dequeue s), js_Get = (\<lambda>i. zoom get put (js_Get s i)),
      js_Update = (\<lambda>job. zoom get put (js_Update s job))\<rparr>"

abbreviation jobs_in_memory :: "(job_memory, 'c) JobStore \<Rightarrow> (forge_state, 'c) JobStore" where
  "jobs_in_memory \<equiv> zoom_Jobs fst_Jobs (\<lambda>p d. d\<lparr>fst_Jobs := p\<rparr>)"

abbreviation jobs_in_redis :: "(redis_db, 'c) JobStore \<Rightarrow> (forge_state, 'c) JobStore" where
  "jobs_in_redis \<equiv> zoom_Jobs fst_Redis (\<lambda>p d. d\<lparr>fst_Redis := p\<rparr>)"

type_synonym 'a forge = "(forge_state, unit, 'a) action"

section \<open>The two management stores, as the interface\<close>

definition memory_Store :: "'e forge_env_scheme \<Rightarrow> (forge_state, unit) Store" where
  "memory_Store env =
     \<lparr>ms_SaveAuditEvent = (\<lambda>ctx e. in_memory (mem_SaveAuditEvent env ctx e)),
      ms_CreateEnrollmentToken = (\<lambda>ctx t secret. in_memory (mem_CreateEnrollmentToken env ctx t secret)),
      ms_EnrollmentToken = (\<lambda>i. in_memory (mem_EnrollmentToken i)),
      ms_UseEnrollmentToken = (\<lambda>ctx secret e s c t. in_memory (mem_UseEnrollmentToken env ctx secret e s c t)),
      ms_RevokeEnrollmentToken = (\<lambda>ctx i reason t. in_memory (mem_RevokeEnrollmentToken env ctx i reason t)),
      ms_Register = (\<lambda>ctx r. in_memory (mem_Register env ctx r)),
      ms_Registration = (\<lambda>k. in_memory (mem_Registration k)),
      ms_Identity = (\<lambda>k. in_memory (mem_Identity k)),
      ms_RevokeKLIQ = (\<lambda>ctx k reason t. in_memory (mem_RevokeKLIQ env ctx k reason t)),
      ms_SaveTrustBundle = (\<lambda>b. in_memory (mem_SaveTrustBundle b)),
      ms_TrustBundle = (\<lambda>k. in_memory (mem_TrustBundle k)),
      ms_RotateTrustBundle = (\<lambda>ctx k b reason t. in_memory (mem_RotateTrustBundle env ctx k b reason t)),
      ms_RevokeTrustBundle = (\<lambda>ctx k reason t. in_memory (mem_RevokeTrustBundle env ctx k reason t)),
      ms_NextAssignmentVersion = (\<lambda>k. in_memory (mem_NextAssignmentVersion k)),
      ms_SaveAssignment = (\<lambda>ctx k v e. in_memory (mem_SaveAssignment env ctx k v e)),
      ms_LatestAssignment = (\<lambda>ctx k. in_memory (mem_LatestAssignment env ctx k)),
      ms_RevokeAssignment = (\<lambda>ctx k v reason t. in_memory (mem_RevokeAssignment env ctx k v reason t)),
      ms_SaveHeartbeat = (\<lambda>h. in_memory (mem_SaveHeartbeat h)),
      ms_SaveStatusReport = (\<lambda>r. in_memory (mem_SaveStatusReport r)),
      ms_StatusReport = (\<lambda>k. in_memory (mem_StatusReport k))\<rparr>"

definition postgres_Store :: "'e forge_env_scheme \<Rightarrow> (forge_state, unit) Store" where
  "postgres_Store env =
     \<lparr>ms_SaveAuditEvent = (\<lambda>ctx e. in_postgres (pg_SaveAuditEvent env ctx e)),
      ms_CreateEnrollmentToken = (\<lambda>ctx t secret. in_postgres (pg_CreateEnrollmentToken env ctx t secret)),
      ms_EnrollmentToken = (\<lambda>i. in_postgres (pg_EnrollmentToken env i)),
      ms_UseEnrollmentToken = (\<lambda>ctx secret e s c t. in_postgres (pg_UseEnrollmentToken env ctx secret e s c t)),
      ms_RevokeEnrollmentToken = (\<lambda>ctx i reason t. in_postgres (pg_RevokeEnrollmentToken env ctx i reason t)),
      ms_Register = (\<lambda>ctx r. in_postgres (pg_Register env ctx r)),
      ms_Registration = (\<lambda>k. in_postgres (pg_Registration env k)),
      ms_Identity = (\<lambda>k. in_postgres (pg_Identity env k)),
      ms_RevokeKLIQ = (\<lambda>ctx k reason t. in_postgres (pg_RevokeKLIQ env ctx k reason t)),
      ms_SaveTrustBundle = (\<lambda>b. in_postgres (pg_SaveTrustBundle env b)),
      ms_TrustBundle = (\<lambda>k. in_postgres (pg_TrustBundle env k)),
      ms_RotateTrustBundle = (\<lambda>ctx k b reason t. in_postgres (pg_RotateTrustBundle env ctx k b reason t)),
      ms_RevokeTrustBundle = (\<lambda>ctx k reason t. in_postgres (pg_RevokeTrustBundle env ctx k reason t)),
      ms_NextAssignmentVersion = (\<lambda>k. in_postgres (pg_NextAssignmentVersion env k)),
      ms_SaveAssignment = (\<lambda>ctx k v e. in_postgres (pg_SaveAssignment env ctx k v e)),
      ms_LatestAssignment = (\<lambda>ctx k. in_postgres (pg_LatestAssignment env ctx k)),
      ms_RevokeAssignment = (\<lambda>ctx k v reason t. in_postgres (pg_RevokeAssignment env ctx k v reason t)),
      ms_SaveHeartbeat = (\<lambda>h. in_postgres (pg_SaveHeartbeat env h)),
      ms_SaveStatusReport = (\<lambda>r. in_postgres (pg_SaveStatusReport env r)),
      ms_StatusReport = (\<lambda>k. in_postgres (pg_StatusReport env k))\<rparr>"

definition fs_Artifacts :: "'k fs_env_scheme \<Rightarrow> FSStore \<Rightarrow> (forge_state, unit) Artifacts" where
  "fs_Artifacts kenv s = \<lparr>afs_Put = (\<lambda>a. in_files (fs_Put kenv s a)), afs_Get = (\<lambda>ref. in_files (fs_Get kenv ref))\<rparr>"

section \<open>The bootstrap configuration\<close>

record TrustAnchor =
  ta_KeyID :: string
  ta_Purpose :: string

record bootstrap_Root =
  bt_EnterpriseRegistryRepo :: string
  bt_EnterpriseRegistryRef :: string
  bt_CredentialRef :: string
  bt_TrustAnchors :: "TrustAnchor list"

definition bootstrap_Validate :: "bootstrap_Root \<Rightarrow> unit result" where
  "bootstrap_Validate r =
     fail_if (blank (bt_EnterpriseRegistryRepo r)) (Errorf ''bootstrap_registry_missing: enterprise_registry_repo is required'' [])
    (fail_if (blank (bt_EnterpriseRegistryRef r)) (Errorf ''bootstrap_registry_missing: enterprise_registry_ref is required'' [])
    (fail_if (blank (bt_CredentialRef r)) (Errorf ''bootstrap_credential_unavailable: credential_ref is required'' [])
    (fail_if (bt_TrustAnchors r = []) (Errorf ''bootstrap_registry_untrusted: at least one trust anchor is required'' [])
    (for_each (\<lambda>a.
       fail_if (blank (ta_KeyID a)) (Errorf ''bootstrap_registry_untrusted: trust anchor key_id is required'' [])
      (fail_if (blank (ta_Purpose a)) (Errorf ''bootstrap_registry_untrusted: trust anchor purpose is required'' []) (Inr ())))
      (bt_TrustAnchors r)))))"

text \<open>
  The environment of the process: what it reads from files and from \<^verbatim>\<open>KERNLOOM_KLIQ_SERVICE_TOKEN_SECRET\<close>, the
  decoders of the files, and the server of the RSA keys.
\<close>

record main_env = signer_env +
  me_decBootstrap :: "bytes \<Rightarrow> bootstrap_Root result"
  me_secret :: string
  me_parseRSA :: "bytes \<Rightarrow> rsa_key option result"
  me_parseRSA1 :: "bytes \<Rightarrow> rsa_key result"
  me_decBindings :: "bytes \<Rightarrow> ContextBinding list result"
  me_jwksServer :: jwks_server
  me_openPostgres :: "nat \<Rightarrow> unit result"
  me_base64 :: "bytes \<Rightarrow> string"
  me_jobCodec :: job_codec
  me_redis :: redis_net

definition bootstrap_Load :: "'e main_env_scheme \<Rightarrow> string \<Rightarrow> ('d, 'c, bootstrap_Root) action" where
  "bootstrap_Load env path0 =
     (let path = TrimSpace path0 in
      guardE (path = []) (Errorf ''bootstrap config path is required'' [])
     (bindE (ask (se_readFile env path)) (\<lambda>data.
      bindE (lift (me_decBootstrap env data)) (\<lambda>cfg.
      case bootstrap_Validate cfg of Inl e \<Rightarrow> raise (Wrapf ''%s: %w'' [path] e) | Inr _ \<Rightarrow> ret cfg))))"

section \<open>The production gate\<close>

record forgeAPIProductionConfig =
  pc_TLSCert :: string
  pc_TLSKey :: string
  pc_DevInsecureHTTP :: bool
  pc_QueueKind :: string
  pc_EnableDevTokens :: bool
  pc_ManagementStoreKind :: string
  pc_ManagementPostgresDSN :: string
  pc_DevManagement :: bool
  pc_DevSeedManagementTrust :: bool
  pc_ManagementSignerURL :: string
  pc_DevInsecureManagementSigner :: bool
  pc_ArtifactStoreEnvironment :: string
  pc_DevAllowCLIKLIQServiceSecret :: bool
  pc_KLIQServiceTokenSecretFromArg :: string
  pc_OIDCIssuer :: string
  pc_OIDCAudience :: string
  pc_OIDCHMACSecret :: string
  pc_OIDCRSAPublicKey :: string
  pc_OIDCJWKSURL :: string
  pc_OIDCJWKSRefreshInterval :: duration
  pc_OIDCJWKSMinRefreshInterval :: duration
  pc_ContextBindings :: string
  pc_BootstrapConfig :: string

definition production_jwks :: "'e signer_env_scheme \<Rightarrow> 'p forgeAPIProductionConfig_scheme \<Rightarrow> unit result" where
  "production_jwks env c =
     (if blank (pc_OIDCJWKSURL c) then Inr ()
      else check_then (se_parseURL env (TrimSpace (pc_OIDCJWKSURL c))) (\<lambda>scheme.
        fail_if (scheme \<noteq> ''https'') (Errorf ''production Forge API requires an https --oidc-jwks-url'' [])
       (fail_if (pc_OIDCJWKSRefreshInterval c \<le> 0) (Errorf ''production Forge API requires positive --oidc-jwks-refresh-interval'' [])
       (fail_if (pc_OIDCJWKSMinRefreshInterval c \<le> 0) (Errorf ''production Forge API requires positive --oidc-jwks-min-refresh-interval'' [])
       (Inr ())))))"

definition production_signer :: "'e signer_env_scheme \<Rightarrow> 'p forgeAPIProductionConfig_scheme \<Rightarrow> unit result" where
  "production_signer env c =
     fail_if (blank (pc_ManagementSignerURL c)) (Errorf ''production Forge API requires --management-signer-url for signer isolation'' [])
    (check_then (se_parseURL env (TrimSpace (pc_ManagementSignerURL c))) (\<lambda>scheme.
     fail_if (scheme \<noteq> ''https'') (Errorf ''production Forge API requires an https remote management signer'' [])
    (fail_if (pc_DevInsecureManagementSigner c) (Errorf ''production Forge API forbids --dev-insecure-management-signer-transport'' [])
    (Inr ()))))"

definition validateForgeAPIProductionConfig :: "'e signer_env_scheme \<Rightarrow> 'p forgeAPIProductionConfig_scheme \<Rightarrow> unit result" where
  "validateForgeAPIProductionConfig env c =
     fail_if (blank (pc_TLSCert c) \<or> blank (pc_TLSKey c)) (Errorf ''production Forge API requires --tls-cert and --tls-key'' [])
    (fail_if (pc_DevInsecureHTTP c) (Errorf ''production Forge API forbids --dev-insecure-http'' [])
    (fail_if (pc_EnableDevTokens c) (Errorf ''production Forge API forbids --dev-tokens'' [])
    (fail_if (blank (pc_OIDCIssuer c) \<or> blank (pc_OIDCAudience c)) (Errorf ''production Forge API requires --oidc-issuer and --oidc-audience'' [])
    (fail_if (\<not> blank (pc_OIDCHMACSecret c))
       (Errorf ''production Forge API forbids --oidc-hmac-secret; use RS256 via --oidc-jwks-url or --oidc-rsa-public-key'' [])
    (fail_if (blank (pc_OIDCRSAPublicKey c) \<and> blank (pc_OIDCJWKSURL c))
       (Errorf ''production Forge API requires --oidc-jwks-url or --oidc-rsa-public-key'' [])
    (check_then (production_jwks env c) (\<lambda>_.
     fail_if (blank (pc_ContextBindings c)) (Errorf ''production Forge API requires --context-bindings'' [])
    (fail_if (blank (pc_BootstrapConfig c)) (Errorf ''production Forge API requires --bootstrap-config'' [])
    (fail_if (pc_QueueKind c \<noteq> ''redis'') (Errorf ''production Forge API requires --queue redis'' [])
    (fail_if (pc_ManagementStoreKind c \<noteq> ''postgres'' \<or> blank (pc_ManagementPostgresDSN c))
       (Errorf ''production Forge API requires --management-store postgres and --management-postgres-dsn'' [])
    (fail_if (pc_DevManagement c) (Errorf ''production Forge API forbids --dev-management'' [])
    (fail_if (pc_DevSeedManagementTrust c) (Errorf ''production Forge API forbids --dev-seed-management-trust'' [])
    (check_then (production_signer env c) (\<lambda>_.
     fail_if (blank (pc_ArtifactStoreEnvironment c) \<or> TrimSpace (pc_ArtifactStoreEnvironment c) = ''dev'')
       (Errorf ''production Forge API requires a non-dev --artifact-store-env'' [])
    (fail_if (pc_DevAllowCLIKLIQServiceSecret c \<or> \<not> blank (pc_KLIQServiceTokenSecretFromArg c))
       (Errorf ''production Forge API forbids argv service-token secrets; use file or environment secret input'' [])
    (Inr ()))))))))))))))))"

section \<open>The verifiers\<close>

definition dev_verifier :: "('d, 'c) Verifier" where
  "dev_verifier = \<lparr>vf_Verify = (\<lambda>token. lift (VerifyDevToken token)), vf_VerifyRequest = None\<rparr>"

definition jwt_verifier :: "'e verifier_env_scheme \<Rightarrow> ('d, 'c) JWTVerifier \<Rightarrow> ('d, 'c) Verifier" where
  "jwt_verifier env v = \<lparr>vf_Verify = VerifyJWT env v, vf_VerifyRequest = None\<rparr>"

definition binding_verifier :: "'e verifier_env_scheme \<Rightarrow> ('d, 'c) Verifier \<Rightarrow> ContextBinding list \<Rightarrow> ('d, 'c) Verifier" where
  "binding_verifier env inner bindings =
     \<lparr>vf_Verify = VerifyWithBindings env (Some inner) bindings True, vf_VerifyRequest = None\<rparr>"

definition identity_verifier :: "'e authn_env_scheme \<Rightarrow> ('d, 'c) Store \<Rightarrow> ('d, 'c) Verifier" where
  "identity_verifier env m = \<lparr>vf_Verify = VerifyIdentityToken env (Some (ms_Identity m)), vf_VerifyRequest = None\<rparr>"

definition mtls_verifier :: "'e authn_env_scheme \<Rightarrow> ('d, 'c) Store \<Rightarrow> ('d, 'c) Verifier" where
  "mtls_verifier env m =
     \<lparr>vf_Verify = (\<lambda>_. raise ErrUnauthenticated), vf_VerifyRequest = Some (VerifyMTLSRequest env (Some (ms_Identity m)))\<rparr>"

definition service_verifier :: "'e authn_env_scheme \<Rightarrow> bytes \<Rightarrow> ('d, 'c) Verifier" where
  "service_verifier env secret = \<lparr>vf_Verify = VerifyServiceToken env secret, vf_VerifyRequest = None\<rparr>"

definition loadRSAPublicKey :: "'e main_env_scheme \<Rightarrow> string \<Rightarrow> ('d, 'c, rsa_key option) action" where
  "loadRSAPublicKey env path =
     (if path = [] then ret None
      else bindE (ask (se_readFile env path)) (\<lambda>data.
        case pem_Decode (ae_wire env) data of
          None \<Rightarrow> raise (Errorf ''%s: no PEM block found'' [path])
        | Some der \<Rightarrow>
            (case me_parseRSA env der of
               Inr (Some key) \<Rightarrow> ret (Some key)
             | Inr None \<Rightarrow> raise (Errorf ''%s: PEM block is not an RSA public key'' [path])
             | Inl _ \<Rightarrow>
                 (case me_parseRSA1 env der of
                    Inl e \<Rightarrow> raise (Wrapf ''%s: invalid RSA public key: %w'' [path] e)
                  | Inr key \<Rightarrow> ret (Some key)))))"

text \<open>The flags of \<^verbatim>\<open>forge api\<close> that its start reads.\<close>

record api_flags = forgeAPIProductionConfig +
  fl_Production :: bool
  fl_ClientCA :: string
  fl_ManagementSigningKey :: string
  fl_ManagementSignerKeyID :: string
  fl_ManagementSignerCA :: string
  fl_ManagementSignerClientCert :: string
  fl_ManagementSignerClientKey :: string
  fl_ManagementSignerServerName :: string
  fl_ManagementSignerCertPin :: string
  fl_KLIQServiceTokenSecretFile :: string
  fl_ArtifactStoreRoot :: string
  fl_ArtifactStoreOrg :: string

text \<open>The source of RSA keys: fetched once at the start, then by the cache.\<close>

definition jwks_provider :: "'e main_env_scheme \<Rightarrow> api_flags \<Rightarrow> (string \<Rightarrow> rsa_key forge) option" where
  "jwks_provider env f =
     (if blank (pc_OIDCJWKSURL f) then None else Some (\<lambda>kid. in_jwks (jwks_Key env (me_jwksServer env) kid)))"

definition uses_oidc :: "api_flags \<Rightarrow> bool" where
  "uses_oidc f \<longleftrightarrow> pc_OIDCHMACSecret f \<noteq> [] \<or> pc_OIDCRSAPublicKey f \<noteq> [] \<or> pc_OIDCJWKSURL f \<noteq> []"

definition flagged_jwt :: "'e main_env_scheme \<Rightarrow> api_flags \<Rightarrow> rsa_key option \<Rightarrow> bool \<Rightarrow> (forge_state, unit) JWTVerifier" where
  "flagged_jwt env f publicKey bound =
     \<lparr>jv_Issuer = pc_OIDCIssuer f, jv_Audience = pc_OIDCAudience f, jv_HMACSecret = pc_OIDCHMACSecret f,
      jv_RSAPublicKey = publicKey, jv_RSAPublicKeys = [], jv_RSAPublicKeySource = jwks_provider env f, jv_AllowMissingRoles = bound\<rparr>"

definition configured_chain ::
  "'e main_env_scheme \<Rightarrow> api_flags \<Rightarrow> rsa_key option \<Rightarrow> ContextBinding list \<Rightarrow> (forge_state, unit) Verifier list" where
  "configured_chain env f publicKey bindings =
     (let v = jwt_verifier env (flagged_jwt env f publicKey (bindings \<noteq> [])) in
      (if pc_EnableDevTokens f then [dev_verifier] else []) @
      (if uses_oidc f then [if bindings = [] then v else binding_verifier env v bindings] else []))"

text \<open>\<^verbatim>\<open>authenticator\<close>: the public key and the bindings, with which the chain is configured.\<close>

definition authenticator :: "'e main_env_scheme \<Rightarrow> api_flags \<Rightarrow> (rsa_key option \<times> ContextBinding list) forge" where
  "authenticator env f =
     (if uses_oidc f then
        bindE (loadRSAPublicKey env (pc_OIDCRSAPublicKey f)) (\<lambda>publicKey.
        bindE (if blank (pc_OIDCJWKSURL f) then ret ()
               else in_jwks (NewRefreshingJWKS env (me_jwksServer env) (pc_OIDCJWKSURL f) (pc_OIDCJWKSRefreshInterval f) (pc_OIDCJWKSMinRefreshInterval f))) (\<lambda>_.
        bindE (ask (\<lambda>n. LoadContextBindings (\<lambda>p. check_then (se_readFile env p n) (me_decBindings env)) (pc_ContextBindings f))) (\<lambda>bindings.
        ret (publicKey, bindings))))
      else guardE (\<not> blank (pc_ContextBindings f)) (Errorf ''--context-bindings requires an OIDC/JWT verifier'' []) (ret (None, [])))"

definition loadKLIQServiceTokenSecret :: "'e main_env_scheme \<Rightarrow> string \<Rightarrow> string \<Rightarrow> bool \<Rightarrow> ('d, 'c, bytes) action" where
  "loadKLIQServiceTokenSecret env flagValue0 filePath0 allowCLI =
     (let flagValue = TrimSpace flagValue0; filePath = TrimSpace filePath0; envValue = TrimSpace (me_secret env) in
      guardE (flagValue \<noteq> [] \<and> \<not> allowCLI) (Errorf ''--kliq-service-token-secret exposes secrets via process argv; use --kliq-service-token-secret-file or KERNLOOM_KLIQ_SERVICE_TOKEN_SECRET, or pass --dev-allow-cli-kliq-service-token-secret for local smoke tests'' [])
     (if filePath \<noteq> [] then bindE (ask (se_readFile env filePath)) (\<lambda>data. ret (TrimSpace data))
      else if envValue \<noteq> [] then ret envValue
      else ret flagValue))"

section \<open>The management store and its trust bundle\<close>

definition managementStore :: "'e main_env_scheme \<Rightarrow> string \<Rightarrow> bool \<Rightarrow> (forge_state, unit) Store forge" where
  "managementStore env kind devManagement =
     (if kind = ''memory'' then
        guardE (\<not> devManagement) (Errorf ''memory management store requires --dev-management'' []) (ret (memory_Store env))
      else if kind = ''postgres'' then bindE (ask (me_openPostgres env)) (\<lambda>_. ret (postgres_Store env))
      else raise (Errorf ''unsupported management store %q'' [kind]))"

text \<open>What both checks of a stored bundle test: purpose, status and expiry; the clock is read only for a bundle that expires.\<close>

definition check_bundle :: "'e sysenv_scheme \<Rightarrow> string \<Rightarrow> string \<Rightarrow> TrustBundle \<Rightarrow> ('d, 'c, unit) action" where
  "check_bundle env which keyID b =
     guardE (tb_Purpose b \<noteq> ''assignment_verification'')
       (Errorf (which @ '' %q has purpose %q, expected assignment_verification'') [keyID, tb_Purpose b])
    (guardE (tb_Status b \<noteq> ''active'' \<and> tb_Status b \<noteq> ''previous'') (Errorf (which @ '' %q is %q'') [keyID, tb_Status b])
    (if IsZero (tb_ExpiresAt b) then ret ()
     else bindE (read_clock env) (\<lambda>now. guardE (\<not> Before now (tb_ExpiresAt b)) (Errorf (which @ '' %q is expired'') [keyID]) (ret ()))))"

definition validateProvisionedManagementTrustBundle ::
  "'e sysenv_scheme \<Rightarrow> ('d, 'c) Store \<Rightarrow> string \<Rightarrow> ('d, 'c, unit) action" where
  "validateProvisionedManagementTrustBundle env m keyID0 =
     (let keyID = TrimSpace keyID0 in
      guardE (keyID = []) (Errorf ''remote management signer requires --management-signer-key-id'' [])
     (tryE (ms_TrustBundle m keyID) (\<lambda>r. case r of
        Inl _ \<Rightarrow> raise (Errorf ''management trust bundle %q is not provisioned for remote signer'' [keyID])
      | Inr existing \<Rightarrow> check_bundle env ''management trust bundle'' keyID existing)))"

definition seeded_bundle :: "string \<Rightarrow> DevLocalSigner \<Rightarrow> gotime \<Rightarrow> TrustBundle" where
  "seeded_bundle publicKey s expiresAt =
     \<lparr>tb_KeyID = ds_KeyID s, tb_PublicKey = publicKey, tb_Purpose = ''assignment_verification'', tb_Status = ''active'',
      tb_ExpiresAt = expiresAt, tb_Issuer = ''forge-management-dev-local''\<rparr>"

definition validateOrSeedManagementTrustBundle ::
  "'e main_env_scheme \<Rightarrow> ('d, 'c) Store \<Rightarrow> DevLocalSigner \<Rightarrow> bool \<Rightarrow> ('d, 'c, unit) action" where
  "validateOrSeedManagementTrustBundle env m s allowDevSeed =
     (let publicKey = me_base64 env (ds_PublicKey s) in
      tryE (ms_TrustBundle m (ds_KeyID s)) (\<lambda>r. case r of
        Inr existing \<Rightarrow>
          guardE (tb_PublicKey existing \<noteq> publicKey)
            (Errorf ''existing management trust bundle %q public key does not match signing key'' [ds_KeyID s])
         (check_bundle env ''existing management trust bundle'' (ds_KeyID s) existing)
      | Inl e \<Rightarrow>
          guardE (\<not> errors_Is e ErrManagementNotFound) e
         (guardE (\<not> allowDevSeed)
            (Errorf ''management trust bundle %q is not provisioned; use explicit trust provisioning or --dev-seed-management-trust for local smoke tests'' [ds_KeyID s])
         (bindE (read_clock env) (\<lambda>now. ms_SaveTrustBundle m (seeded_bundle publicKey s (now + 86400000000000)))))))"

definition flagged_remote :: "api_flags \<Rightarrow> RemoteSigner" where
  "flagged_remote f =
     \<lparr>rs_URL = TrimSpace (pc_ManagementSignerURL f), rs_HTTPClient = False, rs_AllowDevInsecureHTTP = pc_DevInsecureManagementSigner f,
      rs_CAPath = TrimSpace (fl_ManagementSignerCA f), rs_ClientCertPath = TrimSpace (fl_ManagementSignerClientCert f),
      rs_ClientKeyPath = TrimSpace (fl_ManagementSignerClientKey f), rs_ServerName = TrimSpace (fl_ManagementSignerServerName f),
      rs_ServerCertificatePin = TrimSpace (fl_ManagementSignerCertPin f)\<rparr>"

definition signer_of :: "'e main_env_scheme \<Rightarrow> api_flags \<Rightarrow> DevLocalSigner option \<Rightarrow> (forge_state, unit) Signer" where
  "signer_of env f key =
     (case key of None \<Rightarrow> remote_signer env (flagged_remote f) | Some s \<Rightarrow> local_signer env (w_crypto (ae_wire env)) s)"

text \<open>The key of the local signer, or \<open>None\<close> for the remote one.\<close>

definition management_signer ::
  "'e main_env_scheme \<Rightarrow> 'k key_env_scheme \<Rightarrow> (forge_state, unit) Store \<Rightarrow> api_flags \<Rightarrow> DevLocalSigner option forge" where
  "management_signer env kenv m f =
     (if \<not> blank (pc_ManagementSignerURL f) then
        bindE (validateProvisionedManagementTrustBundle env m (fl_ManagementSignerKeyID f)) (\<lambda>_. ret None)
      else
        bindE (in_files (LoadOrCreateDevLocalSigner kenv (fl_ManagementSigningKey f) ''forge-management-dev-local'')) (\<lambda>s.
        bindE (validateOrSeedManagementTrustBundle env m s (pc_DevSeedManagementTrust f)) (\<lambda>_.
        ret (Some s))))"

section \<open>The job queue\<close>

definition jobStore :: "'e main_env_scheme \<Rightarrow> string \<Rightarrow> (forge_state, unit) JobStore result" where
  "jobStore env kind =
     (if kind = ''memory'' then Inr (jobs_in_memory (memory_Jobs (me_jobCodec env)))
      else if kind = ''redis'' then Inr (jobs_in_redis (redis_Jobs (me_redis env) (me_jobCodec env) NewRedisStore))
      else Inl (Errorf ''unsupported queue %q'' [kind]))"

section \<open>The start\<close>

definition forgeAPITLSConfig :: "'e signer_env_scheme \<Rightarrow> string \<Rightarrow> string \<Rightarrow> string \<Rightarrow> bool \<Rightarrow> ('d, 'c, bytes option option) action" where
  "forgeAPITLSConfig env certPath keyPath clientCAPath allowDevPlaintext =
     listener_tls env ''forge api'' certPath keyPath clientCAPath allowDevPlaintext"

definition start_gate :: "'e main_env_scheme \<Rightarrow> api_flags \<Rightarrow> ('d, 'c, unit) action" where
  "start_gate env f =
     bindE (lift (if fl_Production f then validateForgeAPIProductionConfig env f else Inr ())) (\<lambda>_.
     bindE (if blank (pc_BootstrapConfig f) then ret () else finish (bootstrap_Load env (pc_BootstrapConfig f))) (\<lambda>_.
     lift (check_then (jobStore env (pc_QueueKind f)) (\<lambda>_. Inr ()))))"

text \<open>The server: what the flags, the files and the chosen store give.\<close>

definition forge_server ::
  "'e main_env_scheme \<Rightarrow> 'k key_env_scheme \<Rightarrow> api_flags \<Rightarrow> (forge_state, unit) Store \<Rightarrow> rsa_key option \<Rightarrow> ContextBinding list \<Rightarrow>
   DevLocalSigner option \<Rightarrow> bytes \<Rightarrow> (forge_state, unit) Server" where
  "forge_server env kenv f m publicKey bindings key secret =
     \<lparr>sv_Authenticator = Some (Chain (configured_chain env f publicKey bindings @ [identity_verifier env m, mtls_verifier env m] @
        (if secret = [] then [] else [service_verifier env secret]))),
      sv_Store = (case jobStore env (pc_QueueKind f) of Inl _ \<Rightarrow> None | Inr store \<Rightarrow> Some store),
      sv_Management = Some m, sv_ManagementSign = Some (signer_of env f key),
      sv_Artifacts = Some (fs_Artifacts kenv \<lparr>fs_Root = fl_ArtifactStoreRoot f, fs_Org = fl_ArtifactStoreOrg f, fs_Environment = pc_ArtifactStoreEnvironment f\<rparr>),
      sv_KLIQService = (if secret = [] then None else Some secret), sv_DevManagement = pc_DevManagement f\<rparr>"

text \<open>\<^verbatim>\<open>api\<close> up to the listener: the server and its TLS configuration, or the error the process exits with.\<close>

definition api_main ::
  "'e main_env_scheme \<Rightarrow> 'k key_env_scheme \<Rightarrow> api_flags \<Rightarrow> ((forge_state, unit) Server \<times> bytes option option) forge" where
  "api_main env kenv f =
     bindE (start_gate env f) (\<lambda>_.
     bindE (authenticator env f) (\<lambda>(publicKey, bindings).
     guardE (configured_chain env f publicKey bindings = []) (Errorf ''forge api requires at least one auth provider'' [])
    (bindE (managementStore env (pc_ManagementStoreKind f) (pc_DevManagement f)) (\<lambda>m.
     bindE (management_signer env kenv m f) (\<lambda>key.
     bindE (loadKLIQServiceTokenSecret env (pc_KLIQServiceTokenSecretFromArg f) (fl_KLIQServiceTokenSecretFile f) (pc_DevAllowCLIKLIQServiceSecret f)) (\<lambda>secret.
     bindE (forgeAPITLSConfig env (pc_TLSCert f) (pc_TLSKey f) (fl_ClientCA f) (pc_DevInsecureHTTP f)) (\<lambda>tls.
     ret (forge_server env kenv f m publicKey bindings key secret, tls))))))))"

end
