(* ===== verification/Forge_Invariants.thy ===== *)
theory Forge_Invariants
  imports Forge_Server
begin

text \<open>
  What every request to the API keeps. The locale \<open>api_invariant\<close> states what the handlers rely on: each collaborator of
  the server keeps the invariant, the time-stamped operations at least for a time that is not the zero time. That every
  request keeps it then is proved once, handler by handler. The locale \<open>process_invariant\<close> does the same for the server that
  \<^verbatim>\<open>cmd/forge\<close> assembles; it is interpreted on that server over PostgreSQL.
\<close>

section \<open>The combinators of the handlers\<close>

lemma keeps_writeJSON [keeps]: "keeps_inv I (writeJSON status value)"
  unfolding writeJSON_def by (rule keeps_ret)

lemma keeps_writeError [keeps]: "keeps_inv I (writeError status code)"
  unfolding writeError_def by (rule keeps_writeJSON)

lemma keeps_refuse_if [keeps]: "keeps_inv I rest \<Longrightarrow> keeps_inv I (refuse_if bad status code rest)"
  by (simp add: refuse_if_def keeps_writeError)

lemma keeps_attempt [keeps]:
  "keeps_inv I m \<Longrightarrow> (\<And>e. keeps_inv I (failed e)) \<Longrightarrow> (\<And>x. keeps_inv I (k x)) \<Longrightarrow> keeps_inv I (attempt m failed k)"
  unfolding attempt_def by (intro keeps_tryE keeps_case_sum)

lemma keeps_checked [keeps]: "(\<And>x. keeps_inv I (k x)) \<Longrightarrow> keeps_inv I (checked r status code k)"
  by (simp add: checked_def keeps_writeError split: sum.split)

lemma keeps_needs [keeps]: "(\<And>x. part = Some x \<Longrightarrow> keeps_inv I (k x)) \<Longrightarrow> keeps_inv I (needs part code k)"
  by (simp add: needs_def keeps_writeError split: option.split)

lemma keeps_authorized [keeps]: "keeps_inv I k \<Longrightarrow> keeps_inv I (authorized p req k)"
  unfolding authorized_def by (rule keeps_checked)

lemma keeps_first_success: "(\<And>m. m \<in> set ms \<Longrightarrow> keeps_inv I m) \<Longrightarrow> keeps_inv I (first_success ms e)"
  by (induction ms arbitrary: e) (auto intro!: keeps)

section \<open>What the collaborators keep\<close>

definition verifier_keeps :: "(('d, 'c) world \<Rightarrow> bool) \<Rightarrow> ('d, 'c) Verifier \<Rightarrow> bool" where
  "verifier_keeps I v \<longleftrightarrow>
     (\<forall>token. keeps_inv I (vf_Verify v token)) \<and> (\<forall>f peer. vf_VerifyRequest v = Some f \<longrightarrow> keeps_inv I (f peer))"

definition signer_keeps :: "(('d, 'c) world \<Rightarrow> bool) \<Rightarrow> ('d, 'c) Signer \<Rightarrow> bool" where
  "signer_keeps I g \<longleftrightarrow>
     (\<forall>payload meta. keeps_inv I (sgn_Sign g payload meta)) \<and> (\<forall>f e. sgn_Verify g = Some f \<longrightarrow> keeps_inv I (f e))"

definition artifacts_keep :: "(('d, 'c) world \<Rightarrow> bool) \<Rightarrow> ('d, 'c) Artifacts \<Rightarrow> bool" where
  "artifacts_keep I a \<longleftrightarrow> (\<forall>x. keeps_inv I (afs_Put a x)) \<and> (\<forall>ref. keeps_inv I (afs_Get a ref))"

definition store_keeps :: "(('d, 'c) world \<Rightarrow> bool) \<Rightarrow> ('d, 'c) Store \<Rightarrow> bool" where
  "store_keeps I m \<longleftrightarrow>
     (\<forall>ctx e. keeps_inv I (ms_SaveAuditEvent m ctx e)) \<and>
     (\<forall>ctx t secret. keeps_inv I (ms_CreateEnrollmentToken m ctx t secret)) \<and>
     (\<forall>i. keeps_inv I (ms_EnrollmentToken m i)) \<and>
     (\<forall>ctx secret e s c t. \<not> IsZero t \<longrightarrow> keeps_inv I (ms_UseEnrollmentToken m ctx secret e s c t)) \<and>
     (\<forall>ctx i reason t. \<not> IsZero t \<longrightarrow> keeps_inv I (ms_RevokeEnrollmentToken m ctx i reason t)) \<and>
     (\<forall>ctx r. keeps_inv I (ms_Register m ctx r)) \<and>
     (\<forall>k. keeps_inv I (ms_Registration m k)) \<and>
     (\<forall>k. keeps_inv I (ms_Identity m k)) \<and>
     (\<forall>ctx k reason t. \<not> IsZero t \<longrightarrow> keeps_inv I (ms_RevokeKLIQ m ctx k reason t)) \<and>
     (\<forall>ctx k b reason t. keeps_inv I (ms_RotateTrustBundle m ctx k b reason t)) \<and>
     (\<forall>ctx k reason t. keeps_inv I (ms_RevokeTrustBundle m ctx k reason t)) \<and>
     (\<forall>k. keeps_inv I (ms_NextAssignmentVersion m k)) \<and>
     (\<forall>ctx k v e. keeps_inv I (ms_SaveAssignment m ctx k v e)) \<and>
     (\<forall>ctx k. keeps_inv I (ms_LatestAssignment m ctx k)) \<and>
     (\<forall>ctx k v reason t. \<not> IsZero t \<longrightarrow> keeps_inv I (ms_RevokeAssignment m ctx k v reason t)) \<and>
     (\<forall>h. keeps_inv I (ms_SaveHeartbeat m h)) \<and>
     (\<forall>r. keeps_inv I (ms_SaveStatusReport m r)) \<and>
     (\<forall>k. keeps_inv I (ms_StatusReport m k))"

lemma store_keepsD:
  assumes "store_keeps I m"
  shows "keeps_inv I (ms_SaveAuditEvent m ctx e)"
    "keeps_inv I (ms_CreateEnrollmentToken m ctx token secret)"
    "keeps_inv I (ms_EnrollmentToken m i)"
    "\<not> IsZero t \<Longrightarrow> keeps_inv I (ms_UseEnrollmentToken m ctx secret environment stage scope t)"
    "\<not> IsZero t \<Longrightarrow> keeps_inv I (ms_RevokeEnrollmentToken m ctx i reason t)"
    "keeps_inv I (ms_Register m ctx r)"
    "keeps_inv I (ms_Registration m k)"
    "keeps_inv I (ms_Identity m k)"
    "\<not> IsZero t \<Longrightarrow> keeps_inv I (ms_RevokeKLIQ m ctx k reason t)"
    "keeps_inv I (ms_RotateTrustBundle m ctx k b reason t)"
    "keeps_inv I (ms_RevokeTrustBundle m ctx k reason t)"
    "keeps_inv I (ms_NextAssignmentVersion m k)"
    "keeps_inv I (ms_SaveAssignment m ctx k v envelope)"
    "keeps_inv I (ms_LatestAssignment m ctx k)"
    "\<not> IsZero t \<Longrightarrow> keeps_inv I (ms_RevokeAssignment m ctx k v reason t)"
    "keeps_inv I (ms_SaveHeartbeat m h)"
    "keeps_inv I (ms_SaveStatusReport m report)"
    "keeps_inv I (ms_StatusReport m k)"
  using assms by (simp_all add: store_keeps_def)

definition jobs_keep :: "(('d, 'c) world \<Rightarrow> bool) \<Rightarrow> ('d, 'c) JobStore \<Rightarrow> bool" where
  "jobs_keep I q \<longleftrightarrow>
     (\<forall>job. keeps_inv I (js_Create q job)) \<and> (\<forall>i. keeps_inv I (js_Enqueue q i)) \<and> (\<forall>i. keeps_inv I (js_Get q i))"

section \<open>Every request keeps it\<close>

locale api_invariant = world_invariant I for I :: "('d, 'c) world \<Rightarrow> bool" +
  fixes env :: "'e api_env_scheme" and s :: "('d, 'c) Server"
  assumes running: "I w \<Longrightarrow> \<not> IsZero (clock env n)"
    and authenticator: "sv_Authenticator s = Some v \<Longrightarrow> verifier_keeps I v"
    and management: "sv_Management s = Some m \<Longrightarrow> store_keeps I m"
    and signs: "sv_ManagementSign s = Some g \<Longrightarrow> signer_keeps I g"
    and artifacts: "sv_Artifacts s = Some a \<Longrightarrow> artifacts_keep I a"
    and jobs: "sv_Store s = Some q \<Longrightarrow> jobs_keep I q"
begin

lemma keeps_with_clock: "(\<And>t. \<not> IsZero t \<Longrightarrow> keeps_inv I (k t)) \<Longrightarrow> keeps_inv I (bindE (read_clock env) k)"
  by (rule keeps_bindE_read [OF keeps_read_clock, where P = "\<lambda>t. \<not> IsZero t"]) (auto simp: read_clock_Inr dest: running)

lemma keeps_issue: "keeps_inv I (issue env secret kliqID environment stage scope provider spiffeID material ttl)"
  unfolding issue_def Let_def by (intro keeps keeps_read_clock)

lemma keeps_IssueForIdentity: "keeps_inv I (IssueForIdentity env secret identity ttl)"
  unfolding IssueForIdentity_def by (rule keeps_issue)

lemma keeps_issue_for: "keeps_inv I (issue_for env s identity)"
  unfolding issue_for_def by (intro keeps keeps_IssueForIdentity)

lemma keeps_with_registration:
  "store_keeps I m \<Longrightarrow> (\<And>r. keeps_inv I (k r)) \<Longrightarrow> keeps_inv I (with_registration m kliqID k)"
  unfolding with_registration_def by (intro keeps store_keepsD)

lemma keeps_with_active: "store_keeps I m \<Longrightarrow> (\<And>r. keeps_inv I (k r)) \<Longrightarrow> keeps_inv I (with_active m kliqID k)"
  unfolding with_active_def by (intro keeps keeps_with_registration)

lemma keeps_with_reporter:
  "store_keeps I m \<Longrightarrow> keeps_inv I k \<Longrightarrow> keeps_inv I (with_reporter env m p kliqID environment stage scope code k)"
  unfolding with_reporter_def by (intro keeps keeps_with_active)

lemma keeps_clock_if_zero: "keeps_inv I (clock_if_zero env t)"
  unfolding clock_if_zero_def by (intro keeps keeps_read_clock)

lemmas keeps_parts = keeps_with_clock keeps keeps_ask keeps_with_registration keeps_with_active keeps_with_reporter
  keeps_clock_if_zero keeps_issue_for keeps_IssueForIdentity management

lemma keeps_enrollment:
  "keeps_inv I (createEnrollmentToken env s req ctx p)" "keeps_inv I (enrollKLIQ env s req)"
  "keeps_inv I (refreshKLIQServiceToken env s ctx p)" "keeps_inv I (revokeEnrollmentToken env s i req ctx p)"
  unfolding createEnrollmentToken_def enrollKLIQ_def refreshKLIQServiceToken_def revokeEnrollmentToken_def Let_def
  by (intro keeps_parts store_keepsD; assumption?)+

lemma keeps_revocations:
  "keeps_inv I (revokeKLIQAssignment env s i v req ctx p)" "keeps_inv I (revokeKLIQRegistration env s i req ctx p)"
  "keeps_inv I (rotateTrustBundle env s i req ctx p)" "keeps_inv I (revokeTrustBundle env s i req ctx p)"
  unfolding revokeKLIQAssignment_def revokeKLIQRegistration_def rotateTrustBundle_def revokeTrustBundle_def Let_def
  by (intro keeps_parts store_keepsD; assumption?)+

lemma keeps_reports:
  "keeps_inv I (recordKLIQHeartbeat env s req ctx p)" "keeps_inv I (recordKLIQStatusReport env s req ctx p)"
  "keeps_inv I (recordKLIQAuditUpload env s req ctx p)" "keeps_inv I (getKLIQStatusReport s i ctx p)"
  "keeps_inv I (latestKLIQAssignment env s i ctx p)"
  unfolding recordKLIQHeartbeat_def recordKLIQStatusReport_def recordKLIQAuditUpload_def getKLIQStatusReport_def
    latestKLIQAssignment_def Let_def
  by (intro keeps_parts store_keepsD; assumption?)+

lemma keeps_verify_with: "signer_keeps I g \<Longrightarrow> keeps_inv I (verify_with g label envelope)"
  unfolding verify_with_def signer_keeps_def by (auto intro!: keeps split: option.split)

lemma keeps_verified: "signer_keeps I g \<Longrightarrow> keeps_inv I (verifyApprovedBuildManifestEnvelope env g payload)"
  unfolding verifyApprovedBuildManifestEnvelope_def by (intro keeps keeps_verify_with)

lemma signer_keepsD: "signer_keeps I g \<Longrightarrow> keeps_inv I (sgn_Sign g payload meta)"
  by (simp add: signer_keeps_def)

lemma artifacts_keepD:
  "artifacts_keep I a \<Longrightarrow> keeps_inv I (afs_Put a x)" "artifacts_keep I a \<Longrightarrow> keeps_inv I (afs_Get a ref)"
  by (simp_all add: artifacts_keep_def)

lemma keeps_audit:
  "keeps_inv I (case sv_Management s of None \<Rightarrow> ret () | Some mgmt \<Rightarrow> ignoreE (ms_SaveAuditEvent mgmt ctx e))"
  by (cases "sv_Management s") (auto intro!: keeps store_keepsD management)

lemma keeps_publish_approval:
  "signer_keeps I g \<Longrightarrow> artifacts_keep I a \<Longrightarrow> keeps_inv I (publish_approval env s a g req m0 ctx p)"
  unfolding publish_approval_def Let_def
  by (intro keeps_audit keeps_parts signer_keepsD artifacts_keepD; assumption?)

lemma keeps_approve: "keeps_inv I (approvePolicyBuildManifest env s req ctx p)"
  unfolding approvePolicyBuildManifest_def
  by (intro keeps keeps_publish_approval keeps_verified artifacts_keepD signs artifacts; assumption)

lemma keeps_validateApprovedBuild:
  "signer_keeps I g \<Longrightarrow> artifacts_keep I a \<Longrightarrow> keeps_inv I (validateApprovedBuild env a g r req)"
  unfolding validateApprovedBuild_def by (intro keeps keeps_verified artifacts_keepD)

lemma keeps_resolve:
  "signer_keeps I g \<Longrightarrow> artifacts_keep I a \<Longrightarrow> keeps_inv I (resolveAssignmentArtifacts env a g req)"
  unfolding resolveAssignmentArtifacts_def resolve_artifact_def verifyAssignmentArtifactEnvelope_def Let_def
  by (intro keeps keeps_verify_with artifacts_keepD)

lemma keeps_signAndStore:
  "store_keeps I m \<Longrightarrow> signer_keeps I g \<Longrightarrow> keeps_inv I (signAndStoreAssignment env m g ctx x)"
  unfolding signAndStoreAssignment_def Let_def by (intro keeps signer_keepsD store_keepsD)

lemma keeps_plan: "keeps_inv I (planKLIQAssignment env s req ctx p)"
  unfolding planKLIQAssignment_def plan_from_build_def Let_def
  by (intro keeps_parts keeps_validateApprovedBuild keeps_resolve keeps_signAndStore store_keepsD signs artifacts; assumption?)

lemma keeps_dev: "keeps_inv I (createDevKLIQAssignment env s req ctx p)"
  unfolding createDevKLIQAssignment_def
  by (intro keeps_parts keeps_signAndStore signs; assumption?)

lemma keeps_NewJob: "keeps_inv I (NewJob env random layout jobType createdBy data)"
  unfolding NewJob_def newID_def by (intro keeps keeps_read_clock keeps_ask)

lemma keeps_jobs:
  "keeps_inv I (createSimulationJob env s req ctx p)" "keeps_inv I (getJob s i ctx p)"
proof -
  have parts: "keeps_inv I (js_Create q job)" "keeps_inv I (js_Enqueue q i)" "keeps_inv I (js_Get q i)" if "sv_Store s = Some q" for q job i
    using jobs [OF that] by (simp_all add: jobs_keep_def)
  show "keeps_inv I (createSimulationJob env s req ctx p)"
    unfolding createSimulationJob_def by (intro keeps keeps_NewJob parts; assumption)
  show "keeps_inv I (getJob s i ctx p)"
    unfolding getJob_def Let_def by (auto intro!: keeps parts split: option.split)
qed

lemma keeps_handle: "keeps_inv I (handle env s e req ctx p)"
  by (cases e) (simp_all add: keeps_jobs keeps_enrollment keeps_revocations keeps_reports keeps_approve keeps_plan keeps_dev me_def keeps_writeJSON)

lemma keeps_requireAuth:
  assumes "\<And>ctx p. keeps_inv I (k ctx p)"
  shows "keeps_inv I (requireAuth s req k)"
proof -
  have bearer: "keeps_inv I (with_bearer v req k)" if "sv_Authenticator s = Some v" for v
    using authenticator [OF that] unfolding with_bearer_def verifier_keeps_def by (intro keeps assms) blast
  show ?thesis unfolding requireAuth_def
    by (intro keeps_needs) (auto split: option.split intro!: keeps bearer assms dest: authenticator simp: verifier_keeps_def)
qed

lemma keeps_serve: "keeps_inv I (serve env s r)"
proof -
  have "keeps_inv I (requireAuth s (snd r) (handle env s e (snd r)))" for e
    by (rule keeps_requireAuth) (rule keeps_handle)
  then show ?thesis
    by (simp add: serve_def healthz_def keeps_writeJSON keeps_enrollment del: handle.simps split: endpoint.split)
qed

text \<open>Whole histories of requests.\<close>

lemma keeps_requests: "I w \<Longrightarrow> I (after (\<lambda>r. finish (serve env s r)) rs w)"
proof (induction rs arbitrary: w)
  case (Cons r rs)
  have "keeps_inv I (finish (serve env s r))" by (rule keeps_finish [OF keeps_serve])
  with Cons.prems have "I (snd (finish (serve env s r) w))" by (simp add: keeps_inv_def)
  with Cons.IH show ?case by simp
qed simp

end

section \<open>Finished actions\<close>

lemma keeps_of_finish:
  assumes "keeps_inv I (finish m)"
  shows "keeps_inv I m"
proof (rule keeps_invI)
  fix w r w'
  assume w: "I w" and m: "m w = (r, w')"
  from keeps_invD [OF assms w, of "map_sum id (\<lambda>_. ()) r" w'] m show "I w'"
    by (cases r) (simp_all add: finish_def bindE_def ret_def)
qed

section \<open>Histories of the management store\<close>

text \<open>Tables reached from \<open>d\<close> by operations of a kind, each issued at any moment.\<close>

inductive reached :: "('op \<Rightarrow> ('d, 'c, unit) action) \<Rightarrow> ('op \<Rightarrow> bool) \<Rightarrow> 'd \<Rightarrow> 'd \<Rightarrow> bool" for run ok d where
  reached_start: "reached run ok d d"
| reached_step: "reached run ok d (db w) \<Longrightarrow> ok op \<Longrightarrow> run op w = (r, w') \<Longrightarrow> reached run ok d (db w')"

lemma keeps_reached: "ok op \<Longrightarrow> keeps_inv (\<lambda>w. reached run ok d (db w)) (run op)"
  by (rule keeps_invI) (auto intro: reached_step)

context management_store
begin

lemma reached_ledgers:
  assumes "reached run timed d d'" and "inv d"
  shows "inv d' \<and> pinned (trust d) (trust d') \<and> advances (latest d) (latest d')"
  using assms(1)
proof induction
  case reached_start
  with assms(2) show ?case by (simp add: pinned_refl advances_refl)
next
  case (reached_step w op r w')
  then have inv: "inv (db w)" by simp
  have "pinned (trust (db w)) (trust (db w'))"
    using trust_step_pinned [OF trust_law [OF inv reached_step.hyps(3)] trust_valid [OF inv]] by simp
  moreover have "advances (latest (db w)) (latest (db w'))"
    by (rule latest_step_advances, rule latest_law [OF inv reached_step.hyps(2,3)])
  ultimately show ?case
    using reached_step.IH keeps_inv [OF inv reached_step.hyps(3)] pinned_trans advances_trans by blast
qed

lemma reached_spent:
  assumes "reached run (\<lambda>op. timed op \<and> created op \<noteq> Some h) d d'" and "inv d" and "spent d h"
  shows "inv d' \<and> spent d' h"
  using assms(1)
proof induction
  case (reached_step w op r w')
  then show ?case using keeps_inv spent_law by blast
qed (use assms in simp)

end

section \<open>The server over PostgreSQL\<close>

text \<open>The clock runs, and the tables are reached from \<open>d\<close>.\<close>

definition since :: "'e forge_env_scheme \<Rightarrow> postgres \<Rightarrow> (forge_state, unit) world \<Rightarrow> bool" where
  "since env d w \<longleftrightarrow> (\<forall>n. \<not> IsZero (clock env n)) \<and> reached (pg_op env) timed d (fst_Postgres (db w))"

interpretation since: world_invariant "since env d" for env :: "'e forge_env_scheme" and d
  by unfold_locales (simp add: since_def)

lemma keeps_since_other:
  assumes "\<And>p x. fst_Postgres (put p x) = fst_Postgres x"
  shows "keeps_inv (since env d) (zoom get put m)"
  by (auto simp: keeps_inv_def zoom_def since_def assms split: prod.split)

lemma keeps_since_postgres:
  assumes "keeps_inv (\<lambda>w. reached (pg_op env) timed d (db w)) m"
  shows "keeps_inv (since env d) (in_postgres m)"
proof (rule keeps_invI)
  fix w r w'
  assume w: "since env d w" and run: "in_postgres m w = (r, w')"
  from run obtain v where v: "m \<lparr>db = fst_Postgres (db w), calls = calls w, tick = tick w\<rparr> = (r, v)"
    "w' = \<lparr>db = (db w)\<lparr>fst_Postgres := db v\<rparr>, calls = calls v, tick = tick v\<rparr>" by (auto simp: zoom_eq)
  from keeps_invD [OF assms _ v(1)] w v(2) show "since env d w'" by (simp add: since_def)
qed

lemma keeps_since_op: "timed op \<Longrightarrow> keeps_inv (since env d) (in_postgres (pg_op env op))"
  by (rule keeps_since_postgres) (rule keeps_reached)

lemma keeps_since_value:
  assumes "pg_op env op = finish m" and "timed op"
  shows "keeps_inv (since env d) (in_postgres m)"
  by (rule keeps_since_postgres, rule keeps_of_finish) (simp add: assms(1) [symmetric] assms(2) keeps_reached)

lemma since_writes:
  "keeps_inv (since env d) (in_postgres (pg_SaveAuditEvent env ctx e))"
  "keeps_inv (since env d) (in_postgres (pg_CreateEnrollmentToken env ctx token secret))"
  "\<not> IsZero t \<Longrightarrow> keeps_inv (since env d) (in_postgres (pg_UseEnrollmentToken env ctx secret environment stage scope t))"
  "\<not> IsZero t \<Longrightarrow> keeps_inv (since env d) (in_postgres (pg_RevokeEnrollmentToken env ctx i reason t))"
  "keeps_inv (since env d) (in_postgres (pg_Register env ctx r))"
  "keeps_inv (since env d) (in_postgres (pg_RevokeKLIQ env ctx k reason t))"
  "keeps_inv (since env d) (in_postgres (pg_SaveTrustBundle env b))"
  "keeps_inv (since env d) (in_postgres (pg_RotateTrustBundle env ctx k b reason t))"
  "keeps_inv (since env d) (in_postgres (pg_RevokeTrustBundle env ctx k reason t))"
  "keeps_inv (since env d) (in_postgres (pg_SaveAssignment env ctx k v x))"
  "keeps_inv (since env d) (in_postgres (pg_LatestAssignment env ctx k))"
  "\<not> IsZero t \<Longrightarrow> keeps_inv (since env d) (in_postgres (pg_RevokeAssignment env ctx k v reason t))"
  "keeps_inv (since env d) (in_postgres (pg_SaveHeartbeat env h))"
  "keeps_inv (since env d) (in_postgres (pg_SaveStatusReport env report))"
  using keeps_since_op [of "OpAuditEvent ctx e" env d] keeps_since_op [of "OpCreateToken ctx token secret" env d]
    keeps_since_value [of env "OpUseToken ctx secret environment stage scope t" "pg_UseEnrollmentToken env ctx secret environment stage scope t" d]
    keeps_since_op [of "OpRevokeToken ctx i reason t" env d] keeps_since_op [of "OpRegister ctx r" env d]
    keeps_since_op [of "OpRevokeKLIQ ctx k reason t" env d] keeps_since_op [of "OpSaveTrust b" env d]
    keeps_since_op [of "OpRotateTrust ctx k b reason t" env d] keeps_since_op [of "OpRevokeTrust ctx k reason t" env d]
    keeps_since_op [of "OpSaveAssignment ctx k v x" env d]
    keeps_since_value [of env "OpLatestAssignment ctx k" "pg_LatestAssignment env ctx k" d]
    keeps_since_op [of "OpRevokeAssignment ctx k v reason t" env d] keeps_since_op [of "OpHeartbeat h" env d]
    keeps_since_op [of "OpStatusReport report" env d]
  by simp_all

lemma since_reads:
  "keeps_inv (since env d) (in_postgres (pg_EnrollmentToken env i))"
  "keeps_inv (since env d) (in_postgres (pg_Registration env k))"
  "keeps_inv (since env d) (in_postgres (pg_Identity env k))"
  "keeps_inv (since env d) (in_postgres (pg_TrustBundle env k))"
  "keeps_inv (since env d) (in_postgres (pg_NextAssignmentVersion env k))"
  "keeps_inv (since env d) (in_postgres (pg_StatusReport env k))"
  unfolding pg_EnrollmentToken_def pg_Registration_def pg_Identity_def pg_TrustBundle_def pg_NextAssignmentVersion_def
    pg_StatusReport_def query_row_def
  by (rule keeps_since_postgres; intro keeps tables.keeps_query)+

lemma postgres_Store_keeps: "store_keeps (since env d) (postgres_Store env)"
  by (simp add: store_keeps_def postgres_Store_def since_writes since_reads)

lemma since_files: "keeps_inv (since env d) (in_files m)"
  by (rule keeps_since_other) simp

lemma since_jwks: "keeps_inv (since env d) (in_jwks m)"
  by (rule keeps_since_other) simp

section \<open>The server of the flags\<close>

text \<open>
  What the server that \<open>forge_server\<close> assembles relies on: the store, the files, the cache of keys and the queue keep the
  invariant. The verifiers and the signer add no state of their own.
\<close>

locale process_invariant = world_invariant I for I :: "(forge_state, unit) world \<Rightarrow> bool" +
  fixes env :: "'e main_env_scheme" and kenv :: "'k key_env_scheme" and m :: "(forge_state, unit) Store"
  assumes running: "I w \<Longrightarrow> \<not> IsZero (clock env n)"
    and store: "store_keeps I m"
    and artifacts: "artifacts_keep I (fs_Artifacts kenv files)"
    and jwks: "keeps_inv I (in_jwks fetch :: rsa_key forge)"
    and jobs: "jobStore env kind = Inr q \<Longrightarrow> jobs_keep I q"
begin

lemma keeps_Identity: "keeps_inv I (ms_Identity m k)"
  by (rule store_keepsD [OF store])

lemma service_verifiers_keep:
  "verifier_keeps I (identity_verifier env m)" "verifier_keeps I (mtls_verifier env m)" "verifier_keeps I (service_verifier env secret)"
proof -
  have "keeps_inv I (VerifyIdentityToken env (Some (ms_Identity m)) token)" for token
    unfolding VerifyIdentityToken_def
    by (intro keeps keeps_read_clock) (auto split: list.split intro!: keeps keeps_read_clock keeps_Identity)
  then show "verifier_keeps I (identity_verifier env m)"
    by (simp add: verifier_keeps_def identity_verifier_def)
  have "keeps_inv I (VerifyMTLSRequest env (Some (ms_Identity m)) peer)" for peer
    unfolding VerifyMTLSRequest_def
    by (auto simp: Let_def split: option.split intro!: keeps keeps_read_clock keeps_Identity)
  then show "verifier_keeps I (mtls_verifier env m)"
    by (simp add: verifier_keeps_def mtls_verifier_def keeps_raise)
  have "keeps_inv I (VerifyServiceToken env secret token)" for token
    unfolding VerifyServiceToken_def
    by (intro keeps) (auto split: list.split intro!: keeps keeps_read_clock)
  then show "verifier_keeps I (service_verifier env secret)"
    by (simp add: verifier_keeps_def service_verifier_def)
qed

lemma jwt_keeps: "keeps_inv I (VerifyJWT env (flagged_jwt env f publicKey bound) token)"
proof -
  have key: "keeps_inv I (rsaPublicKey (flagged_jwt env f publicKey bound) kid)" for kid
    unfolding rsaPublicKey_def flagged_jwt_def jwks_provider_def Let_def
    by (auto intro!: keeps jwks)
  have claims: "keeps_inv I (validateClaims env (flagged_jwt env f publicKey bound) claims)" for claims
    unfolding validateClaims_def by (intro keeps keeps_read_clock)
  show ?thesis
    unfolding VerifyJWT_def check_signature_def
    by (intro keeps) (auto split: list.split intro!: keeps key claims)
qed

lemma configured_chain_keeps:
  assumes "v \<in> set (configured_chain env f publicKey bindings)"
  shows "verifier_keeps I v"
  using assms
  by (auto simp: configured_chain_def Let_def verifier_keeps_def dev_verifier_def jwt_verifier_def binding_verifier_def VerifyWithBindings_def
      split: if_splits intro!: keeps jwt_keeps)

lemma signer_of_keeps: "signer_keeps I (signer_of env f key)"
proof -
  have "keeps_inv I (remote_Sign env r payload meta)" for r payload meta
    unfolding remote_Sign_def signer_client_def signer_tlsConfig_def ca_pool_def client_certificate_def
    by (intro keeps keeps_ask)
  then show ?thesis
    by (auto simp: signer_of_def signer_keeps_def remote_signer_def local_signer_def split: option.split
        intro!: keeps keeps_read_clock)
qed

end

lemma Chain_keeps: "(\<And>v. v \<in> set vs \<Longrightarrow> verifier_keeps I v) \<Longrightarrow> verifier_keeps I (Chain vs)"
  unfolding verifier_keeps_def Chain_def
  by (auto intro!: keeps_first_success simp: List.map_filter_def)

sublocale process_invariant \<subseteq> served: api_invariant I env "forge_server env kenv f m publicKey bindings key secret"
  for f publicKey bindings key secret
proof (unfold_locales, goal_cases)
  case (1 w n)
  then show ?case by (rule running)
next
  case (2 v)
  then show ?case
    by (auto simp: forge_server_def intro!: Chain_keeps service_verifiers_keep intro: configured_chain_keeps split: if_splits)
next
  case (3 x)
  with store show ?case by (simp add: forge_server_def)
next
  case (4 g)
  with signer_of_keeps show ?case by (auto simp: forge_server_def)
next
  case (5 a)
  with artifacts show ?case by (auto simp: forge_server_def)
next
  case (6 q)
  with jobs show ?case by (auto simp: forge_server_def split: sum.splits)
qed

interpretation forge: process_invariant "since env d" env kenv "postgres_Store env"
  for env :: "'e main_env_scheme" and d and kenv :: "'k key_env_scheme"
proof (unfold_locales, goal_cases)
  case (1 w n)
  then show ?case by (simp add: since_def)
next
  case 2
  show ?case by (rule postgres_Store_keeps)
next
  case (3 files)
  show ?case by (simp add: fs_Artifacts_def artifacts_keep_def since_files)
next
  case (4 fetch)
  show ?case by (rule since_jwks)
next
  case (5 kind q)
  then show ?case by (auto simp: jobStore_def jobs_keep_def zoom_Jobs_def intro!: keeps_since_other split: if_splits)
qed

section \<open>The start of the process\<close>

text \<open>What \<^verbatim>\<open>api\<close> starts is the server of the flags, and the start is itself a history of the store.\<close>

lemma api_main_server:
  assumes "api_main env kenv f w = (Inr (srv, tls), w')"
  obtains m publicKey bindings key secret where
    "srv = forge_server env kenv f m publicKey bindings key secret"
    "fl_Production f \<longrightarrow> validateForgeAPIProductionConfig env f = Inr ()"
    "pc_ManagementStoreKind f = ''memory'' \<and> m = memory_Store env \<or> pc_ManagementStoreKind f = ''postgres'' \<and> m = postgres_Store env"
    "key = None \<longleftrightarrow> \<not> blank (pc_ManagementSignerURL f)"
  using assms
  by (auto simp: api_main_def start_gate_def managementStore_def management_signer_def ret_def raise_def steps
      elim!: step_elims split: if_splits prod.splits sum.splits)

lemma keeps_api_main:
  assumes "pc_ManagementStoreKind f = ''postgres''"
  shows "keeps_inv (since env d) (api_main env kenv f)"
proof -
  have read_trust: "keeps_inv (since env d) (ms_TrustBundle (postgres_Store env) k)" for k
    by (simp add: postgres_Store_def since_reads)
  have save: "keeps_inv (since env d) (ms_SaveTrustBundle (postgres_Store env) b)" for b
    by (simp add: postgres_Store_def since_writes)
  have gate: "keeps_inv (since env d) (start_gate env f)"
    unfolding start_gate_def bootstrap_Load_def Let_def by (intro keeps keeps_finish since.keeps_ask)
  have auth: "keeps_inv (since env d) (authenticator env f)"
    unfolding authenticator_def loadRSAPublicKey_def
    by (intro keeps since.keeps_ask since_jwks)
  have store: "managementStore env (pc_ManagementStoreKind f) (pc_DevManagement f) w = (Inr m, w') \<Longrightarrow> m = postgres_Store env"
    for w m w' by (auto simp: managementStore_def assms ret_def ask_eq elim!: step_elims)
  have signer: "keeps_inv (since env d) (management_signer env kenv (postgres_Store env) f)"
    unfolding management_signer_def validateProvisionedManagementTrustBundle_def validateOrSeedManagementTrustBundle_def
      check_bundle_def Let_def
    by (intro keeps since.keeps_read_clock since_files read_trust save)
  have tail: "keeps_inv (since env d) (loadKLIQServiceTokenSecret env a b c)"
      "keeps_inv (since env d) (forgeAPITLSConfig env x y z t)" for a b c x y z t
    unfolding loadKLIQServiceTokenSecret_def forgeAPITLSConfig_def listener_tls_def Let_def by (intro keeps since.keeps_ask)+
  have open_store: "keeps_inv (since env d) (managementStore env (pc_ManagementStoreKind f) (pc_DevManagement f))"
    unfolding managementStore_def by (intro keeps since.keeps_ask)
  show ?thesis unfolding api_main_def
    by (intro keeps gate auth tail keeps_bindE_read [OF open_store, where P = "\<lambda>m. m = postgres_Store env"])
      (auto intro!: keeps signer tail dest: store)
qed

end
