(* ===== verification/Forge_Lockout.thy ===== *)
theory Forge_Lockout
  imports Forge_Invariants
begin

text \<open>
  A node whose registration is revoked stays locked out of the PostgreSQL store: its row stays, no other row has its id, and
  no operation makes the registration active again.
\<close>

definition locked :: "string \<Rightarrow> postgres \<Rightarrow> bool" where
  "locked kliqID d \<longleftrightarrow> registered kliqID d \<and>
     (\<forall>r \<in> set (pg_registrations d). pr_kliq_id r = kliqID \<longrightarrow> ensureKLIQRegistrationActive (pr_registration_json r) \<noteq> Inr ())"

lemma revoked_not_active: "ensureKLIQRegistrationActive (pg_revoked_registration r reason t) \<noteq> Inr ()"
  by (simp add: ensureKLIQRegistrationActive_def pg_revoked_registration_def)

interpretation pg_locked: pg_frame "locked kliqID" for kliqID
  by unfold_locales (simp_all add: locked_def registered_def)

text \<open>The rows of a node after a revocation of a node.\<close>

definition revoke_rows :: "string \<Rightarrow> string \<Rightarrow> gotime \<Rightarrow> KLIQRegistration \<Rightarrow> postgres \<Rightarrow> postgres" where
  "revoke_rows kliqID reason t r d =
     d\<lparr>pg_registrations := update_rows (\<lambda>s. pr_kliq_id s = kliqID)
        (\<lambda>s. s\<lparr>pr_status := ''revoked'', pr_revoked_at := Some t, pr_revoked_reason := reason,
              pr_registration_json := pg_revoked_registration r reason t\<rparr>) (pg_registrations d)\<rparr>"

lemma registered_map: "registered k d \<longleftrightarrow> k \<in> set (map pr_kliq_id (pg_registrations d))"
  by (auto simp: registered_def)

lemma registered_revoke_rows: "registered k (revoke_rows kliqID reason t r d) = registered k d"
  unfolding registered_map revoke_rows_def by (simp del: set_map add: map_update_rows)

lemma revoke_rows_cases:
  assumes "row \<in> set (pg_registrations (revoke_rows kliqID reason t r d))"
  obtains "pr_registration_json row = pg_revoked_registration r reason t" "pr_kliq_id row = kliqID"
    | "row \<in> set (pg_registrations d)" "pr_kliq_id row \<noteq> kliqID"
  using assms by (auto simp: revoke_rows_def set_update_rows)

lemma revoke_rows_locks: "registered kliqID d \<Longrightarrow> locked kliqID (revoke_rows kliqID reason t r d)"
  by (auto simp: locked_def registered_revoke_rows revoked_not_active elim!: revoke_rows_cases)

lemma revoke_rows_locked: "locked k d \<Longrightarrow> locked k (revoke_rows kliqID reason t r d)"
  by (auto simp: locked_def registered_revoke_rows revoked_not_active elim!: revoke_rows_cases)

lemma insert_locked:
  assumes "locked k d" and "pg_insert_registration r d = Inr d'"
  shows "locked k d'"
proof -
  from assms(2) obtain row where d': "d' = d\<lparr>pg_registrations := pg_registrations d @ [row]\<rparr>" and row: "pr_kliq_id row = kr_KLIQID r"
    "\<not> registered (kr_KLIQID r) d" by (auto simp: pg_insert_registration_def split: if_splits)
  from row assms(1) have "pr_kliq_id row \<noteq> k" by (auto simp: locked_def)
  with assms(1) show ?thesis by (auto simp: d' locked_def registered_def)
qed

lemma keeps_locked_Register: "keeps_inv (\<lambda>w. locked k (db w)) (pg_Register env ctx r)"
proof -
  have "keeps_inv (\<lambda>w. locked k (db w)) (execute env (pg_insert_registration r'))" for r'
    by (rule keeps_table_execute) (use insert_locked in blast)
  moreover have "keeps_inv (\<lambda>w. locked k (db w)) (execute env (pg_insert_identity i j))" for i j
    by (rule keeps_table_execute) (auto simp: pg_insert_identity_def split: if_splits intro: pg_locked.ids)
  ultimately show ?thesis
    unfolding pg_Register_def Let_def by (intro pg_locked.keeps_pg)
qed

lemma keeps_locked_RevokeKLIQ: "keeps_inv (\<lambda>w. locked k (db w)) (pg_RevokeKLIQ env ctx kliqID reason t)"
  unfolding pg_RevokeKLIQ_def Let_def revoke_rows_def [symmetric]
  by (intro pg_locked.keeps_pg pg_locked.keeps_pg_reads keeps_table_execute) (auto intro: pg_locked.ids revoke_rows_locked)

lemma locked_other:
  "locked k (d\<lparr>pg_tokens := ts\<rparr>) = locked k d" "locked k (d\<lparr>pg_trust_bundles := bs\<rparr>) = locked k d"
  "locked k (d\<lparr>pg_assignments := as\<rparr>) = locked k d"
  by (simp_all add: locked_def registered_def)

lemma keeps_locked: "keeps_inv (\<lambda>w. locked k (db w)) (pg_op env op)"
proof (cases op)
  case (OpRegister ctx r)
  then show ?thesis by (simp add: keeps_locked_Register)
next
  case (OpRevokeKLIQ ctx i reason t)
  then show ?thesis by (simp add: keeps_locked_RevokeKLIQ)
qed (auto intro!: pg_locked.keeps_reports pg_locked.keeps_tokens pg_locked.keeps_trust pg_locked.keeps_assignments
      pg_locked.keeps_SaveAuditEvent keeps_finish simp: locked_other)

lemma reached_locked: "reached (pg_op env) ok d d' \<Longrightarrow> locked k d \<Longrightarrow> locked k d'"
  by (induction rule: reached.induct) (auto dest: keeps_invD [OF keeps_locked])

text \<open>A revocation that succeeds locks the node.\<close>

lemma pg_RevokeKLIQ_locks:
  assumes "pg_RevokeKLIQ env ctx kliqID reason t w = (Inr u, w')"
  shows "locked kliqID (db w')"
proof -
  from assms obtain r w1 w2 where read: "pg_Registration env kliqID w = (Inr r, w1)"
    and tx: "transaction env
       (bindE (execute env (\<lambda>d. Inr (revoke_rows kliqID reason t r d))) (\<lambda>_.
        execute env (\<lambda>d. Inr (d\<lparr>pg_identities := update_rows (\<lambda>s. pi_kliq_id s = kliqID)
          (\<lambda>s. s\<lparr>pi_status := ''revoked'', pi_credential_status := ''revoked'', pi_revoked_at := Some t,
                pi_revoked_reason := reason, pi_identity_json := kr_Identity (pg_revoked_registration r reason t)\<rparr>)
          (pg_identities d)\<rparr>)))) w1 = (Inr (), w2)"
    and save: "saveRevocation env ctx ''kliq_registration'' kliqID reason t kliqID w2 = (Inr u, w')"
    unfolding pg_RevokeKLIQ_def Let_def revoke_rows_def [symmetric] by (auto elim!: bindE_InrE)
  from read have reg: "registered kliqID (db w1)"
    by (auto simp: pg_Registration_def registered_def ret_def elim!: step_elims dest!: pg_row_found)
  from transaction_Inr [OF tx] obtain js where "db w2 = (revoke_rows kliqID reason t r (db w1))\<lparr>pg_identities := js\<rparr>"
    by (auto simp: steps elim!: step_elims)
  with revoke_rows_locks [OF reg] have "locked kliqID (db w2)" by (simp add: pg_locked.ids)
  with keeps_invD [OF pg_locked.keeps_saveRevocation _ save] show ?thesis by simp
qed

text \<open>The registration of a locked node is read as revoked.\<close>

lemma locked_read:
  assumes "locked kliqID (fst_Postgres (db w))" and "ms_Registration (postgres_Store env) kliqID w = (Inr r, w')"
  shows "ensureKLIQRegistrationActive r \<noteq> Inr ()"
proof -
  from assms(2) obtain v where "pg_Registration env kliqID \<lparr>db = fst_Postgres (db w), calls = calls w, tick = tick w\<rparr> = (Inr r, v)"
    by (auto simp: postgres_Store_def zoom_eq)
  then obtain row where "row \<in> set (pg_registrations (fst_Postgres (db w)))" "pr_kliq_id row = kliqID" "r = pr_registration_json row"
    by (auto simp: pg_Registration_def ret_def elim!: step_elims dest!: pg_row_found)
  with assms(1) show ?thesis by (auto simp: locked_def)
qed

end
