(* ===== verification/Examples_API.thy ===== *)
theory Examples_API
  imports Forge_Lockout Properties_Forge
begin

text \<open>
  Concrete values for the API: an environment with codecs that return fixed documents, the flags of a development start,
  and the world the server of those flags starts in.
\<close>

definition toy_pem :: string where
  "toy_pem = ''pem:'' @ replicate 32 CHR ''k''"

definition api_wire :: wire where
  "api_wire = toy_wire\<lparr>pem_Decode := (\<lambda>s. if HasPrefix s ''pem:'' then Some (drop 4 s) else None),
     parse_PKIX := (\<lambda>der. Inr (Some der))\<rparr>"

definition toy_enrollment :: enrollmentRequest where
  "toy_enrollment =
     \<lparr>er_EnrollmentToken = ''try'', er_NodeID = ''n-1'', er_Environment = ''lab'', er_Stage = ''dev'', er_Scope = ''local'',
      er_Version = ''v1'', er_Adapters = [], er_Capabilities = [], er_Attestation = [], er_TrustKeyID = [],
      er_PublicKeyPEM = toy_pem, er_CSRPEM = [], er_SPIFFEID = []\<rparr>"

definition toy_ref :: Ref where
  "toy_ref = \<lparr>rf_URI = ''fs:///a'', rf_SHA256 = ''sha256:bd''\<rparr>"

definition toy_approval :: buildApprovalRequest where
  "toy_approval =
     \<lparr>bar_BuildRef = toy_ref, bar_Environment = ''lab'', bar_Stage = ''dev'', bar_Scope = ''local'', bar_AuthorityID = [],
      bar_AuthorityKind = [], bar_ExpiresAt = None\<rparr>"

definition toy_plan_request :: assignmentPlanRequest where
  "toy_plan_request =
     \<lparr>apr_KLIQID = ''kliq-1'', apr_SourceCommit = ''abc'', apr_TrustBundleRef = [], apr_ApprovedBuildRef = toy_ref, apr_ExpiresAt = 9000,
      apr_ApprovedRollback = False, apr_Artifacts = [toy_artifact\<lparr>aa_ArtifactRef := ''fs:///a'', aa_Envelope := []\<rparr>]\<rparr>"

definition toy_simulation :: SimulationJobRequest where
  "toy_simulation =
     \<lparr>sjr_PolicyRepo = ''repo'', sjr_PolicyFile = [], sjr_CoreRegistry = [], sjr_EnterpriseRegistry = [], sjr_OutputDir = [],
      sjr_Scope = zero_Scope\<rparr>"

text \<open>A codec that keeps the id and the state of a job of one type, and a Redis server that decodes its commands and does as documented.\<close>

definition toy_job_codec :: job_codec where
  "toy_job_codec =
     \<lparr>jc_encode = (\<lambda>job. Inr (jb_Status job @ ''|'' @ jb_ID job)),
      jc_decode = (\<lambda>b. (\<lparr>jb_ID = tl (dropWhile (\<lambda>c. c \<noteq> CHR ''|'') b), jb_Type = TypeSimulation, jb_Status = takeWhile (\<lambda>c. c \<noteq> CHR ''|'') b,
         jb_CreatedAt = 0, jb_UpdatedAt = 0, jb_CreatedBy = [], jb_Payload = [], jb_Result = [], jb_Error = []\<rparr>, None))\<rparr>"

definition line_number :: "bytes \<Rightarrow> nat \<times> bytes" where
  "line_number s = (case readLine s of (Inl _, t) \<Rightarrow> (0, t) | (Inr line, t) \<Rightarrow> (nat (fold (\<lambda>c a. a * 10 + digit_value c) line 0), t))"

fun bulk_strings :: "nat \<Rightarrow> bytes \<Rightarrow> string list" where
  "bulk_strings 0 s = []"
| "bulk_strings (Suc n) s = (let (l, t) = line_number (tl s) in take l t # bulk_strings n (drop (l + 2) t))"

definition command_strings :: "bytes \<Rightarrow> string list" where
  "command_strings s = (let (n, t) = line_number (tl s) in bulk_strings n t)"

definition toy_redis_server :: "bytes \<Rightarrow> redis_db \<Rightarrow> bytes \<times> redis_db" where
  "toy_redis_server s d =
     (case command_strings s of
        [c, k] \<Rightarrow> if c = ''GET'' then redis_GET k d else if c = ''LPOP'' then redis_LPOP k d else (''-ERR'' @ CRLF, d)
      | [c, k, v] \<Rightarrow> if c = ''SET'' then redis_SET k v d else if c = ''RPUSH'' then redis_RPUSH k v d else (''-ERR'' @ CRLF, d)
      | _ \<Rightarrow> (''-ERR'' @ CRLF, d))"

definition toy_redis :: redis_net where
  "toy_redis = \<lparr>rn_link = (\<lambda>_. Answers None), rn_server = toy_redis_server, rn_alloc = \<lparr>al_bytes = (\<lambda>n. n < 1000000), al_values = (\<lambda>n. n < 1000000)\<rparr>\<rparr>"

lemma line_number_digits: "line_number (int_digits (int n) @ CRLF @ s) = (n, s)"
proof -
  have "fold (\<lambda>c a. a * 10 + digit_value c) (int_digits (int n)) 0 = int n"
    using nat_digits_value [of "int n"] by (simp add: int_digits_def)
  then show ?thesis by (simp add: line_number_def readLine_digits)
qed

lemma two_bytes: "length CRLF = 2" "drop 2 CRLF = []"
  by (simp_all add: CRLF_def)

lemma bulk_strings_bulks: "bulk_strings (length args) (concat (map bulk args)) = args"
  by (induction args) (simp_all add: bulk_def line_number_digits two_bytes)

lemma command_strings_encode: "command_strings (encodeCommand args) = args"
  by (simp add: command_strings_def encodeCommand_bulk line_number_digits bulk_strings_bulks)

lemma toy_redis_documented: "redis_documented toy_redis"
  by (simp add: redis_documented_def toy_redis_def toy_redis_server_def command_strings_encode)

definition toy_main :: main_env where
  "toy_main =
     \<lparr>clock = (\<lambda>_. 1000), fault = (\<lambda>_. None), fe_sha = id, fe_timeString = (\<lambda>_. ''t''), fe_decAssignment = (\<lambda>_. Inr toy_assignment),
      ae_wire = api_wire, ae_hmac = (\<lambda>key msg. key @ msg), ae_b64 = id, ae_unb64 = Inr,
      ae_encClaims = (\<lambda>c. Inr (cl_KLIQID c)),
      ae_decClaims = (\<lambda>b. Inr (service_claims b [] [] [] [] [] [] 1000 0)),
      ae_parsePKCS8 = (\<lambda>der. Inr (Some der)),
      ve_decHeader = (\<lambda>_. unsupported), ve_decObject = (\<lambda>_. unsupported), ve_decJWKS = (\<lambda>_. unsupported),
      ve_verifyPKCS1v15 = (\<lambda>_ _ _. False), ve_sprint = (\<lambda>_. []), ve_int64 = (\<lambda>_. 0),
      dq_Token = (\<lambda>_. Inr \<lparr>tr_Environment = ''lab'', tr_Stage = [], tr_Scope = [], tr_ExpiresAt = None\<rparr>),
      dq_Enrollment = (\<lambda>_. Inr toy_enrollment), dq_Approval = (\<lambda>_. Inr toy_approval), dq_Plan = (\<lambda>_. Inr toy_plan_request),
      dq_Assignment = (\<lambda>_. Inr toy_assignment), dq_Revocation = id,
      dq_Rotation = (\<lambda>_. Inr \<lparr>tq_Next = toy_trust, tq_Reason = []\<rparr>),
      dq_Heartbeat = (\<lambda>_. unsupported), dq_Report = (\<lambda>_. unsupported), dq_Audit = (\<lambda>_. unsupported),
      dq_Simulation = (\<lambda>_. Inr toy_simulation),
      api_decKind = (\<lambda>_. Inr ''PolicyBuildManifest''), api_decManifest = (\<lambda>_. unsupported), api_encManifest = (\<lambda>_. Inr ''manifest''),
      api_encEnvelope = (\<lambda>e. Inr (env_Payload e)), api_encAssignment = (\<lambda>a. Inr (as_AssignmentID a)),
      api_encAssignmentManifest = (\<lambda>_. Inr ''am''), api_secret = (\<lambda>n. Inr ''fresh''), api_parsePKCS1 = (\<lambda>_. unsupported),
      api_checkCSR = (\<lambda>_. unsupported), api_encPayload = (\<lambda>p. Inr (sim_PolicyRepo p)), api_random = (\<lambda>_. Inr ''0a''), api_layout = (\<lambda>_. ''t''),
      se_parseURL = (\<lambda>u. if HasPrefix u ''https://'' then Inr ''https'' else Inr ''http''), se_readFile = (\<lambda>_ _. Inr toy_pem),
      se_certPool = (\<lambda>_. True), se_keyPair = (\<lambda>_ _ _. Inr ()), se_post = (\<lambda>_ _ _ _. unsupported),
      se_encSignRequest = (\<lambda>p m. Inr p), se_decSignRequest = (\<lambda>b. Inr (b, toy_metadata)), se_decSignResponse = (\<lambda>_. Inr toy_envelope),
      me_decBootstrap = (\<lambda>_. Inr \<lparr>bt_EnterpriseRegistryRepo = ''r'', bt_EnterpriseRegistryRef = ''main'', bt_CredentialRef = ''c'',
        bt_TrustAnchors = [\<lparr>ta_KeyID = ''k'', ta_Purpose = ''p''\<rparr>]\<rparr>),
      me_secret = ''hmac'', me_parseRSA = (\<lambda>_. Inr (Some (3233, 17))), me_parseRSA1 = (\<lambda>_. unsupported),
      me_decBindings = (\<lambda>_. Inr [\<lparr>cb_ID = ''b'', cb_Source = ''oidc'', cb_Issuer = [], cb_Audience = [], cb_Claim = ''groups'',
        cb_Contains = JString ''ops'', cb_Equals = JNull, cb_MapsTo = [(''subject.role'', JString ''operator'')]\<rparr>]),
      me_jwksServer = (\<lambda>_ _ _. unsupported), me_openPostgres = (\<lambda>_. Inr ()), me_base64 = id,
      me_jobCodec = toy_job_codec, me_redis = toy_redis\<rparr>"

definition toy_keys :: key_env where
  "toy_keys =
     \<lparr>clock = (\<lambda>_. 1000), fault = (\<lambda>_. None), fs_sha = toy_hash, fs_cwd = Inr ''/srv'', fs_written = (\<lambda>_. 0),
      ke_encKeyFile = (\<lambda>k. Inr (kf_KeyID k)), ke_decKeyFile = (\<lambda>_. unsupported),
      ke_generate = (\<lambda>_. Inr (replicate 32 CHR ''k'', replicate 64 CHR ''k''))\<rparr>"

definition toy_flags :: api_flags where
  "toy_flags =
     \<lparr>pc_TLSCert = [], pc_TLSKey = [], pc_DevInsecureHTTP = True, pc_QueueKind = ''memory'', pc_EnableDevTokens = True,
      pc_ManagementStoreKind = ''postgres'', pc_ManagementPostgresDSN = ''dsn'', pc_DevManagement = False, pc_DevSeedManagementTrust = True,
      pc_ManagementSignerURL = [], pc_DevInsecureManagementSigner = False, pc_ArtifactStoreEnvironment = ''dev'',
      pc_DevAllowCLIKLIQServiceSecret = False, pc_KLIQServiceTokenSecretFromArg = [], pc_OIDCIssuer = [], pc_OIDCAudience = [],
      pc_OIDCHMACSecret = [], pc_OIDCRSAPublicKey = [], pc_OIDCJWKSURL = [], pc_OIDCJWKSRefreshInterval = 0,
      pc_OIDCJWKSMinRefreshInterval = 0, pc_ContextBindings = [], pc_BootstrapConfig = [],
      fl_Production = False, fl_ClientCA = [], fl_ManagementSigningKey = ''/key'', fl_ManagementSignerKeyID = ''key-1'',
      fl_ManagementSignerCA = [], fl_ManagementSignerClientCert = [], fl_ManagementSignerClientKey = [], fl_ManagementSignerServerName = [],
      fl_ManagementSignerCertPin = [], fl_KLIQServiceTokenSecretFile = [], fl_ArtifactStoreRoot = ''/store'', fl_ArtifactStoreOrg = ''org''\<rparr>"

text \<open>The flags of a production start, with a remote signer and a public key.\<close>

definition toy_production :: api_flags where
  "toy_production = toy_flags\<lparr>pc_TLSCert := ''c'', pc_TLSKey := ''k'', pc_DevInsecureHTTP := False, pc_QueueKind := ''redis'', pc_EnableDevTokens := False,
     pc_DevSeedManagementTrust := False, pc_ManagementSignerURL := ''https://signer'', pc_ArtifactStoreEnvironment := ''prod'',
     pc_OIDCIssuer := ''i'', pc_OIDCAudience := ''a'', pc_OIDCRSAPublicKey := ''/rsa'', pc_ContextBindings := ''/cb'',
     pc_BootstrapConfig := ''/bs'', fl_Production := True\<rparr>"

definition api_tables :: postgres where
  "api_tables = toy_tables\<lparr>pg_tokens := [\<lparr>pt_token_id = ''t-1'', pt_token_sha256 = ''sha256:try'', pt_used_at = None, pt_revoked_at = None,
     pt_revoked_reason = [], pt_token_json = toy_token\<rparr>]\<rparr>"

lemma api_tables_inv: "pg_inv api_tables"
  using toy_tables_inv by (simp add: pg_inv_def trust_rows_ok_def token_rows_ok_def api_tables_def toy_tables_def world_of_def toy_token_def)

definition toy_state :: "postgres \<Rightarrow> forge_state" where
  "toy_state d = \<lparr>fst_Memory = NewMemoryStore, fst_Postgres = d, fst_Files = Map.empty, fst_JWKS = new_jwks_cache 0 0,
     fst_Jobs = new_job_memory, fst_Redis = Map.empty\<rparr>"

definition toy_active :: KLIQRegistration where
  "toy_active = toy_registration\<lparr>kr_Status := ''active'', kr_Identity := zero_KLIQIdentity\<lparr>ki_TrustKeyID := ''key-1''\<rparr>\<rparr>"

text \<open>A store that knows one node and accepts what it is given.\<close>

definition fixed_store :: "(forge_state, unit) Store" where
  "fixed_store =
     \<lparr>ms_SaveAuditEvent = (\<lambda>_ _. ret ()), ms_CreateEnrollmentToken = (\<lambda>_ _ _. ret ()), ms_EnrollmentToken = (\<lambda>_. raise ErrManagementNotFound),
      ms_UseEnrollmentToken = (\<lambda>_ _ _ _ _ _. ret toy_token), ms_RevokeEnrollmentToken = (\<lambda>_ _ _ _. ret ()),
      ms_Register = (\<lambda>_ _. ret ()), ms_Registration = (\<lambda>_. ret toy_active), ms_Identity = (\<lambda>_. raise ErrManagementNotFound),
      ms_RevokeKLIQ = (\<lambda>_ _ _ _. ret ()), ms_SaveTrustBundle = (\<lambda>_. ret ()), ms_TrustBundle = (\<lambda>_. ret toy_trust),
      ms_RotateTrustBundle = (\<lambda>_ _ _ _ _. ret ()), ms_RevokeTrustBundle = (\<lambda>_ _ _ _. ret ()), ms_NextAssignmentVersion = (\<lambda>_. ret 1),
      ms_SaveAssignment = (\<lambda>_ _ _ _. ret ()), ms_LatestAssignment = (\<lambda>_ _. ret toy_envelope), ms_RevokeAssignment = (\<lambda>_ _ _ _ _. ret ()),
      ms_SaveHeartbeat = (\<lambda>_. ret ()), ms_SaveStatusReport = (\<lambda>_. ret ()), ms_StatusReport = (\<lambda>_. raise ErrManagementNotFound)\<rparr>"

lemma toy_main_redis: "me_redis toy_main = toy_redis"
  by (simp add: toy_main_def)

lemma toy_main_sel [simp]:
  "clock toy_main n = 1000" "fault toy_main n = None" "ae_wire toy_main = api_wire" "se_readFile toy_main p n = Inr toy_pem"
  "me_parseRSA toy_main der = Inr (Some (3233, 17))" "me_openPostgres toy_main n = Inr ()" "me_secret toy_main = ''hmac''"
  "se_parseURL toy_main u = (if HasPrefix u ''https://'' then Inr ''https'' else Inr ''http'')" "se_certPool toy_main d = True"
  by (simp_all add: toy_main_def)

lemma toy_pem_decodes: "pem_Decode api_wire toy_pem = Some (replicate 32 CHR ''k'')"
  by (simp add: api_wire_def toy_pem_def HasPrefix_def)

lemma toy_decoders [simp]:
  "me_decBootstrap toy_main b = Inr \<lparr>bt_EnterpriseRegistryRepo = ''r'', bt_EnterpriseRegistryRef = ''main'', bt_CredentialRef = ''c'',
     bt_TrustAnchors = [\<lparr>ta_KeyID = ''k'', ta_Purpose = ''p''\<rparr>]\<rparr>"
  "me_decBindings toy_main b = Inr [\<lparr>cb_ID = ''b'', cb_Source = ''oidc'', cb_Issuer = [], cb_Audience = [], cb_Claim = ''groups'',
     cb_Contains = JString ''ops'', cb_Equals = JNull, cb_MapsTo = [(''subject.role'', JString ''operator'')]\<rparr>]"
  by (simp_all add: toy_main_def)

lemma toy_trims [simp]:
  "TrimSpace [] = []"
  "TrimSpace ''c'' = ''c''"
  "TrimSpace ''k'' = ''k''"
  "TrimSpace ''i'' = ''i''"
  "TrimSpace ''a'' = ''a''"
  "TrimSpace ''/rsa'' = ''/rsa''"
  "TrimSpace ''/cb'' = ''/cb''"
  "TrimSpace ''/bs'' = ''/bs''"
  "TrimSpace ''dsn'' = ''dsn''"
  "TrimSpace ''https://signer'' = ''https://signer''"
  "TrimSpace ''prod'' = ''prod''"
  "TrimSpace ''r'' = ''r''"
  "TrimSpace ''main'' = ''main''"
  "TrimSpace ''b'' = ''b''"
  "TrimSpace ''oidc'' = ''oidc''"
  "TrimSpace ''groups'' = ''groups''"
  "TrimSpace ''key-1'' = ''key-1''"
  "TrimSpace ''hmac'' = ''hmac''"
  "TrimSpace ''p'' = ''p''"
  by code_simp+

lemma toy_production_sel [simp]:
  "fl_Production toy_production" "pc_BootstrapConfig toy_production = ''/bs''" "pc_QueueKind toy_production = ''redis''"
  "pc_OIDCRSAPublicKey toy_production = ''/rsa''" "pc_OIDCJWKSURL toy_production = []" "pc_ContextBindings toy_production = ''/cb''"
  "pc_ManagementStoreKind toy_production = ''postgres''" "pc_ManagementSignerURL toy_production = ''https://signer''"
  "fl_ManagementSignerKeyID toy_production = ''key-1''" "pc_KLIQServiceTokenSecretFromArg toy_production = []"
  "fl_KLIQServiceTokenSecretFile toy_production = []" "pc_TLSCert toy_production = ''c''" "pc_TLSKey toy_production = ''k''"
  "fl_ClientCA toy_production = []" "\<not> pc_EnableDevTokens toy_production" "\<not> pc_DevManagement toy_production"
  by (simp_all add: toy_production_def toy_flags_def)

lemma toy_gate: "validateForgeAPIProductionConfig toy_main toy_production = Inr ()"
  by (simp add: validateForgeAPIProductionConfig_def production_jwks_def production_signer_def toy_production_def toy_flags_def
      check_then_def fail_if_def HasPrefix_def)

lemma toy_bindings_load: "is_ok (LoadContextBindings (\<lambda>p. check_then (se_readFile toy_main p n) (me_decBindings toy_main)) ''/cb'')"
  by (simp add: LoadContextBindings_def validateContextBinding_def Let_def fail_if_def)

lemma toy_start_gate: "start_gate toy_main toy_production w = (Inr (), w\<lparr>tick := Suc (tick w)\<rparr>)"
  by (simp add: start_gate_def toy_gate jobStore_def bindE_def lift_def finish_def ret_def bootstrap_Load_def ask_def bootstrap_Validate_def Let_def fail_if_def)

definition toy_bindings :: "ContextBinding list" where
  "toy_bindings = projr (me_decBindings toy_main [])"

lemma toy_authenticator:
  "authenticator toy_main toy_production w = (Inr (Some (3233, 17), toy_bindings), w\<lparr>tick := Suc (Suc (tick w))\<rparr>)"
  by (simp add: authenticator_def uses_oidc_def loadRSAPublicKey_def LoadContextBindings_def toy_pem_decodes bindE_def lift_def ret_def ask_def Let_def
      validateContextBinding_def toy_bindings_def fail_if_def)

lemma toy_signer_run:
  "management_signer toy_main toy_keys (postgres_Store toy_main) toy_production \<lparr>db = toy_state api_tables, calls = [], tick = n\<rparr> =
     (Inr None, \<lparr>db = toy_state api_tables, calls = [], tick = Suc n\<rparr>)"
  by (simp add: management_signer_def validateProvisionedManagementTrustBundle_def postgres_Store_def Let_def bindE_def tryE_def zoom_def
      pg_TrustBundle_def query_row_def query_def statement_def toy_state_def api_tables_def toy_tables_def trust_row_def toy_trust_def ret_def check_bundle_def)

definition toy_server :: "(forge_state, unit) Server" where
  "toy_server = forge_server toy_main toy_keys toy_production (postgres_Store toy_main) (Some (3233, 17)) toy_bindings None ''hmac''"

lemma toy_started:
  "api_main toy_main toy_keys toy_production (world_of (toy_state api_tables)) =
     (Inr (toy_server, Some None), \<lparr>db = toy_state api_tables, calls = [], tick = 5\<rparr>)"
proof -
  have chain: "configured_chain toy_main toy_production (Some (3233, 17)) toy_bindings \<noteq> []"
    by (simp add: configured_chain_def Let_def uses_oidc_def)
  show ?thesis
    by (simp add: api_main_def world_of_def bindE_def toy_start_gate toy_authenticator chain managementStore_def ask_def ret_def toy_signer_run
        loadKLIQServiceTokenSecret_def forgeAPITLSConfig_def listener_tls_def Let_def toy_server_def)
qed

end
