(* ===== verification/Properties_API.thy ===== *)
theory Properties_API
  imports Examples_API
begin

text \<open>
  Properties of the API of Forge, of the process that serves it, and of what they compose: the management store, the
  verifiers of tokens, the signer and the node.
\<close>

abbreviation served :: "'e api_env_scheme \<Rightarrow> ('d, 'c) Server \<Rightarrow> (endpoint \<times> api_request) list \<Rightarrow> ('d, 'c) world \<Rightarrow> ('d, 'c) world" where
  "served env srv requests w \<equiv> after (\<lambda>r. finish (serve env srv r)) requests w"

section \<open>Answers\<close>

text \<open>How the combinators of a handler answer with a status that is not an error of theirs.\<close>

lemma writeJSON_eq [simp]: "writeJSON status value w = (r, w') \<longleftrightarrow> r = Inr \<lparr>hr_Status = status, hr_Body = value\<rparr> \<and> w' = w"
  by (auto simp: writeJSON_def)

lemma writeError_eq [simp]: "writeError status code w = (r, w') \<longleftrightarrow> r = Inr \<lparr>hr_Status = status, hr_Body = ErrorBody code\<rparr> \<and> w' = w"
  by (auto simp: writeError_def)

lemma writeError_result [simp]: "fst (writeError status code w) = Inr \<lparr>hr_Status = status, hr_Body = ErrorBody code\<rparr>"
  by (simp add: writeError_def writeJSON_def ret_def)

definition succeeds :: "api_response result \<Rightarrow> bool" where
  "succeeds r \<longleftrightarrow> (case r of Inr a \<Rightarrow> hr_Status a < 300 | Inl _ \<Rightarrow> False)"

lemma succeeds_simps [simp]: "succeeds (Inr a) \<longleftrightarrow> hr_Status a < 300" "\<not> succeeds (Inl e)"
  by (simp_all add: succeeds_def)

lemma refuse_if_E:
  assumes "refuse_if bad status code k w = (r, w')" and "succeeds r" and "300 \<le> status"
  obtains "\<not> bad" "k w = (r, w')"
  using assms by (auto simp: refuse_if_def split: if_splits)

lemma checked_E:
  assumes "checked x status code k w = (r, w')" and "succeeds r" and "300 \<le> status"
  obtains y where "x = Inr y" "k y w = (r, w')"
  using assms by (auto simp: checked_def split: sum.splits)

lemma needs_E:
  assumes "needs x code k w = (r, w')" and "succeeds r"
  obtains y where "x = Some y" "k y w = (r, w')"
  using assms by (auto simp: needs_def split: option.splits)

lemma attempt_E:
  assumes "attempt m failed k w = (r, w')" and "succeeds r" and "\<And>e v. succeeds (fst (failed e v)) \<Longrightarrow> False"
  obtains x v where "m w = (Inr x, v)" "k x v = (r, w')"
proof -
  from assms(1) obtain s v where s: "m w = (s, v)" "(case s of Inl e \<Rightarrow> failed e | Inr x \<Rightarrow> k x) v = (r, w')"
    by (auto simp: attempt_def elim: tryE_E)
  with assms(2,3) that show ?thesis by (cases s) (auto, metis fst_conv)
qed

lemma authorized_E:
  assumes "authorized p req k w = (r, w')" and "succeeds r"
  obtains "Authorize p req = Inr ()" "k w = (r, w')"
  using assms by (auto simp: authorized_def elim: checked_E)

lemma with_registration_E:
  assumes "with_registration m kliqID k w = (r, w')" and "succeeds r"
  obtains reg v where "ms_Registration m kliqID w = (Inr reg, v)" "k reg v = (r, w')"
  using assms(1) unfolding with_registration_def
  by (rule attempt_E) (use assms(2) that in \<open>auto simp: writeError_def writeJSON_def ret_def split: if_splits\<close>)

lemma with_active_E:
  assumes "with_active m kliqID k w = (r, w')" and "succeeds r"
  obtains reg v where "ms_Registration m kliqID w = (Inr reg, v)" "ensureKLIQRegistrationActive reg = Inr ()" "k reg v = (r, w')"
  using assms unfolding with_active_def by (auto elim!: with_registration_E checked_E)

definition toy_operator :: Principal where
  "toy_operator = \<lparr>pr_Subject = ''ops'', pr_Roles = [RoleSecurityOwner], pr_Scope = zero_Scope, pr_Claims = []\<rparr>"

definition toy_http :: api_request where
  "toy_http = \<lparr>aq_Authorization = [], aq_Peer = None, aq_Body = []\<rparr>"

section \<open>The process\<close>

lemma postgres_server:
  assumes "api_main env kenv f w = (Inr (srv, tls), w1)" and "pc_ManagementStoreKind f = ''postgres''"
  obtains publicKey bindings key secret where "srv = forge_server env kenv f (postgres_Store env) publicKey bindings key secret"
  using assms(1) by (rule api_main_server) (use assms(2) that in auto)

text \<open>
  C5. Whatever requests the API serves, in whatever order, however they are authenticated, and whatever statements of
  the database fail: from the start of the process on, a trust bundle of the PostgreSQL store keeps its public key and
  never leaves the state revoked, and the latest assignment of a node only advances: a greater version replaces it, and a
  version that was revoked stays revoked.
\<close>

theorem api_history_keeps_the_ledgers:
  assumes "\<And>n. \<not> IsZero (clock env n)" and "pg_inv (fst_Postgres (db w))"
    and "pc_ManagementStoreKind f = ''postgres''" and "api_main env kenv f w = (Inr (srv, tls), w1)"
  shows "let d = fst_Postgres (db w); d' = fst_Postgres (db (served env srv requests w1)) in
    pg_inv d' \<and> pinned (pg_trust_view d) (pg_trust_view d') \<and> advances (pg_latest_view d) (pg_latest_view d')"
proof -
  let ?d = "fst_Postgres (db w)"
  have "since env ?d w" using assms(1) by (simp add: since_def reached_start)
  from keeps_invD [OF keeps_api_main [OF assms(3)] this assms(4)] have start: "since env ?d w1" .
  from postgres_server [OF assms(4,3)] obtain publicKey bindings key secret where
    srv: "srv = forge_server env kenv f (postgres_Store env) publicKey bindings key secret" .
  have "since env ?d (served env srv requests w1)"
    unfolding srv by (rule forge.served.keeps_requests [OF start])
  then have "reached (pg_op env) timed ?d (fst_Postgres (db (served env srv requests w1)))"
    by (simp add: since_def)
  from postgres.reached_ledgers [OF this assms(2)] show ?thesis by (simp add: Let_def)
qed

theorem api_history_keeps_the_ledgers_witness:
  "let d = fst_Postgres (db (served toy_main toy_server [(Enroll, toy_http)] \<lparr>db = toy_state api_tables, calls = [], tick = 5\<rparr>)) in
     pg_inv d \<and> pinned (pg_trust_view api_tables) (pg_trust_view d) \<and> advances (pg_latest_view api_tables) (pg_latest_view d)"
  using api_history_keeps_the_ledgers [OF _ _ _ toy_started,
      of "[(Enroll, toy_http)]"] api_tables_inv
  by (simp add: world_of_def toy_state_def)

text \<open>
  C10. A Forge API that starts in production mode never approves a build and never plans an assignment: both need the
  signer to verify an envelope, the production gate requires the remote signer, and the remote signer cannot verify.
\<close>

theorem production_cannot_approve_or_plan:
  assumes "fl_Production f" and "api_main env kenv f w = (Inr (srv, tls), w1)"
  shows "\<not> succeeds (fst (approvePolicyBuildManifest env srv req ctx p v)) \<and> \<not> succeeds (fst (planKLIQAssignment env srv req ctx p v))"
proof -
  from assms(2) obtain m publicKey bindings key secret where
    srv: "srv = forge_server env kenv f m publicKey bindings key secret"
    and gate: "fl_Production f \<longrightarrow> validateForgeAPIProductionConfig env f = Inr ()"
    and "pc_ManagementStoreKind f = ''memory'' \<and> m = memory_Store env \<or> pc_ManagementStoreKind f = ''postgres'' \<and> m = postgres_Store env"
    and key: "key = None \<longleftrightarrow> \<not> blank (pc_ManagementSignerURL f)"
    by (rule api_main_server)
  from gate assms(1) have "\<not> blank (pc_ManagementSignerURL f)"
    by (auto simp: validateForgeAPIProductionConfig_def production_signer_def)
  with key have signer: "sv_ManagementSign srv = Some (remote_signer env (flagged_remote f))"
    by (simp add: srv forge_server_def signer_of_def)
  have stuck: "verify_with (remote_signer env (flagged_remote f)) label e v = (Inr u, v') \<Longrightarrow> False" for label e v u v'
    by (simp add: verify_with_def remote_signer_def)
  have build: "verifyApprovedBuildManifestEnvelope env (remote_signer env (flagged_remote f)) payload v = (Inr x, v') \<Longrightarrow> False" for payload v x v'
    by (auto simp: verifyApprovedBuildManifestEnvelope_def elim!: bindE_InrE dest: stuck)
  have valid: "validateApprovedBuild env a (remote_signer env (flagged_remote f)) reg q v = (Inr x, v') \<Longrightarrow> False" for a reg q v x v'
    by (auto simp: validateApprovedBuild_def guardE_Inr elim!: tryE_E bindE_InrE split: sum.splits dest: build)
  have "\<not> succeeds r" if "approvePolicyBuildManifest env srv req ctx p v = (r, v')" for r v'
    using that unfolding approvePolicyBuildManifest_def
    by (auto simp: signer elim!: needs_E checked_E refuse_if_E authorized_E attempt_E dest: build)
  moreover have "\<not> succeeds r" if "planKLIQAssignment env srv req ctx p v = (r, v')" for r v'
    using that unfolding planKLIQAssignment_def plan_from_build_def
    by (auto simp: signer elim!: needs_E checked_E refuse_if_E authorized_E with_active_E attempt_E dest: valid)
  ultimately show ?thesis by (metis prod.collapse)
qed

theorem production_cannot_approve_or_plan_witness:
  "\<not> succeeds (fst (approvePolicyBuildManifest toy_main toy_server toy_http toy_ctx toy_operator (world_of (toy_state api_tables))))"
  using production_cannot_approve_or_plan [OF _ toy_started] by simp

section \<open>Enrollment\<close>

text \<open>An enrollment that succeeds has used its token at the time of the clock, on the tables as they were.\<close>

lemma zoom_E:
  assumes "zoom get put m w = (r, w')"
  obtains v where "m \<lparr>db = get (db w), calls = calls w, tick = tick w\<rparr> = (r, v)"
    "w' = \<lparr>db = put (db v) (db w), calls = calls v, tick = tick v\<rparr>"
  using assms by (auto simp: zoom_eq)

lemma since_now: "(\<forall>n. \<not> IsZero (clock env n)) \<Longrightarrow> since env (fst_Postgres (db w)) w"
  by (simp add: since_def reached_start)

definition the_use :: "'e forge_env_scheme \<Rightarrow> enrollmentRequest \<Rightarrow> (forge_state, unit) world \<Rightarrow> mgmt_op" where
  "the_use env e w =
     OpUseToken no_context (er_EnrollmentToken e) (er_Environment e) (er_Stage e) (er_Scope e) (clock env (tick w))"

definition tables_of :: "(forge_state, unit) world \<Rightarrow> (postgres, unit) world" where
  "tables_of w = \<lparr>db = fst_Postgres (db w), calls = calls w, tick = Suc (tick w)\<rparr>"

lemma enroll_uses:
  assumes run: "enrollKLIQ env s req w = (r, w')" and ok: "succeeds r" and m: "sv_Management s = Some (postgres_Store env)"
    and req: "dq_Enrollment env (aq_Body req) = Inr e"
    and tail: "\<And>d i. keeps_inv (since env d) (issue_for env s i)"
  obtains v where "pg_op env (the_use env e w) (tables_of w) = (Inr (), v)"
    "(\<forall>n. \<not> IsZero (clock env n)) \<longrightarrow> since env (db v) w'"
proof -
  let ?m = "postgres_Store env"
  let ?k = "\<lambda>token. let registration = enrolled_registration env e (clock env (tick w));
         ctx = WithAuditMetadata no_context
           [(''enrollment_token_id'', JString (et_TokenID token)), (''kliq_id'', JString (kr_KLIQID registration))] in
     attempt (ms_Register ?m ctx registration) (\<lambda>_. writeError 500 ''registration_failed'') (\<lambda>_.
     attempt (issue_for env s (kr_Identity registration)) (\<lambda>_. writeError 500 ''service_token_issue_failed'') (\<lambda>serviceToken.
     writeJSON 201 (EnrollmentBody registration serviceToken)))"
  from run obtain tok v1 where
    use: "ms_UseEnrollmentToken ?m no_context (er_EnrollmentToken e) (er_Environment e) (er_Stage e) (er_Scope e) (clock env (tick w))
       (w\<lparr>tick := Suc (tick w)\<rparr>) = (Inr tok, v1)" and rest: "?k tok v1 = (r, w')"
    unfolding enrollKLIQ_def m req
    by (elim needs_E checked_E refuse_if_E bindE_E attempt_E ok) (auto simp: ok read_clock_def)
  from use obtain v where v: "pg_op env (the_use env e w) (tables_of w) = (Inr (), v)" and v1: "fst_Postgres (db v1) = db v"
    by (auto simp: postgres_Store_def zoom_eq the_use_def tables_of_def finish_def bindE_def ret_def)
  have "keeps_inv (since env d) (?k tok)" for d
    unfolding Let_def by (intro keeps tail store_keepsD(6) postgres_Store_keeps)
  from keeps_invD [OF this since_now rest] v1 have "(\<forall>n. \<not> IsZero (clock env n)) \<longrightarrow> since env (db v) w'" by simp
  with v show ?thesis by (rule that)
qed

lemma served_since:
  assumes "\<And>n. \<not> IsZero (clock env n)" and "pc_ManagementStoreKind f = ''postgres''" and "api_main env kenv f w = (Inr (srv, tls), w0)"
    and "since env d v"
  shows "since env d (served env srv requests v)"
proof -
  from postgres_server [OF assms(3,2)] obtain publicKey bindings key secret where
    srv: "srv = forge_server env kenv f (postgres_Store env) publicKey bindings key secret" .
  show ?thesis unfolding srv by (rule forge.served.keeps_requests [OF assms(4)])
qed

text \<open>
  C6. An enrollment token enrolls one node: once an enrollment with its secret has succeeded, no later one with that secret
  does, whatever the API serves in between and whatever statements fail.
\<close>

theorem secret_enrolls_once:
  assumes clock: "\<And>n. \<not> IsZero (clock env n)" and inv: "pg_inv (fst_Postgres (db w))"
    and kind: "pc_ManagementStoreKind f = ''postgres''" and start: "api_main env kenv f w = (Inr (srv, tls), w0)"
    and first: "enrollKLIQ env srv req (served env srv before w0) = (r1, w1)" "succeeds r1"
    and req: "dq_Enrollment env (aq_Body req) = Inr e" "dq_Enrollment env (aq_Body req') = Inr e'"
    and same: "er_EnrollmentToken e' = er_EnrollmentToken e"
  shows "\<not> succeeds (fst (enrollKLIQ env srv req' (served env srv between w1)))"
proof
  let ?h = "TokenSHA256 env (er_EnrollmentToken e)"
  let ?w = "served env srv before w0" and ?w' = "served env srv between w1"
  assume again: "succeeds (fst (enrollKLIQ env srv req' ?w'))"
  from postgres_server [OF start kind] obtain publicKey bindings key secret where
    srv: "srv = forge_server env kenv f (postgres_Store env) publicKey bindings key secret" .
  have m: "sv_Management srv = Some (postgres_Store env)" by (simp add: srv forge_server_def)
  have issue: "keeps_inv (since env d) (issue_for env srv i)" for d i unfolding srv by (rule forge.served.keeps_issue_for)
  have "since env (fst_Postgres (db w)) w0"
    by (rule keeps_invD [OF keeps_api_main [OF kind] since_now start]) (simp add: clock)
  from served_since [OF clock kind start this, of before] inv have inv1: "pg_inv (db (tables_of ?w))"
    using postgres.reached_ledgers by (auto simp: since_def tables_of_def)
  from enroll_uses [OF first m req(1) issue] clock obtain v where
    use: "pg_op env (the_use env e ?w) (tables_of ?w) = (Inr (), v)" and v: "since env (db v) w1" by blast
  have spent: "pg_spent (db v) ?h"
    using postgres.use_law [OF inv1 _ use [unfolded the_use_def]] clock by simp
  have inv2: "pg_inv (db v)" by (rule postgres.keeps_inv [OF inv1 use])
  from served_since [OF clock kind start v, of between]
  have later: "pg_inv (db (tables_of ?w')) \<and> pg_spent (db (tables_of ?w')) ?h"
    using postgres.reached_spent [of env ?h "db v"] inv2 spent by (simp add: since_def tables_of_def)
  from enroll_uses [OF prod.collapse [symmetric] again m req(2) issue] obtain v' where
    "pg_op env (the_use env e' ?w') (tables_of ?w') = (Inr (), v')" .
  from postgres.use_law [OF _ _ this [unfolded the_use_def]] later clock same show False by simp
qed

definition toy_used :: "KLIQEnrollmentToken result \<times> (postgres, unit) world" where
  "toy_used = pg_UseEnrollmentToken toy_main no_context ''try'' ''lab'' ''dev'' ''local'' 1000 \<lparr>db = api_tables, calls = [], tick = 6\<rparr>"

definition toy_enrolled :: KLIQRegistration where
  "toy_enrolled = enrolled_registration toy_main toy_enrollment 1000"

lemma toy_tries: "is_ok (fst toy_used)"
  by code_simp

lemma toy_registers:
  "is_ok (fst (pg_Register toy_main (WithAuditMetadata no_context
     [(''enrollment_token_id'', JString (et_TokenID (projr (fst toy_used)))), (''kliq_id'', JString (kr_KLIQID toy_enrolled))]) toy_enrolled (snd toy_used)))"
  by code_simp

lemma toy_issues: "is_ok (fst (issue_for toy_main toy_server (kr_Identity toy_enrolled) w))"
  by (simp add: issue_for_def toy_server_def forge_server_def IssueForIdentity_def issue_def bindE_def read_clock_def lift_def ret_def
      toy_main_def toy_enrolled_def enrolled_registration_def enrolled_identity_def Let_def StableKLIQID_def)

lemma toy_material: "validateIdentityMaterial toy_main toy_pem [] = Inr ()"
proof -
  have "TrimSpace toy_pem = toy_pem" by code_simp
  then show ?thesis by (simp add: validateIdentityMaterial_def toy_pem_decodes) (simp add: toy_pem_def api_wire_def)
qed

lemma world_eta: "\<lparr>db = db v, calls = calls v, tick = tick v\<rparr> = (v :: ('d, 'c) world)"
  by (cases v) simp

lemma ran: "is_ok (fst p) \<Longrightarrow> \<exists>x v. p = (Inr x, v)"
  by (cases p) (auto simp: is_ok_Inr)

lemma toy_enrolls:
  "succeeds (fst (enrollKLIQ toy_main toy_server toy_http \<lparr>db = toy_state api_tables, calls = [], tick = 5\<rparr>))"
proof -
  have server: "sv_Management toy_server = Some (postgres_Store toy_main)" by (simp add: toy_server_def forge_server_def)
  have request: "dq_Enrollment toy_main [] = Inr toy_enrollment" by (simp add: toy_main_def)
  have "TrimSpace toy_pem \<noteq> []" "TrimSpace ''try'' \<noteq> []" "TrimSpace ''n-1'' \<noteq> []" by code_simp+
  moreover obtain tok v where use: "toy_used = (Inr tok, v)" using ran [OF toy_tries] by blast
  moreover from ran [OF toy_registers] obtain v2 where
    "pg_Register toy_main (WithAuditMetadata no_context
       [(''enrollment_token_id'', JString (et_TokenID tok)), (''kliq_id'', JString (kr_KLIQID toy_enrolled))]) toy_enrolled v = (Inr (), v2)"
    unfolding use by auto
  moreover obtain t v3 where "issue_for toy_main toy_server (kr_Identity toy_enrolled)
       \<lparr>db = (toy_state api_tables)\<lparr>fst_Postgres := db v2\<rparr>, calls = calls v2, tick = tick v2\<rparr> = (Inr t, v3)"
    using ran [OF toy_issues] by blast
  ultimately show ?thesis
    by (simp add: enrollKLIQ_def server request toy_http_def needs_def checked_def refuse_if_def toy_material toy_enrollment_def attempt_def
        tryE_def bindE_def read_clock_def postgres_Store_def zoom_def toy_state_def toy_used_def toy_enrolled_def Let_def writeJSON_def ret_def world_eta)
qed

lemma toy_request: "dq_Enrollment toy_main (aq_Body toy_http) = Inr toy_enrollment"
  by (simp add: toy_main_def)

lemma toy_world_inv: "pg_inv (fst_Postgres (db (world_of (toy_state api_tables))))"
  by (simp add: world_of_def toy_state_def api_tables_inv)

theorem secret_enrolls_once_witness:
  "let w1 = snd (enrollKLIQ toy_main toy_server toy_http \<lparr>db = toy_state api_tables, calls = [], tick = 5\<rparr>) in
     \<not> succeeds (fst (enrollKLIQ toy_main toy_server toy_http (served toy_main toy_server [(Healthz, toy_http)] w1)))"
  unfolding Let_def
  by (rule secret_enrolls_once [OF _ toy_world_inv _ toy_started _ toy_enrolls toy_request toy_request, where before = "[]"])
    simp_all

section \<open>Revoked nodes\<close>

lemma locked_not_active:
  assumes "locked kliqID (fst_Postgres (db w))"
  shows "\<not> succeeds (fst (with_active (postgres_Store env) kliqID k w))"
proof
  assume "succeeds (fst (with_active (postgres_Store env) kliqID k w))"
  from with_active_E [OF prod.collapse [symmetric] this] locked_read [OF assms] show False by metis
qed

text \<open>
  C7. A node whose registration was revoked through the API is locked out for good: whatever the API serves afterwards - new
  enrollments of the same node among it - the node's assignment and status are not served, its service token is not refreshed, and no
  assignment is planned for it.
\<close>

theorem revoked_node_stays_locked_out:
  assumes clock: "\<And>n. \<not> IsZero (clock env n)" and kind: "pc_ManagementStoreKind f = ''postgres''"
    and start: "api_main env kenv f w = (Inr (srv, tls), w0)"
    and revoked: "revokeKLIQRegistration env srv i req ctx p v = (r, v1)" "succeeds r"
  shows "let later = served env srv requests v1; kliqID = TrimSpace i in
    (TrimSpace j = kliqID \<longrightarrow> \<not> succeeds (fst (latestKLIQAssignment env srv j ctx' p' later)) \<and>
       \<not> succeeds (fst (getKLIQStatusReport srv j ctx' p' later))) \<and>
    (PrincipalKLIQID p' = kliqID \<longrightarrow> \<not> succeeds (fst (refreshKLIQServiceToken env srv ctx' p' later))) \<and>
    (\<forall>plan. dq_Plan env (aq_Body req') = Inr plan \<and> TrimSpace (apr_KLIQID plan) = kliqID \<longrightarrow>
       \<not> succeeds (fst (planKLIQAssignment env srv req' ctx' p' later)))"
proof -
  from postgres_server [OF start kind] obtain publicKey bindings key secret where
    srv: "srv = forge_server env kenv f (postgres_Store env) publicKey bindings key secret" .
  have m: "sv_Management srv = Some (postgres_Store env)" by (simp add: srv forge_server_def)
  from revoked obtain t reason x x' where "ms_RevokeKLIQ (postgres_Store env) ctx (TrimSpace i) reason t x = (Inr (), x')" "fst_Postgres (db v1) = fst_Postgres (db x')"
    unfolding revokeKLIQRegistration_def m Let_def
    by (elim needs_E with_registration_E authorized_E bindE_E attempt_E) (auto simp: writeJSON_def ret_def)
  then have "locked (TrimSpace i) (fst_Postgres (db v1))"
    by (auto simp: postgres_Store_def zoom_eq dest!: pg_RevokeKLIQ_locks)
  moreover have "since env (fst_Postgres (db v1)) (served env srv requests v1)"
    by (rule served_since [OF clock kind start since_now]) (simp add: clock)
  ultimately have locked: "locked (TrimSpace i) (fst_Postgres (db (served env srv requests v1)))"
    by (auto simp: since_def intro: reached_locked)
  note out = locked_not_active [OF locked]
  show ?thesis
    using out by (auto simp: Let_def latestKLIQAssignment_def getKLIQStatusReport_def refreshKLIQServiceToken_def planKLIQAssignment_def m needs_def
        checked_def split: option.split)
qed

lemma toy_revokes:
  "succeeds (fst (revokeKLIQRegistration toy_main toy_server ''kliq-1'' toy_http toy_ctx toy_operator \<lparr>db = toy_state api_tables, calls = [], tick = 5\<rparr>))"
proof -
  let ?w = "\<lparr>db = api_tables, calls = [], tick = 5\<rparr>" and ?r = "pg_revoked_registration toy_registration [] 2"
  have server: "sv_Management toy_server = Some (postgres_Store toy_main)" by (simp add: toy_server_def forge_server_def)
  have "pg_Registration toy_main ''kliq-1'' ?w = (Inr ?r, ?w\<lparr>tick := 6\<rparr>)"
    by (simp add: pg_Registration_def query_row_def query_def statement_def api_tables_def toy_tables_def bindE_def ret_def)
  moreover have "Authorize toy_operator (managed ''kliq.registration.revoke'' (kliqRegistrationScope ?r)) = Inr ()" by code_simp
  moreover have "is_ok (fst (pg_RevokeKLIQ toy_main toy_ctx ''kliq-1'' ''unspecified'' 1000 (?w\<lparr>tick := 7\<rparr>)))" by code_simp
  then obtain x v where "pg_RevokeKLIQ toy_main toy_ctx ''kliq-1'' ''unspecified'' 1000 (?w\<lparr>tick := 7\<rparr>) = (Inr x, v)" using ran by blast
  moreover have "decodeRevocationReason toy_main toy_http = ''unspecified''" "TrimSpace ''kliq-1'' = ''kliq-1''" by code_simp+
  ultimately show ?thesis
    by (simp add: revokeKLIQRegistration_def server needs_def with_registration_def authorized_def checked_def attempt_def tryE_def bindE_def
        read_clock_def postgres_Store_def zoom_def toy_state_def Let_def writeJSON_def ret_def)
qed

theorem revoked_node_stays_locked_out_witness:
  "\<not> succeeds (fst (latestKLIQAssignment toy_main toy_server ''kliq-1'' toy_ctx toy_operator
     (served toy_main toy_server [(Enroll, toy_http)]
        (snd (revokeKLIQRegistration toy_main toy_server ''kliq-1'' toy_http toy_ctx toy_operator \<lparr>db = toy_state api_tables, calls = [], tick = 5\<rparr>)))))"
proof -
  have "succeeds (fst (revokeKLIQRegistration toy_main toy_server ''kliq-1'' toy_http toy_ctx toy_operator \<lparr>db = toy_state api_tables, calls = [], tick = 5\<rparr>))"
    by (rule toy_revokes)
  from revoked_node_stays_locked_out [OF _ _ toy_started prod.collapse [symmetric] this, of "[(Enroll, toy_http)]" "''kliq-1''"]
  show ?thesis by (simp add: Let_def)
qed

end
