(* ===== verification/Properties_Build.thy ===== *)
theory Properties_Build
  imports Properties_API
begin

text \<open>Properties of approving a build and of planning, serving and reading assignments.\<close>

section \<open>Values\<close>

definition toy_output :: SignedOutputRef where
  "toy_output = \<lparr>so_Path = ''p'', so_ArtifactRef = \<lparr>rf_URI = ''fs:///a'', rf_SHA256 = ''sha256:bd''\<rparr>, so_EnvelopeSHA256 = ''sha256:bd'',
     so_PayloadSHA256 = ''sha256:x'', so_KeyID = ''key-1''\<rparr>"

definition toy_build :: "string \<Rightarrow> PolicyBuildManifest" where
  "toy_build status =
     \<lparr>bm_Kind = ''PolicyBuildManifest'', bm_Metadata = \<lparr>mm_ID = ''build.p1'', mm_CorrelationID = ''c'', mm_CreatedBy = ''author''\<rparr>,
      bm_Spec = \<lparr>sp_KNIVersion = ''1'', sp_ProtocolVersion = ''1'',
        sp_PolicyRepo = \<lparr>pp_Repo = ''r'', pp_Commit = ''abc'', pp_PolicyFile = ''f'', pp_PolicyFileHash = ''h'', pp_ContentDigest = ''d1''\<rparr>,
        sp_EnterpriseRegistry = \<lparr>rg_Repo = ''e'', rg_Commit = ''c'', rg_Version = ''v'', rg_ContentDigest = ''d2''\<rparr>,
        sp_CoreRegistry = \<lparr>rg_Repo = ''c'', rg_Commit = ''c'', rg_Version = ''v'', rg_ContentDigest = ''d3''\<rparr>,
        sp_Compiler = \<lparr>cp_Name = ''forge'', cp_Version = ''v'', cp_SourceCommit = ''c'', cp_BinaryDigest = [], cp_Digest = []\<rparr>,
        sp_Profile = \<lparr>dg_ID = ''p'', dg_Digest = ''d4''\<rparr>, sp_RiskRecipe = \<lparr>dg_ID = ''r'', dg_Digest = ''d5''\<rparr>, sp_CatalogDigest = ''d6'',
        sp_Adapters = [], sp_Bindings = [], sp_RuntimeActions = [],
        sp_FederatedSourceDigests = [(''policy_repo'', ''d1''), (''core_registry'', ''d3''), (''enterprise_registry'', ''d2''),
          (''catalog'', ''d6''), (''profile'', ''d4''), (''risk_recipe'', ''d5'')],
        sp_Outputs = [], sp_ArtifactRefs = [], sp_SignedOutputs = [(''runtime_bundle'', toy_output)]\<rparr>,
      bm_Approval = \<lparr>apv_Status = status, apv_ApprovedBy = ''reviewer'', apv_ApprovedAt = 900, apv_AuthorityID = ''reviewer'',
        apv_AuthorityKind = ''k'', apv_Environment = ''lab'', apv_Stage = ''dev'', apv_Scope = ''local''\<rparr>\<rparr>"


lemma toy_ready: "validateBuildManifestApprovalReadiness (toy_build ''pending_review'') = Inr ()"
  by code_simp

lemma toy_build_checks: "approved_build_checks toy_active ''abc'' [toy_artifact\<lparr>aa_ArtifactRef := ''fs:///a'', aa_SHA256 := ''sha256:bd''\<rparr>] (toy_build ''approved'') = Inr ()"
  by code_simp

section \<open>Approving\<close>









section \<open>Planning\<close>








end
