(* ===== verification/Properties_Authn.thy ===== *)
theory Properties_Authn
  imports Properties_API
begin

text \<open>
  Properties of authentication: the tokens of a node, JSON Web Tokens, the cache of keys, SPIFFE ids, and what the handlers
  conclude from a principal.
\<close>

section \<open>Reading an assignment\<close>

text \<open>
  C15. An assignment is served only for a node that is registered and active, and only to that node itself - its id, its
  environment, stage and scope and its identity agree with the registration - or to a principal with a reading role in the
  node's environment and stage.
\<close>

theorem served_assignment_is_authorized:
  assumes "latestKLIQAssignment env s i ctx p w = (r, w')" and "succeeds r"
  shows "\<exists>m reg e v v'. sv_Management s = Some m \<and> ms_Registration m (TrimSpace i) w = (Inr reg, v) \<and>
    ensureKLIQRegistrationActive reg = Inr () \<and> ms_LatestAssignment m ctx (TrimSpace i) v = (Inr e, v') \<and>
    r = Inr \<lparr>hr_Status = 200, hr_Body = EnvelopeBody e\<rparr> \<and>
    (if HasRole p RoleKLIQService then
       PrincipalKLIQID p = kr_KLIQID reg \<and> sc_Environment (pr_Scope p) \<in> {[], kr_Environment reg} \<and>
       sc_Stage (pr_Scope p) \<in> {[], kr_Stage reg} \<and> PrincipalKLIQScope p \<in> {[], kr_Scope reg} \<and>
       \<not> disagree (ki_SPIFFEID (kr_Identity reg)) (PrincipalSPIFFEID p) \<and>
       \<not> disagree (IdentityMaterialSHA256 env (kr_Identity reg)) (PrincipalIdentityMaterialSHA256 p)
     else (\<exists>role \<in> set KLIQReadRoles. HasRole p role) \<and> scopeAllows (pr_Scope p) (kliqRegistrationScope reg))"
proof -
  from assms obtain m reg e v v' where run: "sv_Management s = Some m" "ms_Registration m (TrimSpace i) w = (Inr reg, v)"
    "ensureKLIQRegistrationActive reg = Inr ()" "ms_LatestAssignment m ctx (TrimSpace i) v = (Inr e, v')"
    "r = Inr \<lparr>hr_Status = 200, hr_Body = EnvelopeBody e\<rparr>" and auth: "authorizeKLIQAssignmentRead env p reg = Inr ()"
    unfolding latestKLIQAssignment_def Let_def
    by (elim needs_E with_active_E checked_E attempt_E) (auto split: if_splits)
  show ?thesis
  proof (cases "HasRole p RoleKLIQService")
    case True
    with auth have "PrincipalKLIQID p = kr_KLIQID reg \<and> sc_Environment (pr_Scope p) \<in> {[], kr_Environment reg} \<and>
       sc_Stage (pr_Scope p) \<in> {[], kr_Stage reg} \<and> PrincipalKLIQScope p \<in> {[], kr_Scope reg} \<and>
       \<not> disagree (ki_SPIFFEID (kr_Identity reg)) (PrincipalSPIFFEID p) \<and>
       \<not> disagree (IdentityMaterialSHA256 env (kr_Identity reg)) (PrincipalIdentityMaterialSHA256 p)"
      by (auto simp: authorizeKLIQAssignmentRead_def authorizeKLIQServicePrincipal_def)
    with run True show ?thesis by auto
  next
    case False
    with auth have "(\<exists>role \<in> set KLIQReadRoles. HasRole p role) \<and> scopeAllows (pr_Scope p) (kliqRegistrationScope reg)"
      by (auto simp: authorizeKLIQAssignmentRead_def Authorize_iff KLIQReadRoles_def)
    with run False show ?thesis by auto
  qed
qed

section \<open>Service tokens\<close>






text \<open>An environment whose codecs are inverse to each other, where the only claims are those of the enrolled node.\<close>

fun toy_unb64 :: "string \<Rightarrow> bytes" where
  "toy_unb64 (a # b # s) = (if a = CHR ''0'' then b else CHR ''.'') # toy_unb64 s"
| "toy_unb64 s = []"

definition toy_b64 :: "bytes \<Rightarrow> string" where
  "toy_b64 b = concat (map (\<lambda>c. if c = CHR ''.'' then ''1-'' else [CHR ''0'', c]) b)"


definition toy_claims :: KLIQServiceClaims where
  "toy_claims = (let i = kr_Identity (enrolled_registration toy_main toy_enrollment 1000) in
     service_claims (ki_KLIQID i) (ki_Environment i) (ki_Stage i) (ki_Scope i) (identity_provider i) (ki_SPIFFEID i)
       (IdentityMaterialSHA256 toy_main i) 1000 86400000000000)"

definition token_env :: main_env where
  "token_env = toy_main\<lparr>ae_b64 := toy_b64, ae_unb64 := (\<lambda>s. Inr (toy_unb64 s)),
     ae_encClaims := (\<lambda>c. if c = toy_claims then Inr ''claims'' else unsupported), ae_decClaims := (\<lambda>_. Inr toy_claims)\<rparr>"


definition token_server :: "(forge_state, unit) Server" where
  "token_server =
     \<lparr>sv_Authenticator = None, sv_Store = None, sv_Management = Some fixed_store, sv_ManagementSign = None, sv_Artifacts = None, sv_KLIQService = Some ''hmac'',
      sv_DevManagement = False\<rparr>"




theorem served_assignment_is_authorized_witness:
  "scopeAllows (pr_Scope toy_operator) (kliqRegistrationScope toy_active)"
proof -
  have "succeeds (fst (latestKLIQAssignment toy_main token_server ''kliq-1'' toy_ctx toy_operator (world_of (toy_state empty_postgres))))"
    by code_simp
  from served_assignment_is_authorized [OF prod.collapse [symmetric] this]
  show ?thesis by (auto simp: toy_operator_def HasRole_def RoleKLIQService_def RoleSecurityOwner_def token_server_def fixed_store_def)
qed

section \<open>Tokens signed by the node\<close>

text \<open>
  C17. A token signed by a node is accepted only when the registered key of the node it names has signed it, it has not expired,
  and its claims are those of the registered identity; the principal is that node.
\<close>

theorem identity_token_binds_the_identity:
  assumes "VerifyIdentityToken env (Some read) token w = (Inr p, w')"
  shows "\<exists>head body sig claims payload signature identity key now v v'. Split (CHR ''.'') token = [head, body, sig] \<and>
    ae_unb64 env body = Inr payload \<and> ae_decClaims env payload = Inr claims \<and> ae_unb64 env sig = Inr signature \<and>
    read (cl_KLIQID claims) v = (Inr identity, v') \<and> parseEd25519PublicKeyPEM (ae_wire env) (ki_PublicKeyPEM identity) = Inr key \<and>
    ed25519_verify (w_crypto (ae_wire env)) key body signature \<and> Unix now < cl_ExpiresAt claims \<and> now = clock env (tick w) \<and>
    cl_Environment claims = ki_Environment identity \<and> cl_Stage claims = ki_Stage identity \<and> cl_Scope claims = ki_Scope identity \<and>
    cl_IdentityMaterialSHA256 claims = IdentityMaterialSHA256 env identity \<and> PrincipalKLIQID p = cl_KLIQID claims"
proof -
  obtain head body sig where split: "Split (CHR ''.'') token = [head, body, sig]"
    using assms unfolding VerifyIdentityToken_def by (auto simp: guardE_Inr split: list.splits)
  from assms obtain payload signature claims identity key v v' where
    "ae_unb64 env body = Inr payload" "ae_unb64 env sig = Inr signature" "ae_decClaims env payload = Inr claims"
    and now: "\<not> cl_ExpiresAt claims \<le> Unix (clock env (tick w))"
    and "read (cl_KLIQID claims) v = (Inr identity, v')" "parseEd25519PublicKeyPEM (ae_wire env) (ki_PublicKeyPEM identity) = Inr key"
    "ed25519_verify (w_crypto (ae_wire env)) key body signature"
    and match: "claims_match env claims identity = Inr ()" and p: "p = service_principal ''kliq-identity-signed-token'' claims"
    unfolding VerifyIdentityToken_def split
    by (auto simp: guardE_Inr read_clock_Inr split: sum.splits elim!: bindE_InrE tryE_E)
  moreover from match have "cl_Environment claims = ki_Environment identity" "cl_Stage claims = ki_Stage identity"
    "cl_Scope claims = ki_Scope identity" "cl_IdentityMaterialSHA256 claims = IdentityMaterialSHA256 env identity"
    by (auto simp: claims_match_def)
  ultimately show ?thesis using split now by (auto simp: not_le)
qed

definition signed_identity :: KLIQIdentity where
  "signed_identity = kr_Identity (enrolled_registration toy_main toy_enrollment 1000)"

definition signed_token :: string where
  "signed_token = ''kliqsig.0b.'' @ toy_b64 (replicate 32 CHR ''k'' @ ''0b'')"

lemma signed_token_verifies:
  "is_ok (fst (VerifyIdentityToken token_env (Some (\<lambda>_. ret signed_identity)) signed_token (world_of (toy_state empty_postgres) :: (forge_state, unit) world)))"
  by code_simp

theorem identity_token_binds_the_identity_witness:
  "\<exists>key. parseEd25519PublicKeyPEM api_wire (ki_PublicKeyPEM signed_identity) = Inr key \<and>
     ed25519_verify toy_crypto key ''0b'' (toy_unb64 (toy_b64 (replicate 32 CHR ''k'' @ ''0b'')))"
proof -
  have split: "Split (CHR ''.'') signed_token = [''kliqsig'', ''0b'', toy_b64 (replicate 32 CHR ''k'' @ ''0b'')]"
    and fields: "ae_unb64 token_env s = Inr (toy_unb64 s)" "ae_wire token_env = api_wire" "w_crypto api_wire = toy_crypto" for s
    by (code_simp, simp_all add: token_env_def api_wire_def toy_wire_def)
  from signed_token_verifies obtain p w' where
    "VerifyIdentityToken token_env (Some (\<lambda>_. ret signed_identity)) signed_token (world_of (toy_state empty_postgres) :: (forge_state, unit) world) = (Inr p, w')"
    unfolding is_ok_Inr by (metis prod.collapse)
  from identity_token_binds_the_identity [OF this] show ?thesis
    unfolding split fields by (auto simp: ret_def)
qed

text \<open>
  Whether the identity is revoked and whether its credential has expired does not enter: the token of a node is verified alike
  with and without them, unlike its certificate, which \<open>VerifyMTLSRequest\<close> refuses then.
\<close>

lemma tryE_ret: "tryE (ret x) k = k (Inr x)"
  by (rule ext) (simp add: tryE_def ret_def)

lemma identity_token_ignores_revocation:
  "VerifyIdentityToken env (Some (\<lambda>_. ret (i\<lparr>ki_CredentialStatus := c, ki_CredentialExpiresAt := e, ki_Status := st, ki_RevokedAt := t\<rparr>))) token w =
   VerifyIdentityToken env (Some (\<lambda>_. ret i)) token w"
proof -
  have "claims_match env claims (i\<lparr>ki_CredentialStatus := c, ki_CredentialExpiresAt := e, ki_Status := st, ki_RevokedAt := t\<rparr>) = claims_match env claims i"
    for claims by (simp add: claims_match_def IdentityMaterialSHA256_def)
  then show ?thesis by (simp add: VerifyIdentityToken_def tryE_ret cong: list.case_cong)
qed

lemma revoked_certificate_is_refused:
  "identity_revoked i \<Longrightarrow> fst (VerifyMTLSRequest env (Some (\<lambda>_. ret i)) peer w) \<noteq> Inr p"
  by (auto simp: VerifyMTLSRequest_def tryE_def ret_def guardE_def raise_def Let_def split: option.splits)

section \<open>SPIFFE ids\<close>

lemma after_kliq_skip: "p \<noteq> ''kliq'' \<Longrightarrow> ps \<noteq> [] \<Longrightarrow> after_kliq (p # ps) = after_kliq ps"
  by (cases ps) auto

text \<open>The text of an element of the default id.\<close>

definition spiffe_part :: "string \<Rightarrow> string" where
  "spiffe_part s = ReplaceByte (CHR ''/'') ''_'' (TrimSpace s)"

lemma spiffe_part_solid: "CHR ''/'' \<notin> set (spiffe_part s)"
  by (simp add: spiffe_part_def ReplaceByte_removes)

lemma TrimSpace_last:
  assumes "s \<noteq> []" and "\<not> is_space (hd s)" and "\<not> is_space (last s)"
  shows "TrimSpace s = s"
proof -
  have "dropWhile is_space s = s" using assms by (cases s) auto
  moreover have "dropWhile is_space (rev s) = rev s" using assms by (cases s rule: rev_cases) auto
  ultimately show ?thesis by (simp add: TrimSpace_def)
qed

lemma trimmed_last:
  assumes "TrimSpace s \<noteq> []"
  shows "\<not> is_space (last (TrimSpace s))"
proof -
  let ?t = "dropWhile is_space (rev (dropWhile is_space s))"
  from assms have "?t \<noteq> []" by (auto simp: TrimSpace_def)
  then have "\<not> is_space (hd ?t)" by (rule hd_dropWhile)
  moreover have "last (rev ?t) = hd ?t" using \<open>?t \<noteq> []\<close> by (simp add: last_rev)
  ultimately show ?thesis by (simp add: TrimSpace_def)
qed

lemma spiffe_part_last:
  assumes "TrimSpace s \<noteq> []"
  shows "spiffe_part s \<noteq> [] \<and> \<not> is_space (last (spiffe_part s))"
proof -
  obtain xs x where x: "TrimSpace s = xs @ [x]" using assms by (cases "TrimSpace s" rule: rev_cases) auto
  with trimmed_last [OF assms] have "\<not> is_space x" by simp
  with x show ?thesis by (auto simp: spiffe_part_def ReplaceByte_def is_space_def)
qed

text \<open>
  The id of a node is read back from its default SPIFFE id, provided that neither its environment nor its stage nor its scope is
  called \<^verbatim>\<open>kliq\<close>: slashes become underscores and surrounding space is dropped.
\<close>

theorem spiffe_id_names_the_node:
  assumes "TrimSpace kliqID \<noteq> []" and "spiffe_part environment \<noteq> ''kliq''" and "spiffe_part stage \<noteq> ''kliq''" and "spiffe_part scope \<noteq> ''kliq''"
  shows "kliqIDFromSPIFFEID (DefaultKLIQSPIFFEID kliqID environment stage scope) = spiffe_part kliqID"
proof -
  let ?parts = "[''environment'', spiffe_part environment, ''stage'', spiffe_part stage, ''scope'', spiffe_part scope, ''kliq'', spiffe_part kliqID]"
  have fixed_parts: "spiffe_part ''environment'' = ''environment''" "spiffe_part ''stage'' = ''stage''" "spiffe_part ''scope'' = ''scope''" "spiffe_part ''kliq'' = ''kliq''"
    by code_simp+
  have "kliqID \<noteq> []" using assms(1) by (auto simp: TrimSpace_def)
  then have sid: "DefaultKLIQSPIFFEID kliqID environment stage scope = ''spiffe://kernloom.local/'' @ Join ''/'' ?parts" (is "_ = ?sid")
    unfolding DefaultKLIQSPIFFEID_def spiffe_part_def [symmetric] by (simp add: fixed_parts)
  have sid2: "?sid = Join ''/'' ([''spiffe:'', [], ''kernloom.local''] @ ?parts)" by simp
  have "last ?sid = last (spiffe_part kliqID)" using spiffe_part_last [OF assms(1)] by simp
  with spiffe_part_last [OF assms(1)] have "TrimSpace ?sid = ?sid" by (intro TrimSpace_last) (auto simp: is_space_def)
  then have "kliqIDFromSPIFFEID ?sid = after_kliq (Split (CHR ''/'') ?sid)" by (simp add: kliqIDFromSPIFFEID_def)
  also have "Split (CHR ''/'') ?sid = [''spiffe:'', [], ''kernloom.local''] @ ?parts"
    unfolding sid2 by (rule Split_Join) (auto simp: spiffe_part_solid)
  also have "after_kliq \<dots> = spiffe_part kliqID" using assms(2-4) by simp
  finally show ?thesis by (simp add: sid)
qed

theorem spiffe_id_names_the_node_witness:
  "kliqIDFromSPIFFEID (DefaultKLIQSPIFFEID ''n/1'' ''lab'' ''dev'' ''local'') = ''n_1''"
proof -
  have "spiffe_part ''n/1'' = ''n_1''" "TrimSpace ''n/1'' \<noteq> []" "spiffe_part ''lab'' \<noteq> ''kliq''" "spiffe_part ''dev'' \<noteq> ''kliq''" "spiffe_part ''local'' \<noteq> ''kliq''"
    by code_simp+
  with spiffe_id_names_the_node [of "''n/1''" "''lab''" "''dev''" "''local''"] show ?thesis by simp
qed

lemma environment_called_kliq_is_misread:
  "kliqIDFromSPIFFEID (DefaultKLIQSPIFFEID ''n-1'' ''kliq'' ''dev'' ''local'') = ''stage''"
  by code_simp

end
