(* ===== verification/Forge_Jobs.thy ===== *)
theory Forge_Jobs
  imports Forge_Invariants "HOL-Library.Sublist"
begin

text \<open>
  The job queue in the process: the API that accepts jobs and the workers that run them share the queue in Redis. Histories
  interleave requests of any kind with runs of a worker; the queue they leave behind is an instance of \<open>process_invariant\<close> for
  the requests and of \<open>job_queue\<close> for the runs.
\<close>

section \<open>A queue as a part of the state\<close>

lemma zoom_job_queue:
  assumes q: "job_queue s jobs queue stored fetched" and get: "\<And>p d. get (put p d) = p"
  shows "job_queue (zoom_Jobs get put s) (\<lambda>d. jobs (get d)) (\<lambda>d. queue (get d)) stored fetched"
proof (rule job_queue.intro, unfold zoom_Jobs_def JobStore.select_convs zoom_eq, goal_cases)
  case (1 job w r w')
  then show ?case using job_queue.create_law [OF q, of job] by (fastforce simp: get)
next
  case (2 i w r w')
  then show ?case using job_queue.enqueue_law [OF q, of i] by (fastforce simp: get)
next
  case (3 w r w')
  then show ?case using job_queue.dequeue_law [OF q] by (fastforce simp: get)
next
  case (4 i w r w')
  then show ?case using job_queue.get_law [OF q, of i] by (fastforce simp: get)
next
  case (5 job w r w')
  then show ?case using job_queue.update_law [OF q, of job] by (fastforce simp: get)
qed

interpretation api_mem_queue:
  job_queue "jobs_in_memory (memory_Jobs c) :: (forge_state, 'c) JobStore" "\<lambda>d. jm_jobs (fst_Jobs d)" "\<lambda>d. jm_queue (fst_Jobs d)"
    "\<lambda>job. Inr (cloneJob c job)" "\<lambda>job. Inr (cloneJob c job)"
  for c
  by (rule zoom_job_queue [OF mem_queue.job_queue_axioms]) simp

abbreviation redis_store :: "'e main_env_scheme \<Rightarrow> (forge_state, unit) JobStore" where
  "redis_store env \<equiv> jobs_in_redis (redis_Jobs (me_redis env) (me_jobCodec env) NewRedisStore)"

lemma api_redis_queue:
  assumes "redis_documented (me_redis env)"
  shows "job_queue (redis_store env) (\<lambda>d. redis_jobs NewRedisStore (fst_Redis d)) (\<lambda>d. redis_list NewRedisStore (fst_Redis d))
    (jc_encode (me_jobCodec env)) (decoded (me_jobCodec env))"
  by (rule zoom_job_queue [OF redis_job_queue [OF assms]]) simp

section \<open>What requests do to the queue\<close>

text \<open>The queue has only grown at its end, and every id in it is the id of a job that is stored.\<close>

definition queue_grown :: "string list \<Rightarrow> string list \<Rightarrow> (string \<rightharpoonup> 'r) \<Rightarrow> bool" where
  "queue_grown q q' js \<longleftrightarrow> prefix q q' \<and> set q' \<subseteq> dom js"

context job_queue
begin

lemma keeps_grown:
  "keeps_inv (\<lambda>w. queue_grown q (queue (db w)) (jobs (db w))) (js_Create store job)"
  "keeps_inv (\<lambda>w. queue_grown q (queue (db w)) (jobs (db w))) (js_Enqueue store i)"
  "keeps_inv (\<lambda>w. queue_grown q (queue (db w)) (jobs (db w))) (js_Get store i)"
proof -
  let ?grown = "\<lambda>w. queue_grown q (queue (db w)) (jobs (db w))"
  show "keeps_inv ?grown (js_Create store job)"
    by (rule keeps_invI) (drule create_law, auto simp: queue_grown_def)
  show "keeps_inv ?grown (js_Enqueue store i)"
    by (rule keeps_invI) (drule enqueue_law, auto simp: queue_grown_def)
  show "keeps_inv ?grown (js_Get store i)"
    by (rule keeps_invI) (drule get_law, auto simp: queue_grown_def)
qed

text \<open>A run takes at most the first id; the stored jobs stay stored.\<close>

lemma RunOnce_queue:
  assumes "RunOnce env defaults (Some store) w = (r, w')"
  shows "(queue (db w') = queue (db w) \<or> (\<exists>i. queue (db w) = i # queue (db w'))) \<and> dom (jobs (db w)) \<subseteq> dom (jobs (db w'))"
  using RunOnce_run [OF assms] by (auto simp: changes_job_def)

end

definition redis_queued :: "'e main_env_scheme \<Rightarrow> string list \<Rightarrow> (forge_state, unit) world \<Rightarrow> bool" where
  "redis_queued env q w \<longleftrightarrow> (\<forall>n. \<not> IsZero (clock env n)) \<and> redis_documented (me_redis env) \<and>
     queue_grown q (redis_list NewRedisStore (fst_Redis (db w))) (redis_jobs NewRedisStore (fst_Redis (db w)))"

lemma keeps_redis_queued:
  assumes "\<And>p x. fst_Redis (put p x) = fst_Redis x"
  shows "keeps_inv (redis_queued env q) (zoom get put m)"
  by (auto simp: keeps_inv_def zoom_def redis_queued_def assms split: prod.split)

lemma keeps_documented:
  assumes "redis_documented (me_redis env) \<Longrightarrow>
    keeps_inv (\<lambda>w. queue_grown q (redis_list NewRedisStore (fst_Redis (db w))) (redis_jobs NewRedisStore (fst_Redis (db w)))) m"
  shows "keeps_inv (redis_queued env q) m"
  using assms by (auto simp: keeps_inv_def redis_queued_def)

lemma redis_store_keeps: "jobs_keep (redis_queued env q) (redis_store env)"
  unfolding jobs_keep_def
  by (intro conjI allI keeps_documented; rule job_queue.keeps_grown [OF api_redis_queue])

interpretation queued: process_invariant "redis_queued env q" env kenv "postgres_Store env"
  for env :: "'e main_env_scheme" and q and kenv :: "'k key_env_scheme"
proof (unfold_locales, goal_cases)
  case (1 w n)
  then show ?case by (simp add: redis_queued_def)
next
  case (2 w n)
  then show ?case by (simp add: redis_queued_def)
next
  case 3
  show ?case by (simp add: store_keeps_def postgres_Store_def keeps_redis_queued)
next
  case (4 files)
  show ?case by (simp add: fs_Artifacts_def artifacts_keep_def keeps_redis_queued)
next
  case (5 fetch)
  show ?case by (simp add: keeps_redis_queued)
next
  case (6 kind store)
  then show ?case
    by (auto simp: jobStore_def jobs_keep_def zoom_Jobs_def [of fst_Jobs] keeps_redis_queued redis_store_keeps [unfolded jobs_keep_def] split: if_splits)
qed

section \<open>Histories of requests and runs\<close>

datatype job_event = Request "endpoint \<times> api_request" | WorkerRun

fun run_event ::
  "'e main_env_scheme \<Rightarrow> (forge_state, unit) Server \<Rightarrow> 'v worker_env_scheme \<Rightarrow> Options \<Rightarrow> job_event \<Rightarrow> unit forge" where
  "run_event env srv wenv defaults (Request r) = finish (serve env srv r)"
| "run_event env srv wenv defaults WorkerRun = finish (worker_runOnce wenv defaults (redis_store env))"

fun worker_runs :: "job_event list \<Rightarrow> nat" where
  "worker_runs [] = 0"
| "worker_runs (Request r # es) = worker_runs es"
| "worker_runs (WorkerRun # es) = Suc (worker_runs es)"

abbreviation queued_ids :: "(forge_state, unit) world \<Rightarrow> string list" where
  "queued_ids w \<equiv> redis_list NewRedisStore (fst_Redis (db w))"

lemma finish_world: "snd (finish m w) = snd (m w)"
  by (auto simp: finish_def bindE_def ret_def split: prod.splits sum.splits)

lemma redis_queued_start: "redis_queued env q w \<Longrightarrow> redis_queued env (queued_ids w) w"
  by (simp add: redis_queued_def queue_grown_def)

lemma request_queue:
  assumes "redis_queued env q w" and "serve env (forge_server env kenv f (postgres_Store env) publicKey bindings key secret) r w = (x, v)"
  shows "redis_queued env [] v \<and> (\<exists>added. queued_ids v = queued_ids w @ added)"
  using keeps_invD [OF queued.served.keeps_serve redis_queued_start [OF assms(1)] assms(2)]
  by (auto simp: redis_queued_def queue_grown_def prefix_def)

lemma worker_queue:
  assumes "redis_queued env q w" and "worker_runOnce wenv defaults (redis_store env) w = (x, v)"
  shows "redis_queued env [] v \<and> (queued_ids v = queued_ids w \<or> (\<exists>i. queued_ids w = i # queued_ids v))"
proof -
  from assms(1) have "redis_documented (me_redis env)" by (simp add: redis_queued_def)
  note run = job_queue.RunOnce_queue [OF api_redis_queue [OF this] prod.collapse [symmetric], of wenv defaults w]
  have v: "v = snd (RunOnce wenv defaults (Some (redis_store env)) w)"
    using worker_runOnce_world [of wenv defaults "redis_store env" w] assms(2) by simp
  with run have ids: "queued_ids v = queued_ids w \<or> (\<exists>i. queued_ids w = i # queued_ids v)" by simp
  then have "set (queued_ids v) \<subseteq> set (queued_ids w)" by auto
  also have "\<dots> \<subseteq> dom (redis_jobs NewRedisStore (fst_Redis (db w)))" using assms(1) by (simp add: redis_queued_def queue_grown_def)
  also have "\<dots> \<subseteq> dom (redis_jobs NewRedisStore (fst_Redis (db v)))" using run v by simp
  finally show ?thesis using assms(1) ids by (simp add: redis_queued_def queue_grown_def)
qed

text \<open>
  What was added came after what was there, and is taken in that order; a run takes at most one id.
\<close>

lemma event_history:
  assumes srv: "srv = forge_server env kenv f (postgres_Store env) publicKey bindings key secret" and "redis_queued env [] w"
  shows "\<exists>taken added. queued_ids w @ added = taken @ queued_ids (after (run_event env srv wenv defaults) es w) \<and>
    length taken \<le> worker_runs es \<and> redis_queued env [] (after (run_event env srv wenv defaults) es w)"
  using assms(2)
proof (induction es arbitrary: w)
  case (Cons e es)
  let ?v = "snd (run_event env srv wenv defaults e w)"
  show ?case
  proof (cases e)
    case (Request r)
    from request_queue [OF Cons.prems prod.collapse [symmetric], of kenv f publicKey bindings key secret r]
    obtain new where v: "redis_queued env [] ?v" "queued_ids ?v = queued_ids w @ new"
      by (auto simp: Request finish_world srv)
    from Cons.IH [OF v(1)] obtain taken added where
      "queued_ids ?v @ added = taken @ queued_ids (after (run_event env srv wenv defaults) es ?v)" "length taken \<le> worker_runs es"
      "redis_queued env [] (after (run_event env srv wenv defaults) es ?v)" by blast
    with v(2) Request show ?thesis by (intro exI [of _ taken] exI [of _ "new @ added"]) simp
  next
    case WorkerRun
    from worker_queue [OF Cons.prems prod.collapse [symmetric], of wenv defaults]
    obtain first where v: "redis_queued env [] ?v" "queued_ids w = first @ queued_ids ?v" "length first \<le> 1"
      by (auto simp: WorkerRun finish_world)
    from Cons.IH [OF v(1)] obtain taken added where
      "queued_ids ?v @ added = taken @ queued_ids (after (run_event env srv wenv defaults) es ?v)" "length taken \<le> worker_runs es"
      "redis_queued env [] (after (run_event env srv wenv defaults) es ?v)" by blast
    with v(2,3) WorkerRun show ?thesis by (intro exI [of _ "first @ taken"] exI [of _ added]) simp
  qed
qed (use assms in simp)

end
