(* ===== verification/Properties_Jobs.thy ===== *)
theory Properties_Jobs
  imports Properties_API Forge_Jobs
begin

text \<open>
  Properties of the Redis client, of the job queue, and of the API and the workers that share it.
\<close>

section \<open>The client\<close>

text \<open>
  C21. Reading a reply of Redis terminates whatever bytes the server sends, nested arrays included: fuel of one more than
  the number of bytes gives a result, and more fuel gives the same one.
\<close>

theorem redis_reply_is_always_read: "\<exists>r. \<forall>n. readValue al (Suc (length s) + n) s = Some r"
proof -
  from readValue_returns(1) [of s "Suc (length s)" al] obtain r where "readValue al (Suc (length s)) s = Some r" by auto
  then have "readValue al (Suc (length s) + n) s = Some r" for n by (rule readValue_fuel) simp
  then show ?thesis by blast
qed

text \<open>
  C22. A command is encoded so that the reader of the same protocol gets back its arguments, byte for byte, and leaves
  what follows the command: no argument, whatever bytes it has, can pass for another or for a second command.
\<close>

theorem command_is_read_back:
  assumes "\<forall>arg \<in> set args. fits al arg" and "int (length args) < 2 ^ 63" and "al_values al (int (length args))"
  shows "readValue al (Suc (length (encodeCommand args @ s))) (encodeCommand args @ s) =
    Some ((Value (CHR ''*'') [] 0 (map (\<lambda>arg. Value (CHR ''$'') arg 0 [] False) args) False, None), s)"
  by (rule readValue_command [OF assms]) (simp add: encodeCommand_def)

theorem command_is_read_back_witness:
  "readValue (rn_alloc toy_redis) 100 (encodeCommand [''SET'', ''k'', CRLF @ ''*1''] @ ''x'') =
     Some ((Value (CHR ''*'') [] 0 (map (\<lambda>arg. Value (CHR ''$'') arg 0 [] False) [''SET'', ''k'', CRLF @ ''*1'']) False, None), ''x'')"
proof (rule readValue_fuel)
  show "readValue (rn_alloc toy_redis) (Suc (length (encodeCommand [''SET'', ''k'', CRLF @ ''*1''] @ ''x''))) (encodeCommand [''SET'', ''k'', CRLF @ ''*1''] @ ''x'') =
     Some ((Value (CHR ''*'') [] 0 (map (\<lambda>arg. Value (CHR ''$'') arg 0 [] False) [''SET'', ''k'', CRLF @ ''*1'']) False, None), ''x'')"
    by (rule command_is_read_back) (simp_all add: fits_def toy_redis_def CRLF_def)
  show "Suc (length (encodeCommand [''SET'', ''k'', CRLF @ ''*1''] @ ''x'')) \<le> 100" by code_simp
qed

text \<open>
  C23. A connection that breaks in the middle of a reply never makes the client report a value the server did not send: a
  value that is reported is the one the whole reply gives.
\<close>

theorem broken_reply_is_not_misread:
  assumes "redis_do (net\<lparr>rn_link := (\<lambda>_. Answers (Some n))\<rparr>) args w = (Inr v, w')"
  shows "redis_do (net\<lparr>rn_link := (\<lambda>_. Answers None)\<rparr>) args w = (Inr v, w')"
proof -
  obtain reply d where s: "rn_server net (encodeCommand args) (db w) = (reply, d)" by force
  let ?p = "take n reply"
  from assms s obtain t where args: "args \<noteq> []" and w': "w' = w\<lparr>db := d, tick := Suc (tick w)\<rparr>"
    and "readValue (rn_alloc net) (Suc (length ?p)) ?p = Some ((v, None), t)"
    by (auto simp: redis_do_def Let_def reply_result_def received_def split: if_splits option.splits)
  from reader_prefix(1) [OF this(3), of "drop n reply"]
  have "readValue (rn_alloc net) (Suc (length ?p)) reply = Some ((v, None), t @ drop n reply)" by simp
  then have "readValue (rn_alloc net) (Suc (length reply)) reply = Some ((v, None), t @ drop n reply)"
    by (rule readValue_fuel) simp
  with s args w' show ?thesis by (simp add: redis_do_def Let_def reply_result_def received_def)
qed

theorem broken_reply_is_not_misread_witness:
  "fst (redis_do (toy_redis\<lparr>rn_link := (\<lambda>_. Answers None)\<rparr>) [''SET'', ''k'', ''v''] (world_of Map.empty :: (redis_db, unit) world)) =
     Inr (Value (CHR ''+'') ''OK'' 0 [] False)"
proof -
  let ?run = "redis_do (toy_redis\<lparr>rn_link := (\<lambda>_. Answers (Some 5))\<rparr>) [''SET'', ''k'', ''v''] (world_of Map.empty :: (redis_db, unit) world)"
  have "fst ?run = Inr (Value (CHR ''+'') ''OK'' 0 [] False)" by code_simp
  then have "?run = (Inr (Value (CHR ''+'') ''OK'' 0 [] False), snd ?run)" by (metis prod.collapse)
  from broken_reply_is_not_misread [OF this] show ?thesis by simp
qed

section \<open>Jobs that are accepted\<close>

lemma NewJob_run:
  assumes "NewJob env random layout jobType createdBy data w = (Inr job, v)"
  shows "db v = db w \<and> jb_Type job = jobType \<and> jb_Status job = StatusPending \<and> jb_CreatedBy job = createdBy \<and> data = Inr (jb_Payload job)"
  using assms
  by (auto simp: NewJob_def newID_def bindE_def tryE_def lift_def ask_def read_clock_def ret_def split: sum.splits)

context job_queue
begin

lemma accepted_job:
  assumes "createSimulationJob env s hreq ctx p w = (r, w')" and "succeeds r" and "sv_Store s = Some store"
  shows "\<exists>req job x. dq_Simulation env (aq_Body hreq) = Inr req \<and> r = Inr \<lparr>hr_Status = 202, hr_Body = JobBody job\<rparr> \<and>
    Authorize p \<lparr>az_Action = ''simulation.submit'', az_AllowedRoles = SimulationSubmitRoles, az_Scope = sjr_Scope req\<rparr> = Inr () \<and>
    jb_Type job = TypeSimulation \<and> jb_Status job = StatusPending \<and> jb_CreatedBy job = pr_Subject p \<and>
    api_encPayload env (simulation_payload req) = Inr (jb_Payload job) \<and> stored job = Inr x \<and>
    jobs (db w') = (jobs (db w))(jb_ID job \<mapsto> x) \<and> queue (db w') = queue (db w) @ [jb_ID job]"
proof -
  from assms obtain req job v1 v2 where req: "dq_Simulation env (aq_Body hreq) = Inr req"
    "Authorize p \<lparr>az_Action = ''simulation.submit'', az_AllowedRoles = SimulationSubmitRoles, az_Scope = sjr_Scope req\<rparr> = Inr ()"
    and new: "NewJob env (api_random env) (api_layout env) TypeSimulation (pr_Subject p) (api_encPayload env (simulation_payload req)) w = (Inr job, v1)"
    and create: "js_Create store job v1 = (Inr (), v2)" and enqueue: "js_Enqueue store (jb_ID job) v2 = (Inr (), w')"
    and r: "r = Inr \<lparr>hr_Status = 202, hr_Body = JobBody job\<rparr>"
    unfolding createSimulationJob_def by (elim needs_E checked_E authorized_E attempt_E) auto
  from req r NewJob_run [OF new] create_law [OF create] enqueue_law [OF enqueue] show ?thesis by auto
qed

end

text \<open>
  C19. A simulation job is accepted (202) only from a principal with a submitting role in the scope of the request; then the
  job that is answered is stored as pending under its id, with the subject of the principal and the encoded payload, its id is
  the last one of the queue in Redis, and nothing else of the queue changed.
\<close>

theorem accepted_job_is_queued:
  assumes "redis_documented (me_redis env)" and "sv_Store s = Some (redis_store env)"
    and "createSimulationJob env s hreq ctx p w = (r, w')" and "succeeds r"
  shows "\<exists>req job data. dq_Simulation env (aq_Body hreq) = Inr req \<and> r = Inr \<lparr>hr_Status = 202, hr_Body = JobBody job\<rparr> \<and>
    (\<exists>role \<in> set SimulationSubmitRoles. HasRole p role) \<and> scopeAllows (pr_Scope p) (sjr_Scope req) \<and>
    jb_Status job = StatusPending \<and> jb_CreatedBy job = pr_Subject p \<and>
    api_encPayload env (simulation_payload req) = Inr (jb_Payload job) \<and> jc_encode (me_jobCodec env) job = Inr data \<and>
    redis_jobs NewRedisStore (fst_Redis (db w')) = (redis_jobs NewRedisStore (fst_Redis (db w)))(jb_ID job \<mapsto> data) \<and>
    queued_ids w' = queued_ids w @ [jb_ID job]"
  using job_queue.accepted_job [OF api_redis_queue [OF assms(1)] assms(3,4,2)]
  by (auto simp: Authorize_iff SimulationSubmitRoles_def)

definition simulation_server :: "(forge_state, unit) Server" where
  "simulation_server =
     \<lparr>sv_Authenticator = None, sv_Store = Some (redis_store toy_main), sv_Management = None, sv_ManagementSign = None, sv_Artifacts = None,
      sv_KLIQService = None, sv_DevManagement = False\<rparr>"

lemma toy_submits:
  "succeeds (fst (createSimulationJob toy_main simulation_server toy_http no_context toy_operator (world_of (toy_state empty_postgres))))"
  by code_simp

theorem accepted_job_is_queued_witness:
  "\<exists>job :: Job. jb_Status job = StatusPending \<and> queued_ids (snd (createSimulationJob toy_main simulation_server toy_http no_context toy_operator
     (world_of (toy_state empty_postgres)))) = queued_ids (world_of (toy_state empty_postgres)) @ [jb_ID job]"
proof -
  have "redis_documented (me_redis toy_main)" "sv_Store simulation_server = Some (redis_store toy_main)"
    by (simp_all add: toy_main_redis toy_redis_documented simulation_server_def)
  from accepted_job_is_queued [OF this prod.collapse [symmetric] toy_submits] show ?thesis by blast
qed

section \<open>Jobs that are run\<close>


definition toy_worker :: worker_env where
  "toy_worker =
     \<lparr>clock = (\<lambda>_. 1000), fault = (\<lambda>_. None),
      we_decPayload = (\<lambda>b. Inr \<lparr>sim_PolicyRepo = b, sim_PolicyFile = [], sim_CoreRegistry = [], sim_EnterpriseRegistry = [], sim_OutputDir = []\<rparr>),
      we_encResult = (\<lambda>r. Inr (sim_Status r)), we_compile = (\<lambda>_ _. Inr []), we_encJob = (\<lambda>job. Inr (jb_ID job))\<rparr>"

definition toy_options :: Options where
  "toy_options = \<lparr>op_PolicyRepo = [], op_PolicyFile = [], op_CoreRegistry = [], op_EnterpriseRegistry = [], op_OutputDir = []\<rparr>"


text \<open>
  C20. A run of a worker that reports success has taken the first id of the queue, and the job it reports is the job stored
  under that id, finished: in state succeeded, stored again in its encoding, with no other job written or deleted.
\<close>

theorem reported_run_is_stored:
  assumes "redis_documented net" and "RunOnce wenv defaults (Some (redis_Jobs net c NewRedisStore)) w = (Inr (job, None), w')"
  shows "\<exists>i before started after_run. redis_list NewRedisStore (db w) = i # redis_list NewRedisStore (db w') \<and>
    redis_jobs NewRedisStore (db w) i = Some before \<and> jc_decode c before = (started, None) \<and> jb_ID job = jb_ID started \<and>
    jb_Status job = StatusSucceeded \<and> jc_encode c job = Inr after_run \<and> redis_jobs NewRedisStore (db w') (jb_ID job) = Some after_run \<and>
    changes_job (jb_ID job) (redis_jobs NewRedisStore (db w)) (redis_jobs NewRedisStore (db w'))"
  using job_queue.RunOnce_run [OF redis_job_queue [OF assms(1)] assms(2)]
  by (auto simp: reported_def decoded_Inr)

definition queued_db :: redis_db where
  "queued_db = [redis_key NewRedisStore ''job-1'' \<mapsto> RString ''pending|job-1'', redis_queue NewRedisStore \<mapsto> RList [''job-1'', ''job-2'']]"

theorem reported_run_is_stored_witness:
  "\<exists>i before. redis_list NewRedisStore queued_db = i # redis_list NewRedisStore (db (snd (RunOnce toy_worker toy_options (Some (redis_Jobs toy_redis toy_job_codec NewRedisStore))
      (world_of queued_db :: (redis_db, unit) world)))) \<and> redis_jobs NewRedisStore queued_db i = Some before"
proof -
  let ?run = "RunOnce toy_worker toy_options (Some (redis_Jobs toy_redis toy_job_codec NewRedisStore)) (world_of queued_db :: (redis_db, unit) world)"
  have "case fst ?run of Inr (job, None) \<Rightarrow> True | _ \<Rightarrow> False" by code_simp
  then obtain job where "?run = (Inr (job, None), snd ?run)" by (cases ?run) (auto split: sum.splits option.splits)
  from reported_run_is_stored [OF toy_redis_documented this] show ?thesis by (auto simp: world_of_def)
qed

text \<open>
  C40. A job can be lost: when the connection for reading the job fails after its id was taken, the run ends with that error, the
  id is gone from the queue and the job stays stored as it was, pending, so that no later run takes it.
\<close>

theorem job_is_lost_when_its_read_fails:
  assumes "redis_documented net" and "redis_list NewRedisStore (db w) = i # rest" and "i \<noteq> []" and "fits (rn_alloc net) i"
    and "rn_link net (tick w) = Answers None" and "rn_link net (Suc (tick w)) = Refused msg"
  shows "\<exists>w'. RunOnce wenv defaults (Some (redis_Jobs net c NewRedisStore)) w = (Inl (driver_error msg), w') \<and>
    redis_list NewRedisStore (db w') = rest \<and> redis_jobs NewRedisStore (db w') = redis_jobs NewRedisStore (db w)"
proof -
  let ?q = "redis_queue NewRedisStore"
  obtain d where pop: "redis_LPOP ?q (db w) = (bulk i, d)" "redis_list NewRedisStore d = rest"
    using LPOP_view [OF assms(2)] by (metis prod.collapse)
  have jobs: "redis_jobs NewRedisStore d = redis_jobs NewRedisStore (db w)"
    using redis_writes(1) [of ?q "db w"] pop(1) by auto
  let ?v = "w\<lparr>db := d, tick := Suc (tick w)\<rparr>"
  have "redis_do net [''LPOP'', ?q] w = (Inr (Value (CHR ''$'') i 0 [] False), ?v)"
    using assms(1,5) pop(1) readValue_bulk [OF assms(4), of "Suc (length (bulk i))" "[]"]
    by (simp add: redis_do_def redis_documented_def received_def Let_def reply_result_def)
  then have taken: "rj_Dequeue net NewRedisStore w = (Inr i, ?v)"
    using assms(3) by (simp add: rj_Dequeue_def tryE_def guardE_def ret_def)
  have "rj_Get net c NewRedisStore i ?v = (Inl (driver_error msg), ?v\<lparr>tick := Suc (tick ?v)\<rparr>)"
    using assms(6) by (simp add: rj_Get_def redis_do_def tryE_def raise_def driver_error_def ErrNil_def)
  with taken pop(2) jobs show ?thesis by (simp add: RunOnce_def redis_Jobs_def bindE_def)
qed

theorem job_is_lost_when_its_read_fails_witness:
  "\<exists>w'. RunOnce toy_worker toy_options (Some (redis_Jobs (toy_redis\<lparr>rn_link := (\<lambda>n. if n = 0 then Answers None else Refused ''refused'')\<rparr>) toy_job_codec NewRedisStore))
      (world_of queued_db :: (redis_db, unit) world) = (Inl (driver_error ''refused''), w') \<and>
    redis_list NewRedisStore (db w') = [''job-2''] \<and> redis_jobs NewRedisStore (db w') = redis_jobs NewRedisStore queued_db"
proof -
  let ?net = "toy_redis\<lparr>rn_link := (\<lambda>n. if n = 0 then Answers None else Refused ''refused'')\<rparr>"
  have "redis_documented ?net" using toy_redis_documented by (simp add: redis_documented_def)
  moreover have "redis_list NewRedisStore queued_db = [''job-1'', ''job-2'']" by code_simp
  ultimately show ?thesis
    using job_is_lost_when_its_read_fails [of ?net "world_of queued_db" "''job-1''" "[''job-2'']" "''refused''" toy_worker toy_options toy_job_codec]
    by (simp add: world_of_def fits_def toy_redis_def)
qed

end
