(* ===== verification/Spec2Isabelle.thy ===== *)
theory Spec2Isabelle
  imports Properties_Core Properties_Manager Properties_Execution Properties_Forge Properties_Baseline Properties_Build Properties_Authn
    Properties_Jobs
begin

text \<open>
  A verification development of Kernloom Core. Forge is the control plane: over an HTTP API it enrolls KLIQ nodes, keeps
  their registrations and trust keys, approves builds, signs and serves assignments, and queues simulation jobs for workers.
  KLIQ is the daemon on a node: it fetches and verifies an assignment, keeps the runtime bundle it carries, and executes
  runtime actions at adapters under leases, with an audit trail that is written first. The theories follow that path, from
  the shared documents to the daemon, then the stores of the control plane, its API and its process.

  \<^bold>\<open>Conventions.\<close> Strings are byte lists. A time is the integer number of nanoseconds since
  Go's zero time, so \<^verbatim>\<open>IsZero\<close> is equality with \<open>0\<close>; a duration is an integer with Go's
  \<^verbatim>\<open>int64\<close> overflow checks written out (\<^verbatim>\<open>GoTime\<close>); the string functions of the standard library are in \<^verbatim>\<open>GoStrings\<close>.
  An error is a value, a sentinel, a formatted or a
  wrapped error, and a fallible function returns \<open>error + 'a\<close> (\<^verbatim>\<open>Prelude\<close>). Stateful code acts on a
  world: the tables or maps of a store, the calls made to adapters so far, and a counter of
  system calls (\<^verbatim>\<open>Effects\<close>). The clock is a function of that counter and so is the fault of the database
  driver: a theorem that does not constrain them holds for every clock and for a failure at any
  statement. A transaction that fails puts the tables back.

  \<^bold>\<open>Shared documents and checks\<close> (\<^verbatim>\<open>internal/core\<close>). \<^verbatim>\<open>Core_Domain\<close>: assignments, trust bundles, profiles and
  the activation rule of \<^verbatim>\<open>domain/assignment.go\<close>. \<^verbatim>\<open>Core_Risk\<close>: \<^verbatim>\<open>risk/risk.go\<close>. \<^verbatim>\<open>Signing\<close>: Ed25519
  envelopes of \<^verbatim>\<open>signing/signing.go\<close>. \<^verbatim>\<open>Wire\<close>, \<^verbatim>\<open>Artifact_Checks\<close>: runtime bundles, context routes and
  conformance expectations, and the checks of each type of artifact.

  \<^bold>\<open>The daemon\<close> (\<^verbatim>\<open>internal/kliq\<close>). \<^verbatim>\<open>Action_State\<close>, \<^verbatim>\<open>SQLite_Store\<close>, \<^verbatim>\<open>SQLite_Managed\<close>: the state store of
  \<^verbatim>\<open>actionstate\<close>, table by table with the constraints of its schema. \<^verbatim>\<open>Bundle_Source\<close>: fetching and verifying an
  assignment (\<^verbatim>\<open>bundle/managed_source.go\<close>). \<^verbatim>\<open>Runtime_Adapter\<close>, \<^verbatim>\<open>Runtime_Plan\<close>, \<^verbatim>\<open>Runtime_Manager\<close>: plans,
  executors and the manager of \<^verbatim>\<open>runtime/manager.go\<close>, from a request to a lease and its reconciliation.
  \<^verbatim>\<open>Store_Invariants\<close> and \<^verbatim>\<open>Manager_Invariants\<close> state the invariants of the tables and of the calls as locales over
  the effects, show that every operation keeps them, and define the reachable worlds of the daemon.
  \<^verbatim>\<open>Baseline\<close>: samples, the estimator, the learning engine and the promotion of versions (\<^verbatim>\<open>baseline\<close>,
  \<^verbatim>\<open>signals/projector\<close> and their tables). \<^verbatim>\<open>Local_Risk\<close>: the evaluation of a deviation into the risk cache
  (\<^verbatim>\<open>localrisk\<close>).

  \<^bold>\<open>The stores of the control plane\<close> (\<^verbatim>\<open>internal/forge/management\<close>, \<^verbatim>\<open>internal/storage\<close>). \<^verbatim>\<open>Forge_Domain\<close>: the records
  and rules both management stores share. \<^verbatim>\<open>Forge_Memory\<close>: \<^verbatim>\<open>store.go\<close>. \<^verbatim>\<open>Forge_Postgres\<close>: \<^verbatim>\<open>postgres.go\<close>, statement by
  statement. \<^verbatim>\<open>Forge_Ledger\<close>: the contract of a store as three ledgers, trust keys, latest assignments and spent enrollment
  secrets, with the steps each may take, as a locale; the client lemmas about whole histories are proved in it.
  \<^verbatim>\<open>Forge_Stores\<close> and \<^verbatim>\<open>Forge_Stores_PG\<close> discharge the contract for the two stores. \<^verbatim>\<open>Artifact_Store\<close>: the artifact stores in memory
  and in files. \<^verbatim>\<open>Redis_Client\<close>: the client of the Redis protocol. \<^verbatim>\<open>Jobs\<close>: the job queue in memory and in Redis, the
  runner and the worker (\<^verbatim>\<open>internal/forge/jobs\<close>); what a queue promises is the locale \<open>job_queue\<close>.

  \<^bold>\<open>The API and its process\<close> (\<^verbatim>\<open>internal/api\<close>, \<^verbatim>\<open>internal/forge/api\<close>, \<^verbatim>\<open>cmd/forge\<close>, \<^verbatim>\<open>cmd/forge-signer\<close>). \<^verbatim>\<open>Authn\<close>,
  \<^verbatim>\<open>Authn_Verifiers\<close>: principals, roles, scopes, the tokens of nodes, JSON Web Tokens, the cache of keys and context
  bindings. \<^verbatim>\<open>Build_Manifest\<close>: the rules of an approved build. \<^verbatim>\<open>Forge_API\<close>, \<^verbatim>\<open>Forge_Handlers\<close>: every handler but the one for CI
  validation, guard by guard, over records of actions that stand for the server's interfaces. \<^verbatim>\<open>Remote_Signer\<close>: key files, the remote signer and the
  signer process. \<^verbatim>\<open>Forge_Server\<close>: the production gate and the server that the flags give; the state of the process is a record,
  and each component acts on its part (\<open>zoom\<close>). \<^verbatim>\<open>Forge_Invariants\<close>: the locale \<open>api_invariant\<close> shows that a request keeps what the
  server's collaborators keep, \<open>process_invariant\<close> that the assembled server does; the interpretations give the
  histories of the store and (\<^verbatim>\<open>Forge_Jobs\<close>) of the queue. \<^verbatim>\<open>Forge_Lockout\<close>: what a revoked node keeps.

  \<^bold>\<open>What is shown.\<close> The daemon: an action reaches an adapter only if an active bundle, a grant in its bounds and the
  activation rule allow it, after an authorization audit was written; live leases are unique per target; the audit
  spool and the leases are append only; activation of an assignment is atomic; fault-free execution ends in an active
  lease (\<^verbatim>\<open>Properties_Manager\<close>, \<^verbatim>\<open>Properties_Store\<close>, \<^verbatim>\<open>Properties_Execution\<close> and below). The documents: exact acceptance conditions
  of signatures, grants and activations, round trips, and what a replaced artifact meets (\<^verbatim>\<open>Properties_Core\<close>).
  Baselines: one active version per entity, promotion and learning, the estimator on odd windows, and the tier and
  the caching of a local risk (\<^verbatim>\<open>Properties_Baseline\<close>).
  The stores: trust keys are pinned and revocation is final over any history, versions advance, a secret is
  used once, the two stores agree, and where PostgreSQL statements interleave, a revocation can be undone
  (\<^verbatim>\<open>Properties_Forge\<close>). The API: the same over any history of requests, a revoked node stays locked out, an approval needs a
  second person, a planned assignment is backed by its build, a served one is authorized, tokens bind the node
  (\<^verbatim>\<open>Properties_API\<close>, \<^verbatim>\<open>Properties_Build\<close>, \<^verbatim>\<open>Properties_Authn\<close>). Jobs: the reader of Redis replies terminates on every reply, is never misled by a reply that is cut
  short and reads back every command; accepted jobs are queued and taken in order over any interleaving of requests and
  workers, and where a job is lost (\<^verbatim>\<open>Properties_Jobs\<close>). \<^verbatim>\<open>Examples\<close> and \<^verbatim>\<open>Examples_API\<close> hold the concrete values at which properties with
  hypotheses are instantiated.

  \<^bold>\<open>Parameters.\<close> SHA-256, HMAC, RSA, Ed25519, \<^verbatim>\<open>crypto/rand\<close>, the JSON codecs of \<^verbatim>\<open>encoding/json\<close>, base64, PEM and X.509, HTTP answers, the Redis server,
  file contents outside the artifact store, the gRPC client of an adapter, the compiler that a job runs and the text of \<^verbatim>\<open>time.Time.String\<close> are arguments of the definitions
  that use them. A \<^verbatim>\<open>float64\<close> is the rational number it denotes, with exact arithmetic. A JSON column holds the struct it was
  marshalled from. One definition runs on fuel: the reader of Redis replies, whose arrays nest; fuel of one more than the number of bytes is
  enough for every reply (\<open>readValue_returns\<close>) and is what the client gives it. Every other loop ranges over a list.

  \<^bold>\<open>Not modelled.\<close> The compiler of Forge, its bindings and CI validation, the intent parser and the registries, which transform
  YAML documents; the command line programs, which parse flags and print. Goroutines and locks appear only as the order of
  operations: one operation of the in-memory store, or one statement of a database, is one step.
\<close>

section \<open>The daemon as a whole\<close>

text \<open>
  C3. Whatever operations the daemon runs, in whatever order and with whatever database
  faults and clock, two live leases for the same adapter, capability, action and target are
  the same lease.
\<close>

theorem one_live_lease_per_target:
  assumes "reachable S w" and "l \<in> set (lease_rows (db w))" and "s \<in> set (lease_rows (db w))"
    and "live l" and "live s" and "dedup_of l = dedup_of s"
  shows "l = s"
proof -
  have ok: "leases_ok (lease_rows (db w))" using reachable_store_ok [OF assms(1)] by (simp add: store_ok_def)
  then have "ls_RuntimeActionID l = ls_RuntimeActionID s"
    using assms by (auto simp: leases_ok_def dest: dedup_uniqueD)
  with ok assms(2,3) show ?thesis by (auto simp: leases_ok_def dest: distinct_map_inj)
qed

theorem one_live_lease_per_target_witness:
  "live toy_lease \<and> live (hd (lease_rows (db executed_world))) \<and> toy_lease = hd (lease_rows (db executed_world))"
  using one_live_lease_per_target [OF executed_reachable, of toy_lease "hd (lease_rows (db executed_world))"]
  by (simp add: executed_leases toy_lease_live)

text \<open>
  C2. No adapter is ever asked to execute a lease whose authorization has not been audited:
  in every reachable state, for every execute request in the log of calls, the audit spool
  holds the authorization record of that lease with the digest of its payload.
\<close>

theorem execute_implies_authorized_audit:
  assumes "reachable S w" and "Executed l b \<in> set (calls w)"
  shows "\<exists>now. \<exists>r \<in> set (audit_rows (db w)). au_ID r = au_ID (audit (sys_wire S) l authorized_message now) \<and>
    au_PayloadSHA256 r = SHA256JSON (sha (sys_wire S)) (audit_payload (sys_wire S) l authorized_message)"
  using reachable_audited [OF assms(1)] assms(2) unfolding audited_def authorized_audit_def by blast

theorem execute_implies_authorized_audit_witness:
  "\<exists>now. \<exists>r \<in> set (audit_rows (db executed_world)). au_ID r = au_ID (audit toy_wire toy_lease authorized_message now)"
  using execute_implies_authorized_audit [OF executed_reachable, of toy_lease "''bundle''"]
  by (auto simp: executed_calls toy_system_def)

text \<open>
  C4. The audit spool is append-only: an operation of the daemon, failed ones included, leaves
  every record where it is with its payload, digests and links, and changes at most the
  outcome of its upload; new records come after the old ones. The leases have the same
  property: the row of a lease keeps every column but its status and the time of its last
  reconciliation, and no row is ever deleted.
\<close>

theorem spool_and_leases_are_append_only:
  assumes "run_op S m op w = (r, w')"
  shows "prefix (map audit_core (audit_rows (db w))) (map audit_core (audit_rows (db w'))) \<and>
    prefix (map lease_core (lease_rows (db w))) (map lease_core (lease_rows (db w')))"
proof
  show "prefix (map audit_core (audit_rows (db w))) (map audit_core (audit_rows (db w')))"
    using keeps_invD [OF spool.tab.keeps_run_op spool_extends_refl assms] by (simp add: spool_extends_def)
  show "prefix (map lease_core (lease_rows (db w))) (map lease_core (lease_rows (db w')))"
    using keeps_invD [OF lease_columns.tab.keeps_run_op leases_extend_refl assms] by (simp add: leases_extend_def)
qed

theorem spool_and_leases_are_append_only_witness:
  "prefix (map lease_core (lease_rows (db executed_world)))
     (map lease_core (lease_rows (db (snd (run_op (toy_system 9000) toy_manager OpReconcile executed_world)))))"
  by (rule spool_and_leases_are_append_only [OF prod.collapse [symmetric], THEN conjunct2])

end
